(* ===== verification/Go_Prelude.thy ===== *)
theory Go_Prelude
  imports Main "HOL-Library.Sublist"
begin

text \<open>
  The part of Go the provider is written in: results of fallible calls (an error value or a
  panic), 32 and 64 bit integers with their wrap-around, times and durations in nanoseconds,
  the functions of the packages \<open>strings\<close> and \<open>strconv\<close> that the sources call, and Go maps as
  association lists. The theory also holds the collections of rules the other theories
  share.

  Conventions. A Go string is a list of bytes, and the letter functions work on ASCII, which
  is what Azure names and resource identifiers are made of. A pointer that may be nil is an
  \<open>option\<close>. A Go map is a list of key/value pairs with distinct keys; the order of the list is
  the order in which a \<open>range\<close> loop happens to visit it, so a theorem about every list covers
  every iteration order. A nil map and an empty map are both the empty list, since every
  read, \<open>len\<close> and \<open>range\<close> agrees on them.
\<close>

named_theorems go_simps \<open>equations that unfold the control flow of Go code\<close>
named_theorems size_rules \<open>facts on 64 bit sizes\<close>
named_theorems frame_rules \<open>what an operation leaves unchanged\<close>

section \<open>Errors and results\<close>

record respErr =
  StatusCode :: int
  ErrorCode :: string
  RawResponse :: "string option"  \<comment> \<open>the response, as the value of its Retry-After header\<close>

datatype goerror =
    ResponseErr respErr                       \<comment> \<open>\<open>*azcore.ResponseError\<close>\<close>
  | OtherErr string                           \<comment> \<open>any other error of a library, by its text\<close>
  | Errorf string "fmtarg list"               \<comment> \<open>\<open>fmt.Errorf(format, args)\<close>\<close>
  | Errorw string "fmtarg list" goerror       \<comment> \<open>\<open>fmt.Errorf\<close> with \<open>%w\<close>\<close>
  | ErrNotImplemented                         \<comment> \<open>\<open>cloudprovider.ErrNotImplemented\<close>\<close>
  | ErrAlreadyExist                           \<comment> \<open>\<open>cloudprovider.ErrAlreadyExist\<close>\<close>
and fmtarg = AStr string | AInt int | AErr goerror

datatype 'a go = Ok 'a | Err goerror | Panic

text \<open>\<open>errors.As\<close> with a \<open>*azcore.ResponseError\<close> target: the first one on the chain of wrapped errors.\<close>

fun asResponseError :: "goerror \<Rightarrow> respErr option" where
  "asResponseError (ResponseErr r) = Some r"
| "asResponseError (Errorw f as e) = asResponseError e"
| "asResponseError _ = None"

fun is_Ok :: "'a go \<Rightarrow> bool" where
  "is_Ok (Ok _) = True"
| "is_Ok _ = False"

lemma is_Ok_iff: "is_Ok r \<longleftrightarrow> (\<exists>x. r = Ok x)"
  by (cases r) auto

section \<open>Machine integers and time\<close>

definition i64 :: "int \<Rightarrow> int" where
  "i64 x = (x + 2 ^ 63) mod 2 ^ 64 - 2 ^ 63"

definition i32 :: "int \<Rightarrow> int" where
  "i32 x = (x + 2 ^ 31) mod 2 ^ 32 - 2 ^ 31"

definition maxInt64 :: int where "maxInt64 = 2 ^ 63 - 1"
definition minInt64 :: int where "minInt64 = - (2 ^ 63)"

definition in64 :: "int \<Rightarrow> bool" where
  "in64 x \<longleftrightarrow> minInt64 \<le> x \<and> x \<le> maxInt64"

definition in32 :: "int \<Rightarrow> bool" where
  "in32 x \<longleftrightarrow> - (2 ^ 31) \<le> x \<and> x < 2 ^ 31"

lemma i64_id [size_rules]: "in64 x \<Longrightarrow> i64 x = x"
  by (simp add: i64_def in64_def minInt64_def maxInt64_def)

lemma i64_range [size_rules]: "in64 (i64 x)"
proof -
  have "0 \<le> (x + 2 ^ 63) mod 2 ^ 64" and "(x + 2 ^ 63) mod 2 ^ 64 < 2 ^ 64"
    by simp_all
  then show ?thesis by (simp add: i64_def in64_def minInt64_def maxInt64_def)
qed

lemma i32_id [size_rules]: "in32 x \<Longrightarrow> i32 x = x"
  by (simp add: i32_def in32_def)

lemma i32_range [size_rules]: "in32 (i32 x)"
proof -
  have "0 \<le> (x + 2 ^ 31) mod 2 ^ 32" and "(x + 2 ^ 31) mod 2 ^ 32 < 2 ^ 32"
    by simp_all
  then show ?thesis by (simp add: i32_def in32_def)
qed

lemma i64_nonneg_small [size_rules]: "0 \<le> x \<Longrightarrow> x \<le> maxInt64 \<Longrightarrow> i64 x = x"
  by (rule i64_id) (simp add: in64_def minInt64_def maxInt64_def)

type_synonym time = int      \<comment> \<open>nanoseconds since the Unix epoch\<close>
type_synonym duration = int  \<comment> \<open>\<open>time.Duration\<close>, nanoseconds\<close>

definition second :: duration where "second = 1000000000"
definition minute :: duration where "minute = 60 * second"

text \<open>\<open>time.Duration(n) * time.Second\<close> is a 64 bit product.\<close>

definition seconds :: "int \<Rightarrow> duration" where
  "seconds n = i64 (n * second)"

text \<open>The zero \<open>time.Time\<close> is the first of January of year 1.\<close>

definition zeroTime :: time where
  "zeroTime = - 62135596800 * second"

text \<open>\<open>last.Add(period).After(now)\<close>, the test of every cache of the provider.\<close>

definition stillFresh :: "time \<Rightarrow> duration \<Rightarrow> time \<Rightarrow> bool" where
  "stillFresh lastRefresh period now \<longleftrightarrow> now < lastRefresh + period"

section \<open>Strings\<close>

definition toLowerChar :: "char \<Rightarrow> char" where
  "toLowerChar c = (let n = (of_char c :: nat) in if 65 \<le> n \<and> n \<le> 90 then char_of (n + 32) else c)"

definition strings_ToLower :: "string \<Rightarrow> string" where
  "strings_ToLower s = map toLowerChar s"

definition strings_EqualFold :: "string \<Rightarrow> string \<Rightarrow> bool" where
  "strings_EqualFold s t \<longleftrightarrow> strings_ToLower s = strings_ToLower t"

fun strings_Index :: "string \<Rightarrow> string \<Rightarrow> nat option" where
  "strings_Index [] sub = (if sub = [] then Some 0 else None)"
| "strings_Index (c # cs) sub =
     (if prefix sub (c # cs) then Some 0 else map_option Suc (strings_Index cs sub))"

definition strings_Contains :: "string \<Rightarrow> string \<Rightarrow> bool" where
  "strings_Contains s sub \<longleftrightarrow> strings_Index s sub \<noteq> None"

definition strings_HasPrefix :: "string \<Rightarrow> string \<Rightarrow> bool" where
  "strings_HasPrefix s p \<longleftrightarrow> prefix p s"

definition strings_TrimSuffix :: "string \<Rightarrow> string \<Rightarrow> string" where
  "strings_TrimSuffix s suf = (if suffix suf s then take (length s - length suf) s else s)"

definition isSpace :: "char \<Rightarrow> bool" where
  "isSpace c \<longleftrightarrow> c = CHR '' '' \<or> (let n = (of_char c :: nat) in 9 \<le> n \<and> n \<le> 13)"

definition strings_TrimSpace :: "string \<Rightarrow> string" where
  "strings_TrimSpace s = rev (dropWhile isSpace (rev (dropWhile isSpace s)))"

lemma strings_Index_Some: "strings_Index s sub = Some i \<Longrightarrow> \<exists>t. s = take i s @ sub @ t \<and> i + length sub \<le> length s"
proof (induction s arbitrary: i)
  case Nil
  then show ?case by (auto split: if_splits)
next
  case (Cons c cs)
  show ?case
  proof (cases "prefix sub (c # cs)")
    case True
    then have "length sub \<le> length (c # cs)" by (rule prefix_length_le)
    with True Cons.prems show ?thesis by (auto simp: prefix_def)
  next
    case False
    with Cons.prems obtain j where j: "strings_Index cs sub = Some j" "i = Suc j" by auto
    from Cons.IH [OF j(1)] j(2) show ?thesis by auto
  qed
qed

lemma strings_Index_bound: "strings_Index s sub = Some i \<Longrightarrow> i + length sub \<le> length s"
  using strings_Index_Some by blast

lemma strings_Index_append: "strings_Index (p @ sub @ t) sub \<noteq> None"
proof (induction p)
  case Nil
  show ?case
  proof (cases "sub @ t")
    case Nil
    then show ?thesis by simp
  next
    case (Cons c cs)
    then have "prefix sub (c # cs)" by (metis prefixI)
    with Cons show ?thesis by simp
  qed
next
  case (Cons c p)
  then show ?case by auto
qed

lemma strings_Contains_iff: "strings_Contains s sub \<longleftrightarrow> (\<exists>p t. s = p @ sub @ t)"
proof
  assume "strings_Contains s sub"
  then obtain i where "strings_Index s sub = Some i" by (auto simp: strings_Contains_def)
  from strings_Index_Some [OF this] show "\<exists>p t. s = p @ sub @ t" by blast
next
  assume "\<exists>p t. s = p @ sub @ t"
  then show "strings_Contains s sub"
    unfolding strings_Contains_def using strings_Index_append by metis
qed

text \<open>\<open>strings.Split(s, sep)\<close>; an empty separator splits between the characters.\<close>

function strings_Split :: "string \<Rightarrow> string \<Rightarrow> string list" where
  "strings_Split s sep =
     (if sep = [] then map (\<lambda>c. [c]) s
      else case strings_Index s sep of
             None \<Rightarrow> [s]
           | Some i \<Rightarrow> take i s # strings_Split (drop (i + length sep) s) sep)"
  by pat_completeness auto
termination
proof (relation "measure (\<lambda>(s, sep). length s)", goal_cases)
  case 1
  show ?case by simp
next
  case (2 s sep i)
  then have "i + length sep \<le> length s" by (simp add: strings_Index_bound)
  with 2 show ?case by (cases sep) auto
qed

declare strings_Split.simps [simp del]

text \<open>\<open>strings.SplitN(s, sep, 2)\<close> for a non-empty separator.\<close>

definition strings_SplitN2 :: "string \<Rightarrow> string \<Rightarrow> string list" where
  "strings_SplitN2 s sep =
     (case strings_Index s sep of
        None \<Rightarrow> [s]
      | Some i \<Rightarrow> [take i s, drop (i + length sep) s])"

fun strings_Join :: "string list \<Rightarrow> string \<Rightarrow> string" where
  "strings_Join [] sep = []"
| "strings_Join [x] sep = x"
| "strings_Join (x # y # ys) sep = x @ sep @ strings_Join (y # ys) sep"

text \<open>\<open>strings.Replace\<close> with a count of 1, and with a count of -1 and a non-empty pattern.\<close>

definition strings_ReplaceOne :: "string \<Rightarrow> string \<Rightarrow> string \<Rightarrow> string" where
  "strings_ReplaceOne s old new =
     (case strings_Index s old of
        None \<Rightarrow> s
      | Some i \<Rightarrow> take i s @ new @ drop (i + length old) s)"

definition strings_ReplaceAll :: "string \<Rightarrow> string \<Rightarrow> string \<Rightarrow> string" where
  "strings_ReplaceAll s old new = strings_Join (strings_Split s old) new"

section \<open>Numbers in strings\<close>

definition isDigit :: "char \<Rightarrow> bool" where
  "isDigit c \<longleftrightarrow> (let n = (of_char c :: nat) in 48 \<le> n \<and> n \<le> 57)"

definition digitVal :: "char \<Rightarrow> int" where
  "digitVal c = int (of_char c) - 48"

fun digitsVal :: "int \<Rightarrow> string \<Rightarrow> int" where
  "digitsVal acc [] = acc"
| "digitsVal acc (c # cs) = digitsVal (10 * acc + digitVal c) cs"

definition parseUnsigned :: "string \<Rightarrow> int option" where
  "parseUnsigned s = (if s \<noteq> [] \<and> list_all isDigit s then Some (digitsVal 0 s) else None)"

text \<open>\<open>strconv.ParseInt(s, 10, bits)\<close>: an optional sign, decimal digits, a value in range.\<close>

definition strconv_ParseInt10 :: "string \<Rightarrow> nat \<Rightarrow> int option" where
  "strconv_ParseInt10 s bits =
     (let r = (case s of
                 [] \<Rightarrow> None
               | c # cs \<Rightarrow> if c = CHR ''-'' then map_option uminus (parseUnsigned cs)
                          else if c = CHR ''+'' then parseUnsigned cs
                          else parseUnsigned s)
      in case r of
           None \<Rightarrow> None
         | Some v \<Rightarrow> if - (2 ^ (bits - 1)) \<le> v \<and> v < 2 ^ (bits - 1) then Some v else None)"

definition strconv_Atoi :: "string \<Rightarrow> int option" where
  "strconv_Atoi s = strconv_ParseInt10 s 64"

lemma strconv_Atoi_in64: "strconv_Atoi s = Some v \<Longrightarrow> in64 v"
  by (auto simp: strconv_Atoi_def strconv_ParseInt10_def Let_def in64_def minInt64_def maxInt64_def
      split: option.splits if_splits)

text \<open>\<open>strconv.ParseBool\<close>\<close>

definition strconv_ParseBool :: "string \<Rightarrow> bool option" where
  "strconv_ParseBool s =
     (if s \<in> {''1'', ''t'', ''T'', ''TRUE'', ''true'', ''True''} then Some True
      else if s \<in> {''0'', ''f'', ''F'', ''FALSE'', ''false'', ''False''} then Some False
      else None)"

text \<open>\<open>fmt.Sprintf("%d", n)\<close>\<close>

fun natDigits :: "nat \<Rightarrow> string" where
  "natDigits n = (if n < 10 then [char_of (48 + n)] else natDigits (n div 10) @ [char_of (48 + n mod 10)])"

declare natDigits.simps [simp del]

definition fmtInt :: "int \<Rightarrow> string" where
  "fmtInt n = (if n < 0 then CHR ''-'' # natDigits (nat (- n)) else natDigits (nat n))"

section \<open>Go maps\<close>

type_synonym ('k, 'v) gomap = "('k \<times> 'v) list"

fun mapSet :: "'k \<Rightarrow> 'v \<Rightarrow> ('k, 'v) gomap \<Rightarrow> ('k, 'v) gomap" where
  "mapSet k v [] = [(k, v)]"
| "mapSet k v ((k', v') # m) = (if k = k' then (k, v) # m else (k', v') # mapSet k v m)"

definition mapDelete :: "'k \<Rightarrow> ('k, 'v) gomap \<Rightarrow> ('k, 'v) gomap" where
  "mapDelete k m = filter (\<lambda>(k', _). k' \<noteq> k) m"

definition keys :: "('k, 'v) gomap \<Rightarrow> 'k list" where
  "keys m = map fst m"

definition wfMap :: "('k, 'v) gomap \<Rightarrow> bool" where
  "wfMap m \<longleftrightarrow> distinct (keys m)"

text \<open>A lookup whose zero value is the empty string, as of a \<open>map[string]string\<close>.\<close>

definition getStr :: "(string, string) gomap \<Rightarrow> string \<Rightarrow> string" where
  "getStr m k = (case map_of m k of None \<Rightarrow> [] | Some v \<Rightarrow> v)"

definition derefStr :: "string option \<Rightarrow> string" where
  "derefStr p = (case p of None \<Rightarrow> [] | Some s \<Rightarrow> s)"

lemma keys_mapSet: "set (keys (mapSet k v m)) = insert k (set (keys m))"
  by (induction k v m rule: mapSet.induct) (auto simp: keys_def)

lemma wfMap_Nil [simp]: "wfMap []"
  by (simp add: wfMap_def keys_def)

lemma wfMap_mapSet: "wfMap m \<Longrightarrow> wfMap (mapSet k v m)"
proof (induction m)
  case Nil
  then show ?case by (simp add: wfMap_def keys_def)
next
  case (Cons p m)
  obtain k' v' where p: "p = (k', v')" by (cases p)
  show ?case
  proof (cases "k = k'")
    case True
    with Cons.prems p show ?thesis by (simp add: wfMap_def keys_def)
  next
    case False
    with Cons p show ?thesis
      using keys_mapSet [of k v m] by (auto simp: wfMap_def keys_def)
  qed
qed

lemma wfMap_mapDelete: "wfMap m \<Longrightarrow> wfMap (mapDelete k m)"
  by (induction m) (auto simp: wfMap_def keys_def mapDelete_def)

lemma map_of_mapSet: "map_of (mapSet k v m) = (map_of m)(k \<mapsto> v)"
  by (induction m) (auto simp: fun_eq_iff)

lemma map_of_mapDelete: "map_of (mapDelete k m) = (map_of m)(k := None)"
  by (induction m) (auto simp: mapDelete_def fun_eq_iff)

lemma map_of_iff_mem: "wfMap m \<Longrightarrow> map_of m k = Some v \<longleftrightarrow> (k, v) \<in> set m"
  by (simp add: wfMap_def keys_def)

text \<open>The laws of a dictionary, and what its clients may conclude from them.\<close>

locale dictionary =
  fixes empty :: 'm
    and lookup :: "'m \<Rightarrow> 'k \<Rightarrow> 'v option"
    and update :: "'k \<Rightarrow> 'v \<Rightarrow> 'm \<Rightarrow> 'm"
    and remove :: "'k \<Rightarrow> 'm \<Rightarrow> 'm"
    and invar :: "'m \<Rightarrow> bool"
  assumes lookup_empty: "lookup empty = Map.empty"
    and lookup_update: "invar m \<Longrightarrow> lookup (update k v m) = (lookup m)(k \<mapsto> v)"
    and lookup_remove: "invar m \<Longrightarrow> lookup (remove k m) = (lookup m)(k := None)"
    and invar_empty: "invar empty"
    and invar_update: "invar m \<Longrightarrow> invar (update k v m)"
    and invar_remove: "invar m \<Longrightarrow> invar (remove k m)"
begin

text \<open>Building a map by one assignment per element, as the \<open>for ... range\<close> loops of the sources do.\<close>

definition build :: "('a \<Rightarrow> 'k) \<Rightarrow> ('a \<Rightarrow> 'v) \<Rightarrow> 'a list \<Rightarrow> 'm \<Rightarrow> 'm" where
  "build key val xs m = fold (\<lambda>x. update (key x) (val x)) xs m"

lemma build_invar: "invar m \<Longrightarrow> invar (build key val xs m)"
  by (induction xs arbitrary: m) (simp_all add: build_def invar_update)

lemma build_lookup: "invar m \<Longrightarrow> lookup (build key val xs m) = (\<lambda>k.
    case find (\<lambda>x. key x = k) (rev xs) of Some x \<Rightarrow> Some (val x) | None \<Rightarrow> lookup m k)"
proof (induction xs arbitrary: m)
  case Nil
  then show ?case by (simp add: build_def)
next
  case (Cons x xs)
  have "lookup (build key val (x # xs) m) = lookup (build key val xs (update (key x) (val x) m))"
    by (simp add: build_def)
  also have "\<dots> = (\<lambda>k. case find (\<lambda>y. key y = k) (rev xs) of
      Some y \<Rightarrow> Some (val y) | None \<Rightarrow> lookup (update (key x) (val x) m) k)"
    using Cons invar_update by simp
  also have "\<dots> = (\<lambda>k. case find (\<lambda>y. key y = k) (rev (x # xs)) of
      Some y \<Rightarrow> Some (val y) | None \<Rightarrow> lookup m k)"
  proof
    fix k
    have "find (\<lambda>y. key y = k) (ys @ [x]) =
        (case find (\<lambda>y. key y = k) ys of Some y \<Rightarrow> Some y
         | None \<Rightarrow> if key x = k then Some x else None)" for ys
      by (induction ys) auto
    then show "(case find (\<lambda>y. key y = k) (rev xs) of
        Some y \<Rightarrow> Some (val y) | None \<Rightarrow> lookup (update (key x) (val x) m) k) =
      (case find (\<lambda>y. key y = k) (rev (x # xs)) of
        Some y \<Rightarrow> Some (val y) | None \<Rightarrow> lookup m k)"
      using Cons.prems by (auto simp: lookup_update split: option.splits)
  qed
  finally show ?case .
qed

end

interpretation gm: dictionary "[]" map_of mapSet mapDelete wfMap
  by unfold_locales
    (simp_all add: map_of_mapSet map_of_mapDelete wfMap_mapSet wfMap_mapDelete)

section \<open>Facts on letters, splitting and joining\<close>

lemma toLowerChar_idem [simp]: "toLowerChar (toLowerChar c) = toLowerChar c"
proof (cases "65 \<le> (of_char c :: nat) \<and> (of_char c :: nat) \<le> 90")
  case True
  then have "of_char (char_of (of_char c + 32 :: nat)) = (of_char c + 32 :: nat)"
    by (simp add: of_char_of)
  with True show ?thesis by (simp add: toLowerChar_def Let_def)
next
  case False
  then show ?thesis by (auto simp: toLowerChar_def Let_def)
qed

lemma strings_ToLower_idem [simp]: "strings_ToLower (strings_ToLower s) = strings_ToLower s"
  by (simp add: strings_ToLower_def)

lemma strings_ToLower_append [simp]:
  "strings_ToLower (s @ t) = strings_ToLower s @ strings_ToLower t"
  by (simp add: strings_ToLower_def)

lemma length_strings_ToLower [simp]: "length (strings_ToLower s) = length s"
  by (simp add: strings_ToLower_def)

lemma strings_EqualFold_refl [simp]: "strings_EqualFold s s"
  by (simp add: strings_EqualFold_def)

lemma strings_EqualFold_sym: "strings_EqualFold s t \<Longrightarrow> strings_EqualFold t s"
  by (simp add: strings_EqualFold_def)

lemma strings_EqualFold_trans:
  "strings_EqualFold s t \<Longrightarrow> strings_EqualFold t u \<Longrightarrow> strings_EqualFold s u"
  by (simp add: strings_EqualFold_def)

lemma strings_Split_nonempty: "sep \<noteq> [] \<Longrightarrow> strings_Split s sep \<noteq> []"
  by (subst strings_Split.simps) (auto split: option.splits)

text \<open>Splitting loses nothing: joining the parts with the separator gives the string back.\<close>

lemma strings_Join_Cons: "xs \<noteq> [] \<Longrightarrow> strings_Join (x # xs) sep = x @ sep @ strings_Join xs sep"
  by (cases xs) auto

lemma strings_Join_Split: "sep \<noteq> [] \<Longrightarrow> strings_Join (strings_Split s sep) sep = s"
proof (induction s sep rule: strings_Split.induct)
  case (1 s sep)
  show ?case
  proof (cases "strings_Index s sep")
    case None
    with 1 show ?thesis by (simp add: strings_Split.simps [of s])
  next
    case (Some i)
    obtain t where t: "s = take i s @ sep @ t" "i + length sep \<le> length s"
      using strings_Index_Some [OF Some] by blast
    have "drop (i + length sep) (take i s @ sep @ t) = t"
      using t(2) by simp
    then have d: "drop (i + length sep) s = t" using t(1) by simp
    have "strings_Split s sep = take i s # strings_Split t sep"
      using Some 1(2) d by (simp add: strings_Split.simps [of s])
    moreover have "strings_Join (strings_Split t sep) sep = t"
      using 1(1) [OF 1(2) Some] 1(2) d by simp
    ultimately show ?thesis
      using strings_Split_nonempty [OF 1(2)] t(1) by (simp add: strings_Join_Cons)
  qed
qed

end
