(* ===== verification/Go_Regexp.thy ===== *)
theory Go_Regexp
  imports Go_Prelude
begin

text \<open>
  The package \<open>regexp\<close> on the patterns of the provider. Each of them is a sequence of
  character classes with a greedy repetition count, some of them captured, with optional
  anchors: that is the datatype below. \<open>matchSeq\<close> is the leftmost-first search the Go
  documentation describes: a greedy repetition first takes as many characters as it can and
  gives them back one by one until the rest of the pattern matches. \<open>fits\<close> says what a match
  is; the search finds a match exactly when there is one.
\<close>

datatype atom =
    Rep "char \<Rightarrow> bool" nat "nat option" bool  \<comment> \<open>class, least and greatest count, captured\<close>
  | EndText                                   \<comment> \<open>\<open>$\<close>\<close>

definition lit :: "string \<Rightarrow> atom list" where
  "lit s = map (\<lambda>c. Rep (\<lambda>x. x = c) 1 (Some 1) False) s"

definition dot :: "char \<Rightarrow> bool" where
  "dot c \<longleftrightarrow> c \<noteq> CHR 0x0A"

definition isHex :: "char \<Rightarrow> bool" where
  "isHex c \<longleftrightarrow> (let n = (of_char c :: nat) in
     (48 \<le> n \<and> n \<le> 57) \<or> (65 \<le> n \<and> n \<le> 70) \<or> (97 \<le> n \<and> n \<le> 102))"

definition isAlnum :: "char \<Rightarrow> bool" where
  "isAlnum c \<longleftrightarrow> (let n = (of_char c :: nat) in
     (48 \<le> n \<and> n \<le> 57) \<or> (65 \<le> n \<and> n \<le> 90) \<or> (97 \<le> n \<and> n \<le> 122))"

fun firstSome :: "('a \<Rightarrow> 'b option) \<Rightarrow> 'a list \<Rightarrow> 'b option" where
  "firstSome f [] = None"
| "firstSome f (x # xs) = (case f x of Some y \<Rightarrow> Some y | None \<Rightarrow> firstSome f xs)"

definition maxCount :: "(char \<Rightarrow> bool) \<Rightarrow> nat option \<Rightarrow> string \<Rightarrow> nat" where
  "maxCount p hi s =
     (let n = length (takeWhile p s) in case hi of None \<Rightarrow> n | Some h \<Rightarrow> min h n)"

primrec matchSeq :: "atom list \<Rightarrow> string \<Rightarrow> string list option" where
  "matchSeq [] = (\<lambda>s. Some [])"
| "matchSeq (a # as) = (\<lambda>s.
     case a of
       EndText \<Rightarrow> if s = [] then matchSeq as s else None
     | Rep p lo hi cap \<Rightarrow>
         firstSome (\<lambda>n. map_option (\<lambda>cs. if cap then take n s # cs else cs)
                                    (matchSeq as (drop n s)))
                   (rev [lo ..< Suc (maxCount p hi s)]))"

text \<open>A search without \<open>^\<close> tries every start, the leftmost first.\<close>

fun findSubmatch :: "atom list \<Rightarrow> string \<Rightarrow> string list option" where
  "findSubmatch as [] = matchSeq as []"
| "findSubmatch as (c # cs) =
     (case matchSeq as (c # cs) of Some r \<Rightarrow> Some r | None \<Rightarrow> findSubmatch as cs)"

section \<open>What a match is\<close>

primrec fits :: "atom list \<Rightarrow> string \<Rightarrow> string list \<Rightarrow> bool" where
  "fits [] = (\<lambda>s cs. cs = [])"
| "fits (a # as) = (\<lambda>s cs.
     case a of
       EndText \<Rightarrow> s = [] \<and> fits as s cs
     | Rep p lo hi cap \<Rightarrow>
         (\<exists>x t. s = x @ t \<and> lo \<le> length x \<and> (\<forall>h. hi = Some h \<longrightarrow> length x \<le> h) \<and> list_all p x \<and>
            (if cap then \<exists>cs'. cs = x # cs' \<and> fits as t cs' else fits as t cs)))"

lemma firstSome_Some: "firstSome f xs = Some y \<Longrightarrow> \<exists>x \<in> set xs. f x = Some y"
  by (induction xs) (auto split: option.splits)

lemma firstSome_None: "firstSome f xs = None \<longleftrightarrow> (\<forall>x \<in> set xs. f x = None)"
  by (induction xs) (auto split: option.splits)

lemma maxCount_bound: "n \<le> maxCount p hi s \<longleftrightarrow>
    (\<forall>h. hi = Some h \<longrightarrow> n \<le> h) \<and> n \<le> length (takeWhile p s)"
  by (auto simp: maxCount_def Let_def split: option.splits)

lemma take_all_iff: "n \<le> length (takeWhile p s) \<longleftrightarrow> n \<le> length s \<and> list_all p (take n s)"
proof
  assume "n \<le> length (takeWhile p s)"
  then have t: "take n s = take n (takeWhile p s)"
    by (metis append_eq_conv_conj append_take_drop_id take_append takeWhile_dropWhile_id
        diff_is_0_eq' take_0 append.right_neutral)
  moreover have "list_all p (take n (takeWhile p s))"
    by (auto simp: list_all_iff dest: in_set_takeD set_takeWhileD)
  ultimately show "n \<le> length s \<and> list_all p (take n s)"
    using \<open>n \<le> length (takeWhile p s)\<close> length_takeWhile_le [of p s] by simp
next
  assume a: "n \<le> length s \<and> list_all p (take n s)"
  then show "n \<le> length (takeWhile p s)"
  proof (induction s arbitrary: n)
    case Nil
    then show ?case by simp
  next
    case (Cons c s)
    then show ?case by (cases n) auto
  qed
qed

lemma matchSeq_sound: "matchSeq as s = Some cs \<Longrightarrow> fits as s cs"
proof (induction as arbitrary: s cs)
  case Nil
  then show ?case by simp
next
  case (Cons a as)
  show ?case
  proof (cases a)
    case EndText
    with Cons show ?thesis by (auto split: if_splits)
  next
    case (Rep p lo hi cap)
    from Cons.prems Rep obtain n where
      n: "n \<in> set (rev [lo ..< Suc (maxCount p hi s)])" and
      m: "map_option (\<lambda>cs. if cap then take n s # cs else cs) (matchSeq as (drop n s)) = Some cs"
      by (auto dest!: firstSome_Some simp del: upt_Suc)
    from n have lo: "lo \<le> n" and hi: "n \<le> maxCount p hi s" by (auto simp del: upt_Suc)
    from m obtain cs' where cs': "matchSeq as (drop n s) = Some cs'"
      "cs = (if cap then take n s # cs' else cs')" by auto
    have "fits as (drop n s) cs'" by (rule Cons.IH [OF cs'(1)])
    moreover have "n \<le> length s" "list_all p (take n s)" "\<forall>h. hi = Some h \<longrightarrow> n \<le> h"
      using hi by (simp_all add: maxCount_bound take_all_iff)
    ultimately have "s = take n s @ drop n s \<and> lo \<le> length (take n s) \<and>
        (\<forall>h. hi = Some h \<longrightarrow> length (take n s) \<le> h) \<and> list_all p (take n s) \<and>
        (if cap then \<exists>cs''. cs = take n s # cs'' \<and> fits as (drop n s) cs''
         else fits as (drop n s) cs)"
      using lo cs'(2) by simp
    then show ?thesis unfolding Rep fits.simps atom.case by blast
  qed
qed

lemma matchSeq_complete: "fits as s cs \<Longrightarrow> matchSeq as s \<noteq> None"
proof (induction as arbitrary: s cs)
  case Nil
  then show ?case by simp
next
  case (Cons a as)
  show ?case
  proof (cases a)
    case EndText
    with Cons show ?thesis by auto
  next
    case (Rep p lo hi cap)
    with Cons.prems obtain x t cs' where x: "s = x @ t" "lo \<le> length x"
      "\<forall>h. hi = Some h \<longrightarrow> length x \<le> h" "list_all p x" "fits as t cs'"
      by (auto split: if_splits)
    have m: "matchSeq as (drop (length x) s) \<noteq> None"
      using Cons.IH [OF x(5)] x(1) by simp
    have "length x \<le> maxCount p hi s"
      using x by (simp add: maxCount_bound take_all_iff)
    then have "length x \<in> set (rev [lo ..< Suc (maxCount p hi s)])"
      using x(2) by (simp del: upt_Suc)
    with m Rep show ?thesis by (auto simp: firstSome_None simp del: upt_Suc)
  qed
qed

text \<open>The search succeeds exactly on the strings of the pattern.\<close>

lemma matchSeq_iff: "matchSeq as s \<noteq> None \<longleftrightarrow> (\<exists>cs. fits as s cs)"
  using matchSeq_sound matchSeq_complete by blast

lemma matchSeq_unique:
  assumes "fits as s cs" and "\<And>cs'. fits as s cs' \<Longrightarrow> cs' = cs"
  shows "matchSeq as s = Some cs"
proof -
  obtain cs' where "matchSeq as s = Some cs'"
    using matchSeq_complete [OF assms(1)] by blast
  with assms(2) [OF matchSeq_sound] show ?thesis by blast
qed

lemma findSubmatch_sound:
  "findSubmatch as s = Some cs \<Longrightarrow> \<exists>p t. s = p @ t \<and> fits as t cs"
proof (induction as s rule: findSubmatch.induct)
  case (1 as)
  then show ?case by (auto dest: matchSeq_sound)
next
  case (2 as c cs')
  show ?case
  proof (cases "matchSeq as (c # cs')")
    case None
    with 2 obtain p t where "cs' = p @ t" "fits as t cs" by auto
    then have "c # cs' = (c # p) @ t \<and> fits as t cs" by simp
    then show ?thesis by blast
  next
    case (Some r)
    with "2.prems" have "fits as (c # cs') cs" by (auto dest: matchSeq_sound)
    then show ?thesis by blast
  qed
qed

lemma findSubmatch_complete: "fits as t cs \<Longrightarrow> findSubmatch as (p @ t) \<noteq> None"
proof (induction p)
  case Nil
  then show ?case by (cases t) (auto dest: matchSeq_complete split: option.splits)
next
  case (Cons c p)
  then show ?case by (auto split: option.splits)
qed

lemma findSubmatch_iff: "findSubmatch as s \<noteq> None \<longleftrightarrow> (\<exists>p t cs. s = p @ t \<and> fits as t cs)"
  using findSubmatch_sound findSubmatch_complete by blast

section \<open>Unfolding the patterns\<close>

lemma fits_Rep_cap: "fits (Rep p lo hi True # as) s cs \<longleftrightarrow>
    (\<exists>x t cs'. s = x @ t \<and> cs = x # cs' \<and> lo \<le> length x \<and> (\<forall>h. hi = Some h \<longrightarrow> length x \<le> h) \<and>
       list_all p x \<and> fits as t cs')"
  by auto

lemma fits_Rep: "fits (Rep p lo hi False # as) s cs \<longleftrightarrow>
    (\<exists>x t. s = x @ t \<and> lo \<le> length x \<and> (\<forall>h. hi = Some h \<longrightarrow> length x \<le> h) \<and>
       list_all p x \<and> fits as t cs)"
  by auto

lemma fits_EndText: "fits (EndText # as) s cs \<longleftrightarrow> s = [] \<and> fits as [] cs"
  by auto

lemma fits_lit: "fits (lit l @ as) s cs \<longleftrightarrow> (\<exists>t. s = l @ t \<and> fits as t cs)"
proof (induction l arbitrary: s)
  case Nil
  then show ?case by (simp add: lit_def)
next
  case (Cons c l)
  have one: "(\<exists>x t. s = x @ t \<and> 1 \<le> length x \<and> (\<forall>h. Some (1::nat) = Some h \<longrightarrow> length x \<le> h) \<and>
      list_all (\<lambda>x. x = c) x \<and> Q t) \<longleftrightarrow> (\<exists>t. s = c # t \<and> Q t)" for Q
  proof
    assume "\<exists>x t. s = x @ t \<and> 1 \<le> length x \<and> (\<forall>h. Some (1::nat) = Some h \<longrightarrow> length x \<le> h) \<and>
      list_all (\<lambda>x. x = c) x \<and> Q t"
    then obtain x t where x: "s = x @ t" "length x = 1" "list_all (\<lambda>x. x = c) x" "Q t"
      by fastforce
    then show "\<exists>t. s = c # t \<and> Q t" by (auto simp: length_Suc_conv)
  next
    assume "\<exists>t. s = c # t \<and> Q t"
    then obtain t where "s = [c] @ t" "Q t" by auto
    then show "\<exists>x t. s = x @ t \<and> 1 \<le> length x \<and>
      (\<forall>h. Some (1::nat) = Some h \<longrightarrow> length x \<le> h) \<and> list_all (\<lambda>x. x = c) x \<and> Q t"
      by (intro exI [of _ "[c]"] exI [of _ t]) simp
  qed
  have "lit (c # l) @ as = Rep (\<lambda>x. x = c) 1 (Some 1) False # (lit l @ as)"
    by (simp add: lit_def)
  then have "fits (lit (c # l) @ as) s cs \<longleftrightarrow> (\<exists>t. s = c # t \<and> fits (lit l @ as) t cs)"
    by (simp only: fits_Rep one)
  also have "\<dots> \<longleftrightarrow> (\<exists>t. s = (c # l) @ t \<and> fits as t cs)"
    using Cons.IH by auto
  finally show ?case .
qed

lemmas fits_simps = fits_lit fits_Rep_cap fits_Rep fits_EndText

end
