(* ===== verification/Azure_Types.thy ===== *)
theory Azure_Types
  imports Go_Regexp
begin

text \<open>
  The data of the provider: the parts of the Azure resource types the sources read and write,
  the configuration, the three kinds of node group, the cache, and the state of the whole
  process.

  Objects that the code shares through pointers and changes in place (the cached
  \<open>VirtualMachineScaleSet\<close> objects and the node groups) live in stores indexed by addresses,
  so that two references to one object see the same changes, and a reference to a replaced
  object does not. Everything outside the repository (the Azure clients, the clock, the
  random numbers, the error classification of the SDK) is the parameter \<open>azClient\<close>, a record
  of functions over an environment of a type that is left open.
\<close>

section \<open>Azure resources\<close>

datatype orchestrationMode =
  OrchestrationModeUniform | OrchestrationModeFlexible | OtherOrchestrationMode string
datatype vmPriority = VirtualMachinePriorityTypesSpot | OtherPriority string
datatype statusLevel = StatusLevelTypesError | OtherStatusLevel string
datatype osType = OperatingSystemTypesLinux | OperatingSystemTypesWindows | OtherOSType string

type_synonym tags = "(string, string option) gomap"

record sku =
  sku_Name :: "string option"
  sku_Tier :: "string option"
  sku_Capacity :: "int option"

record extendedLocation =
  el_Name :: "string option"
  el_Type :: "string option"

datatype diffDiskOption = DiffDiskOptionsLocal | OtherDiffDiskOption string

record osDiskSettings =
  DiffDiskSettings :: "diffDiskOption option option"
  StorageAccountType :: "string option option"  \<comment> \<open>\<open>ManagedDisk\<close> and its \<open>StorageAccountType\<close>\<close>
  DiskSizeGB :: "int option"

record vmssVMProfile =
  Priority :: "vmPriority option"
  OSProfile :: "bool option"              \<comment> \<open>whether it has a \<open>WindowsConfiguration\<close>\<close>
  StorageProfile :: "osDiskSettings option option"

record vmssProperties =
  VirtualMachineProfile :: "vmssVMProfile option"
  OrchestrationMode :: "orchestrationMode option"
  HostGroup :: "string option"

text \<open>An entry of the table of the instance types, \<open>InstanceType\<close>.\<close>

record instanceType =
  it_InstanceType :: string
  it_SkuFamily :: string
  it_VCPU :: int
  it_MemoryMb :: int
  it_GPU :: int
  it_Architecture :: string

text \<open>\<open>armcompute.VirtualMachineScaleSet\<close>\<close>

record vmss =
  vmss_Name :: "string option"
  vmss_ID :: "string option"
  vmss_Location :: "string option"
  vmss_SKU :: "sku option"
  vmss_Etag :: "string option"
  vmss_ExtendedLocation :: "extendedLocation option"
  vmss_Properties :: "vmssProperties option"
  vmss_Tags :: tags
  vmss_Zones :: "string option list"

text \<open>\<open>armcompute.InstanceViewStatus\<close> and the extension views that carry them\<close>

record viewStatus =
  Code :: "string option"
  Level :: "statusLevel option"
  Message :: "string option"

record extensionView =
  ext_Name :: "string option"
  ext_Statuses :: "viewStatus list"

record instanceView =
  Statuses :: "viewStatus list option"
  Extensions :: "extensionView list"

text \<open>\<open>armcompute.VirtualMachineScaleSetVM\<close> and \<open>armcompute.VirtualMachine\<close>\<close>

record ssVMProperties =
  ssvm_ProvisioningState :: "string option"
  ssvm_InstanceView :: "instanceView option"

record scaleSetVM =
  ssvm_ID :: "string option"
  ssvm_Name :: "string option"
  ssvm_Properties :: "ssVMProperties option"

record osDisk =
  osd_Name :: "string option"
  osd_OSType :: "osType option"
  osd_Vhd :: "string option option"       \<comment> \<open>\<open>Vhd\<close> and its \<open>URI\<close>\<close>
  osd_ManagedDisk :: bool

record vmProperties =
  vm_ProvisioningState :: "string option"
  vm_InstanceView :: "instanceView option"
  vm_VMSize :: "string option option"     \<comment> \<open>\<open>HardwareProfile\<close> and its \<open>VMSize\<close>\<close>
  vm_OSDisk :: "osDisk option option"     \<comment> \<open>\<open>StorageProfile\<close> and its \<open>OSDisk\<close>\<close>
  vm_NetworkInterfaces :: "string option list"  \<comment> \<open>the IDs; empty without a network profile\<close>

record virtualMachine =
  vm_ID :: "string option"
  vm_Name :: "string option"
  vm_Tags :: tags
  vm_Properties :: "vmProperties option"

text \<open>\<open>armcontainerservice.AgentPool\<close>, an AKS node pool\<close>

datatype agentPoolType = AgentPoolTypeVirtualMachines | OtherAgentPoolType string
datatype agentPoolMode = AgentPoolModeSystem | OtherAgentPoolMode string

record manualScaleProfile =
  msp_Size :: "string option"
  msp_Count :: "int option"

record vmsProfile =
  Manual :: "manualScaleProfile option list"
  Autoscale :: "string option"

record vmNodesStatus =
  vns_Size :: "string option"
  vns_Count :: "int option"

record agentPoolProperties =
  app_Type :: "agentPoolType option"
  app_Mode :: "agentPoolMode option"
  app_ScaleSetPriority :: "string option"
  app_VirtualMachinesProfile :: "vmsProfile option option"  \<comment> \<open>the profile and its \<open>Scale\<close>\<close>
  app_VirtualMachineNodesStatus :: "vmNodesStatus option list"
  app_NodeLabels :: tags
  app_NodeTaints :: "string option list"
  app_AvailabilityZones :: "string option list"
  app_OSType :: "string option"
  app_OSDiskType :: "string option"

record aksAgentPool =
  aks_Name :: "string option"
  aks_Properties :: "agentPoolProperties option"

section \<open>The cloudprovider interface\<close>

datatype instanceState = InstanceRunning | InstanceCreating | InstanceDeleting
datatype errorClass = OutOfResourcesErrorClass | OtherErrorClass

record instanceErrorInfo =
  errClass :: errorClass
  errCode :: string
  errMessage :: string

record instanceStatus =
  State :: instanceState
  ErrorInfo :: "instanceErrorInfo option"

record inst =
  Id :: string
  Status :: "instanceStatus option"

text \<open>The fields of a \<open>apiv1.Node\<close> that the node groups read.\<close>

record k8sNode =
  node_Name :: string
  node_ProviderID :: string
  node_FakeUnregistered :: bool  \<comment> \<open>the annotation \<open>FakeNodeReasonAnnotation\<close> is \<open>FakeNodeUnregistered\<close>\<close>

text \<open>\<open>dynamic.NodeGroupSpec\<close>\<close>

record nodeGroupSpec =
  spec_Name :: string
  spec_MinSize :: int
  spec_MaxSize :: int

section \<open>JSON values of the deployment templates\<close>

datatype json =
  JNull | JBool bool | JNum int | JStr string | JArr "json list" | JObj "(string \<times> json) list"

section \<open>Configuration\<close>

text \<open>
  The fields of the embedded \<open>providerazureconfig.Config\<close> that the sources use. The fields of type
  float are only parsed and stored; they are kept as the text they were parsed from.
\<close>

record providerConfig =
  Cloud :: string
  Location :: string
  ResourceGroup :: string
  TenantID :: string
  SubscriptionID :: string
  AADClientID :: string
  AADClientSecret :: string
  AADClientCertPath :: string
  AADClientCertPassword :: string
  AADFederatedTokenFile :: string
  UserAssignedIdentityID :: string
  VMType :: string
  UseManagedIdentityExtension :: bool
  UseFederatedWorkloadIdentityExtension :: bool
  DisableAzureStackCloud :: bool
  VmssCacheTTLInSeconds :: int
  VmssVirtualMachinesCacheTTLInSeconds :: int
  EnableVmssFlexNodes :: bool
  CloudProviderBackoff :: bool
  CloudProviderBackoffRetries :: int
  CloudProviderBackoffExponent :: string
  CloudProviderBackoffJitter :: string
  CloudProviderBackoffDuration :: int
  CloudProviderRateLimit :: bool
  CloudProviderRateLimitBucket :: int
  CloudProviderRateLimitBucketWrite :: int
  CloudProviderRateLimitQPS :: string
  CloudProviderRateLimitQPSWrite :: string

record legacyConfig =
  UseWorkloadIdentityExtension :: "bool option"
  VmssCacheTTL :: "int option"
  VmssVmsCacheTTL :: "int option"
  EnableVmssFlex :: "bool option"

record Config =
  provider :: providerConfig
  legacy :: legacyConfig
  ClusterName :: string
  ClusterResourceGroup :: string
  ARMBaseURLForAPClient :: string
  HostedSubscriptionID :: string
  HostedResourceGroup :: string
  HostedResourceProxyURL :: string
  AuthMethod :: string
  Deployment :: string
  DeploymentParameters :: "(string, json) gomap option"  \<comment> \<open>a nil map is \<open>None\<close>: writing to it panics\<close>
  VmssVmsCacheJitter :: int
  MaxDeploymentsCount :: int
  EnableForceDelete :: bool
  EnableVMsAgentPool :: bool
  EnableDynamicInstanceList :: bool
  EnableDetailedCSEMessage :: bool
  GetVmssSizeRefreshPeriod :: int
  StrictCacheUpdates :: bool
  EnableFastDeleteOnFailedProvisioning :: bool
  EnableLabelPredictionsOnTemplate :: bool
  EnableVMSSEtag :: bool

text \<open>The VM types of \<open>providerazureconsts\<close>.\<close>

definition VMTypeVMSS :: string where "VMTypeVMSS = ''vmss''"
definition VMTypeStandard :: string where "VMTypeStandard = ''standard''"

text \<open>\<open>labelAutoDiscoveryConfig\<close> of \<open>azure_autodiscovery.go\<close>\<close>

record labelAutoDiscoveryConfig =
  Selector :: "(string, string) gomap"
  MinSize :: "int option"
  MaxSize :: "int option"

section \<open>Node groups\<close>

record scaleSet =
  ss_Name :: string
  ss_minSize :: int
  ss_maxSize :: int
  enableForceDelete :: bool
  enableDynamicInstanceList :: bool
  enableDetailedCSEMessage :: bool
  curSize :: int
  sizeRefreshPeriod :: duration
  lastSizeRefresh :: time
  getVmssSizeRefreshPeriod :: duration
  instanceCache :: "inst list"
  instancesRefreshPeriod :: duration
  lastInstanceRefresh :: time
  instancesRefreshJitter :: int
  dedicatedHost :: bool
  enableFastDeleteOnFailedProvisioning :: bool
  enableLabelPredictionsOnTemplate :: bool

record agentPool =
  ap_Name :: string
  ap_minSize :: int
  ap_maxSize :: int
  ap_template :: json
  ap_lastRefresh :: time
  ap_curSize :: int

text \<open>
  The field \<open>parameters\<close> of an \<open>AgentPool\<close> is the map \<open>DeploymentParameters\<close> of the configuration
  itself, shared by all agent pools, so it is read and written there.
\<close>

record vmPool =
  vp_Name :: string
  vp_agentPoolName :: string
  vp_sku :: string
  vp_minSize :: int
  vp_maxSize :: int

type_synonym addr = nat

datatype nodeGroup = ScaleSetRef addr | AgentPoolRef addr | VMPoolRef addr

section \<open>The cache and the process\<close>

text \<open>
  One entry of the SKU cache of the \<open>skewer\<close> library, by the answers of the methods the sources
  call on it; \<open>None\<close> of \<open>sku_GPUs\<close> is one of the two errors for a missing capability.
\<close>

record skuEntry =
  sku_VCPU :: "goerror + int"
  sku_GPUs :: "(goerror + int) option"
  sku_MemoryGb :: "goerror + int"
  sku_Arch :: "goerror + string"

record azureCache =
  refreshInterval :: duration
  resourceGroup :: string
  clusterResourceGroup :: string
  clusterName :: string
  enableVMsAgentPool :: bool
  vmType :: string
  vmsPoolMap :: "(string, aksAgentPool) gomap"
  scaleSets :: "(string, addr) gomap"
  virtualMachines :: "(string, virtualMachine list) gomap"
  registeredNodeGroups :: "nodeGroup list"
  instanceToNodeGroup :: "(string, nodeGroup) gomap"
  instanceStates :: "(string, instanceState) gomap"
  unownedInstances :: "(string, bool) gomap"
  autoscalingOptions :: "(string, (string, string) gomap) gomap"
  skus :: "(string, skuEntry) gomap"

type_synonym poller = nat

text \<open>The goroutines the code starts and does not wait for.\<close>

datatype goroutine =
    WaitForCreateOrUpdate addr poller addr    \<comment> \<open>scale set, poller, the VMSS object it updates\<close>
  | WaitForDelete addr poller "string list"   \<comment> \<open>scale set, poller, the instance IDs\<close>

text \<open>
  The requests that change Azure resources, in the order they are sent: what an observer of
  the process sees. The program never reads this list.
\<close>

datatype request =
    PutVMSS string vmss "string option"           \<comment> \<open>name, body, If-Match\<close>
  | DeleteVMSSInstances string "string list" bool \<comment> \<open>name, instance IDs, force\<close>
  | PutAgentPool string aksAgentPool "(string, string) gomap"  \<comment> \<open>name, body, headers\<close>
  | DeleteMachines string "string list"
  | PutDeployment string json "(string, json) gomap"  \<comment> \<open>name, template, parameters\<close>
  | DeleteDeployment string
  | DeleteVM string
  | DeleteNIC string
  | DeleteDisk string
  | DeleteBlobReq string string string

record 'e world =
  config :: Config
  azCache :: azureCache
  lastRefresh :: time
  autoDiscoverySpecs :: "labelAutoDiscoveryConfig list"
  explicitlyConfigured :: "(string, bool) gomap"
  vmssAt :: "addr \<Rightarrow> vmss"
  vmssNext :: addr
  ssAt :: "addr \<Rightarrow> scaleSet"
  ssNext :: addr
  apAt :: "addr \<Rightarrow> agentPool"
  apNext :: addr
  vpAt :: "addr \<Rightarrow> vmPool"
  vpNext :: addr
  goroutines :: "goroutine list"
  requests :: "request list"
  env :: 'e

text \<open>\<open>armresources.DeploymentExtended\<close>\<close>

record deployment =
  dep_Name :: "string option"
  dep_ProvisioningState :: "string option option"  \<comment> \<open>\<open>Properties\<close> and its \<open>ProvisioningState\<close>\<close>
  dep_Timestamp :: "time option"

text \<open>
  What the provider calls outside the repository. A function of type \<open>'e \<Rightarrow> r \<times> 'e\<close> is a
  call that may change the environment (and takes time: \<open>timeNow\<close> reads the clock of the
  environment, so the clock moves only across such calls). A call fails with an error of the
  Azure clients, never with a panic.
\<close>

record 'e azClient =
  timeNow :: "'e \<Rightarrow> time"
  randIntn :: "int \<Rightarrow> 'e \<Rightarrow> int \<times> 'e"
  randInt31 :: "'e \<Rightarrow> int \<times> 'e"
  randInt63 :: "'e \<Rightarrow> int \<times> 'e"
  sortByTimestamp :: "deployment list \<Rightarrow> deployment list"  \<comment> \<open>\<open>sort.Slice\<close>, newest first\<close>
  isResponseError :: "goerror \<Rightarrow> respErr option"
  isNotFoundErr :: "goerror \<Rightarrow> bool"
  errorText :: "goerror \<Rightarrow> string"
  httpParseTime :: "string \<Rightarrow> time option"
  urlParse :: "string \<Rightarrow> goerror + string \<times> string"  \<comment> \<open>\<open>url.Parse\<close>: host and path\<close>
  vmssList :: "string \<Rightarrow> 'e \<Rightarrow> (goerror + vmss list) \<times> 'e"
  vmssGet :: "string \<Rightarrow> string \<Rightarrow> 'e \<Rightarrow> (goerror + vmss) \<times> 'e"
  beginCreateOrUpdate ::
    "string \<Rightarrow> string \<Rightarrow> vmss \<Rightarrow> string option \<Rightarrow> 'e \<Rightarrow> (goerror + poller option) \<times> 'e"
  pollCreateOrUpdate :: "poller \<Rightarrow> 'e \<Rightarrow> (goerror + string option) \<times> 'e"  \<comment> \<open>the new ETag\<close>
  beginDeleteInstances ::
    "string \<Rightarrow> string \<Rightarrow> string list \<Rightarrow> bool \<Rightarrow> 'e \<Rightarrow> (goerror + poller option) \<times> 'e"
  pollDeleteInstances :: "poller \<Rightarrow> 'e \<Rightarrow> (goerror + unit) \<times> 'e"
  listVMInstanceView :: "string \<Rightarrow> string \<Rightarrow> 'e \<Rightarrow> (goerror + scaleSetVM list) \<times> 'e"
  listVmssFlexVMs :: "string \<Rightarrow> string \<Rightarrow> 'e \<Rightarrow> (goerror + virtualMachine list) \<times> 'e"
  vmList :: "string \<Rightarrow> 'e \<Rightarrow> (goerror + virtualMachine list) \<times> 'e"
  vmGet :: "string \<Rightarrow> string \<Rightarrow> 'e \<Rightarrow> (goerror + virtualMachine) \<times> 'e"
  vmDelete :: "string \<Rightarrow> string \<Rightarrow> 'e \<Rightarrow> (goerror + unit) \<times> 'e"
  nicDelete :: "string \<Rightarrow> string \<Rightarrow> 'e \<Rightarrow> (goerror + unit) \<times> 'e"
  diskDelete :: "string \<Rightarrow> string \<Rightarrow> 'e \<Rightarrow> (goerror + unit) \<times> 'e"
  storageEndpointSuffix :: string
  storageKeys :: "string \<Rightarrow> string \<Rightarrow> 'e \<Rightarrow> (goerror + (string option \<times> string option) option list) \<times> 'e"
  sharedKeyCredential :: "string \<Rightarrow> string \<Rightarrow> goerror + unit"
  blobClient :: "string \<Rightarrow> goerror + unit"
  blobDelete :: "string \<Rightarrow> string \<Rightarrow> string \<Rightarrow> 'e \<Rightarrow> (goerror + unit) \<times> 'e"
  deploymentList :: "string \<Rightarrow> 'e \<Rightarrow> (goerror + deployment list) \<times> 'e"
  deploymentDelete :: "string \<Rightarrow> string \<Rightarrow> 'e \<Rightarrow> (goerror + unit) \<times> 'e"
  deploymentCreateOrUpdate ::
    "string \<Rightarrow> string \<Rightarrow> json \<Rightarrow> (string, json) gomap \<Rightarrow> 'e \<Rightarrow> (goerror + unit) \<times> 'e"
  exportTemplate :: "string \<Rightarrow> string \<Rightarrow> 'e \<Rightarrow> (goerror + json) \<times> 'e"
  hasAgentPoolClient :: bool
  agentPoolGet :: "string \<Rightarrow> string \<Rightarrow> string \<Rightarrow> 'e \<Rightarrow> (goerror + aksAgentPool) \<times> 'e"
  agentPoolPut :: "string \<Rightarrow> string \<Rightarrow> string \<Rightarrow> aksAgentPool \<Rightarrow> (string, string) gomap \<Rightarrow>
    'e \<Rightarrow> (goerror + poller) \<times> 'e"
  pollAgentPool :: "poller \<Rightarrow> 'e \<Rightarrow> (goerror + unit) \<times> 'e"
  deleteMachines :: "string \<Rightarrow> string \<Rightarrow> string \<Rightarrow> string list \<Rightarrow> 'e \<Rightarrow> (goerror + poller) \<times> 'e"
  skuList :: "string \<Rightarrow> 'e \<Rightarrow> (goerror + (string, skuEntry) gomap) \<times> 'e"
  skuGet :: "(string, skuEntry) gomap \<Rightarrow> string \<Rightarrow> string \<Rightarrow> goerror + skuEntry"
  agentPoolPages :: "string \<Rightarrow> string \<Rightarrow> 'e \<Rightarrow> (goerror + aksAgentPool option list) list \<times> 'e"

section \<open>Reading and writing the stores\<close>

definition now :: "'e azClient \<Rightarrow> 'e world \<Rightarrow> time" where
  "now az w = timeNow az (env w)"

text \<open>One call of a client: it changes the environment only.\<close>

definition call :: "('e \<Rightarrow> 'r \<times> 'e) \<Rightarrow> 'e world \<Rightarrow> 'r \<times> 'e world" where
  "call f w = (case f (env w) of (r, e) \<Rightarrow> (r, w\<lparr>env := e\<rparr>))"

definition updSS :: "addr \<Rightarrow> (scaleSet \<Rightarrow> scaleSet) \<Rightarrow> 'e world \<Rightarrow> 'e world" where
  "updSS p f w = w\<lparr>ssAt := (ssAt w)(p := f (ssAt w p))\<rparr>"

definition updAP :: "addr \<Rightarrow> (agentPool \<Rightarrow> agentPool) \<Rightarrow> 'e world \<Rightarrow> 'e world" where
  "updAP p f w = w\<lparr>apAt := (apAt w)(p := f (apAt w p))\<rparr>"

definition updVMSS :: "addr \<Rightarrow> (vmss \<Rightarrow> vmss) \<Rightarrow> 'e world \<Rightarrow> 'e world" where
  "updVMSS v f w = w\<lparr>vmssAt := (vmssAt w)(v := f (vmssAt w v))\<rparr>"

definition updCache :: "(azureCache \<Rightarrow> azureCache) \<Rightarrow> 'e world \<Rightarrow> 'e world" where
  "updCache f w = w\<lparr>azCache := f (azCache w)\<rparr>"

text \<open>A new VMSS object, as the decoder of an API response makes one.\<close>

definition allocVMSS :: "vmss \<Rightarrow> 'e world \<Rightarrow> addr \<times> 'e world" where
  "allocVMSS x w = (vmssNext w, w\<lparr>vmssAt := (vmssAt w)(vmssNext w := x), vmssNext := Suc (vmssNext w)\<rparr>)"

definition sendReq :: "request \<Rightarrow> 'e world \<Rightarrow> 'e world" where
  "sendReq r w = w\<lparr>requests := requests w @ [r]\<rparr>"

definition spawn :: "goroutine \<Rightarrow> 'e world \<Rightarrow> 'e world" where
  "spawn g w = w\<lparr>goroutines := goroutines w @ [g]\<rparr>"

text \<open>
  \<open>x, err := f(); if err != nil { return err }\<close> followed by the rest of the function. A panic
  ends the function too.
\<close>

definition andThen :: "'a go \<times> 'w \<Rightarrow> ('a \<Rightarrow> 'w \<Rightarrow> 'b go \<times> 'w) \<Rightarrow> 'b go \<times> 'w" where
  "andThen r k = (case r of
     (Ok x, w) \<Rightarrow> k x w
   | (Err e, w) \<Rightarrow> (Err e, w)
   | (Panic, w) \<Rightarrow> (Panic, w))"

text \<open>The result of a client call as a result of the program.\<close>

definition liftSum :: "goerror + 'a \<Rightarrow> 'a go" where
  "liftSum r = (case r of Inl e \<Rightarrow> Err e | Inr x \<Rightarrow> Ok x)"

definition callGo :: "('e \<Rightarrow> (goerror + 'r) \<times> 'e) \<Rightarrow> 'e world \<Rightarrow> 'r go \<times> 'e world" where
  "callGo f w = (case call f w of (r, w') \<Rightarrow> (liftSum r, w'))"

lemma andThen_simps [simp]:
  "andThen (Ok x, w) k = k x w"
  "andThen (Err e, w) k = (Err e, w)"
  "andThen (Panic, w) k = (Panic, w)"
  by (simp_all add: andThen_def)

lemma andThen_cases:
  assumes "andThen r k = (a, w')"
  obtains (ok) x w1 where "r = (Ok x, w1)" "k x w1 = (a, w')"
    | (err) e where "r = (Err e, w')" "a = Err e"
    | (panic) "r = (Panic, w')" "a = Panic"
  using assms by (cases r; cases "fst r") (auto simp: andThen_def)

lemma andThen_Ok:
  "andThen r k = (Ok y, w') \<longleftrightarrow> (\<exists>x w1. r = (Ok x, w1) \<and> k x w1 = (Ok y, w'))"
  by (auto elim: andThen_cases)

lemmas store_defs = updSS_def updAP_def updVMSS_def updCache_def sendReq_def spawn_def now_def

text \<open>What each store operation changes, and what it leaves alone.\<close>

lemma updSS_simps [simp]:
  "config (updSS p f w) = config w"
  "azCache (updSS p f w) = azCache w"
  "lastRefresh (updSS p f w) = lastRefresh w"
  "autoDiscoverySpecs (updSS p f w) = autoDiscoverySpecs w"
  "explicitlyConfigured (updSS p f w) = explicitlyConfigured w"
  "vmssAt (updSS p f w) = vmssAt w"
  "vmssNext (updSS p f w) = vmssNext w"
  "ssAt (updSS p f w) = (ssAt w)(p := f (ssAt w p))"
  "ssNext (updSS p f w) = ssNext w"
  "apAt (updSS p f w) = apAt w"
  "apNext (updSS p f w) = apNext w"
  "vpAt (updSS p f w) = vpAt w"
  "vpNext (updSS p f w) = vpNext w"
  "goroutines (updSS p f w) = goroutines w"
  "requests (updSS p f w) = requests w"
  "env (updSS p f w) = env w"
  by (simp_all add: updSS_def)

lemma updAP_simps [simp]:
  "config (updAP p f w) = config w"
  "azCache (updAP p f w) = azCache w"
  "lastRefresh (updAP p f w) = lastRefresh w"
  "autoDiscoverySpecs (updAP p f w) = autoDiscoverySpecs w"
  "explicitlyConfigured (updAP p f w) = explicitlyConfigured w"
  "vmssAt (updAP p f w) = vmssAt w"
  "vmssNext (updAP p f w) = vmssNext w"
  "ssAt (updAP p f w) = ssAt w"
  "ssNext (updAP p f w) = ssNext w"
  "apAt (updAP p f w) = (apAt w)(p := f (apAt w p))"
  "apNext (updAP p f w) = apNext w"
  "vpAt (updAP p f w) = vpAt w"
  "vpNext (updAP p f w) = vpNext w"
  "goroutines (updAP p f w) = goroutines w"
  "requests (updAP p f w) = requests w"
  "env (updAP p f w) = env w"
  by (simp_all add: updAP_def)

lemma updVMSS_simps [simp]:
  "config (updVMSS p f w) = config w"
  "azCache (updVMSS p f w) = azCache w"
  "lastRefresh (updVMSS p f w) = lastRefresh w"
  "autoDiscoverySpecs (updVMSS p f w) = autoDiscoverySpecs w"
  "explicitlyConfigured (updVMSS p f w) = explicitlyConfigured w"
  "vmssAt (updVMSS p f w) = (vmssAt w)(p := f (vmssAt w p))"
  "vmssNext (updVMSS p f w) = vmssNext w"
  "ssAt (updVMSS p f w) = ssAt w"
  "ssNext (updVMSS p f w) = ssNext w"
  "apAt (updVMSS p f w) = apAt w"
  "apNext (updVMSS p f w) = apNext w"
  "vpAt (updVMSS p f w) = vpAt w"
  "vpNext (updVMSS p f w) = vpNext w"
  "goroutines (updVMSS p f w) = goroutines w"
  "requests (updVMSS p f w) = requests w"
  "env (updVMSS p f w) = env w"
  by (simp_all add: updVMSS_def)

lemma updCache_simps [simp]:
  "config (updCache f w) = config w"
  "azCache (updCache f w) = f (azCache w)"
  "lastRefresh (updCache f w) = lastRefresh w"
  "autoDiscoverySpecs (updCache f w) = autoDiscoverySpecs w"
  "explicitlyConfigured (updCache f w) = explicitlyConfigured w"
  "vmssAt (updCache f w) = vmssAt w"
  "vmssNext (updCache f w) = vmssNext w"
  "ssAt (updCache f w) = ssAt w"
  "ssNext (updCache f w) = ssNext w"
  "apAt (updCache f w) = apAt w"
  "apNext (updCache f w) = apNext w"
  "vpAt (updCache f w) = vpAt w"
  "vpNext (updCache f w) = vpNext w"
  "goroutines (updCache f w) = goroutines w"
  "requests (updCache f w) = requests w"
  "env (updCache f w) = env w"
  by (simp_all add: updCache_def)

lemma sendReq_simps [simp]:
  "config (sendReq r w) = config w"
  "azCache (sendReq r w) = azCache w"
  "lastRefresh (sendReq r w) = lastRefresh w"
  "autoDiscoverySpecs (sendReq r w) = autoDiscoverySpecs w"
  "explicitlyConfigured (sendReq r w) = explicitlyConfigured w"
  "vmssAt (sendReq r w) = vmssAt w"
  "vmssNext (sendReq r w) = vmssNext w"
  "ssAt (sendReq r w) = ssAt w"
  "ssNext (sendReq r w) = ssNext w"
  "apAt (sendReq r w) = apAt w"
  "apNext (sendReq r w) = apNext w"
  "vpAt (sendReq r w) = vpAt w"
  "vpNext (sendReq r w) = vpNext w"
  "goroutines (sendReq r w) = goroutines w"
  "requests (sendReq r w) = requests w @ [r]"
  "env (sendReq r w) = env w"
  by (simp_all add: sendReq_def)

lemma spawn_simps [simp]:
  "config (spawn g w) = config w"
  "azCache (spawn g w) = azCache w"
  "lastRefresh (spawn g w) = lastRefresh w"
  "autoDiscoverySpecs (spawn g w) = autoDiscoverySpecs w"
  "explicitlyConfigured (spawn g w) = explicitlyConfigured w"
  "vmssAt (spawn g w) = vmssAt w"
  "vmssNext (spawn g w) = vmssNext w"
  "ssAt (spawn g w) = ssAt w"
  "ssNext (spawn g w) = ssNext w"
  "apAt (spawn g w) = apAt w"
  "apNext (spawn g w) = apNext w"
  "vpAt (spawn g w) = vpAt w"
  "vpNext (spawn g w) = vpNext w"
  "goroutines (spawn g w) = goroutines w @ [g]"
  "requests (spawn g w) = requests w"
  "env (spawn g w) = env w"
  by (simp_all add: spawn_def)

lemma call_frame [frame_rules]:
  assumes "call f w = (r, w')"
  shows "w' = w\<lparr>env := snd (f (env w))\<rparr>" and "r = fst (f (env w))"
  using assms by (auto simp: call_def split: prod.splits)

lemma callGo_env: "callGo f w = (liftSum (fst (f (env w))), w\<lparr>env := snd (f (env w))\<rparr>)"
  by (simp add: callGo_def call_def split: prod.splits)

lemma call_env: "call f w = (fst (f (env w)), w\<lparr>env := snd (f (env w))\<rparr>)"
  by (simp add: call_def split: prod.splits)

end
