(* ===== verification/Sample_World.thy ===== *)
theory Sample_World
  imports Azure_Types
begin

text \<open>
  A small concrete client, configuration and state on which the theorems are instantiated: a
  cluster with one uniform scale set \<open>set\<close> of capacity 3, sizes 1 to 10, and a client whose
  environment is the clock. Theorems that need more change single fields of these.
\<close>

definition sampleConfig :: Config where
  "sampleConfig =
     \<lparr>provider = \<lparr>Cloud = '''', Location = ''eastus'', ResourceGroup = ''rg'', TenantID = ''t'',
        SubscriptionID = ''s'', AADClientID = '''', AADClientSecret = '''', AADClientCertPath = '''',
        AADClientCertPassword = '''', AADFederatedTokenFile = '''', UserAssignedIdentityID = '''',
        VMType = VMTypeVMSS, UseManagedIdentityExtension = True,
        UseFederatedWorkloadIdentityExtension = False, DisableAzureStackCloud = False, VmssCacheTTLInSeconds = 0,
        VmssVirtualMachinesCacheTTLInSeconds = 0, EnableVmssFlexNodes = False,
        CloudProviderBackoff = False, CloudProviderBackoffRetries = 0,
        CloudProviderBackoffExponent = '''', CloudProviderBackoffJitter = '''', CloudProviderBackoffDuration = 0,
        CloudProviderRateLimit = False, CloudProviderRateLimitBucket = 0,
        CloudProviderRateLimitBucketWrite = 0, CloudProviderRateLimitQPS = '''',
        CloudProviderRateLimitQPSWrite = ''''\<rparr>,
      legacy = \<lparr>UseWorkloadIdentityExtension = None, VmssCacheTTL = None, VmssVmsCacheTTL = None,
        EnableVmssFlex = None\<rparr>,
      ClusterName = ''c'', ClusterResourceGroup = ''crg'', ARMBaseURLForAPClient = '''',
      HostedSubscriptionID = '''', HostedResourceGroup = '''', HostedResourceProxyURL = '''',
      AuthMethod = ''cli'', Deployment = ''d'', DeploymentParameters = Some [], VmssVmsCacheJitter = 0,
      MaxDeploymentsCount = 1, EnableForceDelete = True, EnableVMsAgentPool = False,
      EnableDynamicInstanceList = False, EnableDetailedCSEMessage = False, GetVmssSizeRefreshPeriod = 0,
      StrictCacheUpdates = False, EnableFastDeleteOnFailedProvisioning = False,
      EnableLabelPredictionsOnTemplate = True, EnableVMSSEtag = True\<rparr>"

definition sampleVMSS :: vmss where
  "sampleVMSS =
     \<lparr>vmss_Name = Some ''set'', vmss_ID = Some ''id'', vmss_Location = Some ''eastus'',
      vmss_SKU = Some \<lparr>sku_Name = Some ''Standard_D2'', sku_Tier = None, sku_Capacity = Some 3\<rparr>,
      vmss_Etag = Some ''e1'', vmss_ExtendedLocation = None,
      vmss_Properties = Some \<lparr>VirtualMachineProfile = None,
        OrchestrationMode = Some OrchestrationModeUniform, HostGroup = None\<rparr>,
      vmss_Tags = [], vmss_Zones = []\<rparr>"

definition spotProperties :: vmssProperties where
  "spotProperties =
     \<lparr>VirtualMachineProfile = Some \<lparr>Priority = Some VirtualMachinePriorityTypesSpot, OSProfile = None,
        StorageProfile = None\<rparr>,
      OrchestrationMode = Some OrchestrationModeUniform, HostGroup = None\<rparr>"

definition sampleSet :: scaleSet where
  "sampleSet =
     \<lparr>ss_Name = ''set'', ss_minSize = 1, ss_maxSize = 10, enableForceDelete = True,
      enableDynamicInstanceList = False, enableDetailedCSEMessage = False, curSize = 3,
      sizeRefreshPeriod = minute, lastSizeRefresh = zeroTime, getVmssSizeRefreshPeriod = minute,
      instanceCache = [], instancesRefreshPeriod = 5 * minute, lastInstanceRefresh = zeroTime,
      instancesRefreshJitter = 0, dedicatedHost = False, enableFastDeleteOnFailedProvisioning = False,
      enableLabelPredictionsOnTemplate = True\<rparr>"

definition samplePool :: agentPool where
  "samplePool =
     \<lparr>ap_Name = ''pool'', ap_minSize = 1, ap_maxSize = 10, ap_template = JObj [], ap_lastRefresh = zeroTime,
      ap_curSize = 2\<rparr>"

definition sampleVMPool :: vmPool where
  "sampleVMPool =
     \<lparr>vp_Name = ''pool/Standard_D2'', vp_agentPoolName = ''pool'', vp_sku = ''Standard_D2'',
      vp_minSize = 1, vp_maxSize = 10\<rparr>"

definition sampleCache :: azureCache where
  "sampleCache =
     \<lparr>refreshInterval = minute, resourceGroup = ''rg'', clusterResourceGroup = ''crg'', clusterName = ''c'',
      enableVMsAgentPool = False, vmType = VMTypeVMSS, vmsPoolMap = [], scaleSets = [(''set'', 0)],
      virtualMachines = [], registeredNodeGroups = [ScaleSetRef 0], instanceToNodeGroup = [],
      instanceStates = [], unownedInstances = [], autoscalingOptions = [], skus = []\<rparr>"

definition sampleWorld :: "int world" where
  "sampleWorld =
     \<lparr>config = sampleConfig, azCache = sampleCache, lastRefresh = 0, autoDiscoverySpecs = [],
      explicitlyConfigured = [], vmssAt = (\<lambda>_. sampleVMSS), vmssNext = 1, ssAt = (\<lambda>_. sampleSet),
      ssNext = 1, apAt = (\<lambda>_. samplePool), apNext = 1, vpAt = (\<lambda>_. sampleVMPool), vpNext = 1,
      goroutines = [], requests = [], env = 1000\<rparr>"

text \<open>An error answer of Azure with a status code, an error code and a Retry-After header.\<close>

definition httpError :: "int \<Rightarrow> string \<Rightarrow> string option \<Rightarrow> goerror" where
  "httpError st code retry = ResponseErr \<lparr>StatusCode = st, ErrorCode = code, RawResponse = retry\<rparr>"

definition sampleClient :: "int azClient" where
  "sampleClient =
     \<lparr>timeNow = (\<lambda>e. e), randIntn = (\<lambda>n e. (0, e)), randInt31 = (\<lambda>e. (7, e)), randInt63 = (\<lambda>e. (8, e)),
      sortByTimestamp = sort_key (\<lambda>d. case dep_Timestamp d of None \<Rightarrow> 0 | Some t \<Rightarrow> - t),
      isResponseError = asResponseError,
      isNotFoundErr = (\<lambda>e. case asResponseError e of None \<Rightarrow> False | Some r \<Rightarrow> StatusCode r = 404),
      errorText = (\<lambda>_. ''error''), httpParseTime = (\<lambda>_. None),
      urlParse = (\<lambda>_. Inr (''account.blob'', ''/vhds/disk'')),
      vmssList = (\<lambda>_ e. (Inr [sampleVMSS], e)),
      vmssGet = (\<lambda>_ _ e. (Inr sampleVMSS, e)),
      beginCreateOrUpdate = (\<lambda>_ _ _ _ e. (Inr (Some 7), e)),
      pollCreateOrUpdate = (\<lambda>_ e. (Inr (Some ''e2''), e)),
      beginDeleteInstances = (\<lambda>_ _ _ _ e. (Inr (Some 8), e)),
      pollDeleteInstances = (\<lambda>_ e. (Inr (), e)),
      listVMInstanceView = (\<lambda>_ _ e. (Inr [], e)),
      listVmssFlexVMs = (\<lambda>_ _ e. (Inr [], e)),
      vmList = (\<lambda>_ e. (Inr [], e)),
      vmGet = (\<lambda>_ _ e. (Inl (httpError 404 ''NotFound'' None), e)),
      vmDelete = (\<lambda>_ _ e. (Inr (), e)), nicDelete = (\<lambda>_ _ e. (Inr (), e)),
      diskDelete = (\<lambda>_ _ e. (Inr (), e)), storageEndpointSuffix = ''core'',
      storageKeys = (\<lambda>_ _ e. (Inr [Some (Some ''key1'', Some ''k'')], e)),
      sharedKeyCredential = (\<lambda>_ _. Inr ()), blobClient = (\<lambda>_. Inr ()),
      blobDelete = (\<lambda>_ _ _ e. (Inr (), e)),
      deploymentList = (\<lambda>_ e. (Inr [], e)), deploymentDelete = (\<lambda>_ _ e. (Inr (), e)),
      deploymentCreateOrUpdate = (\<lambda>_ _ _ _ e. (Inr (), e)),
      exportTemplate = (\<lambda>_ _ e. (Inr (JObj []), e)),
      hasAgentPoolClient = True,
      agentPoolGet = (\<lambda>_ _ _ e. (Inl (OtherErr ''no pool''), e)),
      agentPoolPut = (\<lambda>_ _ _ _ _ e. (Inr 9, e)), pollAgentPool = (\<lambda>_ e. (Inr (), e)),
      deleteMachines = (\<lambda>_ _ _ _ e. (Inr 10, e)),
      skuList = (\<lambda>_ e. (Inr [], e)), skuGet = (\<lambda>_ _ _. Inl (OtherErr ''no sku'')),
      agentPoolPages = (\<lambda>_ _ e. ([], e))\<rparr>"

lemmas sample_defs = sampleConfig_def sampleVMSS_def spotProperties_def sampleSet_def samplePool_def
  sampleVMPool_def sampleCache_def sampleWorld_def sampleClient_def

lemma sample_selectors [simp]:
  "azCache sampleWorld = sampleCache" "config sampleWorld = sampleConfig" "env sampleWorld = 1000"
  "requests sampleWorld = []" "goroutines sampleWorld = []"
  "ssAt sampleWorld p = sampleSet" "vmssAt sampleWorld v = sampleVMSS" "vmssNext sampleWorld = 1"
  "scaleSets sampleCache = [(''set'', 0)]" "registeredNodeGroups sampleCache = [ScaleSetRef 0]"
  "instanceToNodeGroup sampleCache = []"
  by (simp_all add: sampleWorld_def sampleCache_def)

end
