(* ===== verification/Azure_Util.thy ===== *)
theory Azure_Util
  imports Azure_Types Sample_World
begin

text \<open>
  The helpers of \<open>azure_util.go\<close> on names and identifiers: the normalisation of resource
  identifiers, the last segment of an identifier, the index in the name of a virtual machine,
  power states, and the reading of throttling errors.
\<close>

section \<open>Resource identifiers\<close>

definition azurePrefix :: string where "azurePrefix = ''azure://''"

text \<open>\<open>.*/subscriptions/(?:.*)/resourceGroups/(.+)/providers/(?:.*)\<close>\<close>

definition azureResourceGroupNameRE :: "atom list" where
  "azureResourceGroupNameRE =
     Rep dot 0 None False # (lit ''/subscriptions/'' @ (Rep dot 0 None False #
     (lit ''/resourceGroups/'' @ (Rep dot 1 None True #
     (lit ''/providers/'' @ [Rep dot 0 None False])))))"

text \<open>\<open>^azure://(?:.*)/providers/Microsoft.Compute/virtualMachines/(.+)$\<close>; its dot is any character.\<close>

definition virtualMachineRE :: "atom list" where
  "virtualMachineRE =
     lit ''azure://'' @ (Rep dot 0 None False # (lit ''/providers/Microsoft'' @
     (Rep dot 1 (Some 1) False # (lit ''Compute/virtualMachines/'' @
     [Rep dot 1 None True, EndText]))))"

definition convertResourceGroupNameToLower :: "string \<Rightarrow> string go" where
  "convertResourceGroupNameToLower resourceID =
     (case findSubmatch azureResourceGroupNameRE resourceID of
        Some [rg] \<Rightarrow> Ok (strings_ReplaceOne resourceID rg (strings_ToLower rg))
      | _ \<Rightarrow> Err (Errorf ''%q isn't in Azure resource ID format'' [AStr resourceID]))"

definition resourceName :: "string \<Rightarrow> string go" where
  "resourceName ID =
     (let parts = strings_Split ID ''/''; name = last parts
      in if length name = 0 then Err (Errorf ''resource name was missing from identifier'' [])
         else Ok name)"

definition getLastSegment :: "string \<Rightarrow> string go" where
  "getLastSegment ID =
     (let parts = strings_Split (strings_TrimSpace ID) ''/''; name = last parts
      in if length name = 0
         then Err (Errorf ''identifier '/' not found in resource name %q'' [AStr ID])
         else Ok name)"

text \<open>\<open>splitBlobURI\<close>: account, container and blob of the address of a disk image.\<close>

definition splitBlobURI :: "'e azClient \<Rightarrow> string \<Rightarrow> (string \<times> string \<times> string) go" where
  "splitBlobURI az URI =
     (case urlParse az URI of
        Inl e \<Rightarrow> Err e
      | Inr (host, path) \<Rightarrow>
          (let accountName = hd (strings_Split host ''.'');
               urlParts = strings_Split path ''/''
           in if length urlParts < 2 then Panic
              else Ok (accountName, urlParts ! 1, strings_Join (drop 2 urlParts) ''/'')))"

section \<open>Names of virtual machines\<close>

definition vmnameLinuxRegexp :: "atom list" where
  "vmnameLinuxRegexp =
     Rep isAlnum 3 (Some 3) False # (lit ''-'' @ (Rep dot 1 None True # (lit ''-'' @
     [Rep isHex 8 (Some 8) True, Rep (\<lambda>c. c = CHR ''-'') 0 (Some 2) False,
      Rep isDigit 1 None True, EndText])))"

definition oldvmnameWindowsRegexp :: "atom list" where
  "oldvmnameWindowsRegexp =
     [Rep isHex 5 (Some 5) True, Rep isAlnum 3 (Some 3) True,
      Rep (\<lambda>c. c = CHR ''9'') 1 (Some 1) True, Rep isAlnum 3 (Some 5) True, EndText]"

definition vmnameWindowsRegexp :: "atom list" where
  "vmnameWindowsRegexp =
     [Rep isHex 4 (Some 4) True, Rep isAlnum 3 (Some 3) True,
      Rep isDigit 3 (Some 8) True, EndText]"

text \<open>The groups of the patterns are counted from 1 in the source, from 0 here.\<close>

definition k8sLinuxVMNameParts :: "string \<Rightarrow> (string \<times> string \<times> int) go" where
  "k8sLinuxVMNameParts vmName =
     (case matchSeq vmnameLinuxRegexp vmName of
        Some [pool, cluster, idx] \<Rightarrow>
          (case strconv_Atoi idx of
             Some n \<Rightarrow> Ok (pool, cluster, n)
           | None \<Rightarrow> Err (Errorf ''error parsing VM Name: %v'' [AStr idx]))
      | _ \<Rightarrow> Err (Errorf ''resource name was missing from identifier'' []))"

definition windowsVMNameParts :: "string \<Rightarrow> (string \<times> string \<times> int \<times> int) go" where
  "windowsVMNameParts vmName =
     (let finish = (\<lambda>poolPrefix orch poolInfo.
            (case strconv_Atoi (take 2 poolInfo) of
               None \<Rightarrow> Err (Errorf ''error parsing VM Name: %v'' [AStr (take 2 poolInfo)])
             | Some poolIndex \<Rightarrow>
                 (case strconv_Atoi (drop 2 poolInfo) of
                    None \<Rightarrow> Err (Errorf ''error parsing VM Name: %v'' [AStr (drop 2 poolInfo)])
                  | Some agentIndex \<Rightarrow> Ok (poolPrefix, orch, poolIndex, agentIndex))))
      in case matchSeq oldvmnameWindowsRegexp vmName of
           Some [p, orch, _, poolInfo] \<Rightarrow> finish p orch poolInfo
         | _ \<Rightarrow>
             (case matchSeq vmnameWindowsRegexp vmName of
                Some [p, orch, poolInfo] \<Rightarrow> finish p orch poolInfo
              | _ \<Rightarrow> Err (Errorf ''resource name was missing from identifier'' [])))"

definition GetVMNameIndex :: "osType \<Rightarrow> string \<Rightarrow> int go" where
  "GetVMNameIndex os vmName =
     (case os of
        OperatingSystemTypesLinux \<Rightarrow>
          (case k8sLinuxVMNameParts vmName of
             Ok (_, _, i) \<Rightarrow> Ok i | Err e \<Rightarrow> Err e | Panic \<Rightarrow> Panic)
      | OperatingSystemTypesWindows \<Rightarrow>
          (case windowsVMNameParts vmName of
             Ok (_, _, _, i) \<Rightarrow> Ok i | Err e \<Rightarrow> Err e | Panic \<Rightarrow> Panic)
      | OtherOSType _ \<Rightarrow> Ok 0)"

section \<open>Power states\<close>

definition vmPowerStateStarting :: string where "vmPowerStateStarting = ''PowerState/starting''"
definition vmPowerStateRunning :: string where "vmPowerStateRunning = ''PowerState/running''"
definition vmPowerStateStopping :: string where "vmPowerStateStopping = ''PowerState/stopping''"
definition vmPowerStateStopped :: string where "vmPowerStateStopped = ''PowerState/stopped''"
definition vmPowerStateDeallocating :: string where
  "vmPowerStateDeallocating = ''PowerState/deallocating''"
definition vmPowerStateDeallocated :: string where
  "vmPowerStateDeallocated = ''PowerState/deallocated''"
definition vmPowerStateUnknown :: string where "vmPowerStateUnknown = ''PowerState/unknown''"

lemmas powerState_defs = vmPowerStateStarting_def vmPowerStateRunning_def vmPowerStateStopping_def
  vmPowerStateStopped_def vmPowerStateDeallocating_def vmPowerStateDeallocated_def
  vmPowerStateUnknown_def

definition isRunningVmPowerState :: "string \<Rightarrow> bool" where
  "isRunningVmPowerState p \<longleftrightarrow> p = vmPowerStateRunning \<or> p = vmPowerStateStarting"

definition isKnownVmPowerState :: "string \<Rightarrow> bool" where
  "isKnownVmPowerState p \<longleftrightarrow>
     p \<in> {vmPowerStateStarting, vmPowerStateRunning, vmPowerStateStopping, vmPowerStateStopped,
          vmPowerStateDeallocating, vmPowerStateDeallocated, vmPowerStateUnknown}"

fun vmPowerStateFromStatuses :: "viewStatus list \<Rightarrow> string" where
  "vmPowerStateFromStatuses [] = vmPowerStateUnknown"
| "vmPowerStateFromStatuses (s # ss) =
     (case Code s of
        None \<Rightarrow> vmPowerStateFromStatuses ss
      | Some c \<Rightarrow> if isKnownVmPowerState c then c else vmPowerStateFromStatuses ss)"

section \<open>Errors of the Azure clients\<close>

definition parseRetryAfterHeader :: "'e azClient \<Rightarrow> time \<Rightarrow> string option \<Rightarrow> duration" where
  "parseRetryAfterHeader az t resp =
     (case resp of
        None \<Rightarrow> 0
      | Some retryAfter \<Rightarrow>
          if retryAfter = '''' then 0
          else case strconv_Atoi retryAfter of
                 Some secs \<Rightarrow> seconds secs
               | None \<Rightarrow> (case httpParseTime az retryAfter of
                            Some d \<Rightarrow> d - t
                          | None \<Rightarrow> 0))"

definition isAzureRequestsThrottled :: "'e azClient \<Rightarrow> time \<Rightarrow> goerror \<Rightarrow> bool \<times> duration" where
  "isAzureRequestsThrottled az t err =
     (case asResponseError err of
        None \<Rightarrow> (False, 0)
      | Some r \<Rightarrow> if StatusCode r = 429 then (True, parseRetryAfterHeader az t (RawResponse r))
                   else (False, 0))"

text \<open>\<open>isErrorRetriable\<close> of \<open>azure_manager.go\<close>; the argument is nil for no error.\<close>

definition isErrorRetriable :: "goerror option \<Rightarrow> bool" where
  "isErrorRetriable err =
     (case err of
        None \<Rightarrow> False
      | Some e \<Rightarrow> (case asResponseError e of
                      None \<Rightarrow> False
                    | Some r \<Rightarrow> StatusCode r = 429 \<or> (500 \<le> StatusCode r \<and> StatusCode r < 600)))"

definition isPreconditionFailedError :: "'e azClient \<Rightarrow> goerror \<Rightarrow> bool" where
  "isPreconditionFailedError az err =
     (case isResponseError az err of None \<Rightarrow> False | Some r \<Rightarrow> StatusCode r = 412)"

text \<open>\<open>parseInt32\<close>: \<open>strconv.ParseInt\<close> in base 10, for an \<open>int\<close> of 32 bits.\<close>

definition parseInt32 :: "string \<Rightarrow> int option" where
  "parseInt32 s = strconv_ParseInt10 s 32"

text \<open>\<open>isSuccessHTTPResponse\<close>: the response is given by its status code.\<close>

definition isSuccessHTTPResponse :: "int option \<Rightarrow> goerror option \<Rightarrow> bool \<times> goerror option" where
  "isSuccessHTTPResponse resp err =
     (case err of
        Some e \<Rightarrow> (False, Some e)
      | None \<Rightarrow>
          (case resp of
             Some code \<Rightarrow>
               if 199 < code \<and> code < 300 then (True, None)
               else (False, Some (Errorf ''failed with HTTP status code %d'' [AInt code]))
           | None \<Rightarrow> (False, Some (Errorf ''failed with unknown error'' []))))"

section \<open>Removing elements of an array\<close>

text \<open>\<open>append(array[:i], array[i+1:]...)\<close>; a Go slice expression out of range panics.\<close>

definition removeAt :: "nat \<Rightarrow> 'a list \<Rightarrow> 'a list" where
  "removeAt i xs = take i xs @ drop (Suc i) xs"

fun removeAll :: "nat list \<Rightarrow> 'a list \<Rightarrow> 'a list go" where
  "removeAll [] xs = Ok xs"
| "removeAll (i # is) xs = (if i < length xs then removeAll is (removeAt i xs) else Panic)"

definition removeIndexesFromArray :: "'a list \<Rightarrow> nat list \<Rightarrow> 'a list go" where
  "removeIndexesFromArray array indexes = removeAll (rev (sort indexes)) array"

section \<open>Facts on resource identifiers\<close>

text \<open>The positions at which a string occurs in another.\<close>

definition occurrences :: "string \<Rightarrow> string \<Rightarrow> nat list" where
  "occurrences s sub = filter (\<lambda>i. prefix sub (drop i s)) [0 ..< Suc (length s)]"

definition occursOnce :: "string \<Rightarrow> string \<Rightarrow> bool" where
  "occursOnce s sub \<longleftrightarrow> length (occurrences s sub) = 1"

lemma fits_three_literals:
  "fits (Rep dot 0 None False # (lit l1 @ (Rep dot 0 None False # (lit l2 @ (Rep dot 1 None True #
      (lit l3 @ [Rep dot 0 None False])))))) s cs \<longleftrightarrow>
   (\<exists>a b c d t. s = a @ l1 @ b @ l2 @ c @ l3 @ d @ t \<and>
      list_all dot a \<and> list_all dot b \<and> list_all dot c \<and> list_all dot d \<and> c \<noteq> [] \<and> cs = [c])"
  (is "?L \<longleftrightarrow> ?R")
proof
  assume ?L
  then show ?R
    unfolding fits_simps by (clarsimp simp: Suc_le_length_iff) blast
next
  assume ?R
  then obtain a b c d t where *: "s = a @ l1 @ b @ l2 @ c @ l3 @ d @ t"
    "list_all dot a" "list_all dot b" "list_all dot c" "list_all dot d" "c \<noteq> []" "cs = [c]" by blast
  have "fits [Rep dot 0 None False] (d @ t) []"
    unfolding fits_Rep using *(5) by auto
  then have "fits (Rep dot 1 None True # (lit l3 @ [Rep dot 0 None False])) (c @ l3 @ d @ t) [c]"
    unfolding fits_Rep_cap fits_lit using * by (cases c) auto
  then have "fits (Rep dot 0 None False # (lit l2 @ (Rep dot 1 None True #
      (lit l3 @ [Rep dot 0 None False])))) (b @ l2 @ c @ l3 @ d @ t) [c]"
    unfolding fits_Rep fits_lit using *(3) by blast
  then show ?L
    unfolding fits_Rep [of dot 0 None "lit l1 @ _"] fits_lit [of l1] using * by blast
qed

lemma captured_one: "findSubmatch azureResourceGroupNameRE s = Some cs \<Longrightarrow> \<exists>c. cs = [c]"
  unfolding azureResourceGroupNameRE_def using findSubmatch_sound fits_three_literals by blast

lemma occurs_at: "s = p @ sub @ t \<Longrightarrow> length p \<in> set (occurrences s sub)"
  by (auto simp: occurrences_def simp del: upt_Suc)

lemma occursOnce_unique:
  assumes "occursOnce s sub" and "s = p @ sub @ t" and "s = p' @ sub @ t'"
  shows "p = p' \<and> t = t'"
proof -
  obtain i where "occurrences s sub = [i]"
    using assms(1) by (auto simp: occursOnce_def length_Suc_conv)
  then have "length p = length p'"
    using occurs_at [OF assms(2)] occurs_at [OF assms(3)] by simp
  with assms(2,3) show ?thesis by simp
qed

lemma ReplaceOne_occurrence:
  assumes "strings_Index s old = Some i"
  shows "\<exists>t. s = take i s @ old @ t \<and> strings_ReplaceOne s old new = take i s @ new @ t"
proof -
  obtain t where t: "s = take i s @ old @ t" "i + length old \<le> length s"
    using strings_Index_Some [OF assms] by blast
  have "drop (i + length old) s = t"
    using t by (metis add_diff_cancel_left' append_eq_conv_conj drop_append drop_drop length_take
        min.absorb2 add.commute add_leE)
  with t assms show ?thesis by (auto simp: strings_ReplaceOne_def)
qed

lemma convert_parts:
  assumes "convertResourceGroupNameToLower s = Ok r"
  shows "\<exists>p rg t. s = p @ rg @ t \<and> r = p @ strings_ToLower rg @ t \<and>
     findSubmatch azureResourceGroupNameRE s = Some [rg]"
proof -
  obtain rg where rg: "findSubmatch azureResourceGroupNameRE s = Some [rg]"
    "r = strings_ReplaceOne s rg (strings_ToLower rg)"
    using assms by (auto simp: convertResourceGroupNameToLower_def split: option.splits list.splits)
  obtain a b d t p where "s = p @ a @ ''/subscriptions/'' @ b @ ''/resourceGroups/'' @ rg @ ''/providers/'' @ d @ t"
    using findSubmatch_sound [OF rg(1)] unfolding azureResourceGroupNameRE_def fits_three_literals by blast
  then have "strings_Contains s rg" unfolding strings_Contains_iff by (metis append.assoc)
  then obtain i where i: "strings_Index s rg = Some i" by (auto simp: strings_Contains_def)
  from ReplaceOne_occurrence [OF i, of "strings_ToLower rg"] rg show ?thesis by metis
qed

lemma findSubmatch_between:
  assumes s: "s = a @ l1 @ b @ l2 @ c @ l3 @ d" and "list_all dot s" and "c \<noteq> []"
    and once: "occursOnce s l2" "occursOnce s l3"
  shows "findSubmatch (Rep dot 0 None False # (lit l1 @ (Rep dot 0 None False # (lit l2 @
    (Rep dot 1 None True # (lit l3 @ [Rep dot 0 None False])))))) s = Some [c]"
    (is "findSubmatch ?re s = _")
proof -
  have "fits ?re s [c]"
    unfolding fits_three_literals using assms(2,3)
    by (intro exI [of _ a] exI [of _ b] exI [of _ c] exI [of _ d] exI [of _ "[]"]) (simp add: s)
  then obtain cs where cs: "findSubmatch ?re s = Some cs"
    using findSubmatch_complete [of ?re s _ "[]"] by auto
  obtain p a' b' c' d' t where *: "cs = [c']" "s = p @ a' @ l1 @ b' @ l2 @ c' @ l3 @ d' @ t"
    using findSubmatch_sound [OF cs] unfolding fits_three_literals by blast
  have e: "s = (p @ a' @ l1 @ b') @ l2 @ (c' @ l3 @ d' @ t)" "s = (a @ l1 @ b) @ l2 @ (c @ l3 @ d)"
    "s = (p @ a' @ l1 @ b' @ l2 @ c') @ l3 @ (d' @ t)" "s = (a @ l1 @ b @ l2 @ c) @ l3 @ d"
    using *(2) s by (simp_all only: append.assoc)
  have "p @ a' @ l1 @ b' = a @ l1 @ b"
    using occursOnce_unique [OF once(1) e(1,2)] by (rule conjunct1)
  moreover have "p @ a' @ l1 @ b' @ l2 @ c' = a @ l1 @ b @ l2 @ c"
    using occursOnce_unique [OF once(2) e(3,4)] by (rule conjunct1)
  ultimately have "(a @ l1 @ b) @ l2 @ c' = (a @ l1 @ b) @ l2 @ c" by (metis append.assoc)
  then show ?thesis using cs *(1) by simp
qed

lemma ReplaceOne_at:
  "s = p @ old @ t \<Longrightarrow> strings_Index s old = Some (length p) \<Longrightarrow> strings_ReplaceOne s old new = p @ new @ t"
  by (simp add: strings_ReplaceOne_def)

lemma convert_canonical:
  assumes id: "s = a @ ''/subscriptions/'' @ b @ ''/resourceGroups/'' @ rg @ ''/providers/'' @ d"
    and "list_all dot s" and "rg \<noteq> []"
    and "occursOnce s ''/resourceGroups/''" and "occursOnce s ''/providers/''"
    and first: "strings_Index s rg = Some (length (a @ ''/subscriptions/'' @ b @ ''/resourceGroups/''))"
  shows "convertResourceGroupNameToLower s =
    Ok (a @ ''/subscriptions/'' @ b @ ''/resourceGroups/'' @ strings_ToLower rg @ ''/providers/'' @ d)"
proof -
  have "findSubmatch azureResourceGroupNameRE s = Some [rg]"
    unfolding azureResourceGroupNameRE_def by (rule findSubmatch_between [OF assms(1-5)])
  moreover have "strings_ReplaceOne s rg (strings_ToLower rg) =
      (a @ ''/subscriptions/'' @ b @ ''/resourceGroups/'') @ strings_ToLower rg @ (''/providers/'' @ d)"
    by (rule ReplaceOne_at [OF _ first]) (simp only: id append.assoc)
  ultimately show ?thesis
    by (simp only: convertResourceGroupNameToLower_def option.case list.case append.assoc)
qed

lemma convert_not_found:
  assumes "occurrences s ''/resourceGroups/'' = []"
  shows "convertResourceGroupNameToLower s = Err (Errorf ''%q isn't in Azure resource ID format'' [AStr s])"
proof -
  have "findSubmatch azureResourceGroupNameRE s = None"
  proof (rule ccontr)
    assume "findSubmatch azureResourceGroupNameRE s \<noteq> None"
    then obtain cs where cs: "findSubmatch azureResourceGroupNameRE s = Some cs" by blast
    obtain p a b c d t where "s = p @ a @ ''/subscriptions/'' @ b @ ''/resourceGroups/'' @ c @ ''/providers/'' @ d @ t"
      using findSubmatch_sound [OF cs] unfolding azureResourceGroupNameRE_def fits_three_literals by blast
    then have "s = (p @ a @ ''/subscriptions/'' @ b) @ ''/resourceGroups/'' @ (c @ ''/providers/'' @ d @ t)"
      by (simp only: append.assoc)
    from occurs_at [OF this] assms show False by simp
  qed
  then show ?thesis by (simp only: convertResourceGroupNameToLower_def option.case)
qed

lemma convert_EqualFold:
  assumes "convertResourceGroupNameToLower s = Ok r"
  shows "strings_EqualFold r s \<and> length r = length s"
  using convert_parts [OF assms] by (auto simp: strings_EqualFold_def)

section \<open>Facts on the names of virtual machines\<close>

lemma split_last:
  assumes "xs @ x # ys = xs' @ x # ys'" and "x \<notin> set ys" and "x \<notin> set ys'"
  shows "xs = xs' \<and> ys = ys'"
  using assms
proof (induction xs arbitrary: xs')
  case Nil
  then show ?case by (cases xs') auto
next
  case (Cons a xs)
  then show ?case by (cases xs') auto
qed

lemma no_dash: "list_all isHex s \<Longrightarrow> CHR ''-'' \<notin> set s" "list_all isDigit s \<Longrightarrow> CHR ''-'' \<notin> set s"
  by (auto simp: list_all_iff isHex_def isDigit_def)

lemma fits_linux: "fits vmnameLinuxRegexp s cs \<longleftrightarrow>
    (\<exists>x P H D N. s = x @ ''-'' @ P @ ''-'' @ H @ D @ N \<and> length x = 3 \<and> list_all isAlnum x \<and>
       P \<noteq> [] \<and> list_all dot P \<and> length H = 8 \<and> list_all isHex H \<and> length D \<le> 2 \<and>
       list_all (\<lambda>c. c = CHR ''-'') D \<and> N \<noteq> [] \<and> list_all isDigit N \<and> cs = [P, H, N])"
proof -
  have gen: "fits (Rep p1 3 (Some 3) False # (lit l @ (Rep p2 1 None True # (lit l' @
     [Rep p3 8 (Some 8) True, Rep p4 0 (Some 2) False, Rep p5 1 None True, EndText])))) s cs \<longleftrightarrow>
    (\<exists>x P H D N. s = x @ l @ P @ l' @ H @ D @ N \<and> length x = 3 \<and> list_all p1 x \<and>
       P \<noteq> [] \<and> list_all p2 P \<and> length H = 8 \<and> list_all p3 H \<and> length D \<le> 2 \<and>
       list_all p4 D \<and> N \<noteq> [] \<and> list_all p5 N \<and> cs = [P, H, N])" (is "?L = ?R") for l l' p1 p2 p3 p4 p5
  proof
    assume ?L
    then obtain x t where 1: "s = x @ l @ t" "length x = 3" "list_all p1 x"
      "fits (Rep p2 1 None True # (lit l' @
        [Rep p3 8 (Some 8) True, Rep p4 0 (Some 2) False, Rep p5 1 None True, EndText])) t cs"
      unfolding fits_Rep [of p1] fits_lit [of l] by force
    then obtain P t' cs' where 2: "t = P @ l' @ t'" "cs = P # cs'" "P \<noteq> []" "list_all p2 P"
      "fits [Rep p3 8 (Some 8) True, Rep p4 0 (Some 2) False, Rep p5 1 None True, EndText] t' cs'"
      unfolding fits_Rep_cap [of p2] fits_lit by force
    then obtain H D N where "t' = H @ D @ N" "length H = 8" "list_all p3 H" "length D \<le> 2"
      "list_all p4 D" "N \<noteq> []" "list_all p5 N" "cs' = [H, N]"
      unfolding fits_simps by force
    with 1 2 show ?R by blast
  next
    assume ?R
    then obtain x P H D N where *: "s = x @ l @ P @ l' @ H @ D @ N" "length x = 3" "list_all p1 x"
      "P \<noteq> []" "list_all p2 P" "length H = 8" "list_all p3 H" "length D \<le> 2"
      "list_all p4 D" "N \<noteq> []" "list_all p5 N" "cs = [P, H, N]" by blast
    have "fits [Rep p5 1 None True, EndText] N [N]"
      unfolding fits_simps using * by (cases N) auto
    then have "fits [Rep p4 0 (Some 2) False, Rep p5 1 None True, EndText] (D @ N) [N]"
      unfolding fits_Rep [of p4] using * by blast
    then have "fits [Rep p3 8 (Some 8) True, Rep p4 0 (Some 2) False, Rep p5 1 None True, EndText]
        (H @ D @ N) [H, N]"
      unfolding fits_Rep_cap [of p3] using * by (metis le_refl option.inject)
    then have "fits (Rep p2 1 None True # (lit l' @ [Rep p3 8 (Some 8) True,
        Rep p4 0 (Some 2) False, Rep p5 1 None True, EndText])) (P @ l' @ H @ D @ N) cs"
      unfolding fits_Rep_cap [of p2] fits_lit using * by (cases P) auto
    then show ?L unfolding fits_Rep [of p1] fits_lit [of l] using * by (metis le_refl option.inject)
  qed
  show ?thesis unfolding vmnameLinuxRegexp_def by (rule gen)
qed

lemma dashes: "list_all (\<lambda>c. c = CHR ''-'') D \<Longrightarrow> length D \<le> 2 \<Longrightarrow> D = [] \<or> D = ''-'' \<or> D = ''--''"
proof -
  assume a: "list_all (\<lambda>c. c = CHR ''-'') D" "length D \<le> 2"
  then have "D = replicate (length D) (CHR ''-'')"
    by (simp add: list_all_iff replicate_eqI)
  moreover have "length D = 0 \<or> length D = 1 \<or> length D = 2" using a(2) by linarith
  ultimately show ?thesis by (auto simp: numeral_2_eq_2)
qed

lemma linux_name_match:
  assumes "length pfx = 3" "list_all isAlnum pfx" "pool \<noteq> []" "list_all dot pool"
    "length cid = 8" "list_all isHex cid" "idx \<noteq> []" "length idx \<le> 8" "list_all isDigit idx"
  shows "matchSeq vmnameLinuxRegexp (pfx @ ''-'' @ pool @ ''-'' @ cid @ ''-'' @ idx) = Some [pool, cid, idx]"
proof (rule matchSeq_unique)
  show "fits vmnameLinuxRegexp (pfx @ ''-'' @ pool @ ''-'' @ cid @ ''-'' @ idx) [pool, cid, idx]"
    unfolding fits_linux using assms
    by (intro exI [of _ pfx] exI [of _ pool] exI [of _ cid] exI [of _ "''-''"] exI [of _ idx]) simp
next
  fix cs
  assume "fits vmnameLinuxRegexp (pfx @ ''-'' @ pool @ ''-'' @ cid @ ''-'' @ idx) cs"
  then obtain x P H D N where
    eq: "pfx @ ''-'' @ pool @ ''-'' @ cid @ ''-'' @ idx = x @ ''-'' @ P @ ''-'' @ H @ D @ N"
    and *: "length x = 3" "length H = 8" "list_all isHex H" "length D \<le> 2"
      "list_all (\<lambda>c. c = CHR ''-'') D" "N \<noteq> []" "list_all isDigit N" and cs: "cs = [P, H, N]"
    unfolding fits_linux by blast
  from eq *(1) assms(1) have e: "pool @ ''-'' @ cid @ ''-'' @ idx = P @ ''-'' @ H @ D @ N" by simp
  have nd: "CHR ''-'' \<notin> set idx" "CHR ''-'' \<notin> set H" "CHR ''-'' \<notin> set N" "CHR ''-'' \<notin> set cid"
    using no_dash assms(6,9) *(3,7) by blast+
  consider "D = []" | "D = ''-''" | "D = ''--''" using dashes [OF *(5,4)] by blast
  then show "cs = [pool, cid, idx]"
  proof cases
    case 1
    with e have "(pool @ ''-'' @ cid) @ CHR ''-'' # idx = P @ CHR ''-'' # (H @ N)" by simp
    then have "idx = H @ N" using split_last nd by (metis set_append Un_iff)
    then have "length idx = 8 + length N" using *(2) by simp
    with assms(8) *(6) show ?thesis by simp
  next
    case 2
    with e have "(pool @ ''-'' @ cid) @ CHR ''-'' # idx = (P @ ''-'' @ H) @ CHR ''-'' # N" by simp
    then have n: "idx = N" and "pool @ CHR ''-'' # cid = P @ CHR ''-'' # H"
      using split_last [of "pool @ ''-'' @ cid" "CHR ''-''" idx] nd by auto
    from split_last [OF this(2) nd(4,2)] n cs show ?thesis by simp
  next
    case 3
    with e have "(pool @ ''-'' @ cid) @ CHR ''-'' # idx = (P @ ''-'' @ H @ ''-'') @ CHR ''-'' # N" by simp
    then have "pool @ CHR ''-'' # cid = (P @ ''-'' @ H) @ CHR ''-'' # []"
      using split_last [of "pool @ ''-'' @ cid" "CHR ''-''" idx] nd by auto
    from split_last [OF this nd(4)] assms(5) show ?thesis by simp
  qed
qed

lemma digitsVal_bounds:
  "list_all isDigit s \<Longrightarrow> 0 \<le> acc \<Longrightarrow> 0 \<le> digitsVal acc s \<and> digitsVal acc s < (acc + 1) * 10 ^ length s"
proof (induction s arbitrary: acc)
  case Nil
  then show ?case by simp
next
  case (Cons c s)
  have "48 \<le> (of_char c :: nat)" "(of_char c :: nat) \<le> 57"
    using Cons.prems by (auto simp: isDigit_def Let_def)
  then have "48 \<le> int (of_char c)" "int (of_char c) \<le> 57" by linarith+
  then have d: "0 \<le> digitVal c" "digitVal c \<le> 9" by (simp_all add: digitVal_def)
  have "(10 * acc + digitVal c + 1) * 10 ^ length s \<le> ((acc + 1) * 10) * 10 ^ length s"
    using d by (intro mult_right_mono) auto
  moreover have "0 \<le> digitsVal (10 * acc + digitVal c) s \<and>
      digitsVal (10 * acc + digitVal c) s < (10 * acc + digitVal c + 1) * 10 ^ length s"
    using Cons.prems d by (intro Cons.IH) auto
  moreover have "((acc + 1) * 10) * 10 ^ length s = (acc + 1) * 10 ^ length (c # s)" by simp
  ultimately show ?case using less_le_trans by fastforce
qed

lemma Atoi_digits:
  assumes "s \<noteq> []" "list_all isDigit s" "length s \<le> 18"
  shows "strconv_Atoi s = Some (digitsVal 0 s)"
proof -
  obtain c cs where s: "s = c # cs" using assms(1) by (cases s) auto
  have c: "c \<noteq> CHR ''-''" "c \<noteq> CHR ''+''" using assms(2) s by (auto simp: isDigit_def)
  have "digitsVal 0 s < (0 + 1) * 10 ^ length s" "0 \<le> digitsVal 0 s"
    using digitsVal_bounds [OF assms(2), of 0] by simp_all
  moreover have "(10::int) ^ length s \<le> 10 ^ 18" using assms(3) by (intro power_increasing) auto
  ultimately have "digitsVal 0 s < 2 ^ 63" "- (2 ^ 63) \<le> digitsVal 0 s" by simp_all
  moreover have "parseUnsigned s = Some (digitsVal 0 s)" using assms by (simp add: parseUnsigned_def)
  ultimately show ?thesis using c
    by (simp add: strconv_Atoi_def strconv_ParseInt10_def s Let_def)
qed

lemma k8sLinuxVMNameParts_aux:
  assumes "length pfx = 3" "list_all isAlnum pfx" "pool \<noteq> []" "list_all dot pool"
    "length cid = 8" "list_all isHex cid" "idx \<noteq> []" "length idx \<le> 8" "list_all isDigit idx"
  shows "k8sLinuxVMNameParts (pfx @ ''-'' @ pool @ ''-'' @ cid @ ''-'' @ idx) = Ok (pool, cid, digitsVal 0 idx)"
  using linux_name_match [OF assms] Atoi_digits [OF assms(7,9)] assms(8)
  by (simp only: k8sLinuxVMNameParts_def) simp

section \<open>Facts on removing elements\<close>

lemma nths_agree: "(\<And>i. i < length xs \<Longrightarrow> i \<in> A \<longleftrightarrow> i \<in> B) \<Longrightarrow> nths xs A = nths xs B"
  unfolding nths_def by (rule arg_cong [where f = "map fst"], rule filter_cong) (auto simp: set_zip)

lemma nths_removeAt:
  assumes "i < length xs" and "S \<subseteq> {..<i}"
  shows "nths (removeAt i xs) (- S) = nths xs (- (insert i S))"
proof -
  have xs: "xs = take i xs @ [xs ! i] @ drop (Suc i) xs"
    using assms(1) by (simp add: id_take_nth_drop)
  have "nths xs (- insert i S) = nths (take i xs) (- insert i S) @ nths [xs ! i] {j. j + i \<in> - insert i S} @
      nths (drop (Suc i) xs) {j. j + Suc i \<in> - insert i S}"
    using assms(1) by (subst xs, subst nths_append, subst nths_append) (simp add: min_def)
  moreover have "nths (take i xs) (- insert i S) = nths (take i xs) (- S)"
    using assms(2) by (intro nths_agree) auto
  moreover have "nths [xs ! i] {j. j + i \<in> - insert i S} = []" by (simp add: nths_singleton)
  moreover have "{j. j + Suc i \<in> - insert i S} = UNIV" "{j. j + i \<in> - S} = UNIV" using assms(2) by auto
  ultimately show ?thesis using assms(1) by (simp add: removeAt_def nths_append min_def)
qed

lemma removeAll_nths:
  "sorted_wrt (>) is \<Longrightarrow> \<forall>i \<in> set is. i < length xs \<Longrightarrow> removeAll is xs = Ok (nths xs (- set is))"
proof (induction "is" arbitrary: xs)
  case Nil
  then show ?case by (simp add: nths_all)
next
  case (Cons i "is")
  have S: "set is \<subseteq> {..<i}" using Cons.prems(1) by auto
  have i: "i < length xs" using Cons.prems(2) by simp
  have "\<forall>j \<in> set is. j < length (removeAt i xs)"
    using S i by (auto simp: removeAt_def)
  then have "removeAll is (removeAt i xs) = Ok (nths (removeAt i xs) (- set is))"
    using Cons by simp
  with i nths_removeAt [OF i S] show ?case by simp
qed

lemma removeIndexes_aux:
  assumes "distinct is" and "\<forall>i \<in> set is. i < length xs"
  shows "removeIndexesFromArray xs is = Ok (nths xs (- set is))"
proof -
  have "sorted_wrt (<) (sort is)" using assms(1) by (simp add: strict_sorted_iff)
  then have "sorted_wrt (>) (rev (sort is))" by (simp add: sorted_wrt_rev)
  from removeAll_nths [OF this] assms(2) show ?thesis
    by (simp add: removeIndexesFromArray_def)
qed

section \<open>Sample identifiers\<close>

definition sampleID :: string where "sampleID = ''/subscriptions/s/resourceGroups/RG/providers/p''"
definition sampleIDLower :: string where "sampleIDLower = ''/subscriptions/s/resourceGroups/rg/providers/p''"
definition groupsID :: string where "groupsID = ''/subscriptions/s/resourceGroups/Groups/providers/p''"
definition groupsIDConverted :: string where
  "groupsIDConverted = ''/subscriptions/s/resourcegroups/Groups/providers/p''"

lemma sampleID_parts:
  "sampleID = [] @ ''/subscriptions/'' @ ''s'' @ ''/resourceGroups/'' @ ''RG'' @ ''/providers/'' @ ''p''"
  "groupsID = [] @ ''/subscriptions/'' @ ''s'' @ ''/resourceGroups/'' @ ''Groups'' @ ''/providers/'' @ ''p''"
  by (simp_all add: sampleID_def groupsID_def)

lemma sampleID_once:
  "list_all dot sampleID" "occursOnce sampleID ''/resourceGroups/''" "occursOnce sampleID ''/providers/''"
  "strings_Index sampleID ''RG'' = Some (length ([] @ ''/subscriptions/'' @ ''s'' @ ''/resourceGroups/''))"
  "list_all dot groupsID" "occursOnce groupsID ''/resourceGroups/''" "occursOnce groupsID ''/providers/''"
  unfolding sampleID_def groupsID_def by code_simp+

lemma convert_sampleID: "convertResourceGroupNameToLower sampleID = Ok sampleIDLower"
proof -
  have "''RG'' \<noteq> []" by simp
  note conv = convert_canonical [OF sampleID_parts(1) sampleID_once(1) this sampleID_once(2-4)]
  have "[] @ ''/subscriptions/'' @ ''s'' @ ''/resourceGroups/'' @ strings_ToLower ''RG'' @ ''/providers/'' @ ''p'' = sampleIDLower"
    unfolding sampleIDLower_def by code_simp
  then show ?thesis by (simp only: conv)
qed

text \<open>The same identifier as a provider identifier of Kubernetes.\<close>

definition sampleProviderID :: string where "sampleProviderID = azurePrefix @ sampleID"

lemma sampleProviderID_parts:
  "sampleProviderID = ''azure://'' @ ''/subscriptions/'' @ ''s'' @ ''/resourceGroups/'' @ ''RG'' @ ''/providers/'' @ ''p''"
  by (simp add: sampleProviderID_def azurePrefix_def sampleID_def)

lemma sampleProviderID_once:
  "list_all dot sampleProviderID" "occursOnce sampleProviderID ''/resourceGroups/''"
  "occursOnce sampleProviderID ''/providers/''"
  "strings_Index sampleProviderID ''RG'' =
     Some (length (''azure://'' @ ''/subscriptions/'' @ ''s'' @ ''/resourceGroups/''))"
  unfolding sampleProviderID_def azurePrefix_def sampleID_def by code_simp+

lemma convert_sampleProviderID:
  "convertResourceGroupNameToLower sampleProviderID = Ok (azurePrefix @ sampleIDLower)"
proof -
  have "''RG'' \<noteq> []" by simp
  note conv = convert_canonical [OF sampleProviderID_parts sampleProviderID_once(1) this sampleProviderID_once(2-4)]
  have "''azure://'' @ ''/subscriptions/'' @ ''s'' @ ''/resourceGroups/'' @ strings_ToLower ''RG'' @ ''/providers/'' @ ''p'' =
      azurePrefix @ sampleIDLower"
    unfolding sampleIDLower_def azurePrefix_def by code_simp
  then show ?thesis by (simp only: conv)
qed

section \<open>Properties\<close>

text \<open>
  The normalisation of a resource identifier changes letter case only: a successful result is
  equal to its argument up to case and has the same length, so look-ups that fold case treat
  both as the same instance.
\<close>

theorem convert_changes_case_only:
  assumes "convertResourceGroupNameToLower s = Ok r"
  shows "strings_EqualFold r s \<and> length r = length s"
  by (rule convert_EqualFold [OF assms])

theorem convert_changes_case_only_witness: "strings_EqualFold sampleIDLower sampleID"
  using convert_changes_case_only [OF convert_sampleID] by blast

text \<open>
  On an identifier with one \<open>resourceGroups\<close> and one \<open>providers\<close> segment, in which the name of the
  resource group occurs nowhere before its segment, exactly that name is put in lower case.
\<close>

theorem convert_lowers_group:
  assumes "s = a @ ''/subscriptions/'' @ b @ ''/resourceGroups/'' @ rg @ ''/providers/'' @ d"
    and "list_all dot s" and "rg \<noteq> []"
    and "occursOnce s ''/resourceGroups/''" and "occursOnce s ''/providers/''"
    and "strings_Index s rg = Some (length (a @ ''/subscriptions/'' @ b @ ''/resourceGroups/''))"
  shows "convertResourceGroupNameToLower s =
    Ok (a @ ''/subscriptions/'' @ b @ ''/resourceGroups/'' @ strings_ToLower rg @ ''/providers/'' @ d)"
  by (rule convert_canonical [OF assms])

theorem convert_lowers_group_witness:
  "convertResourceGroupNameToLower sampleID =
     Ok ([] @ ''/subscriptions/'' @ ''s'' @ ''/resourceGroups/'' @ strings_ToLower ''RG'' @ ''/providers/'' @ ''p'')"
  by (rule convert_lowers_group [OF sampleID_parts(1) sampleID_once(1) _ sampleID_once(2-4)]) simp

text \<open>
  The replacement takes the first occurrence of the group's name in the whole identifier: for a
  resource group called \<open>Groups\<close> it lowers a part of the keyword \<open>resourceGroups\<close> instead of the
  name, and the result is no longer accepted as an identifier.
\<close>

theorem convert_wrong_occurrence:
  "convertResourceGroupNameToLower groupsID = Ok groupsIDConverted \<and>
   \<not> is_Ok (convertResourceGroupNameToLower groupsIDConverted)"
proof
  have "findSubmatch azureResourceGroupNameRE groupsID = Some [''Groups'']"
    unfolding azureResourceGroupNameRE_def
    by (rule findSubmatch_between [OF sampleID_parts(2) sampleID_once(5) _ sampleID_once(6,7)]) simp
  moreover have "strings_ReplaceOne groupsID ''Groups'' (strings_ToLower ''Groups'') = groupsIDConverted"
    unfolding groupsID_def groupsIDConverted_def by code_simp
  ultimately show "convertResourceGroupNameToLower groupsID = Ok groupsIDConverted"
    by (simp add: convertResourceGroupNameToLower_def)
  have "occurrences groupsIDConverted ''/resourceGroups/'' = []"
    unfolding groupsIDConverted_def by code_simp
  from convert_not_found [OF this] show "\<not> is_Ok (convertResourceGroupNameToLower groupsIDConverted)" by simp
qed

text \<open>
  The name of a Linux agent, made of a three character prefix, the pool name (dashes allowed),
  the eight digit cluster identifier and an index of up to eight digits, is taken apart into
  exactly these parts.
\<close>

theorem k8sLinuxVMNameParts_wellformed:
  assumes "length pfx = 3" "list_all isAlnum pfx" "pool \<noteq> []" "list_all dot pool"
    "length cid = 8" "list_all isHex cid" "idx \<noteq> []" "length idx \<le> 8" "list_all isDigit idx"
  shows "k8sLinuxVMNameParts (pfx @ ''-'' @ pool @ ''-'' @ cid @ ''-'' @ idx) = Ok (pool, cid, digitsVal 0 idx)"
  by (rule k8sLinuxVMNameParts_aux [OF assms])

theorem k8sLinuxVMNameParts_wellformed_witness:
  "k8sLinuxVMNameParts (''k8s'' @ ''-'' @ ''my-pool'' @ ''-'' @ ''38988164'' @ ''-'' @ ''10'') =
     Ok (''my-pool'', ''38988164'', digitsVal 0 ''10'')"
  by (rule k8sLinuxVMNameParts_wellformed) code_simp+

text \<open>
  Removing a set of distinct positions of an array, in whatever order they are given, leaves
  the other elements in their order and never indexes out of range.
\<close>

theorem removeIndexesFromArray_correct:
  assumes "distinct is" and "\<forall>i \<in> set is. i < length xs"
  shows "removeIndexesFromArray xs is = Ok (nths xs (- set is))"
  by (rule removeIndexes_aux [OF assms])

theorem removeIndexesFromArray_correct_witness:
  "removeIndexesFromArray [1::nat, 2, 3, 4] [2, 0] = Ok (nths [1, 2, 3, 4] (- set [2, 0]))"
  by (rule removeIndexesFromArray_correct) simp_all

end
