(* ===== verification/Azure_Cache.thy ===== *)
theory Azure_Cache
  imports Azure_Util
begin

text \<open>
  \<open>azure_cache.go\<close>: the cache of Azure resources and of the node groups. Its state is the field
  \<open>azCache\<close> of the world. The theory holds the reads and writes of the cache, the fetching of
  scale sets, virtual machines and VMs pools, the registry of node groups, and the look-ups of
  instances. The method \<open>regenerate\<close>, which calls \<open>Nodes\<close> of every node group, is in the theory
  of the manager.

  Each definition is one atomic step. The methods hold the cache's mutex from their first to their
  last access of the fields they return or change, but \<open>HasVMSKUs\<close>, which is called before any
  goroutine starts, and \<open>regenerate\<close>; \<open>Provider_Locks\<close> has the mutexes.
\<close>

section \<open>The methods of the node groups the cache calls\<close>

definition ngId :: "'e world \<Rightarrow> nodeGroup \<Rightarrow> string" where
  "ngId w ng = (case ng of
     ScaleSetRef p \<Rightarrow> ss_Name (ssAt w p)
   | AgentPoolRef p \<Rightarrow> ap_Name (apAt w p)
   | VMPoolRef p \<Rightarrow> vp_Name (vpAt w p))"

definition ngMinSize :: "'e world \<Rightarrow> nodeGroup \<Rightarrow> int" where
  "ngMinSize w ng = (case ng of
     ScaleSetRef p \<Rightarrow> ss_minSize (ssAt w p)
   | AgentPoolRef p \<Rightarrow> ap_minSize (apAt w p)
   | VMPoolRef p \<Rightarrow> vp_minSize (vpAt w p))"

definition ngMaxSize :: "'e world \<Rightarrow> nodeGroup \<Rightarrow> int" where
  "ngMaxSize w ng = (case ng of
     ScaleSetRef p \<Rightarrow> ss_maxSize (ssAt w p)
   | AgentPoolRef p \<Rightarrow> ap_maxSize (apAt w p)
   | VMPoolRef p \<Rightarrow> vp_maxSize (vpAt w p))"

section \<open>Reading and replacing the cached resources\<close>

definition emptyCache :: "duration \<Rightarrow> Config \<Rightarrow> azureCache" where
  "emptyCache cacheTTL cfg =
     \<lparr>refreshInterval = cacheTTL,
      resourceGroup = (if HostedResourceGroup cfg \<noteq> '''' then HostedResourceGroup cfg
                       else ResourceGroup (provider cfg)),
      clusterResourceGroup = ClusterResourceGroup cfg,
      clusterName = ClusterName cfg,
      enableVMsAgentPool = EnableVMsAgentPool cfg,
      vmType = VMType (provider cfg),
      vmsPoolMap = [], scaleSets = [], virtualMachines = [], registeredNodeGroups = [],
      instanceToNodeGroup = [], instanceStates = [], unownedInstances = [],
      autoscalingOptions = [], skus = []\<rparr>"

definition getVMsPoolMap :: "'e world \<Rightarrow> (string, aksAgentPool) gomap" where
  "getVMsPoolMap w = vmsPoolMap (azCache w)"

definition getVirtualMachines :: "'e world \<Rightarrow> (string, virtualMachine list) gomap" where
  "getVirtualMachines w = virtualMachines (azCache w)"

definition getScaleSets :: "'e world \<Rightarrow> (string, addr) gomap" where
  "getScaleSets w = scaleSets (azCache w)"

definition setScaleSet :: "string \<Rightarrow> addr \<Rightarrow> 'e world \<Rightarrow> 'e world" where
  "setScaleSet name v = updCache (\<lambda>c. c\<lparr>scaleSets := mapSet name v (scaleSets c)\<rparr>)"

definition getRegisteredNodeGroups :: "'e world \<Rightarrow> nodeGroup list" where
  "getRegisteredNodeGroups w = registeredNodeGroups (azCache w)"

definition getAutoscalingOptions :: "string \<Rightarrow> 'e world \<Rightarrow> (string, string) gomap" where
  "getAutoscalingOptions ref w =
     (case map_of (autoscalingOptions (azCache w)) ref of None \<Rightarrow> [] | Some m \<Rightarrow> m)"

section \<open>Fetching the resources\<close>

text \<open>Each scale set of the response becomes an object; \<open>*vmss.Name\<close> panics on nil.\<close>

fun storeScaleSets ::
  "vmss list \<Rightarrow> (string, addr) gomap \<Rightarrow> 'e world \<Rightarrow> (string, addr) gomap go \<times> 'e world" where
  "storeScaleSets [] sets w = (Ok sets, w)"
| "storeScaleSets (x # xs) sets w =
     (case vmss_Name x of
        None \<Rightarrow> (Panic, w)
      | Some name \<Rightarrow> (case allocVMSS x w of (v, w') \<Rightarrow> storeScaleSets xs (mapSet name v sets) w'))"

definition fetchScaleSets :: "'e azClient \<Rightarrow> 'e world \<Rightarrow> (string, addr) gomap go \<times> 'e world" where
  "fetchScaleSets az w =
     andThen (callGo (vmssList az (resourceGroup (azCache w))) w) (\<lambda>result. storeScaleSets result [])"

definition legacyAgentpoolNameTag :: string where "legacyAgentpoolNameTag = ''poolName''"
definition agentpoolNameTag :: string where "agentpoolNameTag = ''aks-managed-poolName''"

text \<open>A missing tag and a tag whose pointer is nil both read as nil.\<close>

definition tagPtr :: "tags \<Rightarrow> string \<Rightarrow> string option" where
  "tagPtr t k = (case map_of t k of None \<Rightarrow> None | Some p \<Rightarrow> p)"

definition vmPoolName :: "virtualMachine \<Rightarrow> string option" where
  "vmPoolName vm =
     (case tagPtr (vm_Tags vm) agentpoolNameTag of
        None \<Rightarrow> tagPtr (vm_Tags vm) legacyAgentpoolNameTag
      | Some n \<Rightarrow> Some n)"

definition vmsOf :: "(string, virtualMachine list) gomap \<Rightarrow> string \<Rightarrow> virtualMachine list" where
  "vmsOf m name = (case map_of m name of None \<Rightarrow> [] | Some vs \<Rightarrow> vs)"

definition addToPool ::
  "virtualMachine \<Rightarrow> (string, virtualMachine list) gomap \<Rightarrow> (string, virtualMachine list) gomap" where
  "addToPool vm m =
     (case vmPoolName vm of None \<Rightarrow> m | Some n \<Rightarrow> mapSet n (vmsOf m n @ [vm]) m)"

definition fetchVirtualMachines ::
  "'e azClient \<Rightarrow> 'e world \<Rightarrow> (string, virtualMachine list) gomap go \<times> 'e world" where
  "fetchVirtualMachines az w =
     andThen (callGo (vmList az (resourceGroup (azCache w))) w)
       (\<lambda>result w1. (Ok (fold addToPool result []), w1))"

text \<open>The pages of the list, up to the first one that fails.\<close>

fun collectPages :: "(goerror + 'a list) list \<Rightarrow> 'a list go" where
  "collectPages [] = Ok []"
| "collectPages (Inl e # ps) = Err e"
| "collectPages (Inr xs # ps) =
     (case collectPages ps of Ok ys \<Rightarrow> Ok (xs @ ys) | Err e \<Rightarrow> Err e | Panic \<Rightarrow> Panic)"

definition isVMsPool :: "aksAgentPool \<Rightarrow> bool" where
  "isVMsPool ap =
     (case aks_Properties ap of
        None \<Rightarrow> False
      | Some pr \<Rightarrow> app_Type pr = Some AgentPoolTypeVirtualMachines)"

definition addVMsPool ::
  "aksAgentPool option \<Rightarrow> (string, aksAgentPool) gomap \<Rightarrow> (string, aksAgentPool) gomap" where
  "addVMsPool p m =
     (case p of
        None \<Rightarrow> m
      | Some ap \<Rightarrow> (case aks_Name ap of
                       None \<Rightarrow> m
                     | Some n \<Rightarrow> if isVMsPool ap then mapSet n ap m else m))"

definition fetchVMsPools :: "'e azClient \<Rightarrow> 'e world \<Rightarrow> (string, aksAgentPool) gomap go \<times> 'e world" where
  "fetchVMsPools az w =
     (if \<not> hasAgentPoolClient az then (Err (Errorf ''agentPoolClient is nil'' []), w)
      else case call (agentPoolPages az (clusterResourceGroup (azCache w)) (clusterName (azCache w))) w of
             (pages, w1) \<Rightarrow>
               (case collectPages pages of
                  Ok aps \<Rightarrow> (Ok (fold addVMsPool aps []), w1)
                | Err e \<Rightarrow> (Err e, w1)
                | Panic \<Rightarrow> (Panic, w1)))"

definition fetchAzureResources :: "'e azClient \<Rightarrow> 'e world \<Rightarrow> unit go \<times> 'e world" where
  "fetchAzureResources az w =
     andThen (fetchScaleSets az w) (\<lambda>vmssResult w1.
       let w2 = updCache (\<lambda>c. c\<lparr>scaleSets := vmssResult\<rparr>) w1
       in andThen (fetchVirtualMachines az w2) (\<lambda>vmResult w3.
         let w4 = updCache (\<lambda>c. c\<lparr>virtualMachines := vmResult\<rparr>) w3
         in if enableVMsAgentPool (azCache w4)
            then andThen (fetchVMsPools az w4) (\<lambda>pools w5.
                   (Ok (), updCache (\<lambda>c. c\<lparr>vmsPoolMap := pools\<rparr>) w5))
            else (Ok (), w4)))"

definition fetchSKUs :: "'e azClient \<Rightarrow> string \<Rightarrow> 'e world \<Rightarrow> (string, skuEntry) gomap go \<times> 'e world" where
  "fetchSKUs az location w =
     (if location = '''' then (Err (Errorf ''location not specified'' []), w)
      else callGo (skuList az location) w)"

definition fetchSKUCache :: "'e azClient \<Rightarrow> string \<Rightarrow> 'e world \<Rightarrow> unit go \<times> 'e world" where
  "fetchSKUCache az location w =
     andThen (fetchSKUs az location w) (\<lambda>cache w1. (Ok (), updCache (\<lambda>c. c\<lparr>skus := cache\<rparr>) w1))"

definition HasVMSKUs :: "'e world \<Rightarrow> bool" where
  "HasVMSKUs w \<longleftrightarrow> skus (azCache w) \<noteq> []"

definition GetSKU :: "'e azClient \<Rightarrow> string \<Rightarrow> string \<Rightarrow> 'e world \<Rightarrow> goerror + skuEntry" where
  "GetSKU az skuName location w = skuGet az (skus (azCache w)) skuName location"

section \<open>The registry of node groups\<close>

definition sameId :: "'e world \<Rightarrow> nodeGroup \<Rightarrow> nodeGroup \<Rightarrow> bool" where
  "sameId w x y \<longleftrightarrow> strings_EqualFold (ngId w x) (ngId w y)"

definition sameSizes :: "'e world \<Rightarrow> nodeGroup \<Rightarrow> nodeGroup \<Rightarrow> bool" where
  "sameSizes w x y \<longleftrightarrow> ngMinSize w x = ngMinSize w y \<and> ngMaxSize w x = ngMaxSize w y"

text \<open>
  The loop of \<open>Register\<close> and the append after it: the first group with the same identifier is
  kept when its sizes are unchanged and replaced otherwise. The flag tells a change.
\<close>

fun registerLoop :: "'e world \<Rightarrow> nodeGroup \<Rightarrow> nodeGroup list \<Rightarrow> bool \<times> nodeGroup list" where
  "registerLoop w ng [] = (True, [ng])"
| "registerLoop w ng (x # xs) =
     (if sameId w x ng
      then if sameSizes w x ng then (False, x # xs) else (True, ng # xs)
      else case registerLoop w ng xs of (changed, ys) \<Rightarrow> (changed, x # ys))"

definition invalidateUnownedInstanceCache :: "'e world \<Rightarrow> 'e world" where
  "invalidateUnownedInstanceCache = updCache (\<lambda>c. c\<lparr>unownedInstances := []\<rparr>)"

definition Register :: "nodeGroup \<Rightarrow> 'e world \<Rightarrow> bool \<times> 'e world" where
  "Register ng w =
     (case registerLoop w ng (registeredNodeGroups (azCache w)) of
        (changed, groups) \<Rightarrow>
          if changed
          then (True, invalidateUnownedInstanceCache
                        (updCache (\<lambda>c. c\<lparr>registeredNodeGroups := groups\<rparr>) w))
          else (False, w))"

definition Unregister :: "nodeGroup \<Rightarrow> 'e world \<Rightarrow> bool \<times> 'e world" where
  "Unregister ng w =
     (let groups = registeredNodeGroups (azCache w);
          updated = filter (\<lambda>existing. \<not> sameId w existing ng) groups
      in (list_ex (\<lambda>existing. sameId w existing ng) groups,
          updCache (\<lambda>c. c\<lparr>registeredNodeGroups := updated\<rparr>) w))"

section \<open>Looking up instances\<close>

fun findFold :: "string \<Rightarrow> (string, 'v) gomap \<Rightarrow> (string \<times> 'v) option" where
  "findFold i [] = None"
| "findFold i ((k, v) # m) = (if strings_EqualFold k i then Some (k, v) else findFold i m)"

definition HasInstance :: "string \<Rightarrow> 'e world \<Rightarrow> bool go" where
  "HasInstance providerID w =
     (case convertResourceGroupNameToLower providerID of
        Panic \<Rightarrow> Panic
      | Err e \<Rightarrow> Err e
      | Ok resourceID \<Rightarrow>
          (case findFold resourceID (instanceToNodeGroup (azCache w)) of
             None \<Rightarrow> Err ErrNotImplemented
           | Some (instanceID, _) \<Rightarrow>
               if map_of (instanceStates (azCache w)) instanceID = Some InstanceDeleting
               then Ok False else Ok True))"

definition isFlexible :: "vmss \<Rightarrow> bool" where
  "isFlexible s =
     (case vmss_Properties s of
        None \<Rightarrow> False
      | Some pr \<Rightarrow> OrchestrationMode pr = Some OrchestrationModeFlexible)"

definition areAllScaleSetsUniform :: "'e world \<Rightarrow> bool" where
  "areAllScaleSetsUniform w \<longleftrightarrow>
     list_all (\<lambda>(_, v). \<not> isFlexible (vmssAt w v)) (scaleSets (azCache w))"

definition getInstanceFromCache :: "string \<Rightarrow> 'e world \<Rightarrow> nodeGroup option" where
  "getInstanceFromCache providerID w =
     map_option snd (findFold providerID (instanceToNodeGroup (azCache w)))"

definition markUnowned :: "string \<Rightarrow> 'e world \<Rightarrow> 'e world" where
  "markUnowned i = updCache (\<lambda>c. c\<lparr>unownedInstances := mapSet i True (unownedInstances c)\<rparr>)"

definition FindForInstance :: "string \<Rightarrow> string \<Rightarrow> 'e world \<Rightarrow> nodeGroup option go \<times> 'e world" where
  "FindForInstance ref vmtype w =
     (case convertResourceGroupNameToLower ref of
        Panic \<Rightarrow> (Panic, w)
      | Err e \<Rightarrow> (Err e, w)
      | Ok i \<Rightarrow>
          if map_of (unownedInstances (azCache w)) i = Some True then (Ok None, w)
          else if vmtype = VMTypeVMSS \<and> getVMsPoolMap w = [] \<and> areAllScaleSetsUniform w \<and>
                  matchSeq virtualMachineRE i \<noteq> None
          then (Ok None, markUnowned i w)
          else if vmtype = VMTypeStandard \<and> matchSeq virtualMachineRE i = None
          then (Ok None, markUnowned i w)
          else (Ok (getInstanceFromCache i w), w))"

definition setInstanceStateByProviderID :: "string \<Rightarrow> instanceState \<Rightarrow> 'e world \<Rightarrow> 'e world" where
  "setInstanceStateByProviderID providerID state w =
     (case convertResourceGroupNameToLower providerID of
        Ok resourceID \<Rightarrow>
          (case findFold resourceID (instanceToNodeGroup (azCache w)) of
             None \<Rightarrow> w
           | Some (instanceID, _) \<Rightarrow>
               updCache (\<lambda>c. c\<lparr>instanceStates := mapSet instanceID state (instanceStates c)\<rparr>) w)
      | _ \<Rightarrow> w)"

text \<open>\<open>AzureManager.GetNodeGroupForInstance\<close>, and the test of the three \<open>Belongs\<close> methods built on it.\<close>

definition GetNodeGroupForInstance :: "string \<Rightarrow> 'e world \<Rightarrow> nodeGroup option go \<times> 'e world" where
  "GetNodeGroupForInstance ref w = FindForInstance ref (VMType (provider (config w))) w"

definition belongsTo :: "string \<Rightarrow> string \<Rightarrow> k8sNode \<Rightarrow> 'e world \<Rightarrow> bool go \<times> 'e world" where
  "belongsTo unknown own node w =
     andThen (GetNodeGroupForInstance (node_ProviderID node) w) (\<lambda>target w1.
       case target of
         None \<Rightarrow> (Err (Errorf unknown [AStr (node_Name node)]), w1)
       | Some g \<Rightarrow> (Ok (strings_EqualFold (ngId w1 g) own), w1))"

section \<open>The registry\<close>

text \<open>
  What a client may conclude of a registry that keeps at most one element per key, where
  registering an element either changes nothing or makes it the element of its key.
\<close>

definition oneEach :: "('g \<Rightarrow> 'g \<Rightarrow> bool) \<Rightarrow> 'g list \<Rightarrow> bool" where
  "oneEach same gs \<longleftrightarrow> sorted_wrt (\<lambda>x y. \<not> same x y) gs"

lemma oneEach_filter: "oneEach same gs \<Longrightarrow> oneEach same (filter P gs)"
  by (simp add: oneEach_def sorted_wrt_filter)

locale registry =
  fixes same :: "'g \<Rightarrow> 'g \<Rightarrow> bool"
    and insertR :: "'g \<Rightarrow> 'g list \<Rightarrow> 'g list"
    and removeR :: "'g \<Rightarrow> 'g list \<Rightarrow> 'g list"
  assumes equiv: "equivp same"
    and insert_mem: "x \<in> set (insertR g gs) \<Longrightarrow> x = g \<or> x \<in> set gs"
    and insert_has: "\<exists>x \<in> set (insertR g gs). same x g"
    and insert_keeps: "x \<in> set gs \<Longrightarrow> \<not> same x g \<Longrightarrow> x \<in> set (insertR g gs)"
    and insert_distinct: "oneEach same gs \<Longrightarrow> oneEach same (insertR g gs)"
    and remove_set: "set (removeR g gs) = {x \<in> set gs. \<not> same x g}"
    and remove_distinct: "oneEach same gs \<Longrightarrow> oneEach same (removeR g gs)"
begin

lemma oneEach_unique: "oneEach same gs \<Longrightarrow> x \<in> set gs \<Longrightarrow> y \<in> set gs \<Longrightarrow> same x y \<Longrightarrow> x = y"
proof (induction gs)
  case Nil
  then show ?case by simp
next
  case (Cons a gs)
  have sym: "same x y \<Longrightarrow> same y x" for x y using equiv by (simp add: equivp_symp)
  from Cons show ?case using sym by (auto simp: oneEach_def)
qed

lemma oneEach_fold_insert: "oneEach same gs \<Longrightarrow> oneEach same (fold insertR xs gs)"
  by (induction xs arbitrary: gs) (simp_all add: insert_distinct)

lemma keys_fold_insert:
  "(\<exists>x \<in> set (fold insertR xs gs). same x g) \<longleftrightarrow> (\<exists>x \<in> set xs. same x g) \<or> (\<exists>x \<in> set gs. same x g)"
proof (induction xs arbitrary: gs)
  case Nil
  then show ?case by simp
next
  case (Cons a xs)
  have "(\<exists>x \<in> set (insertR a gs). same x g) \<longleftrightarrow> same a g \<or> (\<exists>x \<in> set gs. same x g)"
  proof
    assume "\<exists>x \<in> set (insertR a gs). same x g"
    then show "same a g \<or> (\<exists>x \<in> set gs. same x g)" using insert_mem by blast
  next
    assume r: "same a g \<or> (\<exists>x \<in> set gs. same x g)"
    obtain y where y: "y \<in> set (insertR a gs)" "same y a" using insert_has by blast
    show "\<exists>x \<in> set (insertR a gs). same x g"
    proof (cases "same a g")
      case True
      with y show ?thesis using equivp_transp [OF equiv] by blast
    next
      case False
      with r obtain x where x: "x \<in> set gs" "same x g" by blast
      then have "\<not> same x a" using False equivp_transp [OF equiv] equivp_symp [OF equiv] by blast
      with x show ?thesis using insert_keeps by blast
    qed
  qed
  with Cons show ?case by auto
qed

lemma absent_after_remove: "\<not> (\<exists>x \<in> set (removeR g gs). same x g)"
  by (simp add: remove_set)

end

lemma equivp_sameId: "equivp (sameId w)"
  by (rule equivpI) (auto simp: reflp_def symp_def transp_def sameId_def strings_EqualFold_def)

lemma registerLoop_set:
  "x \<in> set (snd (registerLoop w ng gs)) \<Longrightarrow> x = ng \<or> x \<in> set gs"
  by (induction gs) (auto split: prod.splits if_splits)

lemma registerLoop_has: "\<exists>x \<in> set (snd (registerLoop w ng gs)). sameId w x ng"
  by (induction gs) (auto simp: sameId_def split: prod.splits if_splits)

lemma registerLoop_keeps:
  "x \<in> set gs \<Longrightarrow> \<not> sameId w x ng \<Longrightarrow> x \<in> set (snd (registerLoop w ng gs))"
  by (induction gs) (auto split: prod.splits if_splits)

lemma registerLoop_distinct:
  "oneEach (sameId w) gs \<Longrightarrow> oneEach (sameId w) (snd (registerLoop w ng gs))"
proof (induction gs)
  case Nil
  then show ?case by (simp add: oneEach_def)
next
  case (Cons g gs)
  show ?case
  proof (cases "sameId w g ng")
    case True
    then have "sameId w ng y \<Longrightarrow> sameId w g y" for y
      by (simp add: sameId_def strings_EqualFold_def)
    with Cons True show ?thesis by (auto simp: oneEach_def)
  next
    case False
    then have "\<forall>x \<in> set (snd (registerLoop w ng gs)). \<not> sameId w g x"
      using Cons.prems registerLoop_set by (fastforce simp: oneEach_def)
    with False Cons show ?thesis by (auto simp: oneEach_def split: prod.splits)
  qed
qed

interpretation reg: registry "sameId w" "\<lambda>g gs. snd (registerLoop w g gs)"
  "\<lambda>g gs. filter (\<lambda>x. \<not> sameId w x g) gs" for w :: "'e world"
  by unfold_locales
    (auto simp: equivp_sameId registerLoop_has registerLoop_keeps registerLoop_distinct 
      intro: oneEach_filter dest: registerLoop_set)

definition distinctGroups :: "'e world \<Rightarrow> bool" where
  "distinctGroups w \<longleftrightarrow> oneEach (sameId w) (registeredNodeGroups (azCache w))"

lemma registerLoop_unchanged:
  "registerLoop w ng gs = (False, ys) \<Longrightarrow> ys = gs \<and> (\<exists>x \<in> set gs. sameId w x ng \<and> sameSizes w x ng)"
  by (induction gs arbitrary: ys) (auto split: prod.splits if_splits)

lemma registerLoop_changed:
  "registerLoop w ng gs = (True, ys) \<Longrightarrow> ng \<in> set ys"
  by (induction gs arbitrary: ys) (auto split: prod.splits if_splits)

lemma ngId_updCache [simp]:
  "ngId (updCache f w) = ngId w" "ngMinSize (updCache f w) = ngMinSize w"
  "ngMaxSize (updCache f w) = ngMaxSize w"
  by (auto simp: fun_eq_iff ngId_def ngMinSize_def ngMaxSize_def updCache_def split: nodeGroup.splits)

lemma sameId_updCache [simp]: "sameId (updCache f w) = sameId w"
  by (simp add: fun_eq_iff sameId_def)

lemma Register_groups:
  "registeredNodeGroups (azCache (snd (Register ng w))) =
     snd (registerLoop w ng (registeredNodeGroups (azCache w)))"
  by (auto simp: Register_def updCache_def invalidateUnownedInstanceCache_def
      dest: registerLoop_unchanged split: prod.splits)

lemma sameId_Register [simp]: "sameId (snd (Register ng w)) = sameId w"
  by (auto simp: Register_def invalidateUnownedInstanceCache_def split: prod.splits)

lemma Unregister_groups:
  "registeredNodeGroups (azCache (snd (Unregister ng w))) =
     filter (\<lambda>x. \<not> sameId w x ng) (registeredNodeGroups (azCache w))"
  by (simp add: Unregister_def Let_def)

lemma fst_Unregister:
  "fst (Unregister ng w) \<longleftrightarrow> (\<exists>x \<in> set (registeredNodeGroups (azCache w)). sameId w x ng)"
  by (simp add: Unregister_def Let_def list_ex_iff)

lemma sameId_Unregister [simp]: "sameId (snd (Unregister ng w)) = sameId w"
  by (simp add: Unregister_def Let_def)

section \<open>Facts on the look-ups of instances\<close>

text \<open>No two keys are equal up to case, as \<open>regenerate\<close> builds the map from normalised identifiers.\<close>

definition foldDistinct :: "(string, 'v) gomap \<Rightarrow> bool" where
  "foldDistinct m \<longleftrightarrow> distinct (map strings_ToLower (keys m))"

lemma findFold_mem: "findFold i m = Some (k, v) \<Longrightarrow> (k, v) \<in> set m \<and> strings_EqualFold k i"
  by (induction i m rule: findFold.induct) (auto split: if_splits)

lemma findFold_None: "findFold i m = None \<longleftrightarrow> (\<forall>k \<in> set (keys m). \<not> strings_EqualFold k i)"
  by (induction i m rule: findFold.induct) (auto simp: keys_def)

lemma findFold_iff:
  "foldDistinct m \<Longrightarrow> findFold i m = Some (k, v) \<longleftrightarrow> (k, v) \<in> set m \<and> strings_EqualFold k i"
proof (induction i m rule: findFold.induct)
  case (1 i)
  then show ?case by simp
next
  case (2 i k' v' m)
  have "strings_EqualFold k' i \<Longrightarrow> (k, v) \<in> set m \<Longrightarrow> \<not> strings_EqualFold k i"
    using "2.prems" by (force simp: foldDistinct_def keys_def strings_EqualFold_def)
  with 2 show ?case by (auto simp: foldDistinct_def keys_def)
qed

lemma findFold_EqualFold: "strings_EqualFold i j \<Longrightarrow> findFold i m = findFold j m"
  by (induction i m rule: findFold.induct) (auto simp: strings_EqualFold_def)

text \<open>The answer of a look-up does not depend on the order in which the map is visited.\<close>

lemma findFold_order:
  assumes "set m = set m'" and "foldDistinct m" and "foldDistinct m'"
  shows "findFold i m = findFold i m'"
proof (cases "findFold i m")
  case None
  then show ?thesis using assms(1) findFold_None [of i m] findFold_None [of i m']
    by (auto simp: keys_def)
next
  case (Some kv)
  then show ?thesis using assms findFold_iff by (metis surj_pair)
qed

lemma convert_not_Panic [simp]: "convertResourceGroupNameToLower s \<noteq> Panic"
  by (auto simp: convertResourceGroupNameToLower_def split: option.splits list.splits)

lemma HasInstance_mark:
  assumes "convertResourceGroupNameToLower p = Ok r"
    and "findFold r (instanceToNodeGroup (azCache w)) \<noteq> None"
  shows "HasInstance p (setInstanceStateByProviderID p InstanceDeleting w) = Ok False"
    and "convertResourceGroupNameToLower q = Ok r' \<Longrightarrow> \<not> strings_EqualFold r' r \<Longrightarrow>
      HasInstance q (setInstanceStateByProviderID p s w) = HasInstance q w"
proof -
  obtain k v where k: "findFold r (instanceToNodeGroup (azCache w)) = Some (k, v)" using assms(2) by auto
  show "HasInstance p (setInstanceStateByProviderID p InstanceDeleting w) = Ok False"
    using assms(1) k by (simp add: HasInstance_def setInstanceStateByProviderID_def updCache_def map_of_mapSet)
  assume q: "convertResourceGroupNameToLower q = Ok r'" "\<not> strings_EqualFold r' r"
  show "HasInstance q (setInstanceStateByProviderID p s w) = HasInstance q w"
  proof (cases "findFold r' (instanceToNodeGroup (azCache w))")
    case None
    with assms(1) k q show ?thesis by (simp add: HasInstance_def setInstanceStateByProviderID_def updCache_def)
  next
    case (Some kv)
    obtain k' v' where k': "findFold r' (instanceToNodeGroup (azCache w)) = Some (k', v')" using Some by (cases kv) auto
    have "k' \<noteq> k" using findFold_mem [OF k] findFold_mem [OF k'] q(2) by (auto simp: strings_EqualFold_def)
    with assms(1) k k' q show ?thesis
      by (simp add: HasInstance_def setInstanceStateByProviderID_def updCache_def map_of_mapSet)
  qed
qed

section \<open>Facts on the fetched resources\<close>

lemma vmsOf_addToPool:
  "vmsOf (addToPool vm m) n = vmsOf m n @ (if vmPoolName vm = Some n then [vm] else [])"
  by (auto simp: addToPool_def vmsOf_def map_of_mapSet split: option.splits)

lemma vmsOf_fold_addToPool:
  "vmsOf (fold addToPool vms m) n = vmsOf m n @ filter (\<lambda>vm. vmPoolName vm = Some n) vms"
  by (induction vms arbitrary: m) (simp_all add: vmsOf_addToPool)

lemma storeScaleSets_store:
  assumes "storeScaleSets xs sets w = (r, w')"
  shows "vmssNext w \<le> vmssNext w'" and "v < vmssNext w \<Longrightarrow> vmssAt w' v = vmssAt w v"
    and "w' = w\<lparr>vmssAt := vmssAt w', vmssNext := vmssNext w'\<rparr>"
proof -
  have "vmssNext w \<le> vmssNext w' \<and> (\<forall>v < vmssNext w. vmssAt w' v = vmssAt w v) \<and>
      w' = w\<lparr>vmssAt := vmssAt w', vmssNext := vmssNext w'\<rparr>"
    using assms
  proof (induction xs arbitrary: sets w)
    case (Cons x xs)
    show ?case
    proof (cases "vmss_Name x")
      case None
      with Cons.prems show ?thesis by simp
    next
      case (Some n)
      with Cons.prems have "storeScaleSets xs (mapSet n (vmssNext w) sets)
        (w\<lparr>vmssAt := (vmssAt w)(vmssNext w := x), vmssNext := Suc (vmssNext w)\<rparr>) = (r, w')"
        by (simp add: allocVMSS_def)
      from Cons.IH [OF this] show ?thesis by (simp add: less_Suc_eq)
    qed
  qed simp
  then show "vmssNext w \<le> vmssNext w'" "v < vmssNext w \<Longrightarrow> vmssAt w' v = vmssAt w v"
    "w' = w\<lparr>vmssAt := vmssAt w', vmssNext := vmssNext w'\<rparr>" by blast+
qed

text \<open>Every cached scale set is an allocated object that carries the name it is found under.\<close>

definition namedSets :: "'e world \<Rightarrow> (string, addr) gomap \<Rightarrow> bool" where
  "namedSets w sets \<longleftrightarrow>
     wfMap sets \<and> (\<forall>(n, v) \<in> set sets. v < vmssNext w \<and> vmss_Name (vmssAt w v) = Some n)"

lemma set_mapSet: "wfMap m \<Longrightarrow> set (mapSet k v m) = insert (k, v) {p \<in> set m. fst p \<noteq> k}"
proof (induction m)
  case (Cons p m)
  then show ?case by (cases p) (force simp: wfMap_def keys_def)
qed simp

lemma storeScaleSets_named:
  "storeScaleSets xs sets w = (Ok sets', w') \<Longrightarrow> namedSets w sets \<Longrightarrow> namedSets w' sets'"
proof (induction xs arbitrary: sets w)
  case Nil
  then show ?case by simp
next
  case (Cons x xs)
  then obtain n where n: "vmss_Name x = Some n" by (auto split: option.splits)
  let ?w = "w\<lparr>vmssAt := (vmssAt w)(vmssNext w := x), vmssNext := Suc (vmssNext w)\<rparr>"
  have "namedSets ?w (mapSet n (vmssNext w) sets)"
    using Cons.prems(2) n by (fastforce simp: namedSets_def wfMap_mapSet set_mapSet)
  moreover have "storeScaleSets xs (mapSet n (vmssNext w) sets) ?w = (Ok sets', w')"
    using Cons.prems(1) n by (simp add: allocVMSS_def)
  ultimately show ?case by (rule Cons.IH [rotated])
qed

section \<open>Sample worlds\<close>

definition twoInstances :: "(string, nodeGroup) gomap" where
  "twoInstances = [(''b'', ScaleSetRef 0), (sampleIDLower, ScaleSetRef 0)]"

definition twoInstancesWorld :: "int world" where
  "twoInstancesWorld = updCache (\<lambda>c. c\<lparr>instanceToNodeGroup := twoInstances\<rparr>) sampleWorld"

section \<open>Properties\<close>

text \<open>
  Registering a node group keeps at most one group per identifier (up to case), leaves a
  group with the new identifier and exactly the new minimum and maximum sizes in the registry,
  and drops no group with another identifier.
\<close>

theorem Register_registry:
  assumes "distinctGroups w"
  shows "distinctGroups (snd (Register ng w)) \<and>
    (\<exists>x \<in> set (registeredNodeGroups (azCache (snd (Register ng w)))).
       sameId w x ng \<and> sameSizes w x ng) \<and>
    (\<forall>x \<in> set (registeredNodeGroups (azCache w)).
       \<not> sameId w x ng \<longrightarrow> x \<in> set (registeredNodeGroups (azCache (snd (Register ng w)))))"
proof (intro conjI)
  show "distinctGroups (snd (Register ng w))"
    using assms by (simp add: distinctGroups_def Register_groups reg.insert_distinct)
  show "\<exists>x \<in> set (registeredNodeGroups (azCache (snd (Register ng w)))). sameId w x ng \<and> sameSizes w x ng"
  proof (cases "registerLoop w ng (registeredNodeGroups (azCache w))")
    case (Pair c ys)
    have "sameId w ng ng \<and> sameSizes w ng ng" by (simp add: sameId_def sameSizes_def)
    with Pair show ?thesis
      using registerLoop_changed registerLoop_unchanged by (cases c) (fastforce simp: Register_groups)+
  qed
  show "\<forall>x \<in> set (registeredNodeGroups (azCache w)). \<not> sameId w x ng \<longrightarrow>
      x \<in> set (registeredNodeGroups (azCache (snd (Register ng w))))"
    by (simp add: Register_groups reg.insert_keeps)
qed

theorem Register_registry_witness: "distinctGroups (snd (Register (AgentPoolRef 0) sampleWorld))"
  using Register_registry [of sampleWorld "AgentPoolRef 0"] by (simp add: distinctGroups_def oneEach_def)

text \<open>
  Unregistering a node group removes every group with its identifier, reports whether there
  was one, keeps all others in their order, and keeps at most one group per identifier.
\<close>

theorem Unregister_registry:
  assumes "distinctGroups w"
  shows "distinctGroups (snd (Unregister ng w)) \<and>
    (fst (Unregister ng w) \<longleftrightarrow> (\<exists>x \<in> set (registeredNodeGroups (azCache w)). sameId w x ng)) \<and>
    set (registeredNodeGroups (azCache (snd (Unregister ng w)))) =
      {x \<in> set (registeredNodeGroups (azCache w)). \<not> sameId w x ng}"
  using assms reg.remove_distinct [of w]
  by (simp add: distinctGroups_def Unregister_groups fst_Unregister)

theorem Unregister_registry_witness:
  "distinctGroups (snd (Unregister (ScaleSetRef 0) sampleWorld)) \<and> fst (Unregister (ScaleSetRef 0) sampleWorld)"
  using Unregister_registry [of sampleWorld "ScaleSetRef 0"]
  by (simp add: distinctGroups_def oneEach_def sameId_def)

text \<open>
  Whether an instance exists does not depend on the order in which the map of the instances
  is visited, as long as no two of its keys are equal up to case.
\<close>

theorem HasInstance_order:
  assumes "set (instanceToNodeGroup (azCache w)) = set m" 
    and "foldDistinct (instanceToNodeGroup (azCache w))" and "foldDistinct m"
  shows "HasInstance p (updCache (\<lambda>c. c\<lparr>instanceToNodeGroup := m\<rparr>) w) = HasInstance p w"
  using findFold_order [OF assms]
  by (cases "convertResourceGroupNameToLower p") (simp_all add: HasInstance_def updCache_def split: option.splits)

theorem HasInstance_order_witness:
  "HasInstance sampleID (updCache (\<lambda>c. c\<lparr>instanceToNodeGroup := rev twoInstances\<rparr>) twoInstancesWorld) =
   HasInstance sampleID twoInstancesWorld"
proof (rule HasInstance_order)
  show "foldDistinct (rev twoInstances)" unfolding twoInstances_def by code_simp
  show "foldDistinct (instanceToNodeGroup (azCache twoInstancesWorld))"
    unfolding twoInstancesWorld_def twoInstances_def by code_simp
qed (simp add: twoInstancesWorld_def)

text \<open>
  Once an instance is marked as being deleted, \<open>HasInstance\<close> reports it as gone, whatever the
  case of its identifier, and the answer for every other instance is unchanged.
\<close>

theorem HasInstance_after_mark:
  assumes "convertResourceGroupNameToLower p = Ok r"
    and "findFold r (instanceToNodeGroup (azCache w)) \<noteq> None"
    and "convertResourceGroupNameToLower q = Ok r'"
  shows "HasInstance q (setInstanceStateByProviderID p InstanceDeleting w) =
    (if strings_EqualFold r' r then Ok False else HasInstance q w)"
proof (cases "strings_EqualFold r' r")
  case True
  have "HasInstance q w' = HasInstance p w'" for w' :: "'a world"
    using assms(1,3) by (simp add: HasInstance_def findFold_EqualFold [OF True])
  then show ?thesis using HasInstance_mark(1) [OF assms(1,2)] True by simp
next
  case False
  then show ?thesis using HasInstance_mark(2) [OF assms] by simp
qed

theorem HasInstance_after_mark_witness:
  "HasInstance sampleID (setInstanceStateByProviderID sampleID InstanceDeleting twoInstancesWorld) = Ok False"
proof -
  have "findFold sampleIDLower (instanceToNodeGroup (azCache twoInstancesWorld)) \<noteq> None"
    by (simp add: twoInstancesWorld_def twoInstances_def)
  from HasInstance_after_mark [OF convert_sampleID this convert_sampleID] show ?thesis by simp
qed

text \<open>
  The virtual machines of a pool are exactly those of the response whose pool tag (the new
  tag, else the legacy one) names it, in the order of the response.
\<close>

theorem fetchVirtualMachines_groups:
  assumes "vmList az (resourceGroup (azCache w)) (env w) = (Inr vms, e)"
  shows "\<exists>m. fetchVirtualMachines az w = (Ok m, w\<lparr>env := e\<rparr>) \<and>
    (\<forall>n. vmsOf m n = filter (\<lambda>vm. vmPoolName vm = Some n) vms)"
  using assms
  by (simp add: fetchVirtualMachines_def callGo_def call_def liftSum_def vmsOf_fold_addToPool)
    (simp add: vmsOf_def)

theorem fetchVirtualMachines_groups_witness:
  "\<exists>m. fetchVirtualMachines sampleClient sampleWorld = (Ok m, sampleWorld\<lparr>env := 1000\<rparr>) \<and>
    (\<forall>n. vmsOf m n = filter (\<lambda>vm. vmPoolName vm = Some n) [])"
  by (rule fetchVirtualMachines_groups) (simp add: sampleClient_def)

end
