(* ===== verification/Instance_Status.thy ===== *)
theory Instance_Status
  imports Azure_Cache
begin

text \<open>
  The translation of the state of a virtual machine into a \<open>cloudprovider.InstanceStatus\<close>: the
  two status functions of \<open>azure_scale_set.go\<close> and \<open>azure_scale_set_instance_cache.go\<close>, which
  the sources ask to unify, the errors of the CSE extension, and the instance list of a
  flexible scale set.
\<close>

definition VMProvisioningStateCreating :: string where "VMProvisioningStateCreating = ''Creating''"
definition VMProvisioningStateDeleting :: string where "VMProvisioningStateDeleting = ''Deleting''"
definition VMProvisioningStateFailed :: string where "VMProvisioningStateFailed = ''Failed''"
definition provisioningStateUpdating :: string where "provisioningStateUpdating = ''Updating''"
definition vmssCSEExtensionName :: string where "vmssCSEExtensionName = ''vmssCSE''"
definition vmssExtensionProvisioningFailed :: string where
  "vmssExtensionProvisioningFailed = ''VMExtensionProvisioningFailed''"

lemmas provisioning_defs = VMProvisioningStateCreating_def VMProvisioningStateDeleting_def
  VMProvisioningStateFailed_def provisioningStateUpdating_def

definition provisioningFailedInfo :: instanceErrorInfo where
  "provisioningFailedInfo =
     \<lparr>errClass = OutOfResourcesErrorClass, errCode = ''provisioning-state-failed'',
      errMessage = ''Azure failed to provision a node for this node group''\<rparr>"

text \<open>The argument \<open>resourceID\<close> of the source is only logged.\<close>

definition instanceStatusFromProvisioningStateAndPowerState ::
  "string option \<Rightarrow> string \<Rightarrow> bool \<Rightarrow> instanceStatus option" where
  "instanceStatusFromProvisioningStateAndPowerState provisioningState powerState fastDelete =
     (case provisioningState of
        None \<Rightarrow> None
      | Some st \<Rightarrow>
          if st = VMProvisioningStateDeleting then Some \<lparr>State = InstanceDeleting, ErrorInfo = None\<rparr>
          else if st = VMProvisioningStateCreating then Some \<lparr>State = InstanceCreating, ErrorInfo = None\<rparr>
          else if st = VMProvisioningStateFailed then
            if fastDelete \<and> \<not> isRunningVmPowerState powerState
            then Some \<lparr>State = InstanceCreating, ErrorInfo = Some provisioningFailedInfo\<rparr>
            else Some \<lparr>State = InstanceRunning, ErrorInfo = None\<rparr>
          else Some \<lparr>State = InstanceRunning, ErrorInfo = None\<rparr>)"

text \<open>The error messages of the CSE extension; the flag tells whether there is one.\<close>

fun cseStatusErrors :: "viewStatus list \<Rightarrow> string list" where
  "cseStatusErrors [] = []"
| "cseStatusErrors (s # ss) =
     (if Level s = Some StatusLevelTypesError then derefStr (Message s) # cseStatusErrors ss
      else cseStatusErrors ss)"

fun cseErrors :: "extensionView list \<Rightarrow> string list \<times> bool" where
  "cseErrors [] = ([], False)"
| "cseErrors (x # xs) =
     (case cseErrors xs of
        (errs, failed) \<Rightarrow>
          if strings_EqualFold (derefStr (ext_Name x)) vmssCSEExtensionName
          then (cseStatusErrors (ext_Statuses x) @ errs, cseStatusErrors (ext_Statuses x) \<noteq> [] \<or> failed)
          else (errs, failed))"

text \<open>\<open>%v\<close> of a slice of strings\<close>

definition fmtStrings :: "string list \<Rightarrow> string" where
  "fmtStrings xs = ''['' @ strings_Join xs '' '' @ '']''"

definition cachedStatus :: "string \<Rightarrow> inst list \<Rightarrow> instanceStatus option" where
  "cachedStatus providerID cache =
     (case find (\<lambda>i. Id i = providerID) cache of None \<Rightarrow> None | Some i \<Rightarrow> Status i)"

text \<open>The power state of a VM of a uniform scale set: running without an instance view.\<close>

definition ssvmPowerState :: "instanceView option \<Rightarrow> string" where
  "ssvmPowerState iv =
     (case iv of
        None \<Rightarrow> vmPowerStateRunning
      | Some v \<Rightarrow> (case Statuses v of
                      Some (s # ss) \<Rightarrow> vmPowerStateFromStatuses (s # ss)
                    | _ \<Rightarrow> vmPowerStateUnknown))"

definition addCSEError :: "scaleSet \<Rightarrow> scaleSetVM \<Rightarrow> instanceView option \<Rightarrow> instanceStatus \<Rightarrow> instanceStatus" where
  "addCSEError ss vm iv st =
     (case iv of
        None \<Rightarrow> st
      | Some v \<Rightarrow>
          if enableDetailedCSEMessage ss then
            (case cseErrors (Extensions v) of
               (errs, failed) \<Rightarrow>
                 if failed then
                   \<lparr>State = InstanceCreating,
                    ErrorInfo = Some \<lparr>errClass = OtherErrorClass, errCode = vmssExtensionProvisioningFailed,
                      errMessage = derefStr (ssvm_Name vm) @ '': '' @ fmtStrings errs\<rparr>\<rparr>
                 else st)
          else st)"

definition instanceStatusFromVM :: "scaleSet \<Rightarrow> scaleSetVM \<Rightarrow> instanceStatus option go" where
  "instanceStatusFromVM ss vm =
     (let fromCache =
            (case ssvm_ID vm of
               None \<Rightarrow> Panic
             | Some i \<Rightarrow>
                 let resourceID = (case convertResourceGroupNameToLower i of Ok r \<Rightarrow> r | _ \<Rightarrow> [])
                 in Ok (cachedStatus (azurePrefix @ resourceID) (instanceCache ss)))
      in case ssvm_Properties vm of
           None \<Rightarrow> fromCache
         | Some pr \<Rightarrow>
             (case ssvm_ProvisioningState pr of
                None \<Rightarrow> fromCache
              | Some st \<Rightarrow>
                  if st = provisioningStateUpdating then fromCache
                  else
                    let powerState = ssvmPowerState (ssvm_InstanceView pr);
                        status =
                          (if st = VMProvisioningStateDeleting then \<lparr>State = InstanceDeleting, ErrorInfo = None\<rparr>
                           else if st = VMProvisioningStateCreating then \<lparr>State = InstanceCreating, ErrorInfo = None\<rparr>
                           else if st = VMProvisioningStateFailed then
                             if enableFastDeleteOnFailedProvisioning ss then
                               if \<not> isRunningVmPowerState powerState
                               then \<lparr>State = InstanceCreating, ErrorInfo = Some provisioningFailedInfo\<rparr>
                               else \<lparr>State = InstanceRunning, ErrorInfo = None\<rparr>
                             else \<lparr>State = InstanceRunning, ErrorInfo = None\<rparr>
                           else \<lparr>State = InstanceRunning, ErrorInfo = None\<rparr>)
                    in Ok (Some (addCSEError ss vm (ssvm_InstanceView pr) status))))"

section \<open>The instances of a flexible scale set\<close>

definition addVMToCache ::
  "inst list \<Rightarrow> string option \<Rightarrow> string option \<Rightarrow> string \<Rightarrow> bool \<Rightarrow> inst list go" where
  "addVMToCache instances i provisioningState powerState fastDelete =
     (case i of
        None \<Rightarrow> Panic
      | Some s \<Rightarrow>
          if length s = 0 then Ok instances
          else case convertResourceGroupNameToLower s of
                 Ok resourceID \<Rightarrow>
                   Ok (instances @ [\<lparr>Id = azurePrefix @ resourceID,
                     Status = instanceStatusFromProvisioningStateAndPowerState
                                provisioningState powerState fastDelete\<rparr>])
               | _ \<Rightarrow> Ok instances)"

definition vmStatuses :: "virtualMachine \<Rightarrow> viewStatus list option" where
  "vmStatuses vm =
     (case vm_Properties vm of
        None \<Rightarrow> None
      | Some pr \<Rightarrow> (case vm_InstanceView pr of None \<Rightarrow> None | Some v \<Rightarrow> Statuses v))"

definition vmProvisioningState :: "virtualMachine \<Rightarrow> string option" where
  "vmProvisioningState vm =
     (case vm_Properties vm of None \<Rightarrow> None | Some pr \<Rightarrow> vm_ProvisioningState pr)"

fun flexLoop :: "virtualMachine list \<Rightarrow> bool \<Rightarrow> inst list \<Rightarrow> inst list go" where
  "flexLoop [] fastDelete instances = Ok instances"
| "flexLoop (vm # vms) fastDelete instances =
     (let powerState = (case vmStatuses vm of
                          None \<Rightarrow> vmPowerStateRunning
                        | Some ss \<Rightarrow> vmPowerStateFromStatuses ss)
      in case addVMToCache instances (vm_ID vm) (vmProvisioningState vm) powerState fastDelete of
           Ok instances' \<Rightarrow> flexLoop vms fastDelete instances'
         | Err e \<Rightarrow> Err e
         | Panic \<Rightarrow> Panic)"

definition buildInstanceCacheForFlex :: "virtualMachine list \<Rightarrow> bool \<Rightarrow> inst list go" where
  "buildInstanceCacheForFlex vms fastDelete = flexLoop vms fastDelete []"

section \<open>Facts\<close>

lemma cseErrors_flag: "cseErrors xs = (errs, failed) \<Longrightarrow> failed \<longleftrightarrow> errs \<noteq> []"
  by (induction xs arbitrary: errs failed) (auto split: prod.splits if_splits)

text \<open>The identifier an instance gets in the cache.\<close>

definition instanceIdOf :: "string option \<Rightarrow> string option" where
  "instanceIdOf i =
     (case i of
        None \<Rightarrow> None
      | Some s \<Rightarrow> if s = [] then None
                  else (case convertResourceGroupNameToLower s of Ok r \<Rightarrow> Some (azurePrefix @ r) | _ \<Rightarrow> None))"

lemma flexLoop_ids:
  "flexLoop vms fast acc = Ok out \<Longrightarrow>
     map Id out = map Id acc @ List.map_filter (\<lambda>vm. instanceIdOf (vm_ID vm)) vms"
proof (induction vms arbitrary: acc)
  case Nil
  then show ?case by (simp add: List.map_filter_simps)
next
  case (Cons vm vms)
  then show ?case
    by (auto simp: addVMToCache_def instanceIdOf_def Let_def List.map_filter_simps split: option.splits go.splits if_splits)
qed

lemma flexLoop_total:
  "list_all (\<lambda>vm. vm_ID vm \<noteq> None) vms \<Longrightarrow> \<exists>out. flexLoop vms fast acc = Ok out"
  by (induction vms arbitrary: acc) (auto simp: addVMToCache_def Let_def split: option.splits go.splits)

definition failedVM :: scaleSetVM where
  "failedVM = \<lparr>ssvm_ID = Some sampleID, ssvm_Name = None,
     ssvm_Properties = Some \<lparr>ssvm_ProvisioningState = Some VMProvisioningStateFailed, ssvm_InstanceView = None\<rparr>\<rparr>"

section \<open>Properties\<close>

text \<open>
  C18. On a provisioning state that is not \<open>Updating\<close>, and without detailed CSE messages, the
  status function of uniform scale sets agrees with the one of flexible scale sets and VMs
  pools: the two can be unified as the sources suggest.
\<close>

theorem status_functions_agree:
  assumes "ssvm_Properties vm = Some pr" and "ssvm_ProvisioningState pr = Some st"
    and "st \<noteq> provisioningStateUpdating" and "\<not> enableDetailedCSEMessage ss"
  shows "instanceStatusFromVM ss vm =
    Ok (instanceStatusFromProvisioningStateAndPowerState (Some st)
          (ssvmPowerState (ssvm_InstanceView pr)) (enableFastDeleteOnFailedProvisioning ss))"
  using assms
  by (auto simp: instanceStatusFromVM_def instanceStatusFromProvisioningStateAndPowerState_def
      addCSEError_def Let_def split: option.splits)

theorem status_functions_agree_witness:
  "instanceStatusFromVM sampleSet failedVM =
     Ok (instanceStatusFromProvisioningStateAndPowerState (Some VMProvisioningStateFailed)
           (ssvmPowerState None) (enableFastDeleteOnFailedProvisioning sampleSet))"
  using status_functions_agree [of failedVM "\<lparr>ssvm_ProvisioningState = Some VMProvisioningStateFailed,
      ssvm_InstanceView = None\<rparr>" VMProvisioningStateFailed sampleSet]
  by (simp add: failedVM_def provisioning_defs sampleSet_def)

text \<open>
  An instance is reported as a creation error of the out-of-resources class, which makes the
  autoscaler delete it, exactly when fast deletion is on, provisioning failed and the power
  state is known not to be running or starting.
\<close>

theorem fast_delete_condition:
  "(\<exists>st. instanceStatusFromProvisioningStateAndPowerState ps pw fast = Some st \<and>
      ErrorInfo st \<noteq> None) \<longleftrightarrow>
   fast \<and> ps = Some VMProvisioningStateFailed \<and> pw \<noteq> vmPowerStateRunning \<and> pw \<noteq> vmPowerStateStarting"
  by (auto simp: instanceStatusFromProvisioningStateAndPowerState_def isRunningVmPowerState_def
      provisioning_defs split: option.splits)

text \<open>
  A VM of a uniform scale set that is being updated, or has no provisioning state, keeps the
  status the instance cache has for it.
\<close>

theorem updating_keeps_cached_status:
  assumes "ssvm_ID vm = Some i" and "convertResourceGroupNameToLower i = Ok r"
    and "\<forall>pr st. ssvm_Properties vm = Some pr \<longrightarrow> ssvm_ProvisioningState pr = Some st \<longrightarrow>
      st = provisioningStateUpdating"
  shows "instanceStatusFromVM ss vm = Ok (cachedStatus (azurePrefix @ r) (instanceCache ss))"
  using assms by (auto simp: instanceStatusFromVM_def Let_def split: option.splits)

theorem updating_keeps_cached_status_witness:
  "instanceStatusFromVM sampleSet \<lparr>ssvm_ID = Some sampleID, ssvm_Name = None, ssvm_Properties = None\<rparr> =
     Ok (cachedStatus (azurePrefix @ sampleIDLower) (instanceCache sampleSet))"
  by (rule updating_keeps_cached_status [OF _ convert_sampleID]) simp_all

text \<open>
  The instance list of a flexible scale set is built whenever every VM has an identifier
  pointer, and its identifiers are the normalised identifiers of the VMs, in order, less the
  empty and malformed ones.
\<close>

theorem buildInstanceCacheForFlex_ids:
  assumes "list_all (\<lambda>vm. vm_ID vm \<noteq> None) vms"
  shows "\<exists>out. buildInstanceCacheForFlex vms fast = Ok out \<and>
    map Id out = List.map_filter (\<lambda>vm. instanceIdOf (vm_ID vm)) vms"
  using flexLoop_total [OF assms] flexLoop_ids [of vms fast "[]"]
  by (fastforce simp: buildInstanceCacheForFlex_def)

theorem buildInstanceCacheForFlex_ids_witness:
  "\<exists>out. buildInstanceCacheForFlex [\<lparr>vm_ID = Some sampleID, vm_Name = None, vm_Tags = [], vm_Properties = None\<rparr>] True = Ok out \<and>
    map Id out = List.map_filter (\<lambda>vm. instanceIdOf (vm_ID vm))
      [\<lparr>vm_ID = Some sampleID, vm_Name = None, vm_Tags = [], vm_Properties = None\<rparr>]"
  by (rule buildInstanceCacheForFlex_ids) simp

end
