(* ===== verification/Scale_Set.thy ===== *)
theory Scale_Set
  imports Instance_Status
begin

text \<open>
  \<open>azure_scale_set.go\<close> and \<open>azure_scale_set_instance_cache.go\<close>, less the deletion of instances:
  the size of a scale set and its cache, the capacity update with its ETag retry, the
  goroutine that waits for it, and the cache of the instances.

  The receiver of a method is the address of the scale set; \<open>vmssInfo\<close> is the address of the
  VMSS object in the cache, which is never nil since every entry of the cache was allocated
  from a response.
\<close>

section \<open>Construction\<close>

definition defaultVmssInstancesRefreshPeriod :: duration where
  "defaultVmssInstancesRefreshPeriod = 5 * minute"

definition NewScaleSet :: "nodeGroupSpec \<Rightarrow> int \<Rightarrow> bool \<Rightarrow> 'e world \<Rightarrow> addr \<times> 'e world" where
  "NewScaleSet spec sz dedicated w =
     (let cfg = config w;
          ss = \<lparr>ss_Name = spec_Name spec, ss_minSize = spec_MinSize spec, ss_maxSize = spec_MaxSize spec,
                enableForceDelete = EnableForceDelete cfg,
                enableDynamicInstanceList = EnableDynamicInstanceList cfg,
                enableDetailedCSEMessage = EnableDetailedCSEMessage cfg,
                curSize = sz,
                sizeRefreshPeriod = refreshInterval (azCache w),
                lastSizeRefresh = zeroTime,
                getVmssSizeRefreshPeriod =
                  (if GetVmssSizeRefreshPeriod cfg \<noteq> 0 then seconds (GetVmssSizeRefreshPeriod cfg)
                   else refreshInterval (azCache w)),
                instanceCache = [],
                instancesRefreshPeriod =
                  (if VmssVirtualMachinesCacheTTLInSeconds (provider cfg) \<noteq> 0
                   then seconds (VmssVirtualMachinesCacheTTLInSeconds (provider cfg))
                   else defaultVmssInstancesRefreshPeriod),
                lastInstanceRefresh = zeroTime,
                instancesRefreshJitter = VmssVmsCacheJitter cfg,
                dedicatedHost = dedicated,
                enableFastDeleteOnFailedProvisioning = EnableFastDeleteOnFailedProvisioning cfg,
                enableLabelPredictionsOnTemplate = EnableLabelPredictionsOnTemplate cfg\<rparr>
      in (ssNext w, w\<lparr>ssAt := (ssAt w)(ssNext w := ss), ssNext := Suc (ssNext w)\<rparr>))"

section \<open>Invalidation\<close>

text \<open>\<open>AzureManager.invalidateCache\<close>\<close>

definition invalidateCache :: "'e azClient \<Rightarrow> 'e world \<Rightarrow> 'e world" where
  "invalidateCache az w = w\<lparr>lastRefresh := now az w - refreshInterval (azCache w)\<rparr>"

definition invalidateInstanceCache :: "'e azClient \<Rightarrow> addr \<Rightarrow> 'e world \<Rightarrow> 'e world" where
  "invalidateInstanceCache az p w =
     updSS p (\<lambda>s. s\<lparr>lastInstanceRefresh := now az w - instancesRefreshPeriod s\<rparr>) w"

definition invalidateLastSizeRefresh :: "'e azClient \<Rightarrow> addr \<Rightarrow> 'e world \<Rightarrow> 'e world" where
  "invalidateLastSizeRefresh az p w =
     updSS p (\<lambda>s. s\<lparr>lastSizeRefresh := now az w - sizeRefreshPeriod s\<rparr>) w"

definition invalidateForPreconditionFailure :: "'e azClient \<Rightarrow> addr \<Rightarrow> 'e world \<Rightarrow> 'e world" where
  "invalidateForPreconditionFailure az p w =
     invalidateCache az (invalidateLastSizeRefresh az p (invalidateInstanceCache az p w))"

section \<open>The size\<close>

record GetVMSSFailedError =
  notFound :: bool
  vmssError :: goerror

definition getVMSSFromCache :: "addr \<Rightarrow> 'e world \<Rightarrow> addr go" where
  "getVMSSFromCache p w =
     (case map_of (getScaleSets w) (ss_Name (ssAt w p)) of
        None \<Rightarrow> Err (Errorf ''could not find vmss: %s'' [AStr (ss_Name (ssAt w p))])
      | Some v \<Rightarrow> Ok v)"

definition isSpot :: "vmss \<Rightarrow> bool" where
  "isSpot s =
     (case vmss_Properties s of
        None \<Rightarrow> False
      | Some pr \<Rightarrow> (case VirtualMachineProfile pr of
                       None \<Rightarrow> False
                     | Some vp \<Rightarrow> Priority vp = Some VirtualMachinePriorityTypesSpot))"

text \<open>\<open>*vmss.SKU.Capacity\<close>; \<open>None\<close> where the dereference panics\<close>

definition capacityOf :: "vmss \<Rightarrow> int option" where
  "capacityOf s = (case vmss_SKU s of None \<Rightarrow> None | Some k \<Rightarrow> sku_Capacity k)"

text \<open>The end of \<open>getCurSize\<close>: the capacity of the VMSS object becomes the size.\<close>

definition adoptSize ::
  "'e azClient \<Rightarrow> addr \<Rightarrow> addr \<Rightarrow> 'e world \<Rightarrow> (GetVMSSFailedError + int) go \<times> 'e world" where
  "adoptSize az p v w =
     (case capacityOf (vmssAt w v) of
        None \<Rightarrow> (Panic, w)
      | Some sz \<Rightarrow>
          let w1 = (if curSize (ssAt w p) \<noteq> sz then invalidateInstanceCache az p w else w)
          in (Ok (Inr sz),
              updSS p (\<lambda>s. s\<lparr>curSize := sz, lastSizeRefresh := now az w1\<rparr>) w1))"

definition getCurSize ::
  "'e azClient \<Rightarrow> addr \<Rightarrow> 'e world \<Rightarrow> (GetVMSSFailedError + int) go \<times> 'e world" where
  "getCurSize az p w =
     (case getVMSSFromCache p w of
        Panic \<Rightarrow> (Panic, w)
      | Err e \<Rightarrow> (Ok (Inl \<lparr>notFound = True, vmssError = e\<rparr>), w)
      | Ok v \<Rightarrow>
          let ss = ssAt w p;
              spot = isSpot (vmssAt w v);
              period = (if spot then getVmssSizeRefreshPeriod ss else sizeRefreshPeriod ss)
          in if stillFresh (lastSizeRefresh ss) period (now az w)
             then (Ok (Inr (curSize ss)), w)
             else if spot then
               (case call (vmssGet az (ResourceGroup (provider (config w))) (ss_Name ss)) w of
                  (Inl e, w1) \<Rightarrow> (Ok (Inl \<lparr>notFound = isNotFoundErr az e, vmssError = e\<rparr>), w1)
                | (Inr fresh, w1) \<Rightarrow>
                    (case allocVMSS fresh w1 of
                       (v', w2) \<Rightarrow> adoptSize az p v' (setScaleSet (ss_Name ss) v' w2)))
             else adoptSize az p v w)"

definition getScaleSetSize :: "'e azClient \<Rightarrow> addr \<Rightarrow> 'e world \<Rightarrow> int go \<times> 'e world" where
  "getScaleSetSize az p w =
     andThen (getCurSize az p w) (\<lambda>r w1.
       case r of
         Inl f \<Rightarrow> (Err (vmssError f), w1)
       | Inr sz \<Rightarrow>
           if sz = -1
           then (Err (Errorf ''failed to get scale set size for %s: cached size is -1 without provider error''
                        [AStr (ss_Name (ssAt w p))]), w1)
           else (Ok sz, w1))"

definition TargetSize :: "'e azClient \<Rightarrow> addr \<Rightarrow> 'e world \<Rightarrow> int go \<times> 'e world" where
  "TargetSize az p w = getScaleSetSize az p w"

definition DecreaseTargetSize :: "'e azClient \<Rightarrow> addr \<Rightarrow> int \<Rightarrow> 'e world \<Rightarrow> unit go \<times> 'e world" where
  "DecreaseTargetSize az p delta w =
     andThen (getScaleSetSize az p (invalidateInstanceCache az p w)) (\<lambda>_ w1. (Ok (), w1))"

section \<open>The capacity update\<close>

definition buildScaleSetCapacityUpdate :: "vmss \<Rightarrow> int \<Rightarrow> vmss go" where
  "buildScaleSetCapacityUpdate info newSize =
     (case vmss_SKU info of
        None \<Rightarrow> Panic
      | Some k \<Rightarrow>
          let op = \<lparr>vmss_Name = vmss_Name info, vmss_ID = None, vmss_Location = vmss_Location info,
                    vmss_SKU = Some \<lparr>sku_Name = sku_Name k, sku_Tier = sku_Tier k, sku_Capacity = Some newSize\<rparr>,
                    vmss_Etag = None, vmss_ExtendedLocation = None, vmss_Properties = None,
                    vmss_Tags = [], vmss_Zones = []\<rparr>
          in case vmss_ExtendedLocation info of
               None \<Rightarrow> Ok op
             | Some el \<Rightarrow>
                 (case el_Name el of
                    None \<Rightarrow> Panic
                  | Some _ \<Rightarrow> Ok (op\<lparr>vmss_ExtendedLocation := Some \<lparr>el_Name = el_Name el, el_Type = el_Type el\<rparr>\<rparr>)))"

text \<open>Sending the PUT.\<close>

definition putVMSS ::
  "'e azClient \<Rightarrow> string \<Rightarrow> vmss \<Rightarrow> string option \<Rightarrow> 'e world \<Rightarrow> (goerror + poller option) \<times> 'e world" where
  "putVMSS az name op ifMatch w =
     call (beginCreateOrUpdate az (ResourceGroup (provider (config w))) name op ifMatch)
       (sendReq (PutVMSS name op ifMatch) w)"

definition retryCreateOrUpdateWithFreshETag ::
  "'e azClient \<Rightarrow> addr \<Rightarrow> int \<Rightarrow> 'e world \<Rightarrow> (addr \<times> poller option) go \<times> 'e world" where
  "retryCreateOrUpdateWithFreshETag az p newSize w =
     (let name = ss_Name (ssAt w p)
      in case call (vmssGet az (ResourceGroup (provider (config w))) name) w of
           (Inl e, w1) \<Rightarrow> (Err e, invalidateForPreconditionFailure az p w1)
         | (Inr fresh, w1) \<Rightarrow>
             (case allocVMSS fresh w1 of
                (v, w2) \<Rightarrow>
                  let w3 = invalidateInstanceCache az p (setScaleSet name v w2)
                  in if (case capacityOf fresh of None \<Rightarrow> False | Some c \<Rightarrow> newSize \<le> c)
                     then (Ok (v, None), w3)
                     else (case buildScaleSetCapacityUpdate fresh newSize of
                             Panic \<Rightarrow> (Panic, w3)
                           | Err e \<Rightarrow> (Err e, w3)
                           | Ok op \<Rightarrow>
                               (case putVMSS az name op (vmss_Etag fresh) w3 of
                                  (Inl e, w4) \<Rightarrow> (Err e, invalidateForPreconditionFailure az p w4)
                                | (Inr poller, w4) \<Rightarrow> (Ok (v, poller), w4)))))"

definition initCreateOrUpdate ::
  "'e azClient \<Rightarrow> addr \<Rightarrow> addr \<Rightarrow> int \<Rightarrow> 'e world \<Rightarrow> (addr \<times> poller option) go \<times> 'e world" where
  "initCreateOrUpdate az p v newSize w =
     (case buildScaleSetCapacityUpdate (vmssAt w v) newSize of
        Panic \<Rightarrow> (Panic, w)
      | Err e \<Rightarrow> (Err e, w)
      | Ok op \<Rightarrow>
          let ifMatch = (if EnableVMSSEtag (config w) then vmss_Etag (vmssAt w v) else None)
          in case putVMSS az (ss_Name (ssAt w p)) op ifMatch w of
               (Inl e, w1) \<Rightarrow>
                 if EnableVMSSEtag (config w1) \<and> isPreconditionFailedError az e
                 then retryCreateOrUpdateWithFreshETag az p newSize w1
                 else (Err e, w1)
             | (Inr poller, w1) \<Rightarrow> (Ok (v, poller), w1))"

text \<open>\<open>vmss.SKU.Capacity = c\<close>, where the SKU is not nil\<close>

definition setCapacity :: "addr \<Rightarrow> int option \<Rightarrow> 'e world \<Rightarrow> 'e world" where
  "setCapacity v c = updVMSS v (\<lambda>s. s\<lparr>vmss_SKU := map_option (\<lambda>k. k\<lparr>sku_Capacity := c\<rparr>) (vmss_SKU s)\<rparr>)"

definition publishSize :: "'e azClient \<Rightarrow> addr \<Rightarrow> int \<Rightarrow> 'e world \<Rightarrow> 'e world" where
  "publishSize az p sz w = updSS p (\<lambda>s. s\<lparr>curSize := sz, lastSizeRefresh := now az w\<rparr>) w"

definition createOrUpdateInstances ::
  "'e azClient \<Rightarrow> addr \<Rightarrow> addr \<Rightarrow> int \<Rightarrow> 'e world \<Rightarrow> unit go \<times> 'e world" where
  "createOrUpdateInstances az p v newSize w =
     (case vmss_SKU (vmssAt w v) of
        None \<Rightarrow> (Panic, w)
      | Some k \<Rightarrow>
          (case initCreateOrUpdate az p v newSize (setCapacity v (Some newSize) w) of
             (Panic, w1) \<Rightarrow> (Panic, w1)
           | (Err e, w1) \<Rightarrow> (Err e, setCapacity v (sku_Capacity k) w1)
           | (Ok (ev, Some q), w1) \<Rightarrow>
               if vmss_SKU (vmssAt w1 ev) = None then (Panic, w1)
               else (Ok (), spawn (WaitForCreateOrUpdate p q ev)
                              (publishSize az p newSize (setCapacity ev (Some newSize) w1)))
           | (Ok (ev, None), w1) \<Rightarrow>
               if ev \<noteq> v
               then (case capacityOf (vmssAt w1 ev) of
                       None \<Rightarrow> (Panic, w1)
                     | Some sz \<Rightarrow> (Ok (), publishSize az p sz w1))
               else (Ok (), publishSize az p newSize w1)))"

definition setScaleSetSize :: "'e azClient \<Rightarrow> addr \<Rightarrow> int \<Rightarrow> int \<Rightarrow> 'e world \<Rightarrow> unit go \<times> 'e world" where
  "setScaleSetSize az p sz delta w =
     (case getVMSSFromCache p w of
        Panic \<Rightarrow> (Panic, w)
      | Err e \<Rightarrow> (Err e, w)
      | Ok v \<Rightarrow> if 0 < delta then createOrUpdateInstances az p v sz w else (Ok (), w))"

definition canIncreaseSize :: "'e azClient \<Rightarrow> addr \<Rightarrow> int \<Rightarrow> 'e world \<Rightarrow> int go \<times> 'e world" where
  "canIncreaseSize az p delta w =
     (if delta \<le> 0 then (Err (Errorf ''size increase must be positive'' []), w)
      else andThen (getScaleSetSize az p w) (\<lambda>sz w1.
        if sz = -1
        then (Err (Errorf ''the scale set %s is under initialization, skipping IncreaseSize''
                     [AStr (ss_Name (ssAt w1 p))]), w1)
        else if i64 (sz + delta) > ss_maxSize (ssAt w1 p)
        then (Err (Errorf ''size increase too large - desired:%d max:%d''
                     [AInt (i64 (sz + delta)), AInt (ss_maxSize (ssAt w1 p))]), w1)
        else (Ok sz, w1)))"

definition IncreaseSize :: "'e azClient \<Rightarrow> addr \<Rightarrow> int \<Rightarrow> 'e world \<Rightarrow> unit go \<times> 'e world" where
  "IncreaseSize az p delta w =
     andThen (canIncreaseSize az p delta w) (\<lambda>sz w1.
       setScaleSetSize az p (i64 (sz + delta)) delta w1)"

text \<open>The end of \<open>AtomicIncreaseSize\<close>, after the operation has completed.\<close>

definition finishAtomicIncrease ::
  "'e azClient \<Rightarrow> addr \<Rightarrow> addr \<Rightarrow> addr \<Rightarrow> poller option \<Rightarrow> string option \<Rightarrow> int \<Rightarrow> 'e world \<Rightarrow> unit go \<times> 'e world" where
  "finishAtomicIncrease az p v ev poller etag newSize w =
     (if poller = None \<and> ev \<noteq> v
      then (case capacityOf (vmssAt w ev) of
              None \<Rightarrow> (Panic, w)
            | Some sz \<Rightarrow> (Ok (), publishSize az p sz w))
      else if vmss_SKU (vmssAt w ev) = None then (Panic, w)
      else let w1 = setCapacity ev (Some newSize) w;
               w2 = (if EnableVMSSEtag (config w1) \<and> etag \<noteq> None
                     then updVMSS ev (\<lambda>s. s\<lparr>vmss_Etag := etag\<rparr>) w1 else w1)
           in (Ok (), publishSize az p newSize w2))"

text \<open>Waiting for the operation, when there is one.\<close>

definition awaitAtomicIncrease ::
  "'e azClient \<Rightarrow> addr \<Rightarrow> addr \<Rightarrow> int \<Rightarrow> addr \<times> poller option \<Rightarrow> 'e world \<Rightarrow> unit go \<times> 'e world" where
  "awaitAtomicIncrease az p v newSize r w =
     (case r of
        (ev, None) \<Rightarrow> finishAtomicIncrease az p v ev None None newSize w
      | (ev, Some q) \<Rightarrow>
          (case call (pollCreateOrUpdate az q) w of
             (r, w1) \<Rightarrow>
               let w2 = invalidateInstanceCache az p w1
               in case r of
                    Inl e \<Rightarrow>
                      (Err (Errorw ''AtomicIncreaseSize: VMSS %q capacity update failed: %w''
                              [AStr (ss_Name (ssAt w2 p))] e),
                       invalidateCache az (invalidateLastSizeRefresh az p w2))
                  | Inr etag \<Rightarrow> finishAtomicIncrease az p v ev (Some q) etag newSize w2))"

definition AtomicIncreaseSize :: "'e azClient \<Rightarrow> addr \<Rightarrow> int \<Rightarrow> 'e world \<Rightarrow> unit go \<times> 'e world" where
  "AtomicIncreaseSize az p delta w =
     andThen (canIncreaseSize az p delta w) (\<lambda>sz w1.
       case getVMSSFromCache p w1 of
         Panic \<Rightarrow> (Panic, w1)
       | Err e \<Rightarrow> (Err e, w1)
       | Ok v \<Rightarrow>
           andThen (initCreateOrUpdate az p v (i64 (sz + delta)) w1)
             (awaitAtomicIncrease az p v (i64 (sz + delta))))"

text \<open>The body of the goroutine, from the answer of the poller on.\<close>

definition waitForCreateOrUpdateInstances ::
  "'e azClient \<Rightarrow> addr \<Rightarrow> poller \<Rightarrow> addr \<Rightarrow> 'e world \<Rightarrow> 'e world" where
  "waitForCreateOrUpdateInstances az p q v w =
     (case call (pollCreateOrUpdate az q) w of
        (r, w1) \<Rightarrow>
          let w2 = invalidateInstanceCache az p w1
          in case r of
               Inl _ \<Rightarrow> invalidateCache az (invalidateLastSizeRefresh az p w2)
             | Inr etag \<Rightarrow>
                 if EnableVMSSEtag (config w2)
                 then (case etag of
                         Some _ \<Rightarrow> updVMSS v (\<lambda>s. s\<lparr>vmss_Etag := etag\<rparr>) w2
                       | None \<Rightarrow> invalidateCache az (invalidateLastSizeRefresh az p w2))
                 else w2)"

end
