(* ===== verification/Scale_Set_Size.thy ===== *)
theory Scale_Set_Size
  imports Scale_Set
begin

text \<open>
  Facts on the size operations of a scale set and the properties built on them: which part of
  the world an operation leaves alone, which PUTs it sends, that a rejected update is rolled
  back, and that an accepted one publishes the capacity of the cached VMSS object. The locale
  \<open>ttl_cache\<close> states what the three caches with a refresh period have in common.
\<close>

section \<open>Facts on invalidation\<close>

text \<open>
  A value cached for a period: \<open>touch\<close> records a refresh, \<open>stale\<close> asks for one. The lemma of the
  locale is what the callers rely on: only the last of these events counts.
\<close>

locale ttl_cache =
  fixes isFresh :: "'s \<Rightarrow> time \<Rightarrow> bool"
    and period :: "'s \<Rightarrow> duration"
    and touch :: "time \<Rightarrow> 's \<Rightarrow> 's"
    and stale :: "time \<Rightarrow> 's \<Rightarrow> 's"
  assumes fresh_touch: "isFresh (touch t s) t' \<longleftrightarrow> t' < t + period s"
    and fresh_stale: "t \<le> t' \<Longrightarrow> \<not> isFresh (stale t s) t'"
    and period_touch: "period (touch t s) = period s"
    and period_stale: "period (stale t s) = period s"
begin

lemma fresh_after:
  assumes "evs \<noteq> []" and "\<forall>(b, t) \<in> set evs. t \<le> t'"
  shows "isFresh (fold (\<lambda>(b, t). if b then touch t else stale t) evs s) t' \<longleftrightarrow>
    fst (last evs) \<and> t' < snd (last evs) + period s"
proof -
  define run where "run = fold (\<lambda>(b, t). if b then touch t else stale t)"
  have p: "period (run xs s) = period s" for xs :: "(bool \<times> time) list"
    unfolding run_def by (induction xs arbitrary: s) (auto simp: period_touch period_stale)
  obtain xs b t where e: "evs = xs @ [(b, t)]" using assms(1) by (metis rev_exhaust surj_pair)
  have "run evs s = (if b then touch t else stale t) (run xs s)" by (simp add: run_def e)
  then show ?thesis
    using assms(2) e p fresh_touch fresh_stale by (auto simp: run_def [symmetric])
qed

end

interpretation sizeTTL: ttl_cache
  "\<lambda>s. stillFresh (lastSizeRefresh s) (sizeRefreshPeriod s)" sizeRefreshPeriod
  "\<lambda>t s. s\<lparr>lastSizeRefresh := t\<rparr>" "\<lambda>t s. s\<lparr>lastSizeRefresh := t - sizeRefreshPeriod s\<rparr>"
  by unfold_locales (auto simp: stillFresh_def)

interpretation instTTL: ttl_cache
  "\<lambda>s. stillFresh (lastInstanceRefresh s) (instancesRefreshPeriod s)" instancesRefreshPeriod
  "\<lambda>t s. s\<lparr>lastInstanceRefresh := t\<rparr>" "\<lambda>t s. s\<lparr>lastInstanceRefresh := t - instancesRefreshPeriod s\<rparr>"
  by unfold_locales (auto simp: stillFresh_def)

interpretation managerTTL: ttl_cache
  "\<lambda>w. stillFresh (lastRefresh w) (refreshInterval (azCache w))" "\<lambda>w. refreshInterval (azCache w)"
  "\<lambda>t w. w\<lparr>lastRefresh := t\<rparr>" "\<lambda>t w. w\<lparr>lastRefresh := t - refreshInterval (azCache w)\<rparr>"
  by unfold_locales (auto simp: stillFresh_def)

section \<open>What the operations leave unchanged\<close>

text \<open>
  The fields of a scale set that no operation changes, and the part of the world that no
  operation on the scale set \<open>p\<close> changes.
\<close>

definition ssFixed :: "scaleSet \<Rightarrow> scaleSet" where
  "ssFixed s = s\<lparr>curSize := 0, lastSizeRefresh := 0, instanceCache := [], lastInstanceRefresh := 0\<rparr>"

definition ssFrame :: "addr \<Rightarrow> 'e world \<Rightarrow> 'e world \<Rightarrow> bool" where
  "ssFrame p w w' \<longleftrightarrow>
     config w' = config w \<and> apAt w' = apAt w \<and> vpAt w' = vpAt w \<and> ssNext w' = ssNext w \<and>
     apNext w' = apNext w \<and> vpNext w' = vpNext w \<and>
     explicitlyConfigured w' = explicitlyConfigured w \<and> autoDiscoverySpecs w' = autoDiscoverySpecs w \<and>
     (\<forall>q. q \<noteq> p \<longrightarrow> ssAt w' q = ssAt w q) \<and> ssFixed (ssAt w' p) = ssFixed (ssAt w p) \<and>
     (\<exists>sets. azCache w' = (azCache w)\<lparr>scaleSets := sets\<rparr>) \<and> vmssNext w \<le> vmssNext w'"

lemma ssFrame_refl [simp]: "ssFrame p w w"
  by (auto simp: ssFrame_def intro: exI [of _ "scaleSets (azCache w)"])

lemma ssFrame_trans [trans]:
  assumes "ssFrame p w w1" and "ssFrame p w1 w2"
  shows "ssFrame p w w2"
proof -
  obtain a where a: "azCache w1 = (azCache w)\<lparr>scaleSets := a\<rparr>" using assms(1) by (auto simp: ssFrame_def)
  obtain b where b: "azCache w2 = (azCache w1)\<lparr>scaleSets := b\<rparr>" using assms(2) by (auto simp: ssFrame_def)
  have "azCache w2 = (azCache w)\<lparr>scaleSets := b\<rparr>" using a b by simp
  with assms show ?thesis by (auto simp: ssFrame_def)
qed

lemma ssFrame_fields:
  assumes "ssFrame p w w'"
  shows "ss_Name (ssAt w' q) = ss_Name (ssAt w q)" "ss_minSize (ssAt w' q) = ss_minSize (ssAt w q)"
    "ss_maxSize (ssAt w' q) = ss_maxSize (ssAt w q)" "sizeRefreshPeriod (ssAt w' q) = sizeRefreshPeriod (ssAt w q)"
    "getVmssSizeRefreshPeriod (ssAt w' q) = getVmssSizeRefreshPeriod (ssAt w q)"
    "instancesRefreshPeriod (ssAt w' q) = instancesRefreshPeriod (ssAt w q)"
    "config w' = config w"
proof -
  have "ssFixed (ssAt w' q) = ssFixed (ssAt w q)" using assms by (cases "q = p") (auto simp: ssFrame_def)
  note e = arg_cong [OF this]
  show "ss_Name (ssAt w' q) = ss_Name (ssAt w q)" using e [of ss_Name] by (simp add: ssFixed_def)
  show "ss_minSize (ssAt w' q) = ss_minSize (ssAt w q)" using e [of ss_minSize] by (simp add: ssFixed_def)
  show "ss_maxSize (ssAt w' q) = ss_maxSize (ssAt w q)" using e [of ss_maxSize] by (simp add: ssFixed_def)
  show "sizeRefreshPeriod (ssAt w' q) = sizeRefreshPeriod (ssAt w q)" using e [of sizeRefreshPeriod] by (simp add: ssFixed_def)
  show "getVmssSizeRefreshPeriod (ssAt w' q) = getVmssSizeRefreshPeriod (ssAt w q)" using e [of getVmssSizeRefreshPeriod] by (simp add: ssFixed_def)
  show "instancesRefreshPeriod (ssAt w' q) = instancesRefreshPeriod (ssAt w q)" using e [of instancesRefreshPeriod] by (simp add: ssFixed_def)
  show "config w' = config w" using assms by (simp add: ssFrame_def)
qed

definition vmssKept :: "'e world \<Rightarrow> 'e world \<Rightarrow> bool" where
  "vmssKept w w' \<longleftrightarrow> (\<forall>v < vmssNext w. vmssAt w' v = vmssAt w v)"

text \<open>\<open>quiet\<close>: no request sent, no goroutine started, no existing VMSS object changed.\<close>

definition quiet :: "'e world \<Rightarrow> 'e world \<Rightarrow> bool" where
  "quiet w w' \<longleftrightarrow> requests w' = requests w \<and> goroutines w' = goroutines w \<and> vmssKept w w'"

lemma quiet_refl [simp]: "quiet w w"
  by (simp add: quiet_def vmssKept_def)

lemma quiet_trans: "quiet w w1 \<Longrightarrow> quiet w1 w2 \<Longrightarrow> vmssNext w \<le> vmssNext w1 \<Longrightarrow> quiet w w2"
  by (simp add: quiet_def vmssKept_def)

lemma frame_updSS: "ssFixed (f (ssAt w p)) = ssFixed (ssAt w p) \<Longrightarrow> ssFrame p w (updSS p f w)"
  by (auto simp: ssFrame_def intro: exI [of _ "scaleSets (azCache w)"])

lemma frame_steps [simp]:
  "ssFrame p w (w\<lparr>env := e\<rparr>)" "ssFrame p w (sendReq r w)" "ssFrame p w (spawn g w)"
  "ssFrame p w (updVMSS v h w)" "ssFrame p w (setScaleSet n v w)" "ssFrame p w (invalidateCache az w)"
  "ssFrame p w (snd (allocVMSS x w))" "ssFrame p w (setCapacity v c w)"
  by (auto simp: ssFrame_def setScaleSet_def invalidateCache_def allocVMSS_def setCapacity_def
      intro: exI [of _ "scaleSets (azCache w)"])

lemma frame_invalidate [simp]:
  "ssFrame p w (invalidateInstanceCache az p w)" "ssFrame p w (invalidateLastSizeRefresh az p w)"
  "ssFrame p w (publishSize az p n w)"
  by (simp_all add: invalidateInstanceCache_def invalidateLastSizeRefresh_def publishSize_def
      frame_updSS ssFixed_def)

lemma frame_precondition [simp]: "ssFrame p w (invalidateForPreconditionFailure az p w)"
  unfolding invalidateForPreconditionFailure_def
  by (rule ssFrame_trans [OF frame_invalidate(1) ssFrame_trans [OF frame_invalidate(2) frame_steps(6)]])

lemma quiet_steps [simp]:
  "quiet w (w\<lparr>env := e\<rparr>)" "quiet w (updSS p f w)" "quiet w (setScaleSet n v w)"
  "quiet w (invalidateCache az w)" "quiet w (snd (allocVMSS x w))"
  "quiet w (invalidateInstanceCache az p w)" "quiet w (invalidateLastSizeRefresh az p w)"
  "quiet w (publishSize az p m w)" "quiet w (invalidateForPreconditionFailure az p w)"
  by (simp_all add: quiet_def vmssKept_def setScaleSet_def invalidateCache_def allocVMSS_def
      invalidateInstanceCache_def invalidateLastSizeRefresh_def publishSize_def
      invalidateForPreconditionFailure_def)

definition quietFrame :: "addr \<Rightarrow> 'e world \<Rightarrow> 'e world \<Rightarrow> bool" where
  "quietFrame p w w' \<longleftrightarrow> ssFrame p w w' \<and> quiet w w'"

lemma quietFrame_refl [simp]: "quietFrame p w w"
  by (simp add: quietFrame_def)

lemma quietFrame_trans [trans]: "quietFrame p w w1 \<Longrightarrow> quietFrame p w1 w2 \<Longrightarrow> quietFrame p w w2"
  unfolding quietFrame_def using ssFrame_trans quiet_trans by (metis ssFrame_def)

lemma quietFrame_steps [simp, frame_rules]:
  "quietFrame p w (w\<lparr>env := e\<rparr>)" "quietFrame p w (setScaleSet n v w)"
  "quietFrame p w (invalidateCache az w)" "quietFrame p w (snd (allocVMSS x w))"
  "quietFrame p w (invalidateInstanceCache az p w)" "quietFrame p w (invalidateLastSizeRefresh az p w)"
  "quietFrame p w (publishSize az p m w)" "quietFrame p w (invalidateForPreconditionFailure az p w)"
  by (simp_all add: quietFrame_def)

lemma quietFrame_updSS:
  "ssFixed (f (ssAt w p)) = ssFixed (ssAt w p) \<Longrightarrow> quietFrame p w (updSS p f w)"
  by (simp add: quietFrame_def frame_updSS)

lemma adoptSize_frame: "quietFrame p w (snd (adoptSize az p v w))"
proof (cases "capacityOf (vmssAt w v)")
  case None
  then show ?thesis by (simp add: adoptSize_def)
next
  case (Some n)
  define w1 where "w1 = (if curSize (ssAt w p) \<noteq> n then invalidateInstanceCache az p w else w)"
  have "quietFrame p w w1" by (simp add: w1_def)
  also have "quietFrame p w1 (updSS p (\<lambda>s. s\<lparr>curSize := n, lastSizeRefresh := now az w1\<rparr>) w1)"
    by (rule quietFrame_updSS) (simp add: ssFixed_def)
  finally show ?thesis using Some by (simp add: adoptSize_def w1_def Let_def)
qed

lemma getCurSize_frame: "quietFrame p w (snd (getCurSize az p w))"
proof -
  have a: "quietFrame p w (snd (adoptSize az p (fst (allocVMSS x w1)) (setScaleSet n (fst (allocVMSS x w1)) (snd (allocVMSS x w1)))))"
    if "w1 = w\<lparr>env := e\<rparr>" for x w1 n e
  proof -
    have "quietFrame p w w1" using that by simp
    also have "quietFrame p w1 (snd (allocVMSS x w1))" by simp
    also have "quietFrame p (snd (allocVMSS x w1)) (setScaleSet n (fst (allocVMSS x w1)) (snd (allocVMSS x w1)))" by simp
    also note adoptSize_frame
    finally show ?thesis .
  qed
  show ?thesis
    by (auto simp: getCurSize_def call_env Let_def adoptSize_frame a split: go.splits sum.splits prod.splits)
      (metis a fst_conv snd_conv)+
qed

lemma getScaleSetSize_frame: "quietFrame p w (snd (getScaleSetSize az p w))"
  using getCurSize_frame [of p w az]
  by (cases "getCurSize az p w"; cases "fst (getCurSize az p w)")
    (auto simp: getScaleSetSize_def split: sum.splits)

lemma canIncreaseSize_frame: "quietFrame p w (snd (canIncreaseSize az p delta w))"
  using getScaleSetSize_frame [of p w az]
  by (cases "getScaleSetSize az p w"; cases "fst (getScaleSetSize az p w)")
    (auto simp: canIncreaseSize_def)

section \<open>Facts on the capacity update\<close>

lemma capacity_build: "buildScaleSetCapacityUpdate info n = Ok op \<Longrightarrow> capacityOf op = Some n \<and> vmss_Name op = vmss_Name info"
  by (auto simp: buildScaleSetCapacityUpdate_def capacityOf_def Let_def split: option.splits)

lemma build_not_Err [simp]: "buildScaleSetCapacityUpdate info n \<noteq> Err e"
  by (auto simp: buildScaleSetCapacityUpdate_def Let_def split: option.splits)

text \<open>\<open>w'\<close> follows \<open>w\<close> by an operation on \<open>p\<close> that sent the PUTs \<open>rs\<close> for the capacity \<open>n\<close>.\<close>

definition isPut :: "string \<Rightarrow> int \<Rightarrow> request \<Rightarrow> bool" where
  "isPut name n r = (case r of PutVMSS m op e \<Rightarrow> m = name \<and> capacityOf op = Some n | _ \<Rightarrow> False)"

definition sentPuts :: "addr \<Rightarrow> int \<Rightarrow> request list \<Rightarrow> 'e world \<Rightarrow> 'e world \<Rightarrow> bool" where
  "sentPuts p n rs w w' \<longleftrightarrow>
     ssFrame p w w' \<and> vmssKept w w' \<and> goroutines w' = goroutines w \<and> requests w' = requests w @ rs \<and>
     list_all (isPut (ss_Name (ssAt w p)) n) rs \<and> curSize (ssAt w' p) = curSize (ssAt w p)"

lemma sentPuts_trans:
  assumes "sentPuts p n rs w w1" and "sentPuts p n rs' w1 w2"
  shows "sentPuts p n (rs @ rs') w w2"
proof -
  have f: "ssFrame p w w1" using assms(1) by (simp add: sentPuts_def)
  have "ss_Name (ssAt w1 p) = ss_Name (ssAt w p)" "vmssNext w \<le> vmssNext w1"
    using ssFrame_fields [OF f] f by (simp_all add: ssFrame_def)
  with assms show ?thesis
    using ssFrame_trans by (auto simp: sentPuts_def vmssKept_def)
qed

lemma sentPuts_quiet:
  "quietFrame p w w' \<Longrightarrow> curSize (ssAt w' p) = curSize (ssAt w p) \<Longrightarrow> sentPuts p n [] w w'"
  by (simp add: sentPuts_def quietFrame_def quiet_def)

lemma curSize_steps [simp]:
  "curSize (ssAt (invalidateInstanceCache az p w) q) = curSize (ssAt w q)"
  "curSize (ssAt (invalidateLastSizeRefresh az p w) q) = curSize (ssAt w q)"
  "curSize (ssAt (invalidateCache az w) q) = curSize (ssAt w q)"
  "curSize (ssAt (invalidateForPreconditionFailure az p w) q) = curSize (ssAt w q)"
  "curSize (ssAt (setScaleSet n v w) q) = curSize (ssAt w q)"
  "curSize (ssAt (setCapacity v c w) q) = curSize (ssAt w q)"
  by (simp_all add: invalidateInstanceCache_def invalidateLastSizeRefresh_def invalidateCache_def
      invalidateForPreconditionFailure_def setScaleSet_def setCapacity_def)

lemma putVMSS_world:
  "snd (putVMSS az name op e w) = (sendReq (PutVMSS name op e) w)
     \<lparr>env := snd (beginCreateOrUpdate az (ResourceGroup (provider (config w))) name op e (env w))\<rparr>"
  by (simp add: putVMSS_def call_env)

lemma putVMSS_sent:
  assumes "capacityOf op = Some n" and "name = ss_Name (ssAt w p)"
  shows "sentPuts p n [PutVMSS name op e] w (snd (putVMSS az name op e w))"
proof -
  have "ssFrame p w (snd (putVMSS az name op e w))"
    unfolding putVMSS_world by (rule ssFrame_trans [OF frame_steps(2) frame_steps(1)])
  with assms show ?thesis by (simp add: sentPuts_def putVMSS_world vmssKept_def isPut_def)
qed

text \<open>The world in which the retry has stored the freshly read VMSS object.\<close>

definition refreshedWorld :: "'e azClient \<Rightarrow> addr \<Rightarrow> 'e world \<Rightarrow> vmss \<Rightarrow> 'e world" where
  "refreshedWorld az p w fresh =
     invalidateInstanceCache az p (setScaleSet (ss_Name (ssAt w p)) (vmssNext w) (snd (allocVMSS fresh w)))"

lemma refreshedWorld_frame: "sentPuts p n [] w (refreshedWorld az p w fresh)"
proof (rule sentPuts_quiet)
  have "quietFrame p w (snd (allocVMSS fresh w))" by simp
  also have "quietFrame p (snd (allocVMSS fresh w)) (setScaleSet (ss_Name (ssAt w p)) (vmssNext w) (snd (allocVMSS fresh w)))" by simp
  also have "quietFrame p (setScaleSet (ss_Name (ssAt w p)) (vmssNext w) (snd (allocVMSS fresh w))) (refreshedWorld az p w fresh)"
    by (simp add: refreshedWorld_def)
  finally show "quietFrame p w (refreshedWorld az p w fresh)" .
  show "curSize (ssAt (refreshedWorld az p w fresh) p) = curSize (ssAt w p)"
    by (simp add: refreshedWorld_def allocVMSS_def)
qed

lemma retry_unfold:
  "retryCreateOrUpdateWithFreshETag az p n w =
     (let name = ss_Name (ssAt w p);
          r = vmssGet az (ResourceGroup (provider (config w))) name (env w);
          w1 = w\<lparr>env := snd r\<rparr>
      in case fst r of
           Inl e \<Rightarrow> (Err e, invalidateForPreconditionFailure az p w1)
         | Inr fresh \<Rightarrow>
             let v = vmssNext w; w3 = refreshedWorld az p w1 fresh
             in if (case capacityOf fresh of None \<Rightarrow> False | Some c \<Rightarrow> n \<le> c) then (Ok (v, None), w3)
                else case buildScaleSetCapacityUpdate fresh n of
                       Panic \<Rightarrow> (Panic, w3)
                     | Err e \<Rightarrow> (Err e, w3)
                     | Ok op \<Rightarrow>
                         (case putVMSS az name op (vmss_Etag fresh) w3 of
                            (Inl e, w4) \<Rightarrow> (Err e, invalidateForPreconditionFailure az p w4)
                          | (Inr q, w4) \<Rightarrow> (Ok (v, q), w4)))"
  by (simp add: retryCreateOrUpdateWithFreshETag_def call_env refreshedWorld_def allocVMSS_def Let_def
      split: sum.splits)

lemma quiet_then_put:
  assumes "sentPuts p n [] w w1" "capacityOf op = Some n"
  shows "sentPuts p n [PutVMSS (ss_Name (ssAt w p)) op e] w (snd (putVMSS az (ss_Name (ssAt w p)) op e w1))"
proof -
  have "ss_Name (ssAt w1 p) = ss_Name (ssAt w p)"
    using assms(1) ssFrame_fields(1) [of p w w1 p] by (simp add: sentPuts_def)
  then have "sentPuts p n [PutVMSS (ss_Name (ssAt w p)) op e] w1 (snd (putVMSS az (ss_Name (ssAt w p)) op e w1))"
    using assms(2) by (intro putVMSS_sent) auto
  from sentPuts_trans [OF assms(1) this] show ?thesis by simp
qed

lemma sent_precondition:
  "sentPuts p n rs w w1 \<Longrightarrow> sentPuts p n rs w (invalidateForPreconditionFailure az p w1)"
  using sentPuts_trans [of p n rs w w1 "[]"] sentPuts_quiet [of p w1 "invalidateForPreconditionFailure az p w1" n]
  by simp

lemma retry_sent:
  "\<exists>rs. length rs \<le> 1 \<and> sentPuts p n rs w (snd (retryCreateOrUpdateWithFreshETag az p n w))"
proof -
  let ?name = "ss_Name (ssAt w p)"
  let ?r = "vmssGet az (ResourceGroup (provider (config w))) ?name (env w)"
  let ?w1 = "w\<lparr>env := snd ?r\<rparr>"
  have w1: "sentPuts p n [] w ?w1" by (rule sentPuts_quiet) simp_all
  show ?thesis
  proof (cases "fst ?r")
    case (Inl e)
    then show ?thesis using sent_precondition [OF w1, of az]
      by (intro exI [of _ "[]"]) (simp add: retry_unfold)
  next
    case (Inr fresh)
    have w3: "sentPuts p n [] w (refreshedWorld az p ?w1 fresh)"
      using sentPuts_trans [OF w1 refreshedWorld_frame] by simp
    show ?thesis
    proof (cases "buildScaleSetCapacityUpdate fresh n")
      case (Ok op)
      note put = quiet_then_put [OF w3 conjunct1 [OF capacity_build [OF Ok]], of "vmss_Etag fresh" az]
      show ?thesis
        using w3 put sent_precondition [OF put, of az] Inr Ok
        by (cases "putVMSS az ?name op (vmss_Etag fresh) (refreshedWorld az p ?w1 fresh)")
          (auto simp: retry_unfold Let_def split: option.splits sum.splits intro: exI [of _ "[]"] exI [of _ "[_]"])
    qed (use w3 Inr in \<open>auto simp: retry_unfold Let_def intro!: exI [of _ "[]"] split: option.splits\<close>)
  qed
qed

lemma init_sent:
  "\<exists>rs. length rs \<le> 2 \<and> sentPuts p n rs w (snd (initCreateOrUpdate az p v n w))"
proof (cases "buildScaleSetCapacityUpdate (vmssAt w v) n")
  case (Ok op)
  define e where "e = (if EnableVMSSEtag (config w) then vmss_Etag (vmssAt w v) else None)"
  obtain r w1 where put: "putVMSS az (ss_Name (ssAt w p)) op e w = (r, w1)" by fastforce
  have s: "sentPuts p n [PutVMSS (ss_Name (ssAt w p)) op e] w w1"
    using putVMSS_sent [OF conjunct1 [OF capacity_build [OF Ok]], of "ss_Name (ssAt w p)" w p e az] put by simp
  obtain rs where rs: "length rs \<le> 1" "sentPuts p n rs w1 (snd (retryCreateOrUpdateWithFreshETag az p n w1))"
    using retry_sent by blast
  have s2: "sentPuts p n (PutVMSS (ss_Name (ssAt w p)) op e # rs) w (snd (retryCreateOrUpdateWithFreshETag az p n w1))"
    using sentPuts_trans [OF s rs(2)] by simp
  show ?thesis
  proof (cases r)
    case (Inl err)
    show ?thesis
    proof (cases "EnableVMSSEtag (config w1) \<and> isPreconditionFailedError az err")
      case True
      then show ?thesis using Inl Ok put e_def s2 rs(1)
        by (intro exI [of _ "PutVMSS (ss_Name (ssAt w p)) op e # rs"]) (simp add: initCreateOrUpdate_def Let_def)
    next
      case False
      then show ?thesis using Inl Ok put e_def s
        by (intro exI [of _ "[PutVMSS (ss_Name (ssAt w p)) op e]"]) (auto simp: initCreateOrUpdate_def Let_def)
    qed
  next
    case (Inr q)
    then show ?thesis using Ok put e_def s
      by (intro exI [of _ "[PutVMSS (ss_Name (ssAt w p)) op e]"]) (simp add: initCreateOrUpdate_def Let_def)
  qed
qed (auto simp: initCreateOrUpdate_def intro!: exI [of _ "[]"] sentPuts_quiet)

text \<open>Every cached VMSS pointer points to an allocated object.\<close>

definition cacheAllocated :: "'e world \<Rightarrow> bool" where
  "cacheAllocated w \<longleftrightarrow> (\<forall>(n, v) \<in> set (scaleSets (azCache w)). v < vmssNext w)"

lemma getVMSSFromCache_allocated:
  "cacheAllocated w \<Longrightarrow> getVMSSFromCache p w = Ok v \<Longrightarrow> v < vmssNext w"
  by (auto simp: cacheAllocated_def getVMSSFromCache_def getScaleSets_def split: option.splits dest: map_of_SomeD)

lemma getVMSSFromCache_not_Panic [simp]: "getVMSSFromCache p w \<noteq> Panic"
  by (simp add: getVMSSFromCache_def split: option.splits)

lemma setCapacity_back:
  assumes "vmssKept (setCapacity v c w) w'" and "v < vmssNext w" and "vmss_SKU (vmssAt w v) = Some k"
    and "u < vmssNext w"
  shows "vmssAt (setCapacity v (sku_Capacity k) w') u = vmssAt w u"
proof -
  have "vmssAt w' u = vmssAt (setCapacity v c w) u" "vmssAt w' v = vmssAt (setCapacity v c w) v"
    using assms by (auto simp: vmssKept_def setCapacity_def)
  with assms(3) show ?thesis by (cases "u = v") (simp_all add: setCapacity_def)
qed

lemma vmssNext_setCapacity [simp]: "vmssNext (setCapacity v c w) = vmssNext w"
  by (simp add: setCapacity_def)

lemma requests_steps [simp]:
  "requests (setCapacity v c w) = requests w" "goroutines (setCapacity v c w) = goroutines w"
  "ssAt (setCapacity v c w) = ssAt w" "azCache (setCapacity v c w) = azCache w"
  "config (setCapacity v c w) = config w"
  "requests (publishSize az p n w) = requests w" "goroutines (publishSize az p n w) = goroutines w"
  "azCache (publishSize az p n w) = azCache w" "vmssAt (publishSize az p n w) = vmssAt w"
  by (simp_all add: setCapacity_def publishSize_def)

text \<open>A rejected update leaves every VMSS object as it was.\<close>

lemma createOrUpdate_rejected:
  assumes "createOrUpdateInstances az p v n w = (Err e, w')" and "v < vmssNext w"
  shows "\<exists>rs. length rs \<le> 2 \<and> sentPuts p n rs w w'"
proof -
  obtain k where k: "vmss_SKU (vmssAt w v) = Some k"
    using assms(1) by (auto simp: createOrUpdateInstances_def split: option.splits)
  obtain w1 where i: "initCreateOrUpdate az p v n (setCapacity v (Some n) w) = (Err e, w1)"
    and w': "w' = setCapacity v (sku_Capacity k) w1"
    using assms(1) k by (auto simp: createOrUpdateInstances_def split: go.splits prod.splits option.splits if_splits)
  obtain rs where rs: "length rs \<le> 2" "sentPuts p n rs (setCapacity v (Some n) w) w1"
    using init_sent [of p n "setCapacity v (Some n) w" az v] i by auto
  have "ssFrame p w w1" using rs(2) ssFrame_trans [OF frame_steps(8)] by (auto simp: sentPuts_def)
  then have "ssFrame p w w'" unfolding w' by (rule ssFrame_trans) simp
  moreover have "vmssKept w w'" unfolding vmssKept_def w'
    using setCapacity_back [OF _ assms(2) k] rs(2) by (blast dest: sentPuts_def [THEN iffD1])
  ultimately show ?thesis using rs by (auto simp: sentPuts_def w' intro!: exI [of _ rs])
qed

lemma createOrUpdate_requests:
  "\<exists>rs. requests (snd (createOrUpdateInstances az p v n w)) = requests w @ rs \<and> length rs \<le> 2 \<and>
     list_all (isPut (ss_Name (ssAt w p)) n) rs \<and> ssFrame p w (snd (createOrUpdateInstances az p v n w))"
proof (cases "vmss_SKU (vmssAt w v)")
  case None
  then show ?thesis by (simp add: createOrUpdateInstances_def)
next
  case (Some k)
  obtain r w1 where i: "initCreateOrUpdate az p v n (setCapacity v (Some n) w) = (r, w1)" by fastforce
  obtain rs where rs: "length rs \<le> 2" "sentPuts p n rs (setCapacity v (Some n) w) w1"
    using init_sent [of p n "setCapacity v (Some n) w" az v] i by auto
  have f: "ssFrame p w w1" using rs(2) ssFrame_trans [OF frame_steps(8)] by (auto simp: sentPuts_def)
  have s: "ssFrame p w1 (spawn g (publishSize az p m w2))" if "ssFrame p w1 w2" for w2 m g
    by (rule ssFrame_trans [OF that ssFrame_trans [OF frame_invalidate(3) frame_steps(3)]])
  have s': "ssFrame p w1 (publishSize az p m w2)" if "ssFrame p w1 w2" for w2 m
    by (rule ssFrame_trans [OF that frame_invalidate(3)])
  have "requests (snd (createOrUpdateInstances az p v n w)) = requests w1 \<and>
      ssFrame p w1 (snd (createOrUpdateInstances az p v n w))"
    using Some i s s' by (auto simp: createOrUpdateInstances_def split: go.splits prod.splits option.splits if_splits)
  with rs f show ?thesis using ssFrame_trans [OF f] by (intro exI [of _ rs]) (auto simp: sentPuts_def)
qed

lemma canIncreaseSize_Ok:
  assumes "canIncreaseSize az p delta w = (Ok sz, w1)"
  shows "0 < delta" "getScaleSetSize az p w = (Ok sz, w1)" "i64 (sz + delta) \<le> ss_maxSize (ssAt w p)"
    "quietFrame p w w1"
proof -
  show f: "quietFrame p w w1" using canIncreaseSize_frame [of p w az delta] assms by simp
  have "ss_maxSize (ssAt w1 p) = ss_maxSize (ssAt w p)"
    using f ssFrame_fields(3) [of p w w1 p] by (simp add: quietFrame_def)
  then show "0 < delta" "getScaleSetSize az p w = (Ok sz, w1)" "i64 (sz + delta) \<le> ss_maxSize (ssAt w p)"
    using assms by (auto simp: canIncreaseSize_def andThen_Ok split: if_splits)
qed

lemma IncreaseSize_requests_aux:
  "\<exists>rs n. requests (snd (IncreaseSize az p delta w)) = requests w @ rs \<and> length rs \<le> 2 \<and>
     list_all (\<lambda>r. isPut (ss_Name (ssAt w p)) n r \<and> n \<le> ss_maxSize (ssAt w p)) rs"
proof -
  obtain r w1 where c: "canIncreaseSize az p delta w = (r, w1)" by fastforce
  have q: "requests w1 = requests w" "ss_Name (ssAt w1 p) = ss_Name (ssAt w p)"
    using canIncreaseSize_frame [of p w az delta] c ssFrame_fields(1) [of p w w1 p]
    by (simp_all add: quietFrame_def quiet_def)
  show ?thesis
  proof (cases r)
    case (Ok sz)
    note o = canIncreaseSize_Ok [OF c [unfolded Ok]]
    show ?thesis
    proof (cases "getVMSSFromCache p w1")
      case (Ok v)
      obtain rs where "requests (snd (createOrUpdateInstances az p v (i64 (sz + delta)) w1)) = requests w1 @ rs"
        "length rs \<le> 2" "list_all (isPut (ss_Name (ssAt w1 p)) (i64 (sz + delta))) rs"
        using createOrUpdate_requests by blast
      then show ?thesis using c \<open>r = go.Ok sz\<close> Ok o q
        by (intro exI [of _ rs] exI [of _ "i64 (sz + delta)"])
          (auto simp: IncreaseSize_def setScaleSetSize_def list_all_iff)
    qed (use c Ok q in \<open>auto simp: IncreaseSize_def setScaleSetSize_def\<close>)
  qed (use c q in \<open>simp_all add: IncreaseSize_def\<close>)
qed

text \<open>The SDK answers an accepted \<open>BeginCreateOrUpdate\<close> with a poller.\<close>

definition pollersGiven :: "'e azClient \<Rightarrow> bool" where
  "pollersGiven az \<longleftrightarrow> (\<forall>g n op m e. fst (beginCreateOrUpdate az g n op m e) \<noteq> Inr None)"

lemma fst_putVMSS: "pollersGiven az \<Longrightarrow> putVMSS az name op e w \<noteq> (Inr None, w1)"
  by (auto simp: pollersGiven_def putVMSS_def call_env)

lemma getVMSSFromCache_frame:
  "scaleSets (azCache w') = scaleSets (azCache w) \<Longrightarrow> ss_Name (ssAt w' p) = ss_Name (ssAt w p) \<Longrightarrow>
   getVMSSFromCache p w' = getVMSSFromCache p w"
  by (simp add: getVMSSFromCache_def getScaleSets_def cong: option.case_cong)

lemma refreshedWorld_cache:
  "getVMSSFromCache p (refreshedWorld az p w fresh) = Ok (vmssNext w)"
  "vmssAt (refreshedWorld az p w fresh) (vmssNext w) = fresh"
  "vmssNext (refreshedWorld az p w fresh) = Suc (vmssNext w)"
  by (simp_all add: refreshedWorld_def getVMSSFromCache_def getScaleSets_def setScaleSet_def allocVMSS_def
      invalidateInstanceCache_def map_of_mapSet)

lemma getVMSSFromCache_putVMSS:
  "getVMSSFromCache q (snd (putVMSS az name op e w)) = getVMSSFromCache q w"
  "vmssAt (snd (putVMSS az name op e w)) = vmssAt w" "vmssNext (snd (putVMSS az name op e w)) = vmssNext w"
  by (auto simp: putVMSS_world intro!: getVMSSFromCache_frame)

lemma retry_Ok:
  assumes "retryCreateOrUpdateWithFreshETag az p n w = (Ok (ev, q), w1)" and "pollersGiven az"
  shows "ev = vmssNext w \<and> getVMSSFromCache p w1 = Ok ev \<and> (q = None \<longrightarrow> (\<exists>c \<ge> n. capacityOf (vmssAt w1 ev) = Some c))"
proof -
  let ?r = "vmssGet az (ResourceGroup (provider (config w))) (ss_Name (ssAt w p)) (env w)"
  let ?w1 = "w\<lparr>env := snd ?r\<rparr>"
  obtain fresh where f: "fst ?r = Inr fresh"
    using assms(1) by (auto simp: retry_unfold Let_def split: sum.splits)
  let ?w3 = "refreshedWorld az p ?w1 fresh"
  have c: "getVMSSFromCache p ?w3 = Ok (vmssNext w)" "vmssAt ?w3 (vmssNext w) = fresh"
    using refreshedWorld_cache(1,2) [where p = p and az = az and w = ?w1 and fresh = fresh] by simp_all
  show ?thesis
  proof (cases "case capacityOf fresh of None \<Rightarrow> False | Some c \<Rightarrow> n \<le> c")
    case True
    then show ?thesis using assms(1) f c by (auto simp: retry_unfold Let_def split: option.splits)
  next
    case False
    then obtain op where "buildScaleSetCapacityUpdate fresh n = Ok op"
      "putVMSS az (ss_Name (ssAt w p)) op (vmss_Etag fresh) ?w3 = (Inr q, w1)" "ev = vmssNext w"
      using assms(1) f by (auto simp: retry_unfold Let_def split: go.splits prod.splits sum.splits)
    then show ?thesis
      using c(1) fst_putVMSS [OF assms(2)] getVMSSFromCache_putVMSS(1) [where q = p and az = az] by (metis snd_conv)
  qed
qed

lemma init_Ok:
  assumes "initCreateOrUpdate az p v n w = (Ok (ev, q), w1)" and "pollersGiven az"
    and "getVMSSFromCache p w = Ok v" and "v < vmssNext w"
  shows "getVMSSFromCache p w1 = Ok ev \<and> (q = None \<longrightarrow> ev \<noteq> v \<and> (\<exists>c \<ge> n. capacityOf (vmssAt w1 ev) = Some c))"
proof -
  define e where "e = (if EnableVMSSEtag (config w) then vmss_Etag (vmssAt w v) else None)"
  obtain op where op: "buildScaleSetCapacityUpdate (vmssAt w v) n = Ok op"
    using assms(1) by (auto simp: initCreateOrUpdate_def split: go.splits)
  obtain r w2 where put: "putVMSS az (ss_Name (ssAt w p)) op e w = (r, w2)" by fastforce
  have w2: "getVMSSFromCache p w2 = Ok v" "vmssNext w2 = vmssNext w"
    using getVMSSFromCache_putVMSS(1,3) [where az = az and name = "ss_Name (ssAt w p)" and op = op and e = e and w = w] put assms(3)
    by (metis snd_conv)+
  show ?thesis
  proof (cases r)
    case (Inl err)
    then have "retryCreateOrUpdateWithFreshETag az p n w2 = (Ok (ev, q), w1)"
      using assms(1) op put e_def by (auto simp: initCreateOrUpdate_def Let_def split: if_splits)
    from retry_Ok [OF this assms(2)] show ?thesis using assms(4) w2(2) by auto
  next
    case (Inr q')
    then have "q = q'" "ev = v" "w1 = w2" using assms(1) op put e_def
      by (auto simp: initCreateOrUpdate_def Let_def)
    then show ?thesis using Inr put w2 fst_putVMSS [OF assms(2)] by metis
  qed
qed

lemma now_steps [simp]:
  "now az (publishSize az' p n w) = now az w" "now az (setCapacity v c w) = now az w" "now az (spawn g w) = now az w"
  by (simp_all add: now_def publishSize_def setCapacity_def)

lemma capacity_setCapacity: "vmss_SKU (vmssAt w v) \<noteq> None \<Longrightarrow> capacityOf (vmssAt (setCapacity v (Some n) w) v) = Some n"
  by (auto simp: setCapacity_def capacityOf_def)

text \<open>After an accepted update the published size is the capacity of the cached VMSS object.\<close>

definition sizePublished :: "'e azClient \<Rightarrow> addr \<Rightarrow> int \<Rightarrow> 'e world \<Rightarrow> bool" where
  "sizePublished az p n w \<longleftrightarrow>
     (\<exists>v. getVMSSFromCache p w = Ok v \<and> capacityOf (vmssAt w v) = Some (curSize (ssAt w p))) \<and>
     n \<le> curSize (ssAt w p) \<and> lastSizeRefresh (ssAt w p) = now az w"

lemma getVMSSFromCache_steps [simp]:
  "getVMSSFromCache q (publishSize az p n w) = getVMSSFromCache q w"
  "getVMSSFromCache q (setCapacity v c w) = getVMSSFromCache q w"
  "getVMSSFromCache q (spawn g w) = getVMSSFromCache q w"
  "getVMSSFromCache q (invalidateInstanceCache az p w) = getVMSSFromCache q w"
  "getVMSSFromCache q (updVMSS v f w) = getVMSSFromCache q w"
  "getVMSSFromCache q (w\<lparr>env := e\<rparr>) = getVMSSFromCache q w"
  by (auto intro!: getVMSSFromCache_frame simp: publishSize_def invalidateInstanceCache_def)

lemma publishSize_fields [simp]:
  "curSize (ssAt (publishSize az p n w) p) = n" "lastSizeRefresh (ssAt (publishSize az p n w) p) = now az w"
  by (simp_all add: publishSize_def)

lemma createOrUpdate_accepted:
  assumes "createOrUpdateInstances az p v n w = (Ok (), w')" and "pollersGiven az"
    and "getVMSSFromCache p w = Ok v" and "v < vmssNext w"
  shows "sizePublished az p n w'"
proof -
  obtain k where k: "vmss_SKU (vmssAt w v) = Some k"
    using assms(1) by (auto simp: createOrUpdateInstances_def split: option.splits)
  obtain ev q w1 where i: "initCreateOrUpdate az p v n (setCapacity v (Some n) w) = (Ok (ev, q), w1)"
    using assms(1) k by (auto simp: createOrUpdateInstances_def split: go.splits prod.splits)
  have o: "getVMSSFromCache p w1 = Ok ev"
    "q = None \<Longrightarrow> ev \<noteq> v \<and> (\<exists>c \<ge> n. capacityOf (vmssAt w1 ev) = Some c)"
    using init_Ok [OF i assms(2)] assms(3,4) by simp_all
  show ?thesis
  proof (cases q)
    case None
    with o obtain c where "c \<ge> n" "capacityOf (vmssAt w1 ev) = Some c" "ev \<noteq> v" by blast
    then show ?thesis using assms(1) k i None o(1)
      by (auto simp: createOrUpdateInstances_def sizePublished_def)
  next
    case (Some pl)
    then have "w' = spawn (WaitForCreateOrUpdate p pl ev) (publishSize az p n (setCapacity ev (Some n) w1))"
      "vmss_SKU (vmssAt w1 ev) \<noteq> None"
      using assms(1) k i by (auto simp: createOrUpdateInstances_def split: if_splits)
    then show ?thesis using o(1) by (simp add: sizePublished_def capacity_setCapacity)
  qed
qed

lemma cacheAllocated_getCurSize:
  assumes "cacheAllocated w"
  shows "cacheAllocated (snd (getCurSize az p w))"
proof -
  have a: "scaleSets (azCache (snd (adoptSize az p v w'))) = scaleSets (azCache w')" 
    "vmssNext (snd (adoptSize az p v w')) = vmssNext w'" for v w'
    by (auto simp: adoptSize_def Let_def invalidateInstanceCache_def split: option.splits)
  have m: "(x, y) \<in> set (mapSet n v m) \<Longrightarrow> (x, y) = (n, v) \<or> (x, y) \<in> set m" for x y n v and m :: "(string, addr) gomap"
    by (induction n v m rule: mapSet.induct) (auto split: if_splits)
  show ?thesis
    using assms m
    by (auto simp: getCurSize_def call_env Let_def a cacheAllocated_def allocVMSS_def setScaleSet_def
        less_Suc_eq split: go.splits sum.splits) blast+
qed

lemma sizes_world:
  "snd (getScaleSetSize az p w) = snd (getCurSize az p w)"
  by (cases "getCurSize az p w"; cases "fst (getCurSize az p w)")
    (auto simp: getScaleSetSize_def split: sum.splits)

lemma IncreaseSize_published:
  assumes "IncreaseSize az p delta w = (Ok (), w')" and "pollersGiven az" and "cacheAllocated w"
  shows "\<exists>sz w1. getScaleSetSize az p w = (Ok sz, w1) \<and> sizePublished az p (i64 (sz + delta)) w'"
proof -
  obtain sz w1 where c: "canIncreaseSize az p delta w = (Ok sz, w1)"
    and s: "setScaleSetSize az p (i64 (sz + delta)) delta w1 = (Ok (), w')"
    using assms(1) by (auto simp: IncreaseSize_def andThen_Ok)
  note o = canIncreaseSize_Ok [OF c]
  have al: "cacheAllocated w1"
    using cacheAllocated_getCurSize [OF assms(3), of az p] o(2) sizes_world [of az p w] by simp
  obtain v where v: "getVMSSFromCache p w1 = Ok v" "createOrUpdateInstances az p v (i64 (sz + delta)) w1 = (Ok (), w')"
    using s o(1) by (auto simp: setScaleSetSize_def split: go.splits)
  from createOrUpdate_accepted [OF v(2) assms(2) v(1) getVMSSFromCache_allocated [OF al v(1)]] o(2)
  show ?thesis by blast
qed

lemma finishAtomic_frame:
  "ssFrame p w (snd (finishAtomicIncrease az p v ev q etag n w))"
  "requests (snd (finishAtomicIncrease az p v ev q etag n w)) = requests w"
  "goroutines (snd (finishAtomicIncrease az p v ev q etag n w)) = goroutines w"
  "fst (finishAtomicIncrease az p v ev q etag n w) \<noteq> Err e"
proof -
  have a: "ssFrame p w (publishSize az p m (setCapacity ev c w))" for m c
    by (rule ssFrame_trans [OF frame_steps(8) frame_invalidate(3)])
  have b: "ssFrame p w (publishSize az p m (updVMSS ev h (setCapacity ev c w)))" for m c h
    by (rule ssFrame_trans [OF frame_steps(8) ssFrame_trans [OF frame_steps(4) frame_invalidate(3)]])
  show "ssFrame p w (snd (finishAtomicIncrease az p v ev q etag n w))"
    using a b by (auto simp: finishAtomicIncrease_def Let_def split: option.splits)
  show "requests (snd (finishAtomicIncrease az p v ev q etag n w)) = requests w"
    "goroutines (snd (finishAtomicIncrease az p v ev q etag n w)) = goroutines w"
    "fst (finishAtomicIncrease az p v ev q etag n w) \<noteq> Err e"
    by (auto simp: finishAtomicIncrease_def Let_def split: option.splits)
qed

definition boundedPuts :: "addr \<Rightarrow> 'e world \<Rightarrow> 'e world \<Rightarrow> bool" where
  "boundedPuts p w w' \<longleftrightarrow>
     (\<exists>rs n. requests w' = requests w @ rs \<and> length rs \<le> 2 \<and>
        list_all (\<lambda>r. isPut (ss_Name (ssAt w p)) n r \<and> n \<le> ss_maxSize (ssAt w p)) rs)"

lemma await_steps:
  assumes "awaitAtomicIncrease az p v n x w = (r, w')"
  shows "requests w' = requests w" "goroutines w' = goroutines w" "r = Err e \<Longrightarrow> vmssAt w' = vmssAt w"
proof -
  obtain ev q where x: "x = (ev, q)" by (cases x)
  have "requests w' = requests w \<and> goroutines w' = goroutines w \<and> (r = Err e \<longrightarrow> vmssAt w' = vmssAt w)"
  proof (cases q)
    case None
    then have "(r, w') = finishAtomicIncrease az p v ev None None n w"
      using assms x by (simp add: awaitAtomicIncrease_def)
    then show ?thesis using finishAtomic_frame(2-4) [of az p v ev None None n w] by (metis fst_conv snd_conv)
  next
    case (Some pl)
    define w2 where "w2 = invalidateInstanceCache az p (w\<lparr>env := snd (pollCreateOrUpdate az pl (env w))\<rparr>)"
    have w2: "requests w2 = requests w" "goroutines w2 = goroutines w" "vmssAt w2 = vmssAt w"
      by (simp_all add: w2_def invalidateInstanceCache_def)
    show ?thesis
    proof (cases "fst (pollCreateOrUpdate az pl (env w))")
      case (Inl err)
      then have "w' = invalidateCache az (invalidateLastSizeRefresh az p w2)"
        using assms x Some by (simp add: awaitAtomicIncrease_def call_env w2_def Let_def)
      then show ?thesis using w2 by (simp add: invalidateCache_def invalidateLastSizeRefresh_def)
    next
      case (Inr etag)
      then have "(r, w') = finishAtomicIncrease az p v ev (Some pl) etag n w2"
        using assms x Some by (simp add: awaitAtomicIncrease_def call_env w2_def Let_def)
      then show ?thesis using w2 finishAtomic_frame(2-4) [of az p v ev "Some pl" etag n w2]
        by (metis fst_conv snd_conv)
    qed
  qed
  then show "requests w' = requests w" "goroutines w' = goroutines w" "r = Err e \<Longrightarrow> vmssAt w' = vmssAt w"
    by blast+
qed

lemma init_await_steps:
  assumes "andThen (initCreateOrUpdate az p v n w) (awaitAtomicIncrease az p v n) = (r, w')"
  shows "\<exists>rs. requests w' = requests w @ rs \<and> length rs \<le> 2 \<and> list_all (isPut (ss_Name (ssAt w p)) n) rs"
    and "goroutines w' = goroutines w" and "r = Err e \<Longrightarrow> vmssKept w w'"
proof -
  obtain i w2 where i: "initCreateOrUpdate az p v n w = (i, w2)" by fastforce
  obtain rs where rs: "length rs \<le> 2" "sentPuts p n rs w w2" using init_sent [of p n w az v] i by auto
  have "requests w' = requests w2 \<and> goroutines w' = goroutines w2 \<and> (r = Err e \<longrightarrow> vmssAt w' = vmssAt w2)"
  proof (cases i)
    case (Ok x)
    then have "awaitAtomicIncrease az p v n x w2 = (r, w')" using assms i by simp
    from await_steps [OF this] show ?thesis by blast
  qed (use assms i in simp_all)
  with rs show "\<exists>rs. requests w' = requests w @ rs \<and> length rs \<le> 2 \<and> list_all (isPut (ss_Name (ssAt w p)) n) rs"
    and "goroutines w' = goroutines w" and "r = Err e \<Longrightarrow> vmssKept w w'"
    by (auto simp: sentPuts_def vmssKept_def)
qed

lemma atomic_steps:
  assumes "AtomicIncreaseSize az p delta w = (r, w')"
  shows "boundedPuts p w w' \<and> goroutines w' = goroutines w \<and> (\<forall>e. r = Err e \<longrightarrow> vmssKept w w')"
proof -
  obtain c w1 where c: "canIncreaseSize az p delta w = (c, w1)" by fastforce
  have f: "quietFrame p w w1" using canIncreaseSize_frame [of p w az delta] c by simp
  then have q: "requests w1 = requests w" "goroutines w1 = goroutines w" "vmssKept w w1" "vmssNext w \<le> vmssNext w1"
    "ss_Name (ssAt w1 p) = ss_Name (ssAt w p)"
    using ssFrame_fields(1) [of p w w1 p] by (simp_all add: quietFrame_def quiet_def ssFrame_def)
  show ?thesis
  proof (cases "\<exists>sz v. c = Ok sz \<and> getVMSSFromCache p w1 = Ok v")
    case False
    then have "w' = w1" using assms c
      by (cases c; cases "getVMSSFromCache p w1") (auto simp: AtomicIncreaseSize_def)
    then show ?thesis using q by (auto simp: boundedPuts_def intro!: exI [of _ "[]"])
  next
    case True
    then obtain sz v where sz: "c = Ok sz" and v: "getVMSSFromCache p w1 = Ok v" by blast
    define n where "n = i64 (sz + delta)"
    have max: "n \<le> ss_maxSize (ssAt w p)" using canIncreaseSize_Ok(3) c sz n_def by blast
    have a: "andThen (initCreateOrUpdate az p v n w1) (awaitAtomicIncrease az p v n) = (r, w')"
      using assms c sz v by (simp add: AtomicIncreaseSize_def n_def)
    have "boundedPuts p w w'"
      using init_await_steps(1) [OF a] max q(1,5) by (auto simp: boundedPuts_def list_all_iff)
    moreover have "vmssKept w w'" if "r = Err e" for e
      using init_await_steps(3) [OF a that] q(3,4) by (simp add: vmssKept_def)
    ultimately show ?thesis using init_await_steps(2) [OF a] q(2) by simp
  qed
qed

section \<open>Facts on the size\<close>

definition sizePeriod :: "addr \<Rightarrow> vmss \<Rightarrow> 'e world \<Rightarrow> duration" where
  "sizePeriod p s w = (if isSpot s then getVmssSizeRefreshPeriod (ssAt w p) else sizeRefreshPeriod (ssAt w p))"

lemma getCurSize_fresh:
  assumes "getVMSSFromCache p w = Ok v"
    and "stillFresh (lastSizeRefresh (ssAt w p)) (sizePeriod p (vmssAt w v) w) (now az w)"
  shows "getCurSize az p w = (Ok (Inr (curSize (ssAt w p))), w)"
  using assms by (simp add: getCurSize_def sizePeriod_def Let_def)

lemma getCurSize_expired:
  assumes "getVMSSFromCache p w = Ok v" and "\<not> isSpot (vmssAt w v)"
    and "\<not> stillFresh (lastSizeRefresh (ssAt w p)) (sizeRefreshPeriod (ssAt w p)) (now az w)"
    and "capacityOf (vmssAt w v) = Some c"
  shows "\<exists>w'. getCurSize az p w = (Ok (Inr c), w') \<and> curSize (ssAt w' p) = c \<and>
    lastSizeRefresh (ssAt w' p) = now az w \<and> vmssAt w' = vmssAt w \<and> env w' = env w"
  using assms by (auto simp: getCurSize_def adoptSize_def Let_def invalidateInstanceCache_def now_def)



section \<open>Sample worlds\<close>

definition rejectingClient :: "int azClient" where
  "rejectingClient =
     sampleClient\<lparr>beginCreateOrUpdate := (\<lambda>_ _ _ _ e. (Inl (httpError 500 ''Internal'' None), e))\<rparr>"


definition spotWorld :: "int world" where
  "spotWorld = sampleWorld\<lparr>vmssAt := (\<lambda>_. sampleVMSS\<lparr>vmss_Properties := Some spotProperties\<rparr>),
     ssAt := (\<lambda>_. sampleSet\<lparr>getVmssSizeRefreshPeriod := 2 * minute\<rparr>)\<rparr>"

lemma prod_eq: "fst x = a \<Longrightarrow> x = (a, snd x)"
  by (cases x) simp

lemma canIncreaseSize_world:
  "snd (canIncreaseSize az p delta w) \<in> {w, snd (getCurSize az p w)}"
  using sizes_world [of az p w]
  by (cases "getScaleSetSize az p w"; cases "fst (getScaleSetSize az p w)") (auto simp: canIncreaseSize_def)

section \<open>Properties\<close>

text \<open>
  C3. Scaling up never asks Azure for more than the maximum size: every request \<open>IncreaseSize\<close>
  sends is a PUT of the scale set itself with one and the same capacity, at most the maximum
  size, and there are at most two (the update and its ETag retry). The 64 bit wrap-around of
  the new size is included.
\<close>

theorem IncreaseSize_bounded: "boundedPuts p w (snd (IncreaseSize az p delta w))"
  unfolding boundedPuts_def by (rule IncreaseSize_requests_aux)

text \<open>
  C5. A scale-up that fails leaves every VMSS object of the cache as it was (the eager change of
  the capacity is rolled back), starts no goroutine, and publishes no new size.
\<close>

theorem IncreaseSize_rejected:
  assumes "IncreaseSize az p delta w = (Err e, w')" and "cacheAllocated w"
  shows "vmssKept w w' \<and> goroutines w' = goroutines w \<and>
    curSize (ssAt w' p) \<in> {curSize (ssAt w p), curSize (ssAt (snd (getCurSize az p w)) p)}"
proof -
  obtain c w1 where c: "canIncreaseSize az p delta w = (c, w1)" by fastforce
  have f: "vmssKept w w1" "goroutines w1 = goroutines w" "vmssNext w \<le> vmssNext w1"
    using canIncreaseSize_frame [of p w az delta] c by (simp_all add: quietFrame_def quiet_def ssFrame_def)
  have w1: "w1 = w \<or> w1 = snd (getCurSize az p w)" using canIncreaseSize_world [of az p delta w] c by simp
  then have al: "cacheAllocated w1" using assms(2) cacheAllocated_getCurSize by blast
  show ?thesis
  proof (cases "\<exists>sz v. c = Ok sz \<and> getVMSSFromCache p w1 = Ok v")
    case True
    then obtain sz v where "c = Ok sz" and v: "getVMSSFromCache p w1 = Ok v" by blast
    then have "createOrUpdateInstances az p v (i64 (sz + delta)) w1 = (Err e, w')"
      using assms(1) c canIncreaseSize_Ok(1) [of az p delta w sz w1]
      by (simp add: IncreaseSize_def setScaleSetSize_def)
    from createOrUpdate_rejected [OF this getVMSSFromCache_allocated [OF al v]]
    show ?thesis using f w1 by (auto simp: sentPuts_def vmssKept_def)
  next
    case False
    then have "w' = w1" using assms(1) c
      by (cases c; cases "getVMSSFromCache p w1") (auto simp: IncreaseSize_def setScaleSetSize_def)
    then show ?thesis using f w1 by auto
  qed
qed

theorem IncreaseSize_rejected_witness:
  "vmssKept sampleWorld (snd (IncreaseSize rejectingClient 0 2 sampleWorld)) \<and>
   fst (IncreaseSize rejectingClient 0 2 sampleWorld) = Err (httpError 500 ''Internal'' None)"
proof -
  have r: "fst (IncreaseSize rejectingClient 0 2 sampleWorld) = Err (httpError 500 ''Internal'' None)"
    unfolding rejectingClient_def by code_simp
  have "cacheAllocated sampleWorld" by (simp add: cacheAllocated_def)
  then show ?thesis using IncreaseSize_rejected [OF prod_eq [OF r]] r by blast
qed

text \<open>
  C6. After a successful scale-up the size of the scale set is at least the requested one, equals
  the capacity of the VMSS object the cache now holds for it, and counts as refreshed at that
  moment. The hypothesis on the client is that an accepted request comes with a poller.
\<close>

theorem IncreaseSize_publishes:
  assumes "IncreaseSize az p delta w = (Ok (), w')" and "pollersGiven az" and "cacheAllocated w"
  shows "\<exists>sz w1. getScaleSetSize az p w = (Ok sz, w1) \<and> sizePublished az p (i64 (sz + delta)) w'"
  by (rule IncreaseSize_published [OF assms])

theorem IncreaseSize_publishes_witness:
  "\<exists>sz w1. getScaleSetSize sampleClient 0 sampleWorld = (Ok sz, w1) \<and>
     sizePublished sampleClient 0 (i64 (sz + 2)) (snd (IncreaseSize sampleClient 0 2 sampleWorld))"
proof (rule IncreaseSize_publishes [OF prod_eq])
  show "fst (IncreaseSize sampleClient 0 2 sampleWorld) = Ok ()" by code_simp
qed (simp_all add: cacheAllocated_def pollersGiven_def sampleClient_def)

text \<open>
  C10. The ETag retry never shrinks a scale set: when the freshly read capacity already reaches the
  target, no request is sent and the fresh object is returned; otherwise exactly one PUT is
  sent, built from the fresh object, with the target capacity and the fresh ETag.
\<close>

theorem retry_never_shrinks:
  assumes "vmssGet az (ResourceGroup (provider (config w))) (ss_Name (ssAt w p)) (env w) = (Inr fresh, e)"
    and "capacityOf fresh = Some c" and "buildScaleSetCapacityUpdate fresh n = Ok op"
  shows "if n \<le> c
    then fst (retryCreateOrUpdateWithFreshETag az p n w) = Ok (vmssNext w, None) \<and>
      requests (snd (retryCreateOrUpdateWithFreshETag az p n w)) = requests w
    else capacityOf op = Some n \<and> requests (snd (retryCreateOrUpdateWithFreshETag az p n w)) =
      requests w @ [PutVMSS (ss_Name (ssAt w p)) op (vmss_Etag fresh)]"
proof -
  let ?w3 = "refreshedWorld az p (w\<lparr>env := e\<rparr>) fresh"
  have q: "requests ?w3 = requests w" using refreshedWorld_frame [of p n "w\<lparr>env := e\<rparr>" az fresh]
    by (simp add: sentPuts_def)
  have r: "requests (snd (putVMSS az (ss_Name (ssAt w p)) op (vmss_Etag fresh) ?w3)) =
      requests w @ [PutVMSS (ss_Name (ssAt w p)) op (vmss_Etag fresh)]"
    by (simp add: putVMSS_world q)
  have i: "requests (invalidateForPreconditionFailure az p w') = requests w'" for w'
    by (simp add: invalidateForPreconditionFailure_def invalidateCache_def invalidateLastSizeRefresh_def
        invalidateInstanceCache_def)
  show ?thesis
    using assms q r i capacity_build [OF assms(3)]
    by (cases "putVMSS az (ss_Name (ssAt w p)) op (vmss_Etag fresh) ?w3")
      (auto simp: retry_unfold split: sum.splits)
qed

theorem retry_never_shrinks_witness:
  "fst (retryCreateOrUpdateWithFreshETag sampleClient 0 2 sampleWorld) = Ok (1, None) \<and>
   requests (snd (retryCreateOrUpdateWithFreshETag sampleClient 0 2 sampleWorld)) = []"
proof -
  obtain op where "buildScaleSetCapacityUpdate sampleVMSS 2 = Ok op"
    by (simp add: buildScaleSetCapacityUpdate_def sampleVMSS_def)
  from retry_never_shrinks [OF _ _ this, of sampleClient sampleWorld 0 1000 3] show ?thesis
    by (simp add: sampleClient_def capacityOf_def sampleVMSS_def)
qed

text \<open>
  C15. \<open>AtomicIncreaseSize\<close> sends the same bounded requests, never leaves a goroutine behind, and a
  failure leaves every VMSS object of the cache as it was.
\<close>

theorem AtomicIncreaseSize_safe:
  assumes "AtomicIncreaseSize az p delta w = (r, w')"
  shows "boundedPuts p w w' \<and> goroutines w' = goroutines w \<and> (\<forall>e. r = Err e \<longrightarrow> vmssKept w w')"
  by (rule atomic_steps [OF assms])

theorem AtomicIncreaseSize_safe_witness:
  "boundedPuts 0 sampleWorld (snd (AtomicIncreaseSize sampleClient 0 2 sampleWorld)) \<and>
   length (requests (snd (AtomicIncreaseSize sampleClient 0 2 sampleWorld))) = 1"
proof -
  have "length (requests (snd (AtomicIncreaseSize sampleClient 0 2 sampleWorld))) = 1" by code_simp
  then show ?thesis using AtomicIncreaseSize_safe [OF prod_eq [OF refl]] by blast
qed

text \<open>
  The size of a regular scale set is the cached one while its refresh period lasts and the
  capacity of the cached VMSS object afterwards; reading it calls no Azure API, and when the
  size turns out to have changed the instance cache is stale from then on.
\<close>

theorem getCurSize_regular:
  assumes "getVMSSFromCache p w = Ok v" and "\<not> isSpot (vmssAt w v)" and "capacityOf (vmssAt w v) = Some c"
  shows "(if stillFresh (lastSizeRefresh (ssAt w p)) (sizeRefreshPeriod (ssAt w p)) (now az w)
      then getCurSize az p w = (Ok (Inr (curSize (ssAt w p))), w)
      else fst (getCurSize az p w) = Ok (Inr c) \<and> curSize (ssAt (snd (getCurSize az p w)) p) = c \<and>
        env (snd (getCurSize az p w)) = env w \<and>
        (curSize (ssAt w p) = c \<or> (let s = ssAt (snd (getCurSize az p w)) p in
          \<not> stillFresh (lastInstanceRefresh s) (instancesRefreshPeriod s) (now az w))))"
  using assms
  by (auto simp: getCurSize_def adoptSize_def Let_def invalidateInstanceCache_def now_def stillFresh_def)

theorem getCurSize_regular_witness: "fst (getCurSize sampleClient 0 sampleWorld) = Ok (Inr 3)"
proof -
  have "getVMSSFromCache 0 sampleWorld = Ok 0" "\<not> isSpot sampleVMSS" "capacityOf sampleVMSS = Some 3"
    by code_simp+
  from getCurSize_regular [of 0 sampleWorld 0 3 sampleClient] this show ?thesis
    by (simp add: sampleSet_def stillFresh_def zeroTime_def minute_def second_def now_def sampleClient_def)
qed

text \<open>
  Invalidating the size of a regular scale set works: at any later time the next read takes the
  capacity of the cached VMSS object.
\<close>

theorem invalidated_size_is_reread:
  assumes "getVMSSFromCache p w = Ok v" and "\<not> isSpot (vmssAt w v)" and "capacityOf (vmssAt w v) = Some c"
    and "now az w \<le> timeNow az e"
  shows "fst (getCurSize az p ((invalidateLastSizeRefresh az p w)\<lparr>env := e\<rparr>)) = Ok (Inr c)"
proof -
  let ?w = "(invalidateLastSizeRefresh az p w)\<lparr>env := e\<rparr>"
  have "getVMSSFromCache p ?w = Ok v" using assms(1)
    by (simp add: invalidateLastSizeRefresh_def getVMSSFromCache_def getScaleSets_def split: option.splits)
  moreover have "\<not> stillFresh (lastSizeRefresh (ssAt ?w p)) (sizeRefreshPeriod (ssAt ?w p)) (now az ?w)"
    using sizeTTL.fresh_stale [OF assms(4), of "ssAt w p"] by (simp add: invalidateLastSizeRefresh_def now_def)
  ultimately show ?thesis using getCurSize_expired [of p ?w v az c] assms(2,3)
    by (auto simp: invalidateLastSizeRefresh_def)
qed

theorem invalidated_size_is_reread_witness:
  "fst (getCurSize sampleClient 0 ((invalidateLastSizeRefresh sampleClient 0 sampleWorld)\<lparr>env := 2000\<rparr>)) = Ok (Inr 3)"
proof (rule invalidated_size_is_reread [where v = 0])
  show "getVMSSFromCache 0 sampleWorld = Ok 0" "\<not> isSpot (vmssAt sampleWorld 0)"
    "capacityOf (vmssAt sampleWorld 0) = Some 3" by code_simp+
qed (simp add: now_def sampleClient_def)

text \<open>
  For a Spot scale set whose own refresh period is longer than the general one, invalidating
  the size has no effect: the very next read still returns the in-memory size and no GET is
  made, since the invalidation goes back by the general period only.
\<close>

theorem spot_invalidation_ineffective:
  assumes "getVMSSFromCache p w = Ok v" and "isSpot (vmssAt w v)"
    and "sizeRefreshPeriod (ssAt w p) < getVmssSizeRefreshPeriod (ssAt w p)"
  shows "getCurSize az p (invalidateLastSizeRefresh az p w) =
    (Ok (Inr (curSize (ssAt w p))), invalidateLastSizeRefresh az p w)"
proof -
  let ?w = "invalidateLastSizeRefresh az p w"
  have "getVMSSFromCache p ?w = Ok v" using assms(1)
    by (simp add: invalidateLastSizeRefresh_def getVMSSFromCache_def getScaleSets_def split: option.splits)
  moreover have "stillFresh (lastSizeRefresh (ssAt ?w p)) (sizePeriod p (vmssAt ?w v) ?w) (now az ?w)"
    using assms(2,3) by (simp add: invalidateLastSizeRefresh_def sizePeriod_def stillFresh_def now_def)
  ultimately show ?thesis using getCurSize_fresh [of p ?w v az] by simp
qed

theorem spot_invalidation_ineffective_witness:
  "fst (getCurSize sampleClient 0 (invalidateLastSizeRefresh sampleClient 0 spotWorld)) = Ok (Inr 3)"
proof -
  have "getVMSSFromCache 0 spotWorld = Ok 0" "isSpot (vmssAt spotWorld 0)"
    by (simp_all add: spotWorld_def getVMSSFromCache_def getScaleSets_def isSpot_def sampleSet_def spotProperties_def)
  moreover have "sizeRefreshPeriod (ssAt spotWorld 0) < getVmssSizeRefreshPeriod (ssAt spotWorld 0)"
    by (simp add: spotWorld_def sampleSet_def minute_def second_def)
  ultimately show ?thesis using spot_invalidation_ineffective [of 0 spotWorld 0 sampleClient]
    by (simp add: spotWorld_def sampleSet_def)
qed



end
