(* ===== verification/Scale_Set_Instances.thy ===== *)
theory Scale_Set_Instances
  imports Scale_Set_Size
begin

text \<open>
  The cache of the instances of a scale set (\<open>azure_scale_set_instance_cache.go\<close> and the
  builders of \<open>azure_scale_set.go\<close>): its validation against the refresh period, its rebuilding
  from the list of a uniform or a flexible scale set, throttling included, the reads and the
  status writes, and \<open>Nodes\<close>.
\<close>

section \<open>Listing the virtual machines\<close>

definition GetScaleSetVms :: "'e azClient \<Rightarrow> addr \<Rightarrow> 'e world \<Rightarrow> scaleSetVM list go \<times> 'e world" where
  "GetScaleSetVms az p w =
     callGo (listVMInstanceView az (ResourceGroup (provider (config w))) (ss_Name (ssAt w p))) w"

definition GetFlexibleScaleSetVms :: "'e azClient \<Rightarrow> addr \<Rightarrow> 'e world \<Rightarrow> virtualMachine list go \<times> 'e world" where
  "GetFlexibleScaleSetVms az p w =
     (case getVMSSFromCache p w of
        Panic \<Rightarrow> (Panic, w)
      | Err e \<Rightarrow> (Err e, w)
      | Ok v \<Rightarrow>
          (case vmss_ID (vmssAt w v) of
             None \<Rightarrow> (Err (Errorf ''VMSS %s has no ID'' [AStr (ss_Name (ssAt w p))]), w)
           | Some i \<Rightarrow> callGo (listVmssFlexVMs az (ResourceGroup (provider (config w))) i) w))"

definition getOrchestrationMode :: "addr \<Rightarrow> 'e world \<Rightarrow> orchestrationMode option go" where
  "getOrchestrationMode p w =
     (case getVMSSFromCache p w of
        Panic \<Rightarrow> Panic
      | Err e \<Rightarrow> Err e
      | Ok v \<Rightarrow> (case vmss_Properties (vmssAt w v) of
                    None \<Rightarrow> Ok None
                  | Some pr \<Rightarrow> Ok (OrchestrationMode pr)))"

section \<open>Rebuilding the cache\<close>

text \<open>\<open>rand.Intn(jitter + 1)\<close> panics on a non-positive bound.\<close>

definition splayedRefresh :: "'e azClient \<Rightarrow> addr \<Rightarrow> 'e world \<Rightarrow> time go \<times> 'e world" where
  "splayedRefresh az p w =
     (let n = i64 (instancesRefreshJitter (ssAt w p) + 1)
      in if n \<le> 0 then (Panic, w)
         else case call (randIntn az n) w of
                (splay, w1) \<Rightarrow> (Ok (now az w1 + i64 (- second * splay)), w1))"

text \<open>The refresh time after a throttled list: no retry before \<open>retryAfter\<close>.\<close>

definition throttledRefresh :: "time \<Rightarrow> duration \<Rightarrow> time \<Rightarrow> duration \<Rightarrow> time" where
  "throttledRefresh lastR period t retryAfter =
     (if 0 < retryAfter then
        let nextR = lastR + period; retryTime = t + retryAfter
        in if nextR < retryTime then lastR + (retryTime - nextR) else lastR
      else lastR)"

text \<open>
  The two builders share their frame: on a throttled list the cached instances stay and only
  the refresh time moves, on any other error nothing changes.
\<close>

definition rebuildCache ::
  "'e azClient \<Rightarrow> addr \<Rightarrow> ('e world \<Rightarrow> 'v list go \<times> 'e world) \<Rightarrow> (scaleSet \<Rightarrow> 'v list \<Rightarrow> inst list go) \<Rightarrow>
    'e world \<Rightarrow> unit go \<times> 'e world" where
  "rebuildCache az p listVms build w =
     andThen (splayedRefresh az p w) (\<lambda>lastR w1.
       case listVms w1 of
         (Panic, w2) \<Rightarrow> (Panic, w2)
       | (Err e, w2) \<Rightarrow>
           (case isAzureRequestsThrottled az (now az w2) e of
              (throttled, retryAfter) \<Rightarrow>
                if throttled
                then (Ok (), updSS p (\<lambda>s. s\<lparr>lastInstanceRefresh :=
                        throttledRefresh lastR (instancesRefreshPeriod s) (now az w2) retryAfter\<rparr>) w2)
                else (Err e, w2))
       | (Ok vms, w2) \<Rightarrow>
           (case build (ssAt w2 p) vms of
              Ok instances \<Rightarrow>
                (Ok (), updSS p (\<lambda>s. s\<lparr>instanceCache := instances, lastInstanceRefresh := lastR\<rparr>) w2)
            | Err e \<Rightarrow> (Err e, w2)
            | Panic \<Rightarrow> (Panic, w2)))"

definition buildScaleSetCacheForFlex :: "'e azClient \<Rightarrow> addr \<Rightarrow> 'e world \<Rightarrow> unit go \<times> 'e world" where
  "buildScaleSetCacheForFlex az p =
     rebuildCache az p (GetFlexibleScaleSetVms az p)
       (\<lambda>ss vms. buildInstanceCacheForFlex vms (enableFastDeleteOnFailedProvisioning ss))"

text \<open>The loop over the VMs of a uniform scale set; \<open>*vms[i].ID\<close> panics on nil.\<close>

fun uniformLoop :: "scaleSet \<Rightarrow> scaleSetVM list \<Rightarrow> inst list go" where
  "uniformLoop ss [] = Ok []"
| "uniformLoop ss (vm # vms) =
     (case ssvm_ID vm of
        None \<Rightarrow> Panic
      | Some i \<Rightarrow>
          if i = [] then uniformLoop ss vms
          else case convertResourceGroupNameToLower i of
                 Ok r \<Rightarrow>
                   (case instanceStatusFromVM ss vm of
                      Ok st \<Rightarrow>
                        (case uniformLoop ss vms of
                           Ok rest \<Rightarrow> Ok (\<lparr>Id = azurePrefix @ r, Status = st\<rparr> # rest)
                         | Err e \<Rightarrow> Err e
                         | Panic \<Rightarrow> Panic)
                    | Err e \<Rightarrow> Err e
                    | Panic \<Rightarrow> Panic)
               | _ \<Rightarrow> uniformLoop ss vms)"

definition buildScaleSetCacheForUniform :: "'e azClient \<Rightarrow> addr \<Rightarrow> 'e world \<Rightarrow> unit go \<times> 'e world" where
  "buildScaleSetCacheForUniform az p = rebuildCache az p (GetScaleSetVms az p) uniformLoop"

definition updateInstanceCache :: "'e azClient \<Rightarrow> addr \<Rightarrow> 'e world \<Rightarrow> unit go \<times> 'e world" where
  "updateInstanceCache az p w =
     (let name = ss_Name (ssAt w p)
      in case getOrchestrationMode p w of
           Panic \<Rightarrow> (Panic, w)
         | Err e \<Rightarrow> (Err e, w)
         | Ok m \<Rightarrow>
             if m = Some OrchestrationModeFlexible then
               if EnableVmssFlexNodes (provider (config w)) then buildScaleSetCacheForFlex az p w
               else (Err (Errorf ''vmss - %q with Flexible orchestration detected but 'enableVmssFlexNodes' feature flag is turned off'' [AStr name]), w)
             else if m = Some OrchestrationModeUniform then buildScaleSetCacheForUniform az p w
             else (Err (Errorf ''failed to determine orchestration mode for vmss %q'' [AStr name]), w))"

definition validateInstanceCache :: "'e azClient \<Rightarrow> addr \<Rightarrow> 'e world \<Rightarrow> unit go \<times> 'e world" where
  "validateInstanceCache az p w =
     (let ss = ssAt w p
      in if stillFresh (lastInstanceRefresh ss) (instancesRefreshPeriod ss) (now az w) then (Ok (), w)
         else updateInstanceCache az p w)"

section \<open>Reading and writing the cache\<close>

text \<open>The instance and whether it was found, or the error of the validation.\<close>

definition getInstanceByProviderID ::
  "'e azClient \<Rightarrow> addr \<Rightarrow> string \<Rightarrow> 'e world \<Rightarrow> inst option go \<times> 'e world" where
  "getInstanceByProviderID az p providerID w =
     andThen (validateInstanceCache az p w) (\<lambda>_ w1.
       (Ok (find (\<lambda>i. Id i = providerID) (instanceCache (ssAt w1 p))), w1))"

definition getInstancesByState ::
  "'e azClient \<Rightarrow> addr \<Rightarrow> instanceState \<Rightarrow> 'e world \<Rightarrow> inst list go \<times> 'e world" where
  "getInstancesByState az p state w =
     andThen (validateInstanceCache az p w) (\<lambda>_ w1.
       (Ok (filter (\<lambda>i. map_option State (Status i) = Some state) (instanceCache (ssAt w1 p))), w1))"

definition getInstanceCacheSize :: "'e azClient \<Rightarrow> addr \<Rightarrow> 'e world \<Rightarrow> int go \<times> 'e world" where
  "getInstanceCacheSize az p w =
     andThen (validateInstanceCache az p w) (\<lambda>_ w1. (Ok (int (length (instanceCache (ssAt w1 p)))), w1))"

fun setFirstStatus :: "string \<Rightarrow> instanceStatus \<Rightarrow> inst list \<Rightarrow> inst list" where
  "setFirstStatus i st [] = []"
| "setFirstStatus i st (x # xs) =
     (if Id x = i then x\<lparr>Status := Some st\<rparr> # xs else x # setFirstStatus i st xs)"

text \<open>An error of the validation is only logged; a panic ends the call.\<close>

definition setInstanceStatusByProviderID ::
  "'e azClient \<Rightarrow> addr \<Rightarrow> string \<Rightarrow> instanceStatus \<Rightarrow> 'e world \<Rightarrow> unit go \<times> 'e world" where
  "setInstanceStatusByProviderID az p providerID status w =
     (case validateInstanceCache az p w of
        (Panic, w1) \<Rightarrow> (Panic, w1)
      | (_, w1) \<Rightarrow>
          (Ok (), updSS p (\<lambda>s. s\<lparr>instanceCache := setFirstStatus providerID status (instanceCache s)\<rparr>) w1))"

definition Nodes :: "'e azClient \<Rightarrow> addr \<Rightarrow> 'e world \<Rightarrow> inst list go \<times> 'e world" where
  "Nodes az p w =
     andThen (getCurSize az p w) (\<lambda>r w1.
       case r of
         Inl f \<Rightarrow> if notFound f then (Ok [], w1) else (Err (vmssError f), w1)
       | Inr sz \<Rightarrow>
           let ss = ssAt w1 p
           in if int (length (instanceCache ss)) = sz \<and>
                 stillFresh (lastInstanceRefresh ss) (instancesRefreshPeriod ss) (now az w1)
              then (Ok (instanceCache ss), w1)
              else andThen (updateInstanceCache az p w1) (\<lambda>_ w2. (Ok (instanceCache (ssAt w2 p)), w2)))"

section \<open>Facts on the instance cache\<close>

lemma throttledRefresh_bounds:
  "lastR \<le> throttledRefresh lastR per t ra"
  "0 < ra \<Longrightarrow> t + ra \<le> throttledRefresh lastR per t ra + per"
  by (auto simp: throttledRefresh_def Let_def)

lemma rebuildCache_throttled:
  assumes "splayedRefresh az p w = (Ok lastR, w1)" and "listVms w1 = (Err e, w2)"
    and "isAzureRequestsThrottled az (now az w2) e = (True, ra)"
  shows "rebuildCache az p listVms build w = (Ok (), updSS p (\<lambda>s. s\<lparr>lastInstanceRefresh :=
    throttledRefresh lastR (instancesRefreshPeriod s) (now az w2) ra\<rparr>) w2)"
  using assms by (simp add: rebuildCache_def)

lemma splayedRefresh_store: "splayedRefresh az p w = (r, w') \<Longrightarrow> ssAt w' = ssAt w"
  by (auto simp: splayedRefresh_def Let_def call_env split: if_splits)

lemma GetScaleSetVms_store: "GetScaleSetVms az p w = (r, w') \<Longrightarrow> ssAt w' = ssAt w"
  by (auto simp: GetScaleSetVms_def callGo_env)

lemma GetFlexibleScaleSetVms_store: "GetFlexibleScaleSetVms az p w = (r, w') \<Longrightarrow> ssAt w' = ssAt w"
  by (auto simp: GetFlexibleScaleSetVms_def callGo_env split: go.splits option.splits)

lemma uniformLoop_ids:
  "uniformLoop ss vms = Ok out \<Longrightarrow>
     map Id out = List.map_filter (\<lambda>vm. instanceIdOf (ssvm_ID vm)) vms"
proof (induction vms arbitrary: out)
  case Nil
  then show ?case by (simp add: List.map_filter_simps)
next
  case (Cons vm vms)
  then show ?case
    by (auto simp: instanceIdOf_def List.map_filter_simps split: option.splits go.splits if_splits)
qed

lemma instanceStatusFromVM_Ok: "ssvm_ID vm \<noteq> None \<Longrightarrow> \<exists>st. instanceStatusFromVM ss vm = Ok st"
  by (auto simp: instanceStatusFromVM_def Let_def split: option.splits)

lemma uniformLoop_total:
  "list_all (\<lambda>vm. ssvm_ID vm \<noteq> None) vms \<Longrightarrow> \<exists>out. uniformLoop ss vms = Ok out"
proof (induction vms)
  case (Cons vm vms)
  then obtain st where "instanceStatusFromVM ss vm = Ok st" using instanceStatusFromVM_Ok by auto
  with Cons show ?case by (auto split: option.splits go.splits)
qed simp

lemma find_setFirstStatus:
  "find (\<lambda>x. Id x = j) (setFirstStatus i st xs) =
     (if j = i then map_option (\<lambda>x. x\<lparr>Status := Some st\<rparr>) (find (\<lambda>x. Id x = i) xs)
      else find (\<lambda>x. Id x = j) xs)"
  by (induction i st xs rule: setFirstStatus.induct) auto

lemma ids_setFirstStatus [simp]: "map Id (setFirstStatus i st xs) = map Id xs"
  by (induction i st xs rule: setFirstStatus.induct) auto

definition instancesFresh :: "'e azClient \<Rightarrow> addr \<Rightarrow> 'e world \<Rightarrow> bool" where
  "instancesFresh az p w \<longleftrightarrow>
     stillFresh (lastInstanceRefresh (ssAt w p)) (instancesRefreshPeriod (ssAt w p)) (now az w)"

lemma validate_fresh: "instancesFresh az p w \<Longrightarrow> validateInstanceCache az p w = (Ok (), w)"
  by (simp add: instancesFresh_def validateInstanceCache_def Let_def)

lemma validate_stale:
  "\<not> instancesFresh az p w \<Longrightarrow> validateInstanceCache az p w = updateInstanceCache az p w"
  by (simp add: instancesFresh_def validateInstanceCache_def Let_def)

lemma setStatus_fresh:
  assumes "instancesFresh az p w"
  shows "setInstanceStatusByProviderID az p i st w =
    (Ok (), updSS p (\<lambda>s. s\<lparr>instanceCache := setFirstStatus i st (instanceCache s)\<rparr>) w)"
  using validate_fresh [OF assms] by (simp add: setInstanceStatusByProviderID_def)

section \<open>Sample worlds\<close>

definition cachedWorld :: "int world" where
  "cachedWorld = sampleWorld\<lparr>ssAt := (\<lambda>_. sampleSet\<lparr>instanceCache := [\<lparr>Id = ''a'', Status = None\<rparr>],
     lastInstanceRefresh := 1000\<rparr>)\<rparr>"

definition throttlingClient :: "int azClient" where
  "throttlingClient = sampleClient\<lparr>listVMInstanceView :=
     (\<lambda>_ _ e. (Inl (httpError 429 ''Throttled'' (Some ''60'')), e))\<rparr>"

text \<open>The sample cache has one instance: a size of 1 is answered from it, a size of 2 is not.\<close>

definition sizedWorld :: "int \<Rightarrow> int world" where
  "sizedWorld n = updSS 0 (\<lambda>s. s\<lparr>curSize := n, lastSizeRefresh := 1000\<rparr>) cachedWorld"

lemma sizedWorld_read:
  assumes "n = 1 \<or> n = 2" and "w = snd (buildScaleSetCacheForUniform throttlingClient 0 (sizedWorld n))\<lparr>env := 1000\<rparr>"
  shows "getCurSize throttlingClient 0 w = (Ok (Inr n), w)"
proof -
  have "getVMSSFromCache 0 w = Ok 0" "curSize (ssAt w 0) = n"
    "stillFresh (lastSizeRefresh (ssAt w 0)) (sizePeriod 0 (vmssAt w 0) w) (now throttlingClient w)"
    using assms(1) unfolding assms(2) by (elim disjE; simp only:; code_simp)+
  then show ?thesis using getCurSize_fresh by metis
qed

section \<open>Properties\<close>

text \<open>
  While the instance cache is fresh, setting the status of an instance is what a later read of
  that instance returns, and reads of other instances are unaffected.
\<close>

theorem status_roundtrip:
  assumes "instancesFresh az p w" and "setInstanceStatusByProviderID az p i st w = (Ok (), w')"
  shows "getInstanceByProviderID az p j w' =
    (Ok (if j = i then map_option (\<lambda>x. x\<lparr>Status := Some st\<rparr>) (find (\<lambda>x. Id x = i) (instanceCache (ssAt w p)))
         else find (\<lambda>x. Id x = j) (instanceCache (ssAt w p))), w')"
proof -
  have w': "w' = updSS p (\<lambda>s. s\<lparr>instanceCache := setFirstStatus i st (instanceCache s)\<rparr>) w"
    using setStatus_fresh [OF assms(1)] assms(2) by simp
  then have "instancesFresh az p w'" using assms(1) by (simp add: instancesFresh_def now_def)
  from validate_fresh [OF this] show ?thesis
    by (simp add: getInstanceByProviderID_def w' find_setFirstStatus)
qed

theorem status_roundtrip_witness:
  "getInstanceByProviderID sampleClient 0 ''a''
     (snd (setInstanceStatusByProviderID sampleClient 0 ''a'' \<lparr>State = InstanceDeleting, ErrorInfo = None\<rparr> cachedWorld)) =
   (Ok (Some \<lparr>Id = ''a'', Status = Some \<lparr>State = InstanceDeleting, ErrorInfo = None\<rparr>\<rparr>),
    snd (setInstanceStatusByProviderID sampleClient 0 ''a'' \<lparr>State = InstanceDeleting, ErrorInfo = None\<rparr> cachedWorld))"
proof -
  have f: "instancesFresh sampleClient 0 cachedWorld" by code_simp
  show ?thesis
    using status_roundtrip [OF f prod_eq, of "''a''" "\<lparr>State = InstanceDeleting, ErrorInfo = None\<rparr>" "''a''"]
    by (simp add: setStatus_fresh [OF f]) (simp add: cachedWorld_def)
qed

text \<open>
  C37. A throttled list of the instances (uniform or flexible) keeps the cached instances and reports
  no error, and until the time the server asked to wait for has passed every validation of the
  cache succeeds without calling Azure. \<open>Nodes\<close> waits only while the cache has as many instances as
  the size: with a size served from memory it then answers from the cache, but it lists again at
  once when the numbers differ.
\<close>

theorem throttled_list_waits:
  assumes "splayedRefresh az p w = (Ok lastR, w1)" and "listVms w1 = (Err e, w2)"
    and "ssAt w2 = ssAt w1"
    and "isAzureRequestsThrottled az (now az w2) e = (True, ra)" and "0 < ra"
  shows "\<exists>w'. rebuildCache az p listVms build w = (Ok (), w') \<and>
    instanceCache (ssAt w' p) = instanceCache (ssAt w p) \<and>
    (\<forall>e' u. timeNow az e' < now az w2 + ra \<and> u = w'\<lparr>env := e'\<rparr> \<longrightarrow>
      validateInstanceCache az p u = (Ok (), u) \<and>
      (\<forall>sz. getCurSize az p u = (Ok (Inr sz), u) \<longrightarrow>
         Nodes az p u =
           (if int (length (instanceCache (ssAt w p))) = sz then (Ok (instanceCache (ssAt w p)), u)
            else andThen (updateInstanceCache az p u) (\<lambda>_ w3. (Ok (instanceCache (ssAt w3 p)), w3)))))"
proof -
  have s: "ssAt w2 = ssAt w" using assms(3) splayedRefresh_store [OF assms(1)] by simp
  let ?w' = "updSS p (\<lambda>s. s\<lparr>lastInstanceRefresh :=
    throttledRefresh lastR (instancesRefreshPeriod s) (now az w2) ra\<rparr>) w2"
  have c: "instanceCache (ssAt (?w'\<lparr>env := e'\<rparr>) p) = instanceCache (ssAt w p)" for e' using s by simp
  have f: "instancesFresh az p (?w'\<lparr>env := e'\<rparr>)" if "timeNow az e' < now az w2 + ra" for e'
    using throttledRefresh_bounds(2) [OF assms(5), of "now az w2" lastR "instancesRefreshPeriod (ssAt w2 p)"] that
    by (simp add: instancesFresh_def stillFresh_def now_def)
  have "Nodes az p u = (if int (length (instanceCache (ssAt w p))) = sz then (Ok (instanceCache (ssAt w p)), u)
      else andThen (updateInstanceCache az p u) (\<lambda>_ w3. (Ok (instanceCache (ssAt w3 p)), w3)))"
    if "getCurSize az p u = (Ok (Inr sz), u)" "timeNow az e' < now az w2 + ra" "u = ?w'\<lparr>env := e'\<rparr>" for e' u sz
    using that(1) f [OF that(2)] c [of e'] unfolding that(3) [symmetric]
    by (simp add: Nodes_def instancesFresh_def Let_def)
  then show ?thesis using rebuildCache_throttled [where listVms = listVms, OF assms(1,2,4)] s f
    by (intro exI [of _ ?w']) (simp add: validate_fresh)
qed

theorem throttled_list_waits_witness:
  "Nodes throttlingClient 0 (snd (buildScaleSetCacheForUniform throttlingClient 0 (sizedWorld 1))\<lparr>env := 1000\<rparr>) =
     (Ok [\<lparr>Id = ''a'', Status = None\<rparr>],
      snd (buildScaleSetCacheForUniform throttlingClient 0 (sizedWorld 1))\<lparr>env := 1000\<rparr>) \<and>
   fst (Nodes throttlingClient 0 (snd (buildScaleSetCacheForUniform throttlingClient 0 (sizedWorld 2))\<lparr>env := 1000\<rparr>)) =
     fst (andThen (updateInstanceCache throttlingClient 0
       (snd (buildScaleSetCacheForUniform throttlingClient 0 (sizedWorld 2))\<lparr>env := 1000\<rparr>))
       (\<lambda>_ w3. (Ok (instanceCache (ssAt w3 0)), w3)))"
proof -
  have a: "splayedRefresh throttlingClient 0 (sizedWorld n) = (Ok 1000, sizedWorld n)" for n
    by (simp add: sizedWorld_def splayedRefresh_def throttlingClient_def sampleClient_def cachedWorld_def sampleSet_def
        call_def now_def i64_def sampleWorld_def updSS_def)
  have b: "GetScaleSetVms throttlingClient 0 (sizedWorld n) = (Err (httpError 429 ''Throttled'' (Some ''60'')), sizedWorld n)" for n
    by (simp add: sizedWorld_def GetScaleSetVms_def callGo_def call_def throttlingClient_def liftSum_def cachedWorld_def
        sampleWorld_def updSS_def)
  have c: "isAzureRequestsThrottled throttlingClient (now throttlingClient (sizedWorld n))
      (httpError 429 ''Throttled'' (Some ''60'')) = (True, seconds 60)" for n
    unfolding throttlingClient_def by code_simp
  have d: "0 < seconds 60" by code_simp
  have e: "timeNow throttlingClient 1000 < now throttlingClient (sizedWorld n) + seconds 60" for n by code_simp
  have i: "instanceCache (ssAt (sizedWorld n) 0) = [\<lparr>Id = ''a'', Status = None\<rparr>]" for n
    by (simp add: sizedWorld_def cachedWorld_def)
  note t = throttled_list_waits [where listVms = "GetScaleSetVms throttlingClient 0" and build = uniformLoop,
      OF a b refl c d, folded buildScaleSetCacheForUniform_def, unfolded i]
  show ?thesis using t [of 1] t [of 2] e sizedWorld_read [OF _ refl] by fastforce
qed

text \<open>
  The instance list of a uniform scale set is built whenever every VM has an identifier
  pointer, and its identifiers are the normalised identifiers of the VMs, in order, less the
  empty and malformed ones.
\<close>

theorem uniformLoop_correct:
  assumes "list_all (\<lambda>vm. ssvm_ID vm \<noteq> None) vms"
  shows "\<exists>out. uniformLoop ss vms = Ok out \<and>
    map Id out = List.map_filter (\<lambda>vm. instanceIdOf (ssvm_ID vm)) vms"
  using uniformLoop_total [OF assms] uniformLoop_ids by blast

theorem uniformLoop_correct_witness:
  "\<exists>out. uniformLoop sampleSet [\<lparr>ssvm_ID = Some ''x'', ssvm_Name = None, ssvm_Properties = None\<rparr>] = Ok out \<and>
    map Id out = List.map_filter (\<lambda>vm. instanceIdOf (ssvm_ID vm))
      [\<lparr>ssvm_ID = Some ''x'', ssvm_Name = None, ssvm_Properties = None\<rparr>]"
  by (rule uniformLoop_correct) simp

text \<open>
  While size and instance cache are fresh and agree, \<open>Nodes\<close> answers from the cache and changes
  nothing.
\<close>

theorem Nodes_from_cache:
  assumes "getVMSSFromCache p w = Ok v"
    and "stillFresh (lastSizeRefresh (ssAt w p)) (sizePeriod p (vmssAt w v) w) (now az w)"
    and "instancesFresh az p w" and "int (length (instanceCache (ssAt w p))) = curSize (ssAt w p)"
  shows "Nodes az p w = (Ok (instanceCache (ssAt w p)), w)"
  using getCurSize_fresh [OF assms(1,2)] assms(3,4) by (simp add: Nodes_def instancesFresh_def Let_def)

theorem Nodes_from_cache_witness:
  "Nodes sampleClient 0 (updSS 0 (\<lambda>s. s\<lparr>curSize := 1, lastSizeRefresh := 1000\<rparr>) cachedWorld) =
    (Ok [\<lparr>Id = ''a'', Status = None\<rparr>], updSS 0 (\<lambda>s. s\<lparr>curSize := 1, lastSizeRefresh := 1000\<rparr>) cachedWorld)"
proof -
  let ?w = "updSS 0 (\<lambda>s. s\<lparr>curSize := 1, lastSizeRefresh := 1000\<rparr>) cachedWorld"
  have "getVMSSFromCache 0 ?w = Ok 0" "instancesFresh sampleClient 0 ?w"
    "stillFresh (lastSizeRefresh (ssAt ?w 0)) (sizePeriod 0 (vmssAt ?w 0) ?w) (now sampleClient ?w)"
    "int (length (instanceCache (ssAt ?w 0))) = curSize (ssAt ?w 0)"
    by code_simp+
  from Nodes_from_cache [OF this(1,3,2,4)] show ?thesis by (simp add: cachedWorld_def)
qed

end
