(* ===== verification/VMs_Pool.thy ===== *)
theory VMs_Pool
  imports Scale_Set_Instances
begin

text \<open>
  \<open>azure_vms_pool.go\<close>: a \<open>VMPool\<close>, the virtual machines of one size in an AKS agent pool of type
  VirtualMachines. The receiver of a method is the address of the pool.

  The cached agent pool is a struct whose \<open>Properties\<close> are shared by pointer, so what
  \<open>buildRequestBodyForScaleUp\<close> writes into a scale profile is written into the cache: the
  definition returns the changed agent pool beside the request.
\<close>

section \<open>The agent pool and its virtual machines\<close>

definition NewVMPool ::
  "'e azClient \<Rightarrow> nodeGroupSpec \<Rightarrow> string \<Rightarrow> string \<Rightarrow> 'e world \<Rightarrow> addr go \<times> 'e world" where
  "NewVMPool az spec agentPoolName sku w =
     (if \<not> hasAgentPoolClient az then (Err (Errorf ''agentPoolClient is nil'' []), w)
      else (Ok (vpNext w),
            w\<lparr>vpAt := (vpAt w)(vpNext w := \<lparr>vp_Name = spec_Name spec, vp_agentPoolName = agentPoolName,
                vp_sku = sku, vp_minSize = spec_MinSize spec, vp_maxSize = spec_MaxSize spec\<rparr>),
              vpNext := Suc (vpNext w)\<rparr>))"

definition getAgentpoolFromCache :: "addr \<Rightarrow> 'e world \<Rightarrow> aksAgentPool go" where
  "getAgentpoolFromCache p w =
     (case map_of (getVMsPoolMap w) (vp_agentPoolName (vpAt w p)) of
        None \<Rightarrow> Err (Errorf ''VMs agent pool %s not found in cache'' [AStr (vp_agentPoolName (vpAt w p))])
      | Some ap \<Rightarrow> Ok ap)"

definition getAgentpoolFromAzure :: "'e azClient \<Rightarrow> addr \<Rightarrow> 'e world \<Rightarrow> aksAgentPool go \<times> 'e world" where
  "getAgentpoolFromAzure az p w =
     (case call (agentPoolGet az (ClusterResourceGroup (config w)) (ClusterName (config w))
                   (vp_agentPoolName (vpAt w p))) w of
        (Inl e, w1) \<Rightarrow>
          (Err (Errorf ''failed to get agentpool %s in cluster %s with error: %v''
                  [AStr (vp_agentPoolName (vpAt w p)), AStr (ClusterName (config w)), AErr e]), w1)
      | (Inr ap, w1) \<Rightarrow> (Ok ap, w1))"

definition isSpotAgentPool :: "aksAgentPool \<Rightarrow> bool" where
  "isSpotAgentPool ap =
     (case aks_Properties ap of
        None \<Rightarrow> False
      | Some pr \<Rightarrow> (case app_ScaleSetPriority pr of
                       None \<Rightarrow> False
                     | Some s \<Rightarrow> strings_EqualFold s ''Spot''))"

record skipOption =
  skipDeleting :: bool
  skipFailed :: bool

definition hasSize :: "string \<Rightarrow> virtualMachine \<Rightarrow> bool" where
  "hasSize sku vm =
     (case vm_Properties vm of
        None \<Rightarrow> False
      | Some pr \<Rightarrow> (case vm_VMSize pr of
                       Some (Some s) \<Rightarrow> strings_EqualFold s sku
                     | _ \<Rightarrow> False))"

definition keepVM :: "skipOption \<Rightarrow> string \<Rightarrow> virtualMachine \<Rightarrow> bool" where
  "keepVM op sku vm \<longleftrightarrow>
     hasSize sku vm \<and>
     \<not> (skipDeleting op \<and> strings_Contains (derefStr (vmProvisioningState vm)) ''Deleting'') \<and>
     \<not> (skipFailed op \<and> strings_Contains (derefStr (vmProvisioningState vm)) ''Failed'')"

definition vp_getVMsFromCache :: "skipOption \<Rightarrow> addr \<Rightarrow> 'e world \<Rightarrow> virtualMachine list" where
  "vp_getVMsFromCache op p w =
     filter (keepVM op (vp_sku (vpAt w p))) (vmsOf (getVirtualMachines w) (vp_agentPoolName (vpAt w p)))"

section \<open>The size\<close>

fun spotCount :: "string \<Rightarrow> vmNodesStatus option list \<Rightarrow> int option" where
  "spotCount sku [] = None"
| "spotCount sku (None # ss) = spotCount sku ss"
| "spotCount sku (Some s # ss) =
     (if strings_EqualFold (derefStr (vns_Size s)) sku
      then Some (case vns_Count s of None \<Rightarrow> 0 | Some c \<Rightarrow> c)
      else spotCount sku ss)"

definition getSpotPoolSize :: "'e azClient \<Rightarrow> addr \<Rightarrow> 'e world \<Rightarrow> int go \<times> 'e world" where
  "getSpotPoolSize az p w =
     andThen (getAgentpoolFromAzure az p w) (\<lambda>ap w1.
       case (case aks_Properties ap of
               None \<Rightarrow> None
             | Some pr \<Rightarrow> spotCount (vp_sku (vpAt w1 p)) (app_VirtualMachineNodesStatus pr)) of
         Some c \<Rightarrow> (Ok c, w1)
       | None \<Rightarrow> (Err (Errorf ''failed to get the size of spot agentpool %s''
                         [AStr (vp_agentPoolName (vpAt w1 p))]), w1))"

definition vp_getCurSize :: "'e azClient \<Rightarrow> skipOption \<Rightarrow> addr \<Rightarrow> 'e world \<Rightarrow> int go \<times> 'e world" where
  "vp_getCurSize az op p w =
     (case getAgentpoolFromCache p w of
        Panic \<Rightarrow> (Panic, w)
      | Err e \<Rightarrow> (Err e, w)
      | Ok ap \<Rightarrow>
          if isSpotAgentPool ap then getSpotPoolSize az p w
          else (Ok (i32 (int (length (vp_getVMsFromCache op p w)))), w))"

definition vp_TargetSize :: "'e azClient \<Rightarrow> addr \<Rightarrow> 'e world \<Rightarrow> int go \<times> 'e world" where
  "vp_TargetSize az p w = vp_getCurSize az \<lparr>skipDeleting = True, skipFailed = False\<rparr> p w"

section \<open>Scaling up\<close>

text \<open>The scale profile; \<open>None\<close> where a dereference on the way to it panics.\<close>

definition scaleOf :: "aksAgentPool \<Rightarrow> vmsProfile option" where
  "scaleOf ap =
     (case aks_Properties ap of
        None \<Rightarrow> None
      | Some pr \<Rightarrow> (case app_VirtualMachinesProfile pr of Some (Some sc) \<Rightarrow> Some sc | _ \<Rightarrow> None))"

text \<open>The first manual profile of the size gets the count; the flag tells whether there is one.\<close>

fun setManualCount :: "string \<Rightarrow> int \<Rightarrow> manualScaleProfile option list \<Rightarrow> bool \<times> manualScaleProfile option list" where
  "setManualCount sku count [] = (False, [])"
| "setManualCount sku count (m # ms) =
     (if (case m of
            None \<Rightarrow> False
          | Some x \<Rightarrow> msp_Size x \<noteq> None \<and> strings_EqualFold (derefStr (msp_Size x)) sku)
      then (True, map_option (\<lambda>x. x\<lparr>msp_Count := Some count\<rparr>) m # ms)
      else case setManualCount sku count ms of (found, ms') \<Rightarrow> (found, m # ms'))"

definition emptyPoolProperties :: agentPoolProperties where
  "emptyPoolProperties =
     \<lparr>app_Type = None, app_Mode = None, app_ScaleSetPriority = None, app_VirtualMachinesProfile = None,
      app_VirtualMachineNodesStatus = [], app_NodeLabels = [], app_NodeTaints = [],
      app_AvailabilityZones = [], app_OSType = None, app_OSDiskType = None\<rparr>"

definition buildRequestBodyForScaleUp ::
  "agentPoolProperties \<Rightarrow> vmsProfile \<Rightarrow> int \<Rightarrow> string \<Rightarrow> aksAgentPool \<times> agentPoolProperties" where
  "buildRequestBodyForScaleUp pr sc count sku =
     (case setManualCount sku count (Manual sc) of
        (found, manual) \<Rightarrow>
          let profile = Some (Some (sc\<lparr>Manual := manual\<rparr>));
              body = emptyPoolProperties\<lparr>app_Type := app_Type pr,
                app_Mode := (if app_Mode pr = Some AgentPoolModeSystem then Some AgentPoolModeSystem else None),
                app_VirtualMachinesProfile := (if found then profile else None)\<rparr>
          in (\<lparr>aks_Name = None, aks_Properties = Some body\<rparr>, pr\<lparr>app_VirtualMachinesProfile := profile\<rparr>))"

definition isHostedSystem :: "agentPoolProperties \<Rightarrow> bool" where
  "isHostedSystem pr =
     (case app_Mode pr of
        Some (OtherAgentPoolMode m) \<Rightarrow> strings_EqualFold m ''HostedSystem''
      | _ \<Rightarrow> False)"

text \<open>\<open>http.Header.Set\<close> puts the name \<open>SKU\<close> in its canonical form \<open>Sku\<close>.\<close>

definition scaleUpHeaders :: "agentPoolProperties \<Rightarrow> vmsProfile \<Rightarrow> int \<Rightarrow> string \<Rightarrow> (string, string) gomap" where
  "scaleUpHeaders pr sc count sku =
     (if Autoscale sc \<noteq> None \<or> isHostedSystem pr
      then [(''Target-Count'', fmtInt count), (''Sku'', sku)] else [])"

definition putAgentPool ::
  "'e azClient \<Rightarrow> addr \<Rightarrow> aksAgentPool \<Rightarrow> (string, string) gomap \<Rightarrow> 'e world \<Rightarrow> unit go \<times> 'e world" where
  "putAgentPool az p body headers w =
     (let name = vp_agentPoolName (vpAt w p)
      in andThen (callGo (agentPoolPut az (ClusterResourceGroup (config w)) (ClusterName (config w)) name body headers)
                    (sendReq (PutAgentPool name body headers) w))
           (\<lambda>q. callGo (pollAgentPool az q)))"

text \<open>The request and the wait for its end; the deferred invalidation runs on every way out.\<close>

definition scaleUpAgentPool ::
  "'e azClient \<Rightarrow> addr \<Rightarrow> aksAgentPool \<Rightarrow> int \<Rightarrow> 'e world \<Rightarrow> unit go \<times> 'e world" where
  "scaleUpAgentPool az p ap count w =
     (case (aks_Properties ap, scaleOf ap) of
        (Some pr, Some sc) \<Rightarrow>
          let sku = vp_sku (vpAt w p); name = vp_agentPoolName (vpAt w p);
              headers = scaleUpHeaders pr sc count sku;
              (body, w1) =
                (if Manual sc \<noteq> [] then
                   (case buildRequestBodyForScaleUp pr sc count sku of
                      (body, pr') \<Rightarrow> (body, updCache (\<lambda>c. c\<lparr>vmsPoolMap :=
                         mapSet name (ap\<lparr>aks_Properties := Some pr'\<rparr>) (vmsPoolMap c)\<rparr>) w))
                 else (\<lparr>aks_Name = None, aks_Properties = None\<rparr>, w))
          in (case putAgentPool az p body headers w1 of (r, w2) \<Rightarrow> (r, invalidateCache az w2))
      | _ \<Rightarrow> (Panic, w))"

definition vp_IncreaseSize :: "'e azClient \<Rightarrow> addr \<Rightarrow> int \<Rightarrow> 'e world \<Rightarrow> unit go \<times> 'e world" where
  "vp_IncreaseSize az p delta w =
     (if delta \<le> 0
      then (Err (Errorf ''size increase must be positive, current delta: %d'' [AInt delta]), w)
      else andThen (vp_getCurSize az \<lparr>skipDeleting = True, skipFailed = True\<rparr> p w) (\<lambda>cur w1.
        if i64 (cur + delta) > vp_maxSize (vpAt w1 p)
        then (Err (Errorf ''size-increasing request of %d is bigger than max size %d''
                     [AInt (i64 (cur + delta)), AInt (vp_maxSize (vpAt w1 p))]), w1)
        else case getAgentpoolFromCache p w1 of
               Panic \<Rightarrow> (Panic, w1)
             | Err e \<Rightarrow> (Err e, w1)
             | Ok ap \<Rightarrow> scaleUpAgentPool az p ap (i32 (cur + i32 delta)) w1))"

definition vp_AtomicIncreaseSize :: "'e azClient \<Rightarrow> addr \<Rightarrow> int \<Rightarrow> 'e world \<Rightarrow> unit go \<times> 'e world" where
  "vp_AtomicIncreaseSize az p delta w = vp_IncreaseSize az p delta w"

definition vp_DecreaseTargetSize :: "'e azClient \<Rightarrow> addr \<Rightarrow> int \<Rightarrow> 'e world \<Rightarrow> unit go \<times> 'e world" where
  "vp_DecreaseTargetSize az p delta w = (Ok (), invalidateCache az w)"

section \<open>Deleting nodes\<close>

definition vp_Belongs :: "addr \<Rightarrow> k8sNode \<Rightarrow> 'e world \<Rightarrow> bool go \<times> 'e world" where
  "vp_Belongs p node w = belongsTo ''%s doesn't belong to a known node group'' (vp_Name (vpAt w p)) node w"

fun getProviderIDsForNodes :: "addr \<Rightarrow> k8sNode list \<Rightarrow> 'e world \<Rightarrow> string list go \<times> 'e world" where
  "getProviderIDsForNodes p [] w = (Ok [], w)"
| "getProviderIDsForNodes p (node # nodes) w =
     (case vp_Belongs p node w of
        (Panic, w1) \<Rightarrow> (Panic, w1)
      | (Err e, w1) \<Rightarrow>
          (Err (Errorw ''failed to check if node %s belongs to vmPool %s: %w''
                  [AStr (node_Name node), AStr (vp_Name (vpAt w1 p))] e), w1)
      | (Ok False, w1) \<Rightarrow>
          (Err (Errorf ''node %s does not belong to vmPool %s''
                  [AStr (node_Name node), AStr (vp_Name (vpAt w1 p))]), w1)
      | (Ok True, w1) \<Rightarrow>
          andThen (getProviderIDsForNodes p nodes w1) (\<lambda>ids w2. (Ok (node_ProviderID node # ids), w2)))"

fun machineNames :: "string list \<Rightarrow> string list go" where
  "machineNames [] = Ok []"
| "machineNames (i # is) =
     (case resourceName i of
        Ok n \<Rightarrow> (case machineNames is of Ok ns \<Rightarrow> Ok (n # ns) | Err e \<Rightarrow> Err e | Panic \<Rightarrow> Panic)
      | Err e \<Rightarrow> Err e
      | Panic \<Rightarrow> Panic)"

definition markDeleting :: "string list \<Rightarrow> 'e world \<Rightarrow> 'e world" where
  "markDeleting ids w = fold (\<lambda>i. setInstanceStateByProviderID i InstanceDeleting) ids w"

definition vp_DeleteNodes :: "'e azClient \<Rightarrow> addr \<Rightarrow> k8sNode list \<Rightarrow> 'e world \<Rightarrow> unit go \<times> 'e world" where
  "vp_DeleteNodes az p nodes w =
     (case vp_getCurSize az \<lparr>skipDeleting = True, skipFailed = False\<rparr> p w of
        (Panic, w1) \<Rightarrow> (Panic, w1)
      | (Err e, w1) \<Rightarrow> (Err (Errorw ''unable to retrieve current size: %w'' [] e), w1)
      | (Ok cur, w1) \<Rightarrow>
          if cur \<le> vp_minSize (vpAt w1 p)
          then (Err (Errorf ''cannot delete nodes as minimum size of %d has been reached''
                       [AInt (vp_minSize (vpAt w1 p))]), w1)
          else
            (case getProviderIDsForNodes p nodes w1 of
               (Panic, w2) \<Rightarrow> (Panic, w2)
             | (Err e, w2) \<Rightarrow> (Err (Errorw ''failed to retrieve provider IDs for nodes: %w'' [] e), w2)
             | (Ok ids, w2) \<Rightarrow>
                 if ids = [] then (Ok (), w2)
                 else
                   let w3 = (if StrictCacheUpdates (config w2) then w2 else markDeleting ids w2);
                       pool = vp_agentPoolName (vpAt w3 p)
                   in case machineNames ids of
                        Panic \<Rightarrow> (Panic, w3)
                      | Err e \<Rightarrow> (Err e, w3)
                      | Ok names \<Rightarrow>
                          (case andThen (callGo (deleteMachines az (ClusterResourceGroup (config w3))
                                           (ClusterName (config w3)) pool names)
                                         (sendReq (DeleteMachines pool names) w3))
                                  (\<lambda>q. callGo (pollAgentPool az q)) of
                             (r, w4) \<Rightarrow> (r, invalidateCache az w4))))"

section \<open>Nodes\<close>

text \<open>The instances of virtual machines that are not in a scale set, shared with \<open>AgentPool.Nodes\<close>.\<close>

definition standaloneInstance :: "string \<Rightarrow> virtualMachine \<Rightarrow> inst go" where
  "standaloneInstance i vm =
     (case convertResourceGroupNameToLower (azurePrefix @ i) of
        Ok r \<Rightarrow> Ok \<lparr>Id = r, Status = instanceStatusFromProvisioningStateAndPowerState
                   (vmProvisioningState vm) vmPowerStateRunning False\<rparr>
      | Err e \<Rightarrow> Err e
      | Panic \<Rightarrow> Panic)"

fun vmPoolInstances :: "virtualMachine list \<Rightarrow> inst list go" where
  "vmPoolInstances [] = Ok []"
| "vmPoolInstances (vm # vms) =
     (if derefStr (vm_ID vm) = [] then vmPoolInstances vms
      else case standaloneInstance (derefStr (vm_ID vm)) vm of
             Ok x \<Rightarrow> (case vmPoolInstances vms of Ok xs \<Rightarrow> Ok (x # xs) | Err e \<Rightarrow> Err e | Panic \<Rightarrow> Panic)
           | Err e \<Rightarrow> Err e
           | Panic \<Rightarrow> Panic)"

definition vp_Nodes :: "addr \<Rightarrow> 'e world \<Rightarrow> inst list go" where
  "vp_Nodes p w = vmPoolInstances (vp_getVMsFromCache \<lparr>skipDeleting = False, skipFailed = False\<rparr> p w)"

section \<open>Facts\<close>

fun manualCount :: "string \<Rightarrow> manualScaleProfile option list \<Rightarrow> int option" where
  "manualCount sku [] = None"
| "manualCount sku (None # ms) = manualCount sku ms"
| "manualCount sku (Some x # ms) =
     (if msp_Size x \<noteq> None \<and> strings_EqualFold (derefStr (msp_Size x)) sku then msp_Count x
      else manualCount sku ms)"

definition poolManual :: "aksAgentPool \<Rightarrow> manualScaleProfile option list" where
  "poolManual ap = (case scaleOf ap of None \<Rightarrow> [] | Some sc \<Rightarrow> Manual sc)"

lemma setManualCount_count:
  "setManualCount sku n ms = (True, ms') \<Longrightarrow> manualCount sku ms' = Some n"
  by (induction sku n ms arbitrary: ms' rule: setManualCount.induct)
    (auto split: prod.splits if_splits option.splits)

lemma setManualCount_other:
  "setManualCount sku n ms = (b, ms') \<Longrightarrow> \<not> strings_EqualFold sku sku' \<Longrightarrow> manualCount sku' ms' = manualCount sku' ms"
proof (induction sku n ms arbitrary: b ms' rule: setManualCount.induct)
  case (2 sku n m ms)
  then show ?case
    by (cases m) (auto simp: strings_EqualFold_def split: prod.splits if_splits)
qed simp

lemma setManualCount_missing: "setManualCount sku n ms = (False, ms') \<Longrightarrow> ms' = ms"
  by (induction sku n ms arbitrary: ms' rule: setManualCount.induct) (auto split: prod.splits if_splits)

text \<open>Whether there is a manual profile of the size.\<close>

definition hasManual :: "string \<Rightarrow> manualScaleProfile option list \<Rightarrow> bool" where
  "hasManual sku ms \<longleftrightarrow>
     list_ex (\<lambda>m. case m of
         None \<Rightarrow> False
       | Some x \<Rightarrow> (case msp_Size x of None \<Rightarrow> False | Some s \<Rightarrow> strings_EqualFold s sku)) ms"

lemma fst_setManualCount: "fst (setManualCount sku n ms) = hasManual sku ms"
  by (induction sku n ms rule: setManualCount.induct)
    (auto simp: hasManual_def derefStr_def split: prod.splits option.splits)

text \<open>
  The manual profiles of a request for \<open>n\<close> machines of the size \<open>sku\<close>: the count in the profile of
  that size and the counts of the other sizes as they are cached, or none without such a profile.
\<close>

definition manualRequested :: "string \<Rightarrow> int \<Rightarrow> manualScaleProfile option list \<Rightarrow> manualScaleProfile option list \<Rightarrow> bool" where
  "manualRequested sku n cached ms \<longleftrightarrow>
     (if hasManual sku cached
      then manualCount sku ms = Some n \<and>
        (\<forall>other. \<not> strings_EqualFold sku other \<longrightarrow> manualCount other ms = manualCount other cached)
      else ms = [])"

lemma body_manual:
  assumes "buildRequestBodyForScaleUp pr sc n sku = (body, pr')"
  shows "manualRequested sku n (Manual sc) (poolManual body)"
proof -
  obtain found ms where m: "setManualCount sku n (Manual sc) = (found, ms)" by fastforce
  have "found = hasManual sku (Manual sc)" using fst_setManualCount [of sku n "Manual sc"] m by simp
  then show ?thesis
    using assms m setManualCount_count [of sku n "Manual sc" ms] setManualCount_other [OF m]
    by (auto simp: buildRequestBodyForScaleUp_def Let_def poolManual_def scaleOf_def emptyPoolProperties_def
        manualRequested_def)
qed

lemma putAgentPool_requests:
  "requests (snd (putAgentPool az p body h w)) = requests w @ [PutAgentPool (vp_agentPoolName (vpAt w p)) body h]"
  by (cases "fst (agentPoolPut az (ClusterResourceGroup (config w)) (ClusterName (config w)) (vp_agentPoolName (vpAt w p)) body h (env w))")
    (simp_all add: putAgentPool_def callGo_env Let_def liftSum_def)

lemma putAgentPool_cache: "azCache (snd (putAgentPool az p body h w)) = azCache w" "vpAt (snd (putAgentPool az p body h w)) = vpAt w"
  by (cases "fst (agentPoolPut az (ClusterResourceGroup (config w)) (ClusterName (config w)) (vp_agentPoolName (vpAt w p)) body h (env w))";
      simp add: putAgentPool_def callGo_env Let_def liftSum_def)+

lemma invalidateCache_fields [simp]:
  "requests (invalidateCache az w) = requests w" "azCache (invalidateCache az w) = azCache w"
  "vpAt (invalidateCache az w) = vpAt w" "goroutines (invalidateCache az w) = goroutines w"
  "ssAt (invalidateCache az w) = ssAt w" "vmssAt (invalidateCache az w) = vmssAt w"
  "apAt (invalidateCache az w) = apAt w" "config (invalidateCache az w) = config w"
  by (simp_all add: invalidateCache_def)

text \<open>The request and the cache after a scale-up request.\<close>

lemma scaleUp_unfold:
  fixes w :: "'e world" and p :: addr
  assumes "aks_Properties ap = Some pr" and "scaleOf ap = Some sc"
  defines "sku \<equiv> vp_sku (vpAt w p)" and "name \<equiv> vp_agentPoolName (vpAt w p)"
  shows "\<exists>body w1. (if Manual sc = [] then body = \<lparr>aks_Name = None, aks_Properties = None\<rparr> \<and> w1 = w
      else \<exists>pr'. buildRequestBodyForScaleUp pr sc n sku = (body, pr') \<and>
        w1 = updCache (\<lambda>c. c\<lparr>vmsPoolMap := mapSet name (ap\<lparr>aks_Properties := Some pr'\<rparr>) (vmsPoolMap c)\<rparr>) w) \<and>
    scaleUpAgentPool az p ap n w =
      (fst (putAgentPool az p body (scaleUpHeaders pr sc n sku) w1),
       invalidateCache az (snd (putAgentPool az p body (scaleUpHeaders pr sc n sku) w1)))"
proof (cases "Manual sc = []")
  case True
  then show ?thesis using assms
    by (intro exI [of _ "\<lparr>aks_Name = None, aks_Properties = None\<rparr>"] exI [of _ w])
      (simp add: scaleUpAgentPool_def Let_def split: prod.splits)
next
  case False
  obtain body pr' where b: "buildRequestBodyForScaleUp pr sc n sku = (body, pr')" by fastforce
  with False show ?thesis using assms
    by (intro exI [of _ body] exI [of _ "updCache (\<lambda>c. c\<lparr>vmsPoolMap := mapSet name (ap\<lparr>aks_Properties := Some pr'\<rparr>) (vmsPoolMap c)\<rparr>) w"])
      (simp add: scaleUpAgentPool_def Let_def split: prod.splits)
qed

lemma scaleUp_request:
  assumes s: "aks_Properties ap = Some pr" "scaleOf ap = Some sc"
  shows "\<exists>body. requests (snd (scaleUpAgentPool az p ap n w)) =
      requests w @ [PutAgentPool (vp_agentPoolName (vpAt w p)) body (scaleUpHeaders pr sc n (vp_sku (vpAt w p)))] \<and>
    manualRequested (vp_sku (vpAt w p)) n (Manual sc) (poolManual body)"
proof -
  let ?sku = "vp_sku (vpAt w p)" and ?name = "vp_agentPoolName (vpAt w p)"
  obtain body w1 where b: "if Manual sc = [] then body = \<lparr>aks_Name = None, aks_Properties = None\<rparr> \<and> w1 = w
      else \<exists>pr'. buildRequestBodyForScaleUp pr sc n ?sku = (body, pr') \<and>
        w1 = updCache (\<lambda>c. c\<lparr>vmsPoolMap := mapSet ?name (ap\<lparr>aks_Properties := Some pr'\<rparr>) (vmsPoolMap c)\<rparr>) w"
    and e: "scaleUpAgentPool az p ap n w = (fst (putAgentPool az p body (scaleUpHeaders pr sc n ?sku) w1),
       invalidateCache az (snd (putAgentPool az p body (scaleUpHeaders pr sc n ?sku) w1)))"
    using scaleUp_unfold [OF s, where n = n and w = w and p = p and az = az] by blast
  have "manualRequested ?sku n (Manual sc) (poolManual body)"
  proof (cases "Manual sc = []")
    case True
    then show ?thesis using b by (simp add: manualRequested_def hasManual_def poolManual_def scaleOf_def)
  next
    case False
    then show ?thesis using b body_manual by (simp, blast)
  qed
  moreover have "vpAt w1 = vpAt w" "requests w1 = requests w" using b by (auto split: if_splits)
  ultimately show ?thesis by (intro exI [of _ body]) (simp add: e putAgentPool_requests)
qed

lemma getCurSize_quiet:
  "requests (snd (vp_getCurSize az op p w)) = requests w" "vpAt (snd (vp_getCurSize az op p w)) = vpAt w"
  "azCache (snd (vp_getCurSize az op p w)) = azCache w"
proof -
  have "requests (snd (vp_getCurSize az op p w)) = requests w \<and> vpAt (snd (vp_getCurSize az op p w)) = vpAt w \<and>
    azCache (snd (vp_getCurSize az op p w)) = azCache w"
    by (auto simp: vp_getCurSize_def getSpotPoolSize_def getAgentpoolFromAzure_def call_env andThen_def
        split: go.splits sum.splits option.splits)
  then show "requests (snd (vp_getCurSize az op p w)) = requests w" "vpAt (snd (vp_getCurSize az op p w)) = vpAt w"
    "azCache (snd (vp_getCurSize az op p w)) = azCache w" by blast+
qed

lemma narrow_delta:
  assumes "0 \<le> cur" "in32 cur" "0 < delta" "in64 delta" "i64 (cur + delta) \<le> m" "m < 2 ^ 31" "cur + delta \<le> maxInt64"
  shows "i32 (cur + i32 delta) = cur + delta" "cur + delta \<le> m"
proof -
  have e: "i64 (cur + delta) = cur + delta" using assms by (intro i64_nonneg_small) auto
  then show "cur + delta \<le> m" using assms(5) by simp
  then have "in32 delta" "in32 (cur + delta)" using assms by (auto simp: in32_def)
  then show "i32 (cur + i32 delta) = cur + delta" by (simp add: i32_id)
qed

lemma pool_lookup:
  "vmsPoolMap (azCache w') = mapSet (vp_agentPoolName (vpAt w p)) x m \<Longrightarrow> vpAt w' = vpAt w \<Longrightarrow>
   getAgentpoolFromCache p w' = Ok x"
  by (simp add: getAgentpoolFromCache_def getVMsPoolMap_def map_of_mapSet)

lemma machineNames_length: "machineNames is = Ok ns \<Longrightarrow> length ns = length is"
  by (induction "is" arbitrary: ns) (auto split: go.splits)

lemma FindForInstance_quiet:
  assumes "FindForInstance ref t w = (r, w')"
  shows "w' = w\<lparr>azCache := azCache w'\<rparr>" "azCache w' = (azCache w)\<lparr>unownedInstances := unownedInstances (azCache w')\<rparr>"
    "r \<noteq> Panic"
  using assms by (auto simp: FindForInstance_def markUnowned_def updCache_def split: go.splits if_splits)

lemma belongsTo_quiet:
  assumes "belongsTo m own node w = (r, w')"
  shows "w' = w\<lparr>azCache := azCache w'\<rparr>" "azCache w' = (azCache w)\<lparr>unownedInstances := unownedInstances (azCache w')\<rparr>"
    "r \<noteq> Panic"
proof -
  obtain f w1 where f: "FindForInstance (node_ProviderID node) (VMType (provider (config w))) w = (f, w1)" by fastforce
  have "w' = w1" "r \<noteq> Panic" using assms f FindForInstance_quiet(3) [OF f]
    by (cases f; auto simp: belongsTo_def GetNodeGroupForInstance_def split: option.splits)+
  then show "w' = w\<lparr>azCache := azCache w'\<rparr>"
    "azCache w' = (azCache w)\<lparr>unownedInstances := unownedInstances (azCache w')\<rparr>" "r \<noteq> Panic"
    using FindForInstance_quiet(1,2) [OF f] by blast+
qed

lemma vmPoolInstances_count:
  assumes "list_all (\<lambda>vm. \<exists>i r. vm_ID vm = Some i \<and> i \<noteq> [] \<and> convertResourceGroupNameToLower (azurePrefix @ i) = Ok r) vms"
  shows "\<exists>xs. vmPoolInstances vms = Ok xs \<and> length xs = length vms \<and>
    map Status xs = map (\<lambda>vm. instanceStatusFromProvisioningStateAndPowerState (vmProvisioningState vm) vmPowerStateRunning False) vms"
  using assms
proof (induction vms)
  case (Cons vm vms)
  then show ?case by (auto simp: standaloneInstance_def derefStr_def)
qed simp

lemma deleting_status:
  "map_option State (instanceStatusFromProvisioningStateAndPowerState ps pw False) = Some InstanceDeleting \<longleftrightarrow>
   ps = Some VMProvisioningStateDeleting"
  by (auto simp: instanceStatusFromProvisioningStateAndPowerState_def provisioning_defs split: option.splits)

lemma length_filter_map: "length (filter P (map f xs)) = length (filter (P \<circ> f) xs)"
  by (induction xs) auto

section \<open>Sample worlds\<close>

definition sampleAKSPool :: aksAgentPool where
  "sampleAKSPool = \<lparr>aks_Name = Some ''pool'', aks_Properties = Some (emptyPoolProperties\<lparr>
     app_Type := Some AgentPoolTypeVirtualMachines,
     app_VirtualMachinesProfile := Some (Some \<lparr>Manual = [Some \<lparr>msp_Size = Some ''Standard_D2'', msp_Count = Some 1\<rparr>],
       Autoscale = None\<rparr>)\<rparr>)\<rparr>"

definition sampleVM :: virtualMachine where
  "sampleVM = \<lparr>vm_ID = Some sampleID, vm_Name = Some ''vm'', vm_Tags = [],
     vm_Properties = Some \<lparr>vm_ProvisioningState = Some ''Succeeded'', vm_InstanceView = None,
       vm_VMSize = Some (Some ''standard_d2''), vm_OSDisk = None, vm_NetworkInterfaces = []\<rparr>\<rparr>"

definition poolWorld :: "int world" where
  "poolWorld = updCache (\<lambda>c. c\<lparr>vmsPoolMap := [(''pool'', sampleAKSPool)], virtualMachines := [(''pool'', [sampleVM])]\<rparr>) sampleWorld"

definition poolRejectingClient :: "int azClient" where
  "poolRejectingClient = sampleClient\<lparr>agentPoolPut := (\<lambda>_ _ _ _ _ e. (Inl (OtherErr ''quota''), e))\<rparr>"

lemma poolWorld_vms: "vp_getVMsFromCache \<lparr>skipDeleting = a, skipFailed = b\<rparr> 0 poolWorld = [sampleVM]"
proof -
  have "keepVM \<lparr>skipDeleting = True, skipFailed = True\<rparr> ''Standard_D2'' sampleVM" by code_simp
  then have "keepVM \<lparr>skipDeleting = a, skipFailed = b\<rparr> ''Standard_D2'' sampleVM" by (simp add: keepVM_def)
  then show ?thesis
    by (simp add: vp_getVMsFromCache_def poolWorld_def getVirtualMachines_def vmsOf_def sampleWorld_def sampleVMPool_def)
qed

lemma poolWorld_pool: "getAgentpoolFromCache 0 poolWorld = Ok sampleAKSPool"
  by (simp add: getAgentpoolFromCache_def poolWorld_def getVMsPoolMap_def sampleWorld_def sampleVMPool_def)

lemma poolWorld_size:
  "vp_getCurSize az \<lparr>skipDeleting = a, skipFailed = b\<rparr> 0 poolWorld = (Ok 1, poolWorld)"
  by (simp add: vp_getCurSize_def poolWorld_pool poolWorld_vms)
    (simp add: isSpotAgentPool_def sampleAKSPool_def emptyPoolProperties_def i32_def)

lemma poolWorld_vpAt [simp]: "vpAt poolWorld p = sampleVMPool"
  by (simp add: poolWorld_def sampleWorld_def)

section \<open>Properties\<close>

text \<open>
  C23. A VMs pool, of which the cached agent pool has a scale profile and whose maximum size fits into
  32 bits, is scaled up with exactly one request when the increase is positive and the current
  number of usable machines plus the increase is at most the maximum; otherwise no request is
  sent. The request asks for exactly that sum: in the manual profile of the size of the pool, when
  there is one (the counts of other sizes are sent as cached), and in the headers, when the
  profile has an automatic part or the mode is HostedSystem. The narrowing to 32 bits loses nothing.
\<close>

theorem vp_IncreaseSize_bounded:
  assumes "vp_getCurSize az \<lparr>skipDeleting = True, skipFailed = True\<rparr> p w = (Ok cur, w1)"
    and "getAgentpoolFromCache p w = Ok ap" and "aks_Properties ap = Some pr" and "scaleOf ap = Some sc"
    and "0 \<le> cur" "in32 cur" "in64 delta" "cur + delta \<le> maxInt64" "vp_maxSize (vpAt w p) < 2 ^ 31"
  shows "if 0 < delta \<and> cur + delta \<le> vp_maxSize (vpAt w p)
    then \<exists>body headers. requests (snd (vp_IncreaseSize az p delta w)) =
        requests w @ [PutAgentPool (vp_agentPoolName (vpAt w p)) body headers] \<and>
      manualRequested (vp_sku (vpAt w p)) (cur + delta) (Manual sc) (poolManual body) \<and>
      headers = (if Autoscale sc \<noteq> None \<or> isHostedSystem pr
                 then [(''Target-Count'', fmtInt (cur + delta)), (''Sku'', vp_sku (vpAt w p))] else [])
    else requests (snd (vp_IncreaseSize az p delta w)) = requests w"
proof -
  have q: "requests w1 = requests w" "vpAt w1 = vpAt w" "azCache w1 = azCache w"
    using getCurSize_quiet [of az "\<lparr>skipDeleting = True, skipFailed = True\<rparr>" p w] assms(1) by simp_all
  have ap: "getAgentpoolFromCache p w1 = Ok ap"
    using assms(2) q by (simp add: getAgentpoolFromCache_def getVMsPoolMap_def split: option.splits)
  show ?thesis
  proof (cases "0 < delta")
    case True
    have e: "i64 (cur + delta) = cur + delta" using assms(5,7,8) True by (intro i64_nonneg_small) auto
    show ?thesis
    proof (cases "cur + delta \<le> vp_maxSize (vpAt w p)")
      case within: True
      have "i32 (cur + i32 delta) = cur + delta"
        using narrow_delta(1) [OF assms(5,6) True assms(7) _ assms(9,8)] e within by simp
      then have "snd (vp_IncreaseSize az p delta w) = snd (scaleUpAgentPool az p ap (cur + delta) w1)"
        using True within ap assms(1) q(2) e by (simp add: vp_IncreaseSize_def)
      then show ?thesis
        using scaleUp_request [OF assms(3,4), of az p "cur + delta" w1] True within q(1,2)
        by (auto simp: scaleUpHeaders_def)
    next
      case False
      then show ?thesis using assms(1) q(1,2) e True by (simp add: vp_IncreaseSize_def)
    qed
  qed (use assms(1) in \<open>simp add: vp_IncreaseSize_def\<close>)
qed

theorem vp_IncreaseSize_bounded_witness:
  "\<exists>body. requests (snd (vp_IncreaseSize sampleClient 0 2 poolWorld)) =
      requests poolWorld @ [PutAgentPool ''pool'' body []] \<and>
    manualCount ''Standard_D2'' (poolManual body) = Some 3"
proof -
  have s: "aks_Properties sampleAKSPool = Some (the (aks_Properties sampleAKSPool))"
    "scaleOf sampleAKSPool = Some (the (scaleOf sampleAKSPool))" by code_simp+
  have m: "hasManual ''Standard_D2'' (Manual (the (scaleOf sampleAKSPool)))"
    "Autoscale (the (scaleOf sampleAKSPool)) = None" "\<not> isHostedSystem (the (aks_Properties sampleAKSPool))"
    by code_simp+
  from vp_IncreaseSize_bounded [OF poolWorld_size poolWorld_pool s, of 2 sampleClient] m show ?thesis
    by (auto simp: in32_def in64_def minInt64_def maxInt64_def manualRequested_def sampleVMPool_def)
qed

text \<open>
  C40. A rejected scale-up of a VMs pool leaves the requested count in the cached scale profile:
  unlike the scale set, nothing is rolled back, so the next request for another size of the
  same agent pool, if it is sent before the cache is refreshed, repeats the rejected count.
\<close>

theorem scale_up_count_stays:
  assumes "aks_Properties ap = Some pr" and "scaleOf ap = Some sc"
    and "fst (setManualCount (vp_sku (vpAt w p)) n (Manual sc))"
    and "scaleUpAgentPool az p ap n w = (Err e, w')"
  shows "\<exists>ap'. getAgentpoolFromCache p w' = Ok ap' \<and>
    manualCount (vp_sku (vpAt w p)) (poolManual ap') = Some n"
proof -
  let ?sku = "vp_sku (vpAt w p)" and ?name = "vp_agentPoolName (vpAt w p)"
  have ne: "Manual sc \<noteq> []" using assms(3) by auto
  obtain body w1 pr' where b: "buildRequestBodyForScaleUp pr sc n ?sku = (body, pr')"
    and w1: "w1 = updCache (\<lambda>c. c\<lparr>vmsPoolMap := mapSet ?name (ap\<lparr>aks_Properties := Some pr'\<rparr>) (vmsPoolMap c)\<rparr>) w"
    and e: "w' = invalidateCache az (snd (putAgentPool az p body (scaleUpHeaders pr sc n ?sku) w1))"
    using scaleUp_unfold [OF assms(1,2), where n = n and w = w and p = p and az = az] assms(4) ne by auto
  have "vmsPoolMap (azCache w') = mapSet ?name (ap\<lparr>aks_Properties := Some pr'\<rparr>) (vmsPoolMap (azCache w))"
    "vpAt w' = vpAt w"
    by (simp_all add: e putAgentPool_cache w1)
  from pool_lookup [OF this] have g: "getAgentpoolFromCache p w' = Ok (ap\<lparr>aks_Properties := Some pr'\<rparr>)" .
  obtain ms where ms: "setManualCount ?sku n (Manual sc) = (True, ms)" using assms(3) by (metis eq_fst_iff)
  then have "poolManual (ap\<lparr>aks_Properties := Some pr'\<rparr>) = ms"
    using b by (auto simp: buildRequestBodyForScaleUp_def Let_def poolManual_def scaleOf_def)
  with g setManualCount_count [OF ms] show ?thesis by auto
qed

theorem scale_up_count_stays_witness:
  "\<exists>ap'. getAgentpoolFromCache 0 (snd (scaleUpAgentPool poolRejectingClient 0 sampleAKSPool 3 poolWorld)) = Ok ap' \<and>
    manualCount ''Standard_D2'' (poolManual ap') = Some 3"
proof -
  have r: "fst (scaleUpAgentPool poolRejectingClient 0 sampleAKSPool 3 poolWorld) = Err (OtherErr ''quota'')"
    unfolding poolRejectingClient_def by code_simp
  obtain pr sc where s: "aks_Properties sampleAKSPool = Some pr" "scaleOf sampleAKSPool = Some sc"
    "Manual sc = [Some \<lparr>msp_Size = Some ''Standard_D2'', msp_Count = Some 1\<rparr>]"
    by (simp add: sampleAKSPool_def scaleOf_def)
  from scale_up_count_stays [OF s(1,2) _ prod_eq [OF r]] s(3) show ?thesis
    by (simp add: sampleVMPool_def derefStr_def)
qed

text \<open>
  At or below the minimum size no node of a VMs pool is deleted: the call fails, sends no
  request and leaves the cache alone.
\<close>

theorem vp_DeleteNodes_min_guard:
  assumes "vp_getCurSize az \<lparr>skipDeleting = True, skipFailed = False\<rparr> p w = (Ok cur, w1)"
    and "cur \<le> vp_minSize (vpAt w p)"
  shows "\<not> is_Ok (fst (vp_DeleteNodes az p nodes w)) \<and> requests (snd (vp_DeleteNodes az p nodes w)) = requests w \<and>
    azCache (snd (vp_DeleteNodes az p nodes w)) = azCache w"
  using getCurSize_quiet [of az "\<lparr>skipDeleting = True, skipFailed = False\<rparr>" p w] assms
  by (simp add: vp_DeleteNodes_def)

theorem vp_DeleteNodes_min_guard_witness:
  "\<not> is_Ok (fst (vp_DeleteNodes sampleClient 0 [] poolWorld)) \<and>
   requests (snd (vp_DeleteNodes sampleClient 0 [] poolWorld)) = requests poolWorld \<and>
   azCache (snd (vp_DeleteNodes sampleClient 0 [] poolWorld)) = azCache poolWorld"
  by (rule vp_DeleteNodes_min_guard [OF poolWorld_size]) (simp add: sampleVMPool_def)

text \<open>
  The target size of a regular VMs pool is the number of its \<open>Nodes\<close> that are not being
  deleted, provided every machine has a well-formed identifier and the only provisioning state
  that mentions \<open>Deleting\<close> is that word itself.
\<close>

theorem vp_TargetSize_counts_nodes:
  assumes "getAgentpoolFromCache p w = Ok ap" and "\<not> isSpotAgentPool ap"
    and "vms = vp_getVMsFromCache \<lparr>skipDeleting = False, skipFailed = False\<rparr> p w" and "length vms < 2 ^ 31"
    and "list_all (\<lambda>vm. \<exists>i r. vm_ID vm = Some i \<and> i \<noteq> [] \<and> convertResourceGroupNameToLower (azurePrefix @ i) = Ok r) vms"
    and "list_all (\<lambda>vm. strings_Contains (derefStr (vmProvisioningState vm)) ''Deleting'' \<longleftrightarrow>
      vmProvisioningState vm = Some VMProvisioningStateDeleting) vms"
  shows "\<exists>xs. vp_Nodes p w = Ok xs \<and> vp_TargetSize az p w =
    (Ok (int (length (filter (\<lambda>x. map_option State (Status x) \<noteq> Some InstanceDeleting) xs))), w)"
proof -
  obtain xs where xs: "vmPoolInstances vms = Ok xs" and st: "map Status xs =
      map (\<lambda>vm. instanceStatusFromProvisioningStateAndPowerState (vmProvisioningState vm) vmPowerStateRunning False) vms"
    using vmPoolInstances_count [OF assms(5)] by blast
  have k: "vp_getVMsFromCache \<lparr>skipDeleting = True, skipFailed = False\<rparr> p w =
      filter (\<lambda>vm. vmProvisioningState vm \<noteq> Some VMProvisioningStateDeleting) vms"
    unfolding assms(3) vp_getVMsFromCache_def filter_filter
    by (rule filter_cong) (use assms(3,6) in \<open>auto simp: keepVM_def vp_getVMsFromCache_def list_all_iff\<close>)
  have "length (filter (\<lambda>x. map_option State (Status x) \<noteq> Some InstanceDeleting) xs) =
      length (filter (\<lambda>s. map_option State s \<noteq> Some InstanceDeleting) (map Status xs))"
    by (simp add: length_filter_map comp_def)
  also have "\<dots> = length (filter (\<lambda>vm. vmProvisioningState vm \<noteq> Some VMProvisioningStateDeleting) vms)"
    unfolding st by (simp only: length_filter_map comp_def deleting_status)
  also have "\<dots> = length (vp_getVMsFromCache \<lparr>skipDeleting = True, skipFailed = False\<rparr> p w)" by (simp add: k)
  finally have c: "length (filter (\<lambda>x. map_option State (Status x) \<noteq> Some InstanceDeleting) xs) =
      length (vp_getVMsFromCache \<lparr>skipDeleting = True, skipFailed = False\<rparr> p w)" .
  have "length (vp_getVMsFromCache \<lparr>skipDeleting = True, skipFailed = False\<rparr> p w) \<le> length vms"
    unfolding k by (rule length_filter_le)
  then have "in32 (int (length (vp_getVMsFromCache \<lparr>skipDeleting = True, skipFailed = False\<rparr> p w)))"
    using assms(4) by (simp add: in32_def)
  with c assms(1,2) xs assms(3) show ?thesis
    by (auto simp: vp_TargetSize_def vp_getCurSize_def vp_Nodes_def i32_id)
qed

theorem vp_TargetSize_counts_nodes_witness:
  "\<exists>xs. vp_Nodes 0 poolWorld = Ok xs \<and> vp_TargetSize sampleClient 0 poolWorld =
    (Ok (int (length (filter (\<lambda>x. map_option State (Status x) \<noteq> Some InstanceDeleting) xs))), poolWorld)"
proof (rule vp_TargetSize_counts_nodes [OF poolWorld_pool])
  show "\<not> isSpotAgentPool sampleAKSPool" by code_simp
  show "[sampleVM] = vp_getVMsFromCache \<lparr>skipDeleting = False, skipFailed = False\<rparr> 0 poolWorld"
    by (simp add: poolWorld_vms)
  show "list_all (\<lambda>vm. \<exists>i r. vm_ID vm = Some i \<and> i \<noteq> [] \<and>
      convertResourceGroupNameToLower (azurePrefix @ i) = Ok r) [sampleVM]"
    using convert_sampleProviderID by (simp add: sampleVM_def sampleProviderID_def [symmetric]) (simp add: sampleID_def)
  show "list_all (\<lambda>vm. strings_Contains (derefStr (vmProvisioningState vm)) ''Deleting'' \<longleftrightarrow>
      vmProvisioningState vm = Some VMProvisioningStateDeleting) [sampleVM]" by code_simp
qed simp

end
