(* ===== verification/Deployment_Template.thy ===== *)
theory Deployment_Template
  imports Azure_Util
begin

text \<open>
  The normalisation of the exported deployment template in \<open>azure_util.go\<close>, which an agent pool
  keeps to deploy more virtual machines: the master machines lose what may not change, the
  network security group and the route table are removed together with the dependencies on
  them. A type assertion without a second result panics on another type.
\<close>

definition nsgResourceType :: string where "nsgResourceType = ''Microsoft.Network/networkSecurityGroups''"
definition rtResourceType :: string where "rtResourceType = ''Microsoft.Network/routeTables''"
definition vmResourceType :: string where "vmResourceType = ''Microsoft.Compute/virtualMachines''"
definition vmExtensionType :: string where "vmExtensionType = ''Microsoft.Compute/virtualMachines/extensions''"
definition nsgID :: string where "nsgID = ''nsgID''"
definition rtID :: string where "rtID = ''routeTableID''"
definition masterVMNamePrefix :: string where "masterVMNamePrefix = ''variables('masterVMNamePrefix')''"

text \<open>\<open>m[k].(T)\<close> with a second result\<close>

definition objField :: "(string \<times> json) list \<Rightarrow> string \<Rightarrow> (string \<times> json) list option" where
  "objField m k = (case map_of m k of Some (JObj x) \<Rightarrow> Some x | _ \<Rightarrow> None)"

definition strField :: "(string \<times> json) list \<Rightarrow> string \<Rightarrow> string option" where
  "strField m k = (case map_of m k of Some (JStr x) \<Rightarrow> Some x | _ \<Rightarrow> None)"

definition arrField :: "(string \<times> json) list \<Rightarrow> string \<Rightarrow> json list option" where
  "arrField m k = (case map_of m k of Some (JArr x) \<Rightarrow> Some x | _ \<Rightarrow> None)"

text \<open>\<open>if m[k] != nil { delete(m, k) }\<close>: an explicit null stays.\<close>

definition deleteNonNil :: "string \<Rightarrow> (string \<times> json) list \<Rightarrow> (string \<times> json) list" where
  "deleteNonNil k m = (case map_of m k of None \<Rightarrow> m | Some JNull \<Rightarrow> m | Some _ \<Rightarrow> mapDelete k m)"

definition removeCustomData :: "(string \<times> json) list \<Rightarrow> bool \<times> (string \<times> json) list" where
  "removeCustomData props =
     (case objField props ''osProfile'' of
        None \<Rightarrow> (False, props)
      | Some os \<Rightarrow> (True, mapSet ''osProfile'' (JObj (deleteNonNil ''customData'' os)) props))"

definition removeImageReference :: "(string \<times> json) list \<Rightarrow> bool \<times> (string \<times> json) list" where
  "removeImageReference props =
     (case objField props ''storageProfile'' of
        None \<Rightarrow> (False, props)
      | Some st \<Rightarrow> (True, mapSet ''storageProfile'' (JObj (deleteNonNil ''imageReference'' st)) props))"

text \<open>One master machine.\<close>

definition stripMaster :: "(string \<times> json) list \<Rightarrow> (string \<times> json) list" where
  "stripMaster m =
     (case objField m ''properties'' of
        None \<Rightarrow> m
      | Some props \<Rightarrow>
          (case objField props ''hardwareProfile'' of
             None \<Rightarrow> m
           | Some hw \<Rightarrow>
               let props1 = mapSet ''hardwareProfile'' (JObj (deleteNonNil ''vmSize'' hw)) props;
                   (ok, props2) = removeCustomData props1;
                   props3 = (if ok then snd (removeImageReference props2) else props2)
               in mapSet ''properties'' (JObj props3) m))"

text \<open>One turn of the loop over the resources: the changed resource, and whether it is to be removed.\<close>

definition masterStep :: "json \<Rightarrow> json \<times> bool" where
  "masterStep r =
     (case r of
        JObj m \<Rightarrow>
          (case strField m ''name'' of
             None \<Rightarrow> (r, False)
           | Some n \<Rightarrow>
               if strField m ''type'' = Some vmResourceType then
                 if strings_Contains n masterVMNamePrefix then (JObj (stripMaster m), False) else (r, False)
               else (r, strings_Contains n masterVMNamePrefix \<and> strField m ''type'' = Some vmExtensionType))
      | _ \<Rightarrow> (r, False))"

text \<open>The positions, from \<open>i\<close> on, of the elements that satisfy a predicate.\<close>

fun indexesOf :: "('a \<Rightarrow> bool) \<Rightarrow> nat \<Rightarrow> 'a list \<Rightarrow> nat list" where
  "indexesOf P i [] = []"
| "indexesOf P i (x # xs) = (if P x then i # indexesOf P (Suc i) xs else indexesOf P (Suc i) xs)"

definition normalizeMasterResourcesForScaling :: "(string \<times> json) list \<Rightarrow> (string \<times> json) list go" where
  "normalizeMasterResourcesForScaling t =
     (case arrField t ''resources'' of
        None \<Rightarrow> Panic
      | Some rs \<Rightarrow>
          (case removeIndexesFromArray (map (fst \<circ> masterStep) rs) (indexesOf (snd \<circ> masterStep) 0 rs) of
             Ok rs' \<Rightarrow> Ok (mapSet ''resources'' (JArr rs') t)
           | Err e \<Rightarrow> Err e
           | Panic \<Rightarrow> Panic))"

definition unwantedDependency :: "string \<Rightarrow> bool" where
  "unwantedDependency d \<longleftrightarrow>
     strings_Contains d nsgResourceType \<or> strings_Contains d nsgID \<or>
     strings_Contains d rtResourceType \<or> strings_Contains d rtID"

text \<open>The strings of an array, \<open>None\<close> when an element is not a string.\<close>

fun jsonStrings :: "json list \<Rightarrow> string list option" where
  "jsonStrings [] = Some []"
| "jsonStrings (x # xs) =
     (case x of
        JStr s \<Rightarrow> map_option ((#) s) (jsonStrings xs)
      | _ \<Rightarrow> None)"

definition dropDependencies :: "(string \<times> json) list \<Rightarrow> (string \<times> json) list go" where
  "dropDependencies m =
     (case arrField m ''dependsOn'' of
        None \<Rightarrow> Ok m
      | Some ds \<Rightarrow>
          (case jsonStrings ds of
             None \<Rightarrow> Panic
           | Some ss \<Rightarrow>
               let kept = filter (\<lambda>d. \<not> unwantedDependency d) ss
               in Ok (if kept \<noteq> [] then mapSet ''dependsOn'' (JArr (map JStr kept)) m
                      else mapDelete ''dependsOn'' m)))"

text \<open>The type of a resource, and the resource without the unwanted dependencies.\<close>

definition resType :: "json \<Rightarrow> string option" where
  "resType r = (case r of JObj m \<Rightarrow> strField m ''type'' | _ \<Rightarrow> None)"

definition dropResourceDependencies :: "json \<Rightarrow> json go" where
  "dropResourceDependencies r =
     (case r of
        JObj m \<Rightarrow> (case dropDependencies m of Ok m' \<Rightarrow> Ok (JObj m') | Err e \<Rightarrow> Err e | Panic \<Rightarrow> Panic)
      | _ \<Rightarrow> Ok r)"

text \<open>The loop: positions of the security group and the route table so far, and the resources.\<close>

fun scalingLoop ::
  "json list \<Rightarrow> nat option \<Rightarrow> nat option \<Rightarrow> json list \<Rightarrow> (nat option \<times> nat option \<times> json list) go" where
  "scalingLoop [] nsg rt done = Ok (nsg, rt, done)"
| "scalingLoop (r # rs) nsg rt done =
     (if resType r = Some nsgResourceType \<and> nsg \<noteq> None
      then Err (Errorf ''found 2 resources with type %s in the template. There should only be 1''
                  [AStr nsgResourceType])
      else if resType r = Some rtResourceType \<and> rt \<noteq> None
      then Err (Errorf ''found 2 resources with type %s in the template. There should only be 1''
                  [AStr rtResourceType])
      else case dropResourceDependencies r of
             Ok r' \<Rightarrow> scalingLoop rs (if resType r = Some nsgResourceType then Some (length done) else nsg)
                        (if resType r = Some rtResourceType then Some (length done) else rt) (done @ [r'])
           | Err e \<Rightarrow> Err e
           | Panic \<Rightarrow> Panic)"

definition normalizeForK8sVMASScalingUp :: "(string \<times> json) list \<Rightarrow> (string \<times> json) list go" where
  "normalizeForK8sVMASScalingUp t0 =
     (case normalizeMasterResourcesForScaling t0 of
        Panic \<Rightarrow> Panic
      | Err e \<Rightarrow> Err e
      | Ok t \<Rightarrow>
          (case arrField t ''resources'' of
             None \<Rightarrow> Panic
           | Some rs \<Rightarrow>
               (case scalingLoop rs None None [] of
                  Panic \<Rightarrow> Panic
                | Err e \<Rightarrow> Err e
                | Ok (nsg, rt, rs') \<Rightarrow>
                    (case nsg of
                       None \<Rightarrow> Err (Errorf ''found no resources with type %s in the template. There should have been 1''
                                      [AStr nsgResourceType])
                     | Some n \<Rightarrow>
                         (case removeIndexesFromArray rs' ((case rt of None \<Rightarrow> [] | Some r \<Rightarrow> [r]) @ [n]) of
                            Ok rs'' \<Rightarrow> Ok (mapSet ''resources'' (JArr rs'') t)
                          | Err e \<Rightarrow> Err e
                          | Panic \<Rightarrow> Panic)))))"

section \<open>Facts\<close>

text \<open>A resource without the dependencies that the scale-up must not have.\<close>

definition cleanResource :: "json \<Rightarrow> bool" where
  "cleanResource r =
     (case r of
        JObj m \<Rightarrow> (case arrField m ''dependsOn'' of
                     None \<Rightarrow> True
                   | Some ds \<Rightarrow> list_all (\<lambda>d. \<forall>s. d = JStr s \<longrightarrow> \<not> unwantedDependency s) ds)
      | _ \<Rightarrow> True)"

lemma dropDependencies_clean:
  assumes "dropDependencies m = Ok m'"
  shows "cleanResource (JObj m')" and "strField m' ''type'' = strField m ''type''"
  using assms
  by (auto simp: dropDependencies_def cleanResource_def arrField_def strField_def Let_def map_of_mapSet
      map_of_mapDelete list_all_iff split: option.splits if_splits json.splits)

lemma dropResourceDependencies_clean:
  assumes "dropResourceDependencies r = Ok r'"
  shows "cleanResource r'" and "resType r' = resType r"
proof -
  have "cleanResource r' \<and> resType r' = resType r"
  proof (cases r)
    case (JObj m)
    with assms obtain m' where "dropDependencies m = Ok m'" "r' = JObj m'"
      by (auto simp: dropResourceDependencies_def split: go.splits)
    with JObj dropDependencies_clean show ?thesis by (simp add: resType_def)
  qed (use assms in \<open>auto simp: dropResourceDependencies_def cleanResource_def\<close>)
  then show "cleanResource r'" and "resType r' = resType r" by blast+
qed

text \<open>\<open>at p rs t\<close>: \<open>p\<close> is the position of the only resource of type \<open>t\<close>.\<close>

definition onlyAt :: "nat option \<Rightarrow> string \<Rightarrow> json list \<Rightarrow> bool" where
  "onlyAt p t rs \<longleftrightarrow> (\<forall>k < length rs. resType (rs ! k) = Some t \<longleftrightarrow> p = Some k) \<and>
     (\<forall>k. p = Some k \<longrightarrow> k < length rs)"

lemma onlyAt_append:
  assumes "onlyAt p t rs" and "resType r = Some t \<Longrightarrow> p = None"
  shows "onlyAt (if resType r = Some t then Some (length rs) else p) t (rs @ [r])"
  using assms by (auto simp: onlyAt_def nth_append less_Suc_eq)

lemma scalingLoop_spec:
  "scalingLoop rs nsg rt done = Ok (nsg', rt', out) \<Longrightarrow> list_all cleanResource done \<Longrightarrow>
   onlyAt nsg nsgResourceType done \<Longrightarrow> onlyAt rt rtResourceType done \<Longrightarrow>
   list_all cleanResource out \<and> onlyAt nsg' nsgResourceType out \<and> onlyAt rt' rtResourceType out"
proof (induction rs arbitrary: nsg rt "done")
  case Nil
  then show ?case by simp
next
  case (Cons r rs)
  obtain r' where r': "dropResourceDependencies r = Ok r'"
    using Cons.prems(1) by (auto split: go.splits if_splits)
  have ok: "resType r = Some nsgResourceType \<Longrightarrow> nsg = None" "resType r = Some rtResourceType \<Longrightarrow> rt = None"
    using Cons.prems(1) by (auto split: if_splits)
  note c = dropResourceDependencies_clean [OF r']
  have "onlyAt (if resType r = Some nsgResourceType then Some (length done) else nsg) nsgResourceType (done @ [r'])"
    "onlyAt (if resType r = Some rtResourceType then Some (length done) else rt) rtResourceType (done @ [r'])"
    using onlyAt_append [OF Cons.prems(3), of r'] onlyAt_append [OF Cons.prems(4), of r'] ok c(2) by simp_all
  with Cons.prems(1,2) r' c(1) ok show ?case by (intro Cons.IH) (auto split: if_splits)
qed

section \<open>Properties\<close>

text \<open>
  C36. A normalised template has no network security group and no route table any more, and no
  resource of it depends on one.
\<close>

theorem normalize_removes_network:
  assumes "normalizeForK8sVMASScalingUp t = Ok t'"
  shows "\<exists>rs. arrField t' ''resources'' = Some rs \<and>
    list_all (\<lambda>r. cleanResource r \<and> resType r \<noteq> Some nsgResourceType \<and> resType r \<noteq> Some rtResourceType) rs"
proof -
  obtain t1 rs nsg rt out where 1: "normalizeMasterResourcesForScaling t = Ok t1" "arrField t1 ''resources'' = Some rs"
    and loop: "scalingLoop rs None None [] = Ok (Some nsg, rt, out)"
    using assms by (auto simp: normalizeForK8sVMASScalingUp_def split: go.splits option.splits prod.splits)
  define idx where "idx = (case rt of None \<Rightarrow> [] | Some r \<Rightarrow> [r]) @ [nsg]"
  have s: "list_all cleanResource out" "onlyAt (Some nsg) nsgResourceType out" "onlyAt rt rtResourceType out"
    using scalingLoop_spec [OF loop] by (auto simp: onlyAt_def)
  have "nsgResourceType \<noteq> rtResourceType" by (simp add: nsgResourceType_def rtResourceType_def)
  then have ne: "rt \<noteq> Some nsg" using s(2,3) unfolding onlyAt_def by (metis option.inject)
  have idx: "distinct idx" "\<forall>k \<in> set idx. k < length out"
    using s ne by (auto simp: idx_def onlyAt_def split: option.splits)
  have t': "t' = mapSet ''resources'' (JArr (nths out (- set idx))) t1"
    using assms 1 loop removeIndexes_aux [OF idx] by (simp add: normalizeForK8sVMASScalingUp_def idx_def)
  have "r \<in> set (nths out (- set idx)) \<Longrightarrow>
      cleanResource r \<and> resType r \<noteq> Some nsgResourceType \<and> resType r \<noteq> Some rtResourceType" for r
    using s by (auto simp: set_nths idx_def onlyAt_def list_all_iff split: option.splits)
  then show ?thesis by (simp add: t' arrField_def map_of_mapSet list_all_iff)
qed

theorem normalize_removes_network_witness:
  "\<exists>rs. arrField [(''resources'', JArr [])] ''resources'' = Some rs \<and>
    list_all (\<lambda>r. cleanResource r \<and> resType r \<noteq> Some nsgResourceType \<and> resType r \<noteq> Some rtResourceType) rs"
proof (rule normalize_removes_network)
  show "normalizeForK8sVMASScalingUp [(''resources'', JArr [JObj [(''type'', JStr nsgResourceType)]])] =
      Ok [(''resources'', JArr [])]"
    by code_simp
qed

end
