(* ===== verification/Agent_Pool.thy ===== *)
theory Agent_Pool
  imports VMs_Pool Deployment_Template "HOL-Library.Multiset"
begin

text \<open>
  \<open>azure_agent_pool.go\<close>: an availability set deployed by aks-engine, scaled by template
  deployments, and the deletion of single virtual machines, which \<open>azure_util.go\<close> has a second
  time (\<open>AzUtil.DeleteVirtualMachine\<close>). The receiver of a method is the address of the pool.
\<close>

section \<open>Deleting one virtual machine\<close>

definition storageKeyName :: string where "storageKeyName = ''key1''"

definition findStorageKeyByName ::
  "(string option \<times> string option) option list \<Rightarrow> string \<Rightarrow> (string option \<times> string option) option" where
  "findStorageKeyByName ks name =
     (case find (\<lambda>k. case k of None \<Rightarrow> False | Some (n, _) \<Rightarrow> derefStr n = name) ks of
        None \<Rightarrow> None
      | Some k \<Rightarrow> k)"

definition DeleteBlob :: "'e azClient \<Rightarrow> string \<Rightarrow> string \<Rightarrow> string \<Rightarrow> 'e world \<Rightarrow> unit go \<times> 'e world" where
  "DeleteBlob az accountName vhdContainer vhdBlob w =
     andThen (callGo (storageKeys az (ResourceGroup (provider (config w))) accountName) w) (\<lambda>keys w1.
       if keys = [] then (Err (Errorf ''no storage keys found for account %s'' [AStr accountName]), w1)
       else case findStorageKeyByName keys storageKeyName of
              None \<Rightarrow> (Err (Errorf ''storage key %q not found for account %s''
                              [AStr storageKeyName, AStr accountName]), w1)
            | Some (_, v) \<Rightarrow>
                let serviceURL = ''https://'' @ accountName @ ''.blob.'' @ storageEndpointSuffix az
                in case sharedKeyCredential az accountName (derefStr v) of
                     Inl e \<Rightarrow> (Err (Errorw ''failed to create shared key credential: %w'' [] e), w1)
                   | Inr _ \<Rightarrow>
                       (case blobClient az serviceURL of
                          Inl e \<Rightarrow> (Err (Errorw ''failed to create blob client: %w'' [] e), w1)
                        | Inr _ \<Rightarrow> callGo (blobDelete az serviceURL vhdContainer vhdBlob)
                                     (sendReq (DeleteBlobReq serviceURL vhdContainer vhdBlob) w1)))"

text \<open>A deletion whose answer \<open>not found\<close> counts as done.\<close>

definition goneIsFine :: "'e azClient \<Rightarrow> unit go \<times> 'e world \<Rightarrow> unit go \<times> 'e world" where
  "goneIsFine az r =
     (case r of
        (Err e, w) \<Rightarrow> if isNotFoundErr az e then (Ok (), w) else (Err e, w)
      | _ \<Rightarrow> r)"

text \<open>\<open>AzUtil.DeleteVirtualMachine\<close>: the disk, the deletions, and the whole method\<close>

definition utilDeleteDisk :: "'e azClient \<Rightarrow> string \<Rightarrow> osDisk \<Rightarrow> 'e world \<Rightarrow> unit go \<times> 'e world" where
  "utilDeleteDisk az rg disk w =
     (case osd_Vhd disk of
        Some uri \<Rightarrow>
          (case uri of
             None \<Rightarrow> (Panic, w)
           | Some u \<Rightarrow>
               andThen (splitBlobURI az u, w) (\<lambda>(account, container, blob) w1.
                 goneIsFine az (DeleteBlob az account container blob w1)))
      | None \<Rightarrow>
          if \<not> osd_ManagedDisk disk then (Ok (), w)
          else (case osd_Name disk of
                  None \<Rightarrow> (Ok (), w)
                | Some n \<Rightarrow> goneIsFine az (callGo (diskDelete az rg n) (sendReq (DeleteDisk n) w))))"

definition utilDeleteParts ::
  "'e azClient \<Rightarrow> string \<Rightarrow> string \<Rightarrow> osDisk \<Rightarrow> string \<Rightarrow> 'e world \<Rightarrow> unit go \<times> 'e world" where
  "utilDeleteParts az rg name disk nicName w =
     andThen (goneIsFine az (callGo (vmDelete az rg name) (sendReq (DeleteVM name) w))) (\<lambda>_ w1.
     andThen (if 0 < length nicName
              then goneIsFine az (callGo (nicDelete az rg nicName) (sendReq (DeleteNIC nicName) w1))
              else (Ok (), w1)) (\<lambda>_ w2.
       utilDeleteDisk az rg disk w2))"

definition DeleteVirtualMachine :: "'e azClient \<Rightarrow> string \<Rightarrow> string \<Rightarrow> 'e world \<Rightarrow> unit go \<times> 'e world" where
  "DeleteVirtualMachine az rg name w =
     (case call (vmGet az rg name) w of
        (Inl e, w1) \<Rightarrow> if isNotFoundErr az e then (Ok (), w1) else (Err e, w1)
      | (Inr vm, w1) \<Rightarrow>
          (case vm_Properties vm of
             None \<Rightarrow> (Err (Errorf ''os disk information not available'' []), w1)
           | Some pr \<Rightarrow>
               (case vm_OSDisk pr of
                  Some (Some disk) \<Rightarrow>
                    if osd_Vhd disk = None \<and> \<not> osd_ManagedDisk disk
                    then (Err (Errorf ''os disk does not have a VHD URI'' []), w1)
                    else andThen (case vm_NetworkInterfaces pr of
                                    Some nicID # _ \<Rightarrow> (resourceName nicID, w1)
                                  | _ \<Rightarrow> (Ok [], w1))
                           (utilDeleteParts az rg name disk)
                | _ \<Rightarrow> (Err (Errorf ''os disk information not available'' []), w1))))"

text \<open>\<open>AgentPool.deleteVirtualMachine\<close>, in the order of its statements\<close>

definition nicNameOf :: "string option list \<Rightarrow> string go" where
  "nicNameOf nics =
     (if nics \<noteq> [] then (case hd nics of None \<Rightarrow> Ok [] | Some nicID \<Rightarrow> resourceName nicID) else Ok [])"

definition deleteOSDisk :: "'e azClient \<Rightarrow> osDisk \<Rightarrow> 'e world \<Rightarrow> unit go \<times> 'e world" where
  "deleteOSDisk az disk w =
     (case osd_Vhd disk of
        Some None \<Rightarrow> (Panic, w)
      | Some (Some u) \<Rightarrow>
          andThen (splitBlobURI az u, w) (\<lambda>(account, container, blob) w1.
            case DeleteBlob az account container blob w1 of
              (Err e, w2) \<Rightarrow> if \<not> isNotFoundErr az e then (Err e, w2) else (Ok (), w2)
            | r \<Rightarrow> r)
      | None \<Rightarrow>
          if osd_ManagedDisk disk then
            (case osd_Name disk of
               None \<Rightarrow> (Ok (), w)
             | Some n \<Rightarrow>
                 (case callGo (diskDelete az (ResourceGroup (provider (config w))) n) (sendReq (DeleteDisk n) w) of
                    (Err e, w1) \<Rightarrow> if \<not> isNotFoundErr az e then (Err e, w1) else (Ok (), w1)
                  | r \<Rightarrow> r))
          else (Ok (), w))"

definition deleteParts :: "'e azClient \<Rightarrow> string \<Rightarrow> osDisk \<Rightarrow> string \<Rightarrow> 'e world \<Rightarrow> unit go \<times> 'e world" where
  "deleteParts az name disk nicName w =
     (let rg = ResourceGroup (provider (config w));
          afterVM = (\<lambda>w1.
            if 0 < length nicName then
              (case call (nicDelete az rg nicName) (sendReq (DeleteNIC nicName) w1) of
                 (Inl e, w2) \<Rightarrow> if \<not> isNotFoundErr az e then (Err e, w2) else deleteOSDisk az disk w2
               | (Inr _, w2) \<Rightarrow> deleteOSDisk az disk w2)
            else deleteOSDisk az disk w1)
      in case call (vmDelete az rg name) (sendReq (DeleteVM name) w) of
           (Inl e, w1) \<Rightarrow> if \<not> isNotFoundErr az e then (Err e, w1) else afterVM w1
         | (Inr _, w1) \<Rightarrow> afterVM w1)"

definition osDiskOf :: "virtualMachine \<Rightarrow> osDisk option" where
  "osDiskOf vm =
     (case vm_Properties vm of
        None \<Rightarrow> None
      | Some pr \<Rightarrow> (case vm_OSDisk pr of Some (Some d) \<Rightarrow> Some d | _ \<Rightarrow> None))"

definition nicsOf :: "virtualMachine \<Rightarrow> string option list" where
  "nicsOf vm = (case vm_Properties vm of None \<Rightarrow> [] | Some pr \<Rightarrow> vm_NetworkInterfaces pr)"

definition deleteVirtualMachine :: "'e azClient \<Rightarrow> string \<Rightarrow> 'e world \<Rightarrow> unit go \<times> 'e world" where
  "deleteVirtualMachine az name w =
     (case call (vmGet az (ResourceGroup (provider (config w))) name) w of
        (Inl e, w1) \<Rightarrow> if isNotFoundErr az e then (Ok (), w1) else (Err e, w1)
      | (Inr vm, w1) \<Rightarrow>
          (case osDiskOf vm of
             None \<Rightarrow> (Err (Errorf ''os disk information not available'' []), w1)
           | Some disk \<Rightarrow>
               if osd_Vhd disk = None \<and> \<not> osd_ManagedDisk disk
               then (Err (Errorf ''os disk does not have a VHD URI'' []), w1)
               else (case nicNameOf (nicsOf vm) of
                       Panic \<Rightarrow> (Panic, w1)
                     | Err e \<Rightarrow> (Err e, w1)
                     | Ok nicName \<Rightarrow> deleteParts az name disk nicName w1)))"

section \<open>The pool\<close>

definition ap_initialize :: "'e azClient \<Rightarrow> 'e world \<Rightarrow> json go \<times> 'e world" where
  "ap_initialize az w =
     andThen (callGo (exportTemplate az (ResourceGroup (provider (config w))) (Deployment (config w))) w) (\<lambda>t w1.
       case t of
         JObj m \<Rightarrow>
           (case normalizeForK8sVMASScalingUp m of
              Ok m' \<Rightarrow> (Ok (JObj m'), w1)
            | Err e \<Rightarrow> (Err e, w1)
            | Panic \<Rightarrow> (Panic, w1))
       | _ \<Rightarrow> (Panic, w1))"

definition NewAgentPool :: "'e azClient \<Rightarrow> nodeGroupSpec \<Rightarrow> 'e world \<Rightarrow> addr go \<times> 'e world" where
  "NewAgentPool az spec w =
     andThen (ap_initialize az w) (\<lambda>t w1.
       (Ok (apNext w1),
        w1\<lparr>apAt := (apAt w1)(apNext w1 := \<lparr>ap_Name = spec_Name spec, ap_minSize = spec_MinSize spec,
             ap_maxSize = spec_MaxSize spec, ap_template = t, ap_lastRefresh = zeroTime, ap_curSize = -1\<rparr>),
           apNext := Suc (apNext w1)\<rparr>))"

definition ap_getVMsFromCache :: "addr \<Rightarrow> 'e world \<Rightarrow> virtualMachine list go" where
  "ap_getVMsFromCache p w =
     (case map_of (getVirtualMachines w) (ap_Name (apAt w p)) of
        None \<Rightarrow> Err (Errorf ''could not find VMs with poolName: %s'' [AStr (ap_Name (apAt w p))])
      | Some vms \<Rightarrow> Ok vms)"

text \<open>The loop of \<open>GetVMIndexes\<close>; \<open>*instance.Name\<close> and \<open>*instance.ID\<close> panic on nil.\<close>

fun vmIndexes :: "virtualMachine list \<Rightarrow> (int, string) gomap \<Rightarrow> (int list \<times> (int, string) gomap) go" where
  "vmIndexes [] m = Ok ([], m)"
| "vmIndexes (vm # vms) m =
     (case osDiskOf vm of
        None \<Rightarrow> vmIndexes vms m
      | Some d \<Rightarrow>
          (case vm_Name vm of
             None \<Rightarrow> Panic
           | Some n \<Rightarrow>
               (case GetVMNameIndex (case osd_OSType d of None \<Rightarrow> OtherOSType [] | Some t \<Rightarrow> t) n of
                  Panic \<Rightarrow> Panic
                | Err e \<Rightarrow> Err e
                | Ok i \<Rightarrow>
                    (case vm_ID vm of
                       None \<Rightarrow> Panic
                     | Some vid \<Rightarrow>
                         (case convertResourceGroupNameToLower (azurePrefix @ vid) of
                            Panic \<Rightarrow> Panic
                          | Err e \<Rightarrow> Err e
                          | Ok r \<Rightarrow>
                              (case vmIndexes vms (mapSet i r m) of
                                 Ok (is, m') \<Rightarrow> Ok (i # is, m')
                               | Err e \<Rightarrow> Err e
                               | Panic \<Rightarrow> Panic))))))"

definition GetVMIndexes :: "addr \<Rightarrow> 'e world \<Rightarrow> (int list \<times> (int, string) gomap) go" where
  "GetVMIndexes p w =
     (case ap_getVMsFromCache p w of
        Panic \<Rightarrow> Panic
      | Err e \<Rightarrow> Err e
      | Ok vms \<Rightarrow> (case vmIndexes vms [] of
                      Ok (is, m) \<Rightarrow> Ok (sort is, m)
                    | Err e \<Rightarrow> Err e
                    | Panic \<Rightarrow> Panic))"

definition ap_getCurSize :: "'e azClient \<Rightarrow> addr \<Rightarrow> 'e world \<Rightarrow> int go \<times> 'e world" where
  "ap_getCurSize az p w =
     (if stillFresh (ap_lastRefresh (apAt w p)) (15 * second) (now az w) then (Ok (ap_curSize (apAt w p)), w)
      else andThen (GetVMIndexes p w, w) (\<lambda>(is, _) w.
        let n = int (length is);
            w1 = (if ap_curSize (apAt w p) \<noteq> n then invalidateCache az w else w)
        in (Ok n, updAP p (\<lambda>s. s\<lparr>ap_curSize := n, ap_lastRefresh := now az w1\<rparr>) w1)))"

definition ap_TargetSize :: "'e azClient \<Rightarrow> addr \<Rightarrow> 'e world \<Rightarrow> int go \<times> 'e world" where
  "ap_TargetSize az p w = ap_getCurSize az p w"

section \<open>Cleaning up deployments\<close>

definition clusterAutoscalerDeploymentPrefix :: string where
  "clusterAutoscalerDeploymentPrefix = ''cluster-autoscaler-''"

definition getAllSucceededAndFailedDeployments ::
  "'e azClient \<Rightarrow> 'e world \<Rightarrow> deployment list go \<times> 'e world" where
  "getAllSucceededAndFailedDeployments az w =
     andThen (callGo (deploymentList az (ResourceGroup (provider (config w)))) w) (\<lambda>ds w1.
       (Ok (filter (\<lambda>d. dep_ProvisioningState d \<in> {Some (Some ''Succeeded''), Some (Some ''Failed'')}) ds), w1))"

text \<open>Deleting the deployments one by one; the errors are collected.\<close>

fun deleteDeployments :: "'e azClient \<Rightarrow> deployment list \<Rightarrow> goerror list \<Rightarrow> 'e world \<Rightarrow> goerror list go \<times> 'e world" where
  "deleteDeployments az [] errs w = (Ok errs, w)"
| "deleteDeployments az (d # ds) errs w =
     (case dep_Name d of
        None \<Rightarrow> (Panic, w)
      | Some n \<Rightarrow>
          (case call (deploymentDelete az (ResourceGroup (provider (config w))) n) (sendReq (DeleteDeployment n) w) of
             (Inl e, w1) \<Rightarrow> deleteDeployments az ds (errs @ [e]) w1
           | (Inr _, w1) \<Rightarrow> deleteDeployments az ds errs w1))"

definition ownDeployment :: "deployment \<Rightarrow> bool" where
  "ownDeployment d =
     (case dep_Name d of None \<Rightarrow> False | Some n \<Rightarrow> strings_HasPrefix n clusterAutoscalerDeploymentPrefix)"

text \<open>
  The name of every deployment is logged before the test for nil, so a deployment without a
  name panics; so does a negative \<open>MaxDeploymentsCount\<close> at the slice expression.
\<close>

definition deleteOutdatedDeployments :: "'e azClient \<Rightarrow> 'e world \<Rightarrow> unit go \<times> 'e world" where
  "deleteOutdatedDeployments az w =
     andThen (getAllSucceededAndFailedDeployments az w) (\<lambda>ds w1.
       if list_ex (\<lambda>d. dep_Name d = None) ds then (Panic, w1)
       else
         let own = filter ownDeployment ds; maxCount = MaxDeploymentsCount (config w1)
         in if int (length own) \<le> maxCount then (Ok (), w1)
            else if maxCount < 0 then (Panic, w1)
            else andThen (deleteDeployments az (drop (nat maxCount) (sortByTimestamp az own)) [] w1) (\<lambda>errs w2.
              (if errs = [] then Ok () else Err (Errorf ''%v'' (map AErr errs)), w2)))"

section \<open>Scaling up and down\<close>

text \<open>The deployment that adds \<open>delta\<close> machines behind the highest used index.\<close>

definition scaleUpParameters :: "string \<Rightarrow> int list \<Rightarrow> int \<Rightarrow> (string, json) gomap \<Rightarrow> (string, json) gomap" where
  "scaleUpParameters name is delta params =
     (let cur = int (length is);
          highest = last is;
          expected = i64 (cur + delta);
          countForTemplate = (if highest \<noteq> 0 then i64 (expected + (highest + 1 - cur)) else expected)
      in mapSet (name @ ''Offset'') (JObj [(''value'', JNum (i64 (highest + 1)))])
           (mapSet (name @ ''Count'') (JObj [(''value'', JNum countForTemplate)]) params))"

definition deployMore :: "'e azClient \<Rightarrow> addr \<Rightarrow> int list \<Rightarrow> int \<Rightarrow> 'e world \<Rightarrow> unit go \<times> 'e world" where
  "deployMore az p is delta w =
     (case DeploymentParameters (config w) of
        None \<Rightarrow> (Panic, w)
      | Some params \<Rightarrow>
          let params' = scaleUpParameters (ap_Name (apAt w p)) is delta params;
              w1 = w\<lparr>config := (config w)\<lparr>DeploymentParameters := Some params'\<rparr>\<rparr>
          in case call (randInt31 az) w1 of
               (r, w2) \<Rightarrow>
                 let name = clusterAutoscalerDeploymentPrefix @ fmtInt r; t = ap_template (apAt w2 p)
                 in andThen (callGo (deploymentCreateOrUpdate az (ResourceGroup (provider (config w2))) name t params')
                               (sendReq (PutDeployment name t params') w2)) (\<lambda>_ w3.
                      (Ok (), invalidateCache az (updAP p (\<lambda>s. s\<lparr>ap_curSize := i64 (int (length is) + delta),
                                ap_lastRefresh := now az w3\<rparr>) w3))))"

definition ap_IncreaseSize :: "'e azClient \<Rightarrow> addr \<Rightarrow> int \<Rightarrow> 'e world \<Rightarrow> unit go \<times> 'e world" where
  "ap_IncreaseSize az p delta w =
     (if ap_curSize (apAt w p) = -1
      then (Err (Errorf ''the availability set %s is under initialization, skipping IncreaseSize''
                   [AStr (ap_Name (apAt w p))]), w)
      else if delta \<le> 0 then (Err (Errorf ''size increase must be positive'' []), w)
      else case deleteOutdatedDeployments az w of
             (Panic, w1) \<Rightarrow> (Panic, w1)
           | (_, w1) \<Rightarrow>
               let w2 = invalidateCache az w1
               in case GetVMIndexes p w2 of
                    Panic \<Rightarrow> (Panic, w2)
                  | Err e \<Rightarrow> (Err e, w2)
                  | Ok (is, _) \<Rightarrow>
                      let desired = i64 (int (length is) + delta)
                      in if desired > ap_maxSize (apAt w2 p)
                         then (Err (Errorf ''size increase too large - desired:%d max:%d''
                                      [AInt desired, AInt (ap_maxSize (apAt w2 p))]), w2)
                         else if is = [] then (Panic, w2)
                         else deployMore az p is delta w2)"

definition ap_DecreaseTargetSize :: "'e azClient \<Rightarrow> addr \<Rightarrow> int \<Rightarrow> 'e world \<Rightarrow> unit go \<times> 'e world" where
  "ap_DecreaseTargetSize az p delta w =
     andThen (ap_getVMsFromCache p w, w) (\<lambda>vms w.
       let target = i64 (ap_curSize (apAt w p) + delta)
       in if target < int (length vms)
          then (Err (Errorf ''attempt to delete existing nodes targetSize:%d delta:%d existingNodes: %d''
                       [AInt (ap_curSize (apAt w p)), AInt delta, AInt (int (length vms))]), w)
          else (Ok (), updAP p (\<lambda>s. s\<lparr>ap_curSize := target, ap_lastRefresh := now az w\<rparr>) w))"

definition ap_Belongs :: "addr \<Rightarrow> k8sNode \<Rightarrow> 'e world \<Rightarrow> bool go \<times> 'e world" where
  "ap_Belongs p node w = belongsTo ''%s doesn't belong to a known agent pool'' (ap_Name (apAt w p)) node w"

text \<open>All instances must be of the group of the first; calling a method on a nil group panics.\<close>

fun sameGroupLoop :: "nodeGroup option \<Rightarrow> string list \<Rightarrow> 'e world \<Rightarrow> unit go \<times> 'e world" where
  "sameGroupLoop common [] w = (Ok (), w)"
| "sameGroupLoop common (i # is) w =
     andThen (GetNodeGroupForInstance i w) (\<lambda>asg w1.
       case (asg, common) of
         (Some a, Some c) \<Rightarrow>
           if strings_EqualFold (ngId w1 a) (ngId w1 c) then sameGroupLoop common is w1
           else (Err (Errorf ''cannot delete instance (%s) which don't belong to the same node pool (%q)''
                        [AStr i, AStr (ngId w1 c)]), w1)
       | _ \<Rightarrow> (Panic, w1))"

fun deleteVMsLoop :: "'e azClient \<Rightarrow> string list \<Rightarrow> 'e world \<Rightarrow> unit go \<times> 'e world" where
  "deleteVMsLoop az [] w = (Ok (), w)"
| "deleteVMsLoop az (i # is) w =
     (case resourceName i of
        Panic \<Rightarrow> (Panic, w)
      | Err e \<Rightarrow> (Err e, w)
      | Ok name \<Rightarrow>
          let w1 = (if StrictCacheUpdates (config w) then w else setInstanceStateByProviderID i InstanceDeleting w)
          in case deleteVirtualMachine az name w1 of
               (Panic, w2) \<Rightarrow> (Panic, w2)
             | (Err e, w2) \<Rightarrow> (Err e, invalidateCache az w2)
             | (Ok _, w2) \<Rightarrow> deleteVMsLoop az is w2)"

definition ap_DeleteInstances :: "'e azClient \<Rightarrow> string list \<Rightarrow> 'e world \<Rightarrow> unit go \<times> 'e world" where
  "ap_DeleteInstances az instances w =
     (case instances of
        [] \<Rightarrow> (Ok (), w)
      | i # _ \<Rightarrow>
          andThen (GetNodeGroupForInstance i w) (\<lambda>common w1.
          andThen (sameGroupLoop common instances w1) (\<lambda>_ w2.
          andThen (deleteVMsLoop az instances w2) (\<lambda>_ w3. (Ok (), invalidateCache az w3)))))"

fun ap_belongLoop :: "addr \<Rightarrow> k8sNode list \<Rightarrow> 'e world \<Rightarrow> string list go \<times> 'e world" where
  "ap_belongLoop p [] w = (Ok [], w)"
| "ap_belongLoop p (node # nodes) w =
     andThen (ap_Belongs p node w) (\<lambda>belongs w1.
       if \<not> belongs
       then (Err (Errorf ''%s belongs to a different asg than %s''
                    [AStr (node_Name node), AStr (ap_Name (apAt w1 p))]), w1)
       else andThen (ap_belongLoop p nodes w1) (\<lambda>refs w2. (Ok (node_ProviderID node # refs), w2)))"

definition ap_ForceDeleteNodes :: "'e azClient \<Rightarrow> addr \<Rightarrow> k8sNode list \<Rightarrow> 'e world \<Rightarrow> unit go \<times> 'e world" where
  "ap_ForceDeleteNodes az p nodes w =
     andThen (ap_belongLoop p nodes w) (\<lambda>refs w1.
       case deleteOutdatedDeployments az w1 of
         (Panic, w2) \<Rightarrow> (Panic, w2)
       | (_, w2) \<Rightarrow> ap_DeleteInstances az refs w2)"

definition ap_DeleteNodes :: "'e azClient \<Rightarrow> addr \<Rightarrow> k8sNode list \<Rightarrow> 'e world \<Rightarrow> unit go \<times> 'e world" where
  "ap_DeleteNodes az p nodes w =
     andThen (GetVMIndexes p w, w) (\<lambda>(is, _) w.
       if int (length is) \<le> ap_minSize (apAt w p)
       then (Err (Errorf ''min size reached, nodes will not be deleted'' []), w)
       else ap_ForceDeleteNodes az p nodes w)"

text \<open>\<open>*instance.ID\<close> panics on nil here.\<close>

fun agentPoolInstances :: "virtualMachine list \<Rightarrow> inst list go" where
  "agentPoolInstances [] = Ok []"
| "agentPoolInstances (vm # vms) =
     (case vm_ID vm of
        None \<Rightarrow> Panic
      | Some i \<Rightarrow>
          if length i = 0 then agentPoolInstances vms
          else case standaloneInstance i vm of
                 Ok x \<Rightarrow> (case agentPoolInstances vms of Ok xs \<Rightarrow> Ok (x # xs) | Err e \<Rightarrow> Err e | Panic \<Rightarrow> Panic)
               | Err e \<Rightarrow> Err e
               | Panic \<Rightarrow> Panic)"

definition ap_Nodes :: "addr \<Rightarrow> 'e world \<Rightarrow> inst list go" where
  "ap_Nodes p w =
     (case ap_getVMsFromCache p w of
        Ok vms \<Rightarrow> agentPoolInstances vms
      | Err e \<Rightarrow> Err e
      | Panic \<Rightarrow> Panic)"

section \<open>Facts\<close>

lemma goneIsFine_match:
  "goneIsFine az r = (case r of (Err e, w) \<Rightarrow> if \<not> isNotFoundErr az e then (Err e, w) else (Ok (), w) | r \<Rightarrow> r)"
  by (auto simp: goneIsFine_def split: go.splits prod.splits)

lemma deleteOSDisk_eq:
  assumes "osd_Vhd disk \<noteq> None \<or> osd_ManagedDisk disk"
  shows "deleteOSDisk az disk w = utilDeleteDisk az (ResourceGroup (provider (config w))) disk w"
  using assms by (auto simp: deleteOSDisk_def utilDeleteDisk_def goneIsFine_match split: option.splits)

lemma deleteParts_eq:
  assumes "osd_Vhd disk \<noteq> None \<or> osd_ManagedDisk disk"
  shows "deleteParts az name disk nic w = utilDeleteParts az (ResourceGroup (provider (config w))) name disk nic w"
  by (simp add: deleteParts_def utilDeleteParts_def deleteOSDisk_eq [OF assms] Let_def callGo_env call_env
      goneIsFine_def liftSum_def split: sum.splits)

section \<open>Deployments\<close>

text \<open>The laws of \<open>sort.Slice\<close> with the comparison of the code, when every deployment has a timestamp.\<close>

definition sortsByTime :: "'e azClient \<Rightarrow> bool" where
  "sortsByTime az \<longleftrightarrow>
     (\<forall>ds. mset (sortByTimestamp az ds) = mset ds \<and>
        (list_all (\<lambda>d. dep_Timestamp d \<noteq> None) ds \<longrightarrow>
           sorted_wrt (\<lambda>a b. the (dep_Timestamp a) \<ge> the (dep_Timestamp b)) (sortByTimestamp az ds)))"

lemma deleteDeployments_requests:
  "list_all (\<lambda>d. dep_Name d \<noteq> None) ds \<Longrightarrow> \<exists>errs' w'. deleteDeployments az ds errs w = (Ok errs', w') \<and>
     requests w' = requests w @ map (\<lambda>d. DeleteDeployment (the (dep_Name d))) ds"
proof (induction ds arbitrary: errs w)
  case Nil
  then show ?case by simp
next
  case (Cons d ds)
  then obtain n where n: "dep_Name d = Some n" by auto
  let ?r = "deploymentDelete az (ResourceGroup (provider (config w))) n (env w)"
  show ?case
  proof (cases "fst ?r")
    case (Inl e)
    then show ?thesis using n Cons.prems Cons.IH [of "errs @ [e]" "(sendReq (DeleteDeployment n) w)\<lparr>env := snd ?r\<rparr>"]
      by (auto simp: call_env)
  next
    case (Inr u)
    then show ?thesis using n Cons.prems Cons.IH [of errs "(sendReq (DeleteDeployment n) w)\<lparr>env := snd ?r\<rparr>"]
      by (auto simp: call_env)
  qed
qed

lemma sorted_le_last: "sorted xs \<Longrightarrow> x \<in> set xs \<Longrightarrow> x \<le> last xs"
  by (induction xs) auto

section \<open>Sample worlds\<close>

lemma sample_sorts: "sortsByTime sampleClient"
proof -
  have "sorted_wrt (\<lambda>a b. the (dep_Timestamp a) \<ge> the (dep_Timestamp b))
      (sort_key (\<lambda>d. case dep_Timestamp d of None \<Rightarrow> 0 | Some t \<Rightarrow> - t) ds)"
    if ts: "list_all (\<lambda>d. dep_Timestamp d \<noteq> None) ds" for ds :: "deployment list"
  proof -
    let ?f = "\<lambda>d. case dep_Timestamp d of None \<Rightarrow> 0 | Some t \<Rightarrow> - t"
    have "sorted_wrt (\<lambda>a b. ?f a \<le> ?f b) (sort_key ?f ds)"
      using sorted_sort_key [of ?f ds] by (simp add: sorted_map)
    then show ?thesis
    proof (rule sorted_wrt_mono_rel [rotated])
      fix a b
      assume mem: "a \<in> set (sort_key ?f ds)" "b \<in> set (sort_key ?f ds)" and le: "?f a \<le> ?f b"
      have "dep_Timestamp a \<noteq> None" "dep_Timestamp b \<noteq> None"
        using ts mem by (simp_all add: list_all_iff)
      then show "the (dep_Timestamp b) \<le> the (dep_Timestamp a)" using le by auto
    qed
  qed
  then show ?thesis by (simp add: sortsByTime_def sampleClient_def)
qed

definition sampleDeployment :: "string \<Rightarrow> time \<Rightarrow> deployment" where
  "sampleDeployment n t = \<lparr>dep_Name = Some n, dep_ProvisioningState = Some (Some ''Succeeded''), dep_Timestamp = Some t\<rparr>"

definition sampleDeployments :: "deployment list" where
  "sampleDeployments = [sampleDeployment ''cluster-autoscaler-1'' 10, sampleDeployment ''other'' 5,
     sampleDeployment ''cluster-autoscaler-2'' 20]"

definition deploymentsClient :: "int azClient" where
  "deploymentsClient = sampleClient\<lparr>deploymentList := (\<lambda>_ e. (Inr sampleDeployments, e))\<rparr>"

definition emptyPoolWorld :: "int world" where
  "emptyPoolWorld = updCache (\<lambda>c. c\<lparr>virtualMachines := [(''pool'', [])]\<rparr>) sampleWorld"

section \<open>Properties\<close>

text \<open>
  C24. The two copies of the code that deletes a virtual machine with its network interface and its
  disk (\<open>AgentPool.deleteVirtualMachine\<close> and \<open>AzUtil.DeleteVirtualMachine\<close>) behave the same on
  every answer of Azure: same result, same requests in the same order, same state.
\<close>

theorem deleteVirtualMachine_equiv:
  "deleteVirtualMachine az name w = DeleteVirtualMachine az (ResourceGroup (provider (config w))) name w"
proof (cases "fst (vmGet az (ResourceGroup (provider (config w))) name (env w))")
  case (Inl e)
  then show ?thesis by (simp add: deleteVirtualMachine_def DeleteVirtualMachine_def call_env)
next
  case (Inr vm)
  show ?thesis
  proof (cases "osDiskOf vm")
    case None
    then show ?thesis using Inr
      by (auto simp: deleteVirtualMachine_def DeleteVirtualMachine_def call_env osDiskOf_def split: option.splits)
  next
    case (Some disk)
    then obtain pr where pr: "vm_Properties vm = Some pr" "vm_OSDisk pr = Some (Some disk)"
      by (auto simp: osDiskOf_def split: option.splits)
    have nic: "(case vm_NetworkInterfaces pr of Some nicID # _ \<Rightarrow> (resourceName nicID, w1) | _ \<Rightarrow> (Ok [], w1)) =
        (nicNameOf (nicsOf vm), w1)" for w1 :: "'a world"
      by (auto simp: nicNameOf_def nicsOf_def pr(1) split: list.splits option.splits)
    show ?thesis
      using Inr pr Some deleteParts_eq [of disk az name]
      by (cases "nicNameOf (nicsOf vm)")
        (simp_all add: deleteVirtualMachine_def DeleteVirtualMachine_def call_env nic)
  qed
qed

text \<open>
  C26. The cleanup of deployments deletes only deployments of the autoscaler that succeeded or
  failed, keeps as many of them as the configuration allows, and never keeps an older one than
  one it deletes. The hypothesis on the client is the law of \<open>sort.Slice\<close>.
\<close>

theorem deleteOutdatedDeployments_keeps_newest:
  assumes "sortsByTime az" and "deploymentList az (ResourceGroup (provider (config w))) (env w) = (Inr all, e)"
    and "ds = filter (\<lambda>d. dep_ProvisioningState d \<in> {Some (Some ''Succeeded''), Some (Some ''Failed'')}) all"
    and "list_all (\<lambda>d. dep_Name d \<noteq> None \<and> dep_Timestamp d \<noteq> None) ds"
    and "0 \<le> MaxDeploymentsCount (config w)"
  shows "\<exists>kept gone. mset (kept @ gone) = mset (filter ownDeployment ds) \<and>
    length kept = min (length (filter ownDeployment ds)) (nat (MaxDeploymentsCount (config w))) \<and>
    (\<forall>a \<in> set kept. \<forall>b \<in> set gone. the (dep_Timestamp a) \<ge> the (dep_Timestamp b)) \<and>
    requests (snd (deleteOutdatedDeployments az w)) =
      requests w @ map (\<lambda>d. DeleteDeployment (the (dep_Name d))) gone"
proof -
  let ?own = "filter ownDeployment ds" and ?n = "nat (MaxDeploymentsCount (config w))"
  let ?w1 = "w\<lparr>env := e\<rparr>" and ?s = "sortByTimestamp az (filter ownDeployment ds)"
  have g: "getAllSucceededAndFailedDeployments az w = (Ok ds, ?w1)"
    using assms(2,3) by (simp add: getAllSucceededAndFailedDeployments_def callGo_env liftSum_def)
  have names: "\<not> list_ex (\<lambda>d. dep_Name d = None) ds" using assms(4) by (auto simp: list_ex_iff list_all_iff)
  have m: "mset ?s = mset ?own"
    and s: "sorted_wrt (\<lambda>a b. the (dep_Timestamp a) \<ge> the (dep_Timestamp b)) ?s"
    using assms(1,4) by (auto simp: sortsByTime_def list_all_iff)
  show ?thesis
  proof (cases "int (length ?own) \<le> MaxDeploymentsCount (config w)")
    case True
    then show ?thesis using g names
      by (intro exI [of _ ?own] exI [of _ "[]"]) (simp add: deleteOutdatedDeployments_def Let_def)
  next
    case False
    have "list_all (\<lambda>d. dep_Name d \<noteq> None) (drop ?n ?s)"
      using assms(4) mset_eq_setD [OF m] by (auto simp: list_all_iff dest: in_set_dropD)
    then obtain errs w' where d: "deleteDeployments az (drop ?n ?s) [] ?w1 = (Ok errs, w')"
      "requests w' = requests w @ map (\<lambda>d. DeleteDeployment (the (dep_Name d))) (drop ?n ?s)"
      using deleteDeployments_requests [of "drop ?n ?s" az "[]" ?w1] by auto
    have "sorted_wrt (\<lambda>a b. the (dep_Timestamp a) \<ge> the (dep_Timestamp b)) (take ?n ?s @ drop ?n ?s)"
      using s by simp
    then have older: "\<forall>a \<in> set (take ?n ?s). \<forall>b \<in> set (drop ?n ?s). the (dep_Timestamp a) \<ge> the (dep_Timestamp b)"
      unfolding sorted_wrt_append by blast
    have len: "length (take ?n ?s) = min (length ?own) ?n" using mset_eq_length [OF m] by simp
    have "requests (snd (deleteOutdatedDeployments az w)) =
        requests w @ map (\<lambda>d. DeleteDeployment (the (dep_Name d))) (drop ?n ?s)"
      using g names False d assms(5) by (simp add: deleteOutdatedDeployments_def Let_def)
    moreover have "mset (take ?n ?s @ drop ?n ?s) = mset ?own" using m by simp
    ultimately show ?thesis using older len by blast
  qed
qed

theorem deleteOutdatedDeployments_keeps_newest_witness:
  "\<exists>kept gone. mset (kept @ gone) = mset (filter ownDeployment sampleDeployments) \<and> length kept = 1 \<and>
    (\<forall>a \<in> set kept. \<forall>b \<in> set gone. the (dep_Timestamp a) \<ge> the (dep_Timestamp b)) \<and>
    requests (snd (deleteOutdatedDeployments deploymentsClient sampleWorld)) =
      requests sampleWorld @ map (\<lambda>d. DeleteDeployment (the (dep_Name d))) gone"
proof -
  have "sortsByTime deploymentsClient" using sample_sorts by (simp add: deploymentsClient_def sortsByTime_def)
  moreover have "deploymentList deploymentsClient (ResourceGroup (provider (config sampleWorld))) (env sampleWorld) =
      (Inr sampleDeployments, 1000)" by (simp add: deploymentsClient_def)
  moreover have "sampleDeployments = filter (\<lambda>d. dep_ProvisioningState d \<in> {Some (Some ''Succeeded''), Some (Some ''Failed'')}) sampleDeployments"
    by (simp add: sampleDeployments_def sampleDeployment_def)
  moreover have "list_all (\<lambda>d. dep_Name d \<noteq> None \<and> dep_Timestamp d \<noteq> None) sampleDeployments"
    by (simp add: sampleDeployments_def sampleDeployment_def)
  moreover have "MaxDeploymentsCount (config sampleWorld) = 1" by (simp add: sampleConfig_def)
  moreover have "length (filter ownDeployment sampleDeployments) = 2" by code_simp
  ultimately show ?thesis
    using deleteOutdatedDeployments_keeps_newest [of deploymentsClient sampleWorld sampleDeployments 1000 sampleDeployments]
    by simp
qed

text \<open>
  A scale-up of an agent pool deploys exactly the requested number of machines, with indexes
  above every index in use: the template counts from \<open>Offset\<close> to \<open>Count\<close>.
\<close>

theorem scaleUpParameters_fresh_indexes:
  assumes "sorted is" and "distinct is" and "is \<noteq> []" and "\<forall>i \<in> set is. 0 \<le> i" and "0 < delta"
    and "last is + 1 + delta \<le> maxInt64" and "int (length is) + delta \<le> maxInt64"
  shows "\<exists>offset count. map_of (scaleUpParameters name is delta params) (name @ ''Offset'') = Some (JObj [(''value'', JNum offset)]) \<and>
    map_of (scaleUpParameters name is delta params) (name @ ''Count'') = Some (JObj [(''value'', JNum count)]) \<and>
    count - offset = delta \<and> (\<forall>i \<in> set is. i < offset)"
proof -
  have l: "0 \<le> last is" "\<forall>i \<in> set is. i \<le> last is"
    using assms(1,3,4) sorted_le_last by auto
  have z: "length is = 1" if "last is = 0"
  proof -
    have "set is \<subseteq> {0}" using l(2) assms(4) that by force
    then show ?thesis using assms(2,3) by (metis One_nat_def card.empty card_insert_disjoint distinct_card empty_iff finite.emptyI set_empty subset_singletonD)
  qed
  have o: "i64 (last is + 1) = last is + 1" using l assms(5,6) by (intro i64_nonneg_small) auto
  have e: "i64 (int (length is) + delta) = int (length is) + delta" using assms(5,7) by (intro i64_nonneg_small) auto
  have c: "i64 (int (length is) + delta + (last is + 1 - int (length is))) = last is + 1 + delta"
    using l assms(5,6) by (subst i64_nonneg_small) auto
  show ?thesis
    using o e c z l(2) by (auto simp: scaleUpParameters_def Let_def map_of_mapSet)
qed

theorem scaleUpParameters_fresh_indexes_witness:
  "\<exists>offset count. map_of (scaleUpParameters ''pool'' [0, 1, 4] 2 []) (''pool'' @ ''Offset'') = Some (JObj [(''value'', JNum offset)]) \<and>
    map_of (scaleUpParameters ''pool'' [0, 1, 4] 2 []) (''pool'' @ ''Count'') = Some (JObj [(''value'', JNum count)]) \<and>
    count - offset = 2 \<and> (\<forall>i \<in> set [0, 1, 4]. i < offset)"
  by (rule scaleUpParameters_fresh_indexes) (simp_all add: maxInt64_def)

text \<open>
  Scaling up an agent pool that has no virtual machine left panics: the highest used index is
  read from an empty slice after every guard has passed.
\<close>

theorem IncreaseSize_empty_pool_panics:
  assumes "ap_curSize (apAt w p) \<noteq> -1" and "0 < delta" and "delta \<le> ap_maxSize (apAt w p)" and "in64 delta"
    and "deleteOutdatedDeployments az w = (Ok (), w)" and "GetVMIndexes p w = Ok ([], m)"
  shows "fst (ap_IncreaseSize az p delta w) = Panic"
proof -
  have "GetVMIndexes p (invalidateCache az w) = GetVMIndexes p w"
    by (simp add: GetVMIndexes_def ap_getVMsFromCache_def getVirtualMachines_def cong: option.case_cong)
  then show ?thesis using assms by (simp add: ap_IncreaseSize_def i64_id)
qed

theorem IncreaseSize_empty_pool_panics_witness:
  "fst (ap_IncreaseSize sampleClient 0 2 emptyPoolWorld) = Panic"
proof (rule IncreaseSize_empty_pool_panics [where m = "[]"])
  show "deleteOutdatedDeployments sampleClient emptyPoolWorld = (Ok (), emptyPoolWorld)"
    by (simp add: deleteOutdatedDeployments_def getAllSucceededAndFailedDeployments_def callGo_env liftSum_def
        sampleClient_def emptyPoolWorld_def sampleWorld_def sampleConfig_def updCache_def)
  show "GetVMIndexes 0 emptyPoolWorld = Ok ([], [])" by code_simp
qed (simp_all add: emptyPoolWorld_def sampleWorld_def samplePool_def in64_def minInt64_def maxInt64_def)

end
