(* ===== verification/Autodiscovery.thy ===== *)
theory Autodiscovery
  imports Agent_Pool
begin

text \<open>
  \<open>azure_autodiscovery.go\<close>: the specifications \<open>label:key=value,...\<close> that select scale sets by their
  tags, their parser, and the match of the tags of a scale set against them.
\<close>

section \<open>The parser\<close>

definition autoDiscovererTypeLabel :: string where "autoDiscovererTypeLabel = ''label''"
definition vmssAutoDiscovererKeyMinNodes :: string where "vmssAutoDiscovererKeyMinNodes = ''min''"
definition vmssAutoDiscovererKeyMaxNodes :: string where "vmssAutoDiscovererKeyMaxNodes = ''max''"

record autoDiscoveryConfigSizes =
  sizes_Min :: int
  sizes_Max :: int

text \<open>\<open>strconv.Atoi\<close> and the test for a non-negative number.\<close>

definition parseNodes :: "string \<Rightarrow> string \<Rightarrow> int go" where
  "parseNodes msg v =
     (case strconv_Atoi v of
        None \<Rightarrow> Err (Errorf msg [AStr v])
      | Some n \<Rightarrow> if n < 0 then Err (Errorf msg [AStr v]) else Ok n)"

text \<open>One \<open>key=value\<close> argument of the specification.\<close>

definition parseDiscoveryArg :: "string \<Rightarrow> labelAutoDiscoveryConfig \<Rightarrow> labelAutoDiscoveryConfig go" where
  "parseDiscoveryArg arg cfg =
     (case strings_Split arg ''='' of
        [k, v] \<Rightarrow>
          if k = '''' \<or> v = '''' then Err (Errorf ''empty value not allowed in key=value tag pairs'' [])
          else if k = vmssAutoDiscovererKeyMinNodes then
            (case parseNodes ''invalid minimum nodes: %s'' v of
               Ok n \<Rightarrow> Ok (cfg\<lparr>MinSize := Some n\<rparr>) | Err e \<Rightarrow> Err e | Panic \<Rightarrow> Panic)
          else if k = vmssAutoDiscovererKeyMaxNodes then
            (case parseNodes ''invalid maximum nodes: %s'' v of
               Ok n \<Rightarrow> Ok (cfg\<lparr>MaxSize := Some n\<rparr>) | Err e \<Rightarrow> Err e | Panic \<Rightarrow> Panic)
          else Ok (cfg\<lparr>Selector := mapSet k v (Selector cfg)\<rparr>)
      | kv \<Rightarrow> Err (Errorf ''invalid key=value pair %s'' (map AStr kv)))"

fun parseDiscoveryArgs :: "string list \<Rightarrow> labelAutoDiscoveryConfig \<Rightarrow> labelAutoDiscoveryConfig go" where
  "parseDiscoveryArgs [] cfg = Ok cfg"
| "parseDiscoveryArgs (arg # args) cfg =
     (case parseDiscoveryArg arg cfg of
        Ok cfg' \<Rightarrow> parseDiscoveryArgs args cfg' | Err e \<Rightarrow> Err e | Panic \<Rightarrow> Panic)"

definition parseLabelAutoDiscoverySpec :: "string \<Rightarrow> labelAutoDiscoveryConfig go" where
  "parseLabelAutoDiscoverySpec spec =
     (case strings_Split spec '':'' of
        [discoverer, rest] \<Rightarrow>
          if discoverer \<noteq> autoDiscovererTypeLabel
          then Err (Errorf ''unsupported discoverer specified: %s'' [AStr discoverer])
          else (case parseDiscoveryArgs (strings_Split rest '','')
                       \<lparr>Selector = [], MinSize = None, MaxSize = None\<rparr> of
                  Ok cfg \<Rightarrow>
                    (case (MaxSize cfg, MinSize cfg) of
                       (Some mx, Some mn) \<Rightarrow>
                         if mx < mn
                         then Err (Errorf ''maximum size %d must be greater than or equal to minimum size %d''
                                     [AInt mx, AInt mn])
                         else Ok cfg
                     | _ \<Rightarrow> Ok cfg)
                | Err e \<Rightarrow> Err e
                | Panic \<Rightarrow> Panic)
      | _ \<Rightarrow> Err (Errorf ''spec %s should be discoverer:key=value,key=value'' [AStr spec]))"

fun ParseLabelAutoDiscoverySpecs :: "string list \<Rightarrow> labelAutoDiscoveryConfig list go" where
  "ParseLabelAutoDiscoverySpecs [] = Ok []"
| "ParseLabelAutoDiscoverySpecs (spec # specs) =
     (case parseLabelAutoDiscoverySpec spec of
        Ok cfg \<Rightarrow>
          (case ParseLabelAutoDiscoverySpecs specs of
             Ok cfgs \<Rightarrow> Ok (cfg # cfgs) | Err e \<Rightarrow> Err e | Panic \<Rightarrow> Panic)
      | Err e \<Rightarrow> Err e
      | Panic \<Rightarrow> Panic)"

section \<open>The match\<close>

text \<open>The loop over the selector: every key is a tag, with the value asked for unless that is empty.\<close>

definition selectorMatches :: "tags \<Rightarrow> (string, string) gomap \<Rightarrow> bool" where
  "selectorMatches labels sel \<longleftrightarrow>
     list_all (\<lambda>(k, v). case map_of labels k of
        None \<Rightarrow> False
      | Some p \<Rightarrow> v = '''' \<or> p = Some v) sel"

definition updateSizes :: "labelAutoDiscoveryConfig \<Rightarrow> int \<times> int \<Rightarrow> int \<times> int" where
  "updateSizes c = (\<lambda>(mn, mx).
     ((case MinSize c of None \<Rightarrow> mn | Some n \<Rightarrow> if mn < n then n else mn),
      (case MaxSize c of None \<Rightarrow> mx | Some n \<Rightarrow> if mx = -1 \<or> n < mx then n else mx)))"

fun matchConfigs :: "tags \<Rightarrow> labelAutoDiscoveryConfig list \<Rightarrow> int \<times> int \<Rightarrow> (int \<times> int) option" where
  "matchConfigs labels [] sizes = Some sizes"
| "matchConfigs labels (c # cs) sizes =
     (if Selector c = [] \<or> \<not> selectorMatches labels (Selector c) then None
      else matchConfigs labels cs (updateSizes c sizes))"

definition matchDiscoveryConfig ::
  "tags \<Rightarrow> labelAutoDiscoveryConfig list \<Rightarrow> autoDiscoveryConfigSizes option" where
  "matchDiscoveryConfig labels configs =
     (if configs = [] then None
      else map_option (\<lambda>(mn, mx). \<lparr>sizes_Min = mn, sizes_Max = mx\<rparr>) (matchConfigs labels configs (-1, -1)))"

section \<open>Facts on the parser and the match\<close>

text \<open>What the parser guarantees of a configuration.\<close>

definition sizesGiven :: "labelAutoDiscoveryConfig \<Rightarrow> bool" where
  "sizesGiven c \<longleftrightarrow>
     (\<forall>n. MinSize c = Some n \<longrightarrow> 0 \<le> n \<and> in64 n) \<and> (\<forall>n. MaxSize c = Some n \<longrightarrow> 0 \<le> n \<and> in64 n)"

definition selectorGiven :: "labelAutoDiscoveryConfig \<Rightarrow> bool" where
  "selectorGiven c \<longleftrightarrow> wfMap (Selector c) \<and> list_all (\<lambda>(k, v). k \<noteq> '''' \<and> v \<noteq> '''') (Selector c)"

lemma parseNodes_Ok: "parseNodes msg v = Ok n \<longleftrightarrow> strconv_Atoi v = Some n \<and> 0 \<le> n"
  by (auto simp: parseNodes_def split: option.splits)

lemma mem_mapSet: "p \<in> set (mapSet k v m) \<Longrightarrow> p = (k, v) \<or> p \<in> set m"
  by (induction k v m rule: mapSet.induct) (auto split: if_splits)

lemma parseDiscoveryArg_keeps:
  assumes "parseDiscoveryArg arg cfg = Ok cfg'" "sizesGiven cfg" "selectorGiven cfg"
  shows "sizesGiven cfg' \<and> selectorGiven cfg'"
proof -
  obtain k v where kv: "k \<noteq> ''''" "v \<noteq> ''''" and
    c: "(\<exists>n. cfg' = cfg\<lparr>MinSize := Some n\<rparr> \<and> strconv_Atoi v = Some n \<and> 0 \<le> n) \<or>
        (\<exists>n. cfg' = cfg\<lparr>MaxSize := Some n\<rparr> \<and> strconv_Atoi v = Some n \<and> 0 \<le> n) \<or>
        cfg' = cfg\<lparr>Selector := mapSet k v (Selector cfg)\<rparr>"
    using assms(1)
    by (auto simp: parseDiscoveryArg_def parseNodes_Ok split: list.splits if_splits go.splits)
  have s: "selectorGiven (cfg\<lparr>Selector := mapSet k v (Selector cfg)\<rparr>)"
    using assms(3) kv by (auto simp: selectorGiven_def wfMap_mapSet list_all_iff dest: mem_mapSet)
  from c s assms(2,3) show ?thesis
    by (auto simp: sizesGiven_def selectorGiven_def dest: strconv_Atoi_in64)
qed

lemma parseDiscoveryArgs_keeps:
  "parseDiscoveryArgs args cfg = Ok cfg' \<Longrightarrow> sizesGiven cfg \<Longrightarrow> selectorGiven cfg \<Longrightarrow>
     sizesGiven cfg' \<and> selectorGiven cfg'"
proof (induction args arbitrary: cfg)
  case (Cons arg args)
  then show ?case using parseDiscoveryArg_keeps by (fastforce split: go.splits)
qed simp

lemma parse_spec_sizes:
  assumes "parseLabelAutoDiscoverySpec spec = Ok cfg"
  shows "sizesGiven cfg \<and> selectorGiven cfg \<and>
    (\<forall>mn mx. MinSize cfg = Some mn \<longrightarrow> MaxSize cfg = Some mx \<longrightarrow> mn \<le> mx)"
proof -
  obtain args where a: "parseDiscoveryArgs args \<lparr>Selector = [], MinSize = None, MaxSize = None\<rparr> = Ok cfg"
    and le: "\<forall>mn mx. MinSize cfg = Some mn \<longrightarrow> MaxSize cfg = Some mx \<longrightarrow> mn \<le> mx"
    using assms by (auto simp: parseLabelAutoDiscoverySpec_def split: list.splits if_splits go.splits option.splits)
  from parseDiscoveryArgs_keeps [OF a] le show ?thesis by (simp add: sizesGiven_def selectorGiven_def)
qed

text \<open>The greatest minimum and the least maximum of the configurations.\<close>

lemma matchConfigs_Some:
  "matchConfigs labels cs (mn, mx) = Some (mn', mx') \<Longrightarrow> list_all sizesGiven cs \<Longrightarrow> -1 \<le> mn \<Longrightarrow> -1 \<le> mx \<Longrightarrow>
     list_all (\<lambda>c. Selector c \<noteq> [] \<and> selectorMatches labels (Selector c)) cs \<and>
     mn' = Max (insert mn {n. \<exists>c \<in> set cs. MinSize c = Some n}) \<and>
     (if mx' = -1 then mx = -1 \<and> (\<forall>c \<in> set cs. MaxSize c = None)
      else (mx' = mx \<or> (\<exists>c \<in> set cs. MaxSize c = Some mx')) \<and> (mx = -1 \<or> mx' \<le> mx) \<and>
           (\<forall>c \<in> set cs. \<forall>n. MaxSize c = Some n \<longrightarrow> mx' \<le> n))"
proof (induction cs arbitrary: mn mx)
  case Nil
  then show ?case by simp
next
  case (Cons c cs)
  obtain mn1 mx1 where u: "updateSizes c (mn, mx) = (mn1, mx1)" by fastforce
  have m: "matchConfigs labels cs (mn1, mx1) = Some (mn', mx')"
    and s: "Selector c \<noteq> []" "selectorMatches labels (Selector c)"
    using Cons.prems u by (auto split: if_splits)
  have b: "-1 \<le> mn1" "-1 \<le> mx1" "mx1 = -1 \<longleftrightarrow> mx = -1 \<and> MaxSize c = None"
    using u Cons.prems by (auto simp: updateSizes_def sizesGiven_def split: option.splits if_splits)
  note ih = Cons.IH [OF m _ b(1,2)]
  have fin: "finite {n. \<exists>c \<in> set cs. MinSize c = Some n}"
    by (rule finite_subset [of _ "set (map (the \<circ> MinSize) cs)"]) force+
  have split: "{n. \<exists>d \<in> set (c # cs). MinSize d = Some n} =
      {n. MinSize c = Some n} \<union> {n. \<exists>d \<in> set cs. MinSize d = Some n}" by auto
  have mn: "Max (insert mn {n. \<exists>d \<in> set (c # cs). MinSize d = Some n}) =
      Max (insert mn1 {n. \<exists>d \<in> set cs. MinSize d = Some n})"
  proof (cases "MinSize c")
    case None
    then show ?thesis using u split by (simp add: updateSizes_def)
  next
    case (Some n)
    then have "mn1 = max mn n" using u by (auto simp: updateSizes_def)
    moreover have "{k. MinSize c = Some k} = {n}" using Some by auto
    ultimately show ?thesis using fin unfolding split
      by (cases "{n. \<exists>d \<in> set cs. MinSize d = Some n} = {}") (simp_all add: max.assoc)
  qed
  have mx: "mx1 = mx \<or> MaxSize c = Some mx1" "mx = -1 \<or> mx1 \<le> mx" "MaxSize c = Some n \<Longrightarrow> mx1 \<le> n" for n
    using u by (auto simp: updateSizes_def split: option.splits if_splits)
  show ?case
    using ih Cons.prems(2) s mn b(3) mx by (auto split: if_splits)
qed

lemma ParseLabelAutoDiscoverySpecs_all:
  "ParseLabelAutoDiscoverySpecs specs = Ok cfgs \<Longrightarrow>
     list_all2 (\<lambda>spec cfg. parseLabelAutoDiscoverySpec spec = Ok cfg) specs cfgs"
  by (induction specs arbitrary: cfgs) (auto split: go.splits)

lemma parsed_sizesGiven:
  "ParseLabelAutoDiscoverySpecs specs = Ok cfgs \<Longrightarrow> list_all sizesGiven cfgs"
  using ParseLabelAutoDiscoverySpecs_all parse_spec_sizes
  by (fastforce simp: list_all2_conv_all_nth list_all_length)

lemma matchDiscoveryConfig_unfold:
  "matchDiscoveryConfig labels configs = Some sizes \<longleftrightarrow>
     configs \<noteq> [] \<and> matchConfigs labels configs (-1, -1) = Some (sizes_Min sizes, sizes_Max sizes)"
  by (cases sizes) (auto simp: matchDiscoveryConfig_def)

section \<open>Properties\<close>

text \<open>
  C33. When the specifications of the command line parse and the tags of a scale set match them,
  the tags match every selector, the minimum is the greatest minimum of the specifications
  (-1 when none gives one) and the maximum the least maximum (-1 when none gives one).
\<close>

theorem discovered_sizes:
  assumes "ParseLabelAutoDiscoverySpecs specs = Ok cfgs" and "matchDiscoveryConfig labels cfgs = Some sizes"
  shows "(\<forall>c \<in> set cfgs. Selector c \<noteq> [] \<and> selectorMatches labels (Selector c)) \<and>
    sizes_Min sizes = Max (insert (-1) {n. \<exists>c \<in> set cfgs. MinSize c = Some n}) \<and>
    (if \<forall>c \<in> set cfgs. MaxSize c = None then sizes_Max sizes = -1
     else (\<exists>c \<in> set cfgs. MaxSize c = Some (sizes_Max sizes)) \<and>
          (\<forall>c \<in> set cfgs. \<forall>n. MaxSize c = Some n \<longrightarrow> sizes_Max sizes \<le> n))"
proof -
  have g: "list_all sizesGiven cfgs" using parsed_sizesGiven [OF assms(1)] .
  have m: "matchConfigs labels cfgs (-1, -1) = Some (sizes_Min sizes, sizes_Max sizes)"
    using assms(2) by (simp add: matchDiscoveryConfig_unfold)
  note r = matchConfigs_Some [OF m g]
  have "MaxSize c \<noteq> Some (-1)" if "c \<in> set cfgs" for c
    using g that by (auto simp: list_all_iff sizesGiven_def)
  with r show ?thesis by (auto simp: list_all_iff split: if_splits)
qed

definition sampleSpecs :: "string list" where
  "sampleSpecs = [''label:pool=a,min=1,max=5'', ''label:env=x,min=2,max=9'']"

definition sampleDiscovery :: "labelAutoDiscoveryConfig list" where
  "sampleDiscovery = [\<lparr>Selector = [(''pool'', ''a'')], MinSize = Some 1, MaxSize = Some 5\<rparr>,
     \<lparr>Selector = [(''env'', ''x'')], MinSize = Some 2, MaxSize = Some 9\<rparr>]"

definition sampleTags :: tags where
  "sampleTags = [(''env'', Some ''x''), (''pool'', Some ''a'')]"

theorem discovered_sizes_witness:
  "selectorMatches sampleTags (Selector (sampleDiscovery ! 0)) \<and>
   selectorMatches sampleTags (Selector (sampleDiscovery ! 1)) \<and>
   Max (insert (-1) {n. \<exists>c \<in> set sampleDiscovery. MinSize c = Some n}) = 2"
proof -
  have "ParseLabelAutoDiscoverySpecs sampleSpecs = Ok sampleDiscovery" by code_simp
  moreover have "matchDiscoveryConfig sampleTags sampleDiscovery = Some \<lparr>sizes_Min = 2, sizes_Max = 5\<rparr>"
    by code_simp
  ultimately have "\<forall>c \<in> set sampleDiscovery. selectorMatches sampleTags (Selector c)"
      and "Max (insert (-1) {n. \<exists>c \<in> set sampleDiscovery. MinSize c = Some n}) = 2"
    using discovered_sizes [of sampleSpecs sampleDiscovery] by fastforce+
  then show ?thesis by (simp add: sampleDiscovery_def)
qed

text \<open>
  A specification that parses has non-negative 64 bit sizes with the minimum at most the
  maximum, and a selector without empty keys or values.
\<close>

theorem parsed_spec_valid:
  assumes "parseLabelAutoDiscoverySpec spec = Ok cfg"
  shows "(\<forall>n. MinSize cfg = Some n \<or> MaxSize cfg = Some n \<longrightarrow> 0 \<le> n \<and> in64 n) \<and>
    (\<forall>mn mx. MinSize cfg = Some mn \<and> MaxSize cfg = Some mx \<longrightarrow> mn \<le> mx) \<and>
    wfMap (Selector cfg) \<and> (\<forall>(k, v) \<in> set (Selector cfg). k \<noteq> '''' \<and> v \<noteq> '''')"
  using parse_spec_sizes [OF assms] by (auto simp: sizesGiven_def selectorGiven_def list_all_iff)

theorem parsed_spec_valid_witness:
  "wfMap (Selector (sampleDiscovery ! 0)) \<and> (\<forall>(k, v) \<in> set (Selector (sampleDiscovery ! 0)). k \<noteq> '''' \<and> v \<noteq> '''')"
proof -
  have "parseLabelAutoDiscoverySpec (sampleSpecs ! 0) = Ok (sampleDiscovery ! 0)" by code_simp
  from parsed_spec_valid [OF this] show ?thesis by blast
qed

end
