(* ===== verification/Azure_Manager.thy ===== *)
theory Azure_Manager
  imports Autodiscovery
begin

text \<open>
  \<open>azure_manager.go\<close> and the method \<open>regenerate\<close> of \<open>azure_cache.go\<close>: registering the explicitly
  configured and the discovered node groups, rebuilding the map from instances to node groups,
  and the periodic refresh. Parsing one explicit specification is done by the package \<open>dynamic\<close>
  of the cluster autoscaler, which is the argument \<open>specFromString\<close>.
\<close>

section \<open>Regenerating the cache\<close>

text \<open>\<open>ng.Nodes()\<close>, by the kind of the node group\<close>

definition ngNodes :: "'e azClient \<Rightarrow> nodeGroup \<Rightarrow> 'e world \<Rightarrow> inst list go \<times> 'e world" where
  "ngNodes az ng w =
     (case ng of
        ScaleSetRef p \<Rightarrow> Nodes az p w
      | AgentPoolRef p \<Rightarrow> (ap_Nodes p w, w)
      | VMPoolRef p \<Rightarrow> (vp_Nodes p w, w))"

type_synonym instanceMaps = "(string, nodeGroup) gomap \<times> (string, instanceState) gomap"

definition addInstance :: "nodeGroup \<Rightarrow> inst \<Rightarrow> instanceMaps \<Rightarrow> instanceMaps" where
  "addInstance ng i = (\<lambda>(groups, states).
     (mapSet (Id i) ng groups,
      (case Status i of None \<Rightarrow> states | Some st \<Rightarrow> mapSet (Id i) (State st) states)))"

fun collectInstances ::
  "'e azClient \<Rightarrow> nodeGroup list \<Rightarrow> instanceMaps \<Rightarrow> 'e world \<Rightarrow> instanceMaps go \<times> 'e world" where
  "collectInstances az [] maps w = (Ok maps, w)"
| "collectInstances az (ng # ngs) maps w =
     andThen (ngNodes az ng w) (\<lambda>instances w1.
       collectInstances az ngs (fold (addInstance ng) instances maps) w1)"

definition nodeOptionsTagName :: string where
  "nodeOptionsTagName = ''k8s.io_cluster-autoscaler_node-template_autoscaling-options_''"

definition addOption :: "string \<times> string option \<Rightarrow> (string, string) gomap \<Rightarrow> (string, string) gomap" where
  "addOption tag options =
     (if \<not> strings_HasPrefix (fst tag) nodeOptionsTagName then options
      else case strings_Split (fst tag) nodeOptionsTagName of
             _ # name # _ \<Rightarrow>
               (case snd tag of
                  None \<Rightarrow> options
                | Some v \<Rightarrow> if name = '''' then options else mapSet name (strings_ToLower v) options)
           | _ \<Rightarrow> options)"

definition extractAutoscalingOptionsFromScaleSetTags :: "tags \<Rightarrow> (string, string) gomap" where
  "extractAutoscalingOptionsFromScaleSetTags ts = fold addOption ts []"

fun collectOptions ::
  "(addr \<Rightarrow> vmss) \<Rightarrow> (string, addr) gomap \<Rightarrow> (string, (string, string) gomap) gomap \<Rightarrow>
     (string, (string, string) gomap) gomap go" where
  "collectOptions at [] options = Ok options"
| "collectOptions at ((_, v) # sets) options =
     (case vmss_Name (at v) of
        None \<Rightarrow> Panic
      | Some name \<Rightarrow>
          collectOptions at sets
            (mapSet name (extractAutoscalingOptionsFromScaleSetTags (vmss_Tags (at v))) options))"

definition regenerate :: "'e azClient \<Rightarrow> 'e world \<Rightarrow> unit go \<times> 'e world" where
  "regenerate az w =
     andThen (fetchAzureResources az w) (\<lambda>_ w1.
       andThen (collectInstances az (registeredNodeGroups (azCache w1)) ([], []) w1) (\<lambda>maps w2.
         case collectOptions (vmssAt w2) (getScaleSets w2) [] of
           Ok options \<Rightarrow>
             (Ok (), updCache (\<lambda>c. c\<lparr>instanceToNodeGroup := fst maps, instanceStates := snd maps,
                autoscalingOptions := options, unownedInstances := []\<rparr>) w2)
         | Err e \<Rightarrow> (Err e, w2)
         | Panic \<Rightarrow> (Panic, w2)))"

text \<open>The errors of the first fetch and of the SKU list are only logged.\<close>

definition newAzureCache :: "'e azClient \<Rightarrow> duration \<Rightarrow> 'e world \<Rightarrow> unit go \<times> 'e world" where
  "newAzureCache az cacheTTL w =
     (case regenerate az (w\<lparr>azCache := emptyCache cacheTTL (config w)\<rparr>) of
        (Panic, w1) \<Rightarrow> (Panic, w1)
      | (_, w1) \<Rightarrow>
          if EnableDynamicInstanceList (config w1)
          then (case fetchSKUCache az (Location (provider (config w1))) w1 of
                  (Panic, w2) \<Rightarrow> (Panic, w2)
                | (_, w2) \<Rightarrow> (Ok (), w2))
          else (Ok (), w1))"

section \<open>Explicitly configured node groups\<close>

definition parseSKUAndVMsAgentpoolNameFromSpecName :: "string \<Rightarrow> 'e world \<Rightarrow> (string \<times> string) option" where
  "parseSKUAndVMsAgentpoolNameFromSpecName name w =
     (case strings_Split name ''/'' of
        [agentPoolName, sku] \<Rightarrow>
          if map_of (getVMsPoolMap w) agentPoolName \<noteq> None then Some (agentPoolName, sku) else None
      | _ \<Rightarrow> None)"

definition buildNodeGroupFromSpec ::
  "(string \<Rightarrow> bool \<Rightarrow> goerror + nodeGroupSpec) \<Rightarrow> 'e azClient \<Rightarrow> string \<Rightarrow> 'e world \<Rightarrow> nodeGroup go \<times> 'e world" where
  "buildNodeGroupFromSpec specFromString az spec w =
     (let vmtype = VMType (provider (config w));
          scaleToZeroSupported = strings_EqualFold vmtype VMTypeVMSS
      in case specFromString spec scaleToZeroSupported of
           Inl e \<Rightarrow> (Err (Errorf ''failed to parse node group spec: %v'' [AErr e]), w)
         | Inr s \<Rightarrow>
             (case parseSKUAndVMsAgentpoolNameFromSpecName (spec_Name s) w of
                Some (agentPoolName, sku) \<Rightarrow>
                  andThen (NewVMPool az s agentPoolName sku w) (\<lambda>p w1. (Ok (VMPoolRef p), w1))
              | None \<Rightarrow>
                  if vmtype = VMTypeStandard
                  then andThen (NewAgentPool az s w) (\<lambda>p w1. (Ok (AgentPoolRef p), w1))
                  else if vmtype = VMTypeVMSS
                  then (case NewScaleSet s (-1) False w of (p, w1) \<Rightarrow> (Ok (ScaleSetRef p), w1))
                  else (Err (Errorf ''vmtype %s not supported'' [AStr vmtype]), w)))"

definition RegisterNodeGroup :: "nodeGroup \<Rightarrow> 'e world \<Rightarrow> bool \<times> 'e world" where
  "RegisterNodeGroup = Register"

definition UnregisterNodeGroup :: "nodeGroup \<Rightarrow> 'e world \<Rightarrow> bool \<times> 'e world" where
  "UnregisterNodeGroup = Unregister"

definition getNodeGroups :: "'e world \<Rightarrow> nodeGroup list" where
  "getNodeGroups w = getRegisteredNodeGroups w"

definition markExplicit :: "nodeGroup \<Rightarrow> 'e world \<Rightarrow> 'e world" where
  "markExplicit ng w = w\<lparr>explicitlyConfigured := mapSet (ngId w ng) True (explicitlyConfigured w)\<rparr>"

fun explicitLoop ::
  "(string \<Rightarrow> bool \<Rightarrow> goerror + nodeGroupSpec) \<Rightarrow> 'e azClient \<Rightarrow> string list \<Rightarrow> bool \<Rightarrow> 'e world \<Rightarrow>
     bool go \<times> 'e world" where
  "explicitLoop specFromString az [] changed w = (Ok changed, w)"
| "explicitLoop specFromString az (spec # specs) changed w =
     (case buildNodeGroupFromSpec specFromString az spec w of
        (Panic, w1) \<Rightarrow> (Panic, w1)
      | (Err e, w1) \<Rightarrow> (Err (Errorf ''failed to parse node group spec: %v'' [AErr e]), w1)
      | (Ok ng, w1) \<Rightarrow>
          (case RegisterNodeGroup ng w1 of
             (c, w2) \<Rightarrow> explicitLoop specFromString az specs (changed \<or> c) (markExplicit ng w2)))"

definition fetchExplicitNodeGroups ::
  "(string \<Rightarrow> bool \<Rightarrow> goerror + nodeGroupSpec) \<Rightarrow> 'e azClient \<Rightarrow> string list \<Rightarrow> 'e world \<Rightarrow> unit go \<times> 'e world" where
  "fetchExplicitNodeGroups specFromString az specs w =
     andThen (explicitLoop specFromString az specs False w) (\<lambda>changed w1.
       (Ok (), if changed then invalidateCache az w1 else w1))"

section \<open>Discovered node groups\<close>

text \<open>
  One bound of the size of a discovered scale set: its own tag, else the bound of the
  specifications, else none. \<open>*val\<close> panics on a nil tag, as does reading the sizes of a
  specification when there is none.
\<close>

definition sizeBound :: "tags \<Rightarrow> string \<Rightarrow> int option \<Rightarrow> int option go" where
  "sizeBound ts name cfgSize =
     (case map_of ts name of
        Some None \<Rightarrow> Panic
      | Some (Some v) \<Rightarrow> Ok (strconv_Atoi v)
      | None \<Rightarrow> (case cfgSize of
                    None \<Rightarrow> Panic
                  | Some n \<Rightarrow> Ok (if 0 \<le> n then Some n else None)))"

text \<open>The specification of one scale set; \<open>Ok None\<close> where the loop continues with the next one.\<close>

definition discoveredSpec :: "labelAutoDiscoveryConfig list \<Rightarrow> vmss \<Rightarrow> nodeGroupSpec option go" where
  "discoveredSpec flt s =
     (let cfgSizes = (if flt = [] then None else matchDiscoveryConfig (vmss_Tags s) flt)
      in if flt \<noteq> [] \<and> (vmss_Tags s = [] \<or> cfgSizes = None) then Ok None
         else case vmss_Name s of
                None \<Rightarrow> Panic
              | Some name \<Rightarrow>
                  (case sizeBound (vmss_Tags s) ''min'' (map_option sizes_Min cfgSizes) of
                     Panic \<Rightarrow> Panic
                   | Err e \<Rightarrow> Err e
                   | Ok None \<Rightarrow> Ok None
                   | Ok (Some mn) \<Rightarrow>
                       if mn < 0 then Ok None
                       else (case sizeBound (vmss_Tags s) ''max'' (map_option sizes_Max cfgSizes) of
                               Panic \<Rightarrow> Panic
                             | Err e \<Rightarrow> Err e
                             | Ok None \<Rightarrow> Ok None
                             | Ok (Some mx) \<Rightarrow>
                                 if mx < mn then Ok None
                                 else Ok (Some \<lparr>spec_Name = name, spec_MinSize = mn, spec_MaxSize = mx\<rparr>))))"

definition hasHostGroup :: "vmss \<Rightarrow> bool" where
  "hasHostGroup s = (case vmss_Properties s of None \<Rightarrow> False | Some pr \<Rightarrow> HostGroup pr \<noteq> None)"

fun discoverLoop ::
  "labelAutoDiscoveryConfig list \<Rightarrow> (string, addr) gomap \<Rightarrow> 'e world \<Rightarrow> nodeGroup list go \<times> 'e world" where
  "discoverLoop flt [] w = (Ok [], w)"
| "discoverLoop flt ((_, v) # sets) w =
     (case discoveredSpec flt (vmssAt w v) of
        Panic \<Rightarrow> (Panic, w)
      | Err e \<Rightarrow> (Err e, w)
      | Ok None \<Rightarrow> discoverLoop flt sets w
      | Ok (Some spec) \<Rightarrow>
          (case NewScaleSet spec (case capacityOf (vmssAt w v) of None \<Rightarrow> -1 | Some c \<Rightarrow> c)
                  (hasHostGroup (vmssAt w v)) w of
             (p, w1) \<Rightarrow> andThen (discoverLoop flt sets w1) (\<lambda>ngs w2. (Ok (ScaleSetRef p # ngs), w2))))"

definition getFilteredScaleSets ::
  "labelAutoDiscoveryConfig list \<Rightarrow> 'e world \<Rightarrow> nodeGroup list go \<times> 'e world" where
  "getFilteredScaleSets flt w = discoverLoop flt (getScaleSets w) w"

definition getFilteredNodeGroups ::
  "labelAutoDiscoveryConfig list \<Rightarrow> 'e world \<Rightarrow> nodeGroup list go \<times> 'e world" where
  "getFilteredNodeGroups flt w =
     (if flt = [] then (Ok [], w)
      else if VMType (provider (config w)) = VMTypeVMSS then getFilteredScaleSets flt w
      else (Err (Errorf ''vmType %q does not support autodiscovery'' [AStr (VMType (provider (config w)))]), w))"

definition isExplicit :: "'e world \<Rightarrow> nodeGroup \<Rightarrow> bool" where
  "isExplicit w ng \<longleftrightarrow> map_of (explicitlyConfigured w) (ngId w ng) = Some True"

fun registerDiscovered :: "nodeGroup list \<Rightarrow> bool \<Rightarrow> 'e world \<Rightarrow> bool \<times> 'e world" where
  "registerDiscovered [] changed w = (changed, w)"
| "registerDiscovered (ng # ngs) changed w =
     (if isExplicit w ng then registerDiscovered ngs changed w
      else case RegisterNodeGroup ng w of (c, w1) \<Rightarrow> registerDiscovered ngs (changed \<or> c) w1)"

fun unregisterMissing :: "string list \<Rightarrow> nodeGroup list \<Rightarrow> bool \<Rightarrow> 'e world \<Rightarrow> bool \<times> 'e world" where
  "unregisterMissing present [] changed w = (changed, w)"
| "unregisterMissing present (ng # ngs) changed w =
     (if ngId w ng \<notin> set present \<and> \<not> isExplicit w ng
      then unregisterMissing present ngs True (snd (UnregisterNodeGroup ng w))
      else unregisterMissing present ngs changed w)"

definition fetchAutoNodeGroups :: "'e azClient \<Rightarrow> 'e world \<Rightarrow> unit go \<times> 'e world" where
  "fetchAutoNodeGroups az w =
     (case getFilteredNodeGroups (autoDiscoverySpecs w) w of
        (Panic, w1) \<Rightarrow> (Panic, w1)
      | (Err e, w1) \<Rightarrow> (Err (Errorf ''cannot autodiscover NodeGroups: %s'' [AErr e]), w1)
      | (Ok groups, w1) \<Rightarrow>
          (case registerDiscovered groups False w1 of
             (c1, w2) \<Rightarrow>
               (case unregisterMissing (map (ngId w2) groups) (getNodeGroups w2) c1 w2 of
                  (c2, w3) \<Rightarrow> (Ok (), if c2 then invalidateCache az w3 else w3))))"

section \<open>The refresh\<close>

text \<open>An error of the discovery is only logged.\<close>

definition forceRefresh :: "'e azClient \<Rightarrow> 'e world \<Rightarrow> unit go \<times> 'e world" where
  "forceRefresh az w =
     (case fetchAutoNodeGroups az w of
        (Panic, w1) \<Rightarrow> (Panic, w1)
      | (_, w1) \<Rightarrow>
          andThen (regenerate az w1) (\<lambda>_ w2. (Ok (), w2\<lparr>lastRefresh := now az w2\<rparr>)))"

definition Refresh :: "'e azClient \<Rightarrow> 'e world \<Rightarrow> unit go \<times> 'e world" where
  "Refresh az w =
     (if stillFresh (lastRefresh w) (refreshInterval (azCache w)) (now az w) then (Ok (), w)
      else forceRefresh az w)"

section \<open>Options of a scale set\<close>

text \<open>
  \<open>config.NodeGroupAutoscalingOptions\<close>, its fields that the tags may override. A 64 bit float is a
  value of a type that is left open: the code only stores what \<open>strconv.ParseFloat\<close> returns.
\<close>

record 'f autoscalingOpts =
  ScaleDownUtilizationThreshold :: 'f
  ScaleDownGpuUtilizationThreshold :: 'f
  ScaleDownUnneededTime :: duration
  ScaleDownUnreadyTime :: duration

text \<open>The keys of the package \<open>config\<close> of the cluster autoscaler.\<close>

record optionKeys =
  DefaultScaleDownUtilizationThresholdKey :: string
  DefaultScaleDownGpuUtilizationThresholdKey :: string
  DefaultScaleDownUnneededTimeKey :: string
  DefaultScaleDownUnreadyTimeKey :: string

text \<open>\<open>getFloat64Option\<close> and \<open>getDurationOption\<close>, which differ only in the parser they call.\<close>

definition getParsedOption :: "(string \<Rightarrow> 'v option) \<Rightarrow> (string, string) gomap \<Rightarrow> string \<Rightarrow> 'v option" where
  "getParsedOption parse options name =
     (case map_of options (strings_ToLower name) of None \<Rightarrow> None | Some raw \<Rightarrow> parse raw)"

definition GetScaleSetOptions ::
  "(string \<Rightarrow> 'f option) \<Rightarrow> (string \<Rightarrow> duration option) \<Rightarrow> optionKeys \<Rightarrow> string \<Rightarrow>
     'f autoscalingOpts \<Rightarrow> 'e world \<Rightarrow> 'f autoscalingOpts" where
  "GetScaleSetOptions parseFloat parseDuration ks scaleSetName defaults w =
     (let options = getAutoscalingOptions scaleSetName w;
          orElse = (\<lambda>x y. case x of None \<Rightarrow> y | Some v \<Rightarrow> v)
      in if options = [] then defaults
         else \<lparr>ScaleDownUtilizationThreshold =
                 orElse (getParsedOption parseFloat options (DefaultScaleDownUtilizationThresholdKey ks))
                   (ScaleDownUtilizationThreshold defaults),
               ScaleDownGpuUtilizationThreshold =
                 orElse (getParsedOption parseFloat options (DefaultScaleDownGpuUtilizationThresholdKey ks))
                   (ScaleDownGpuUtilizationThreshold defaults),
               ScaleDownUnneededTime =
                 (case getParsedOption parseDuration options (DefaultScaleDownUnneededTimeKey ks) of
                    None \<Rightarrow> ScaleDownUnneededTime defaults | Some d \<Rightarrow> d),
               ScaleDownUnreadyTime =
                 (case getParsedOption parseDuration options (DefaultScaleDownUnreadyTimeKey ks) of
                    None \<Rightarrow> ScaleDownUnreadyTime defaults | Some d \<Rightarrow> d)\<rparr>)"

text \<open>\<open>ScaleSet.GetOptions\<close>; \<open>Ok None\<close> is the nil result that stands for the default options\<close>

definition GetOptions ::
  "(string \<Rightarrow> 'f option) \<Rightarrow> (string \<Rightarrow> duration option) \<Rightarrow> optionKeys \<Rightarrow> addr \<Rightarrow>
     'f autoscalingOpts \<Rightarrow> 'e world \<Rightarrow> 'f autoscalingOpts option go" where
  "GetOptions parseFloat parseDuration ks p defaults w =
     (case getVMSSFromCache p w of
        Ok v \<Rightarrow> (case vmss_Name (vmssAt w v) of
                   None \<Rightarrow> Panic
                 | Some name \<Rightarrow> Ok (Some (GetScaleSetOptions parseFloat parseDuration ks name defaults w)))
      | Err e \<Rightarrow> Ok None
      | Panic \<Rightarrow> Panic)"

end
