(* ===== verification/Azure_Refresh.thy ===== *)
theory Azure_Refresh
  imports Azure_Manager
begin

text \<open>
  Facts and properties of the refresh of the manager: what fetching leaves unchanged, that
  \<open>regenerate\<close> computes the map from instances to node groups its specification \<open>listAll\<close>
  describes, what the discovery may change in the registry, and when a failed refresh is tried
  again.
\<close>

section \<open>What a refresh leaves unchanged\<close>

text \<open>
  The part of the world that fetching resources and instances does not change: everything but
  the fetched resources, the caches inside the scale sets and the environment.
\<close>

definition cacheFixed :: "azureCache \<Rightarrow> azureCache" where
  "cacheFixed c = c\<lparr>scaleSets := [], virtualMachines := [], vmsPoolMap := []\<rparr>"

definition refreshFrame :: "'e world \<Rightarrow> 'e world \<Rightarrow> bool" where
  "refreshFrame w w' \<longleftrightarrow>
     config w' = config w \<and> lastRefresh w' = lastRefresh w \<and> apAt w' = apAt w \<and> vpAt w' = vpAt w \<and>
     ssNext w' = ssNext w \<and> apNext w' = apNext w \<and> vpNext w' = vpNext w \<and>
     explicitlyConfigured w' = explicitlyConfigured w \<and> autoDiscoverySpecs w' = autoDiscoverySpecs w \<and>
     requests w' = requests w \<and> goroutines w' = goroutines w \<and>
     (\<forall>q. ssFixed (ssAt w' q) = ssFixed (ssAt w q)) \<and> cacheFixed (azCache w') = cacheFixed (azCache w)"

lemma refreshFrame_refl [simp]: "refreshFrame w w"
  by (simp add: refreshFrame_def)

lemma refreshFrame_trans [trans]: "refreshFrame w w1 \<Longrightarrow> refreshFrame w1 w2 \<Longrightarrow> refreshFrame w w2"
  by (simp add: refreshFrame_def)

lemma refreshFrame_steps [simp]:
  "refreshFrame w (w\<lparr>env := e\<rparr>)" "refreshFrame w (snd (allocVMSS x w))" "refreshFrame w (setScaleSet n v w)"
  "refreshFrame w (updCache (\<lambda>c. c\<lparr>scaleSets := a\<rparr>) w)"
  "refreshFrame w (updCache (\<lambda>c. c\<lparr>virtualMachines := b\<rparr>) w)"
  "refreshFrame w (updCache (\<lambda>c. c\<lparr>vmsPoolMap := d\<rparr>) w)"
  by (auto simp: refreshFrame_def allocVMSS_def setScaleSet_def cacheFixed_def)

lemma refreshFrame_updSS:
  "ssFixed (f (ssAt w p)) = ssFixed (ssAt w p) \<Longrightarrow> refreshFrame w (updSS p f w)"
  by (simp add: refreshFrame_def)

lemma refreshFrame_fields:
  assumes "refreshFrame w w'"
  shows "ngId w' = ngId w" "ngMinSize w' = ngMinSize w" "ngMaxSize w' = ngMaxSize w"
    "registeredNodeGroups (azCache w') = registeredNodeGroups (azCache w)"
    "instanceToNodeGroup (azCache w') = instanceToNodeGroup (azCache w)"
    "instanceStates (azCache w') = instanceStates (azCache w)"
    "autoscalingOptions (azCache w') = autoscalingOptions (azCache w)"
    "unownedInstances (azCache w') = unownedInstances (azCache w)"
    "refreshInterval (azCache w') = refreshInterval (azCache w)" "lastRefresh w' = lastRefresh w"
    "requests w' = requests w" "goroutines w' = goroutines w" "config w' = config w"
    "explicitlyConfigured w' = explicitlyConfigured w" "autoDiscoverySpecs w' = autoDiscoverySpecs w"
proof -
  have f: "ssFixed (ssAt w' q) = ssFixed (ssAt w q)" for q using assms by (simp add: refreshFrame_def)
  note e = arg_cong [OF f]
  have n: "ss_Name (ssAt w' q) = ss_Name (ssAt w q)" "ss_minSize (ssAt w' q) = ss_minSize (ssAt w q)"
    "ss_maxSize (ssAt w' q) = ss_maxSize (ssAt w q)" for q
    using e [of ss_Name q] e [of ss_minSize q] e [of ss_maxSize q] by (simp_all add: ssFixed_def)
  show "ngId w' = ngId w" "ngMinSize w' = ngMinSize w" "ngMaxSize w' = ngMaxSize w"
    using assms n by (auto simp: fun_eq_iff ngId_def ngMinSize_def ngMaxSize_def refreshFrame_def split: nodeGroup.splits)
  have "cacheFixed (azCache w') = cacheFixed (azCache w)" using assms by (simp add: refreshFrame_def)
  note c = arg_cong [OF this]
  show "registeredNodeGroups (azCache w') = registeredNodeGroups (azCache w)"
    using c [of registeredNodeGroups] by (simp add: cacheFixed_def)
  show "instanceToNodeGroup (azCache w') = instanceToNodeGroup (azCache w)"
    using c [of instanceToNodeGroup] by (simp add: cacheFixed_def)
  show "instanceStates (azCache w') = instanceStates (azCache w)"
    using c [of instanceStates] by (simp add: cacheFixed_def)
  show "autoscalingOptions (azCache w') = autoscalingOptions (azCache w)"
    using c [of autoscalingOptions] by (simp add: cacheFixed_def)
  show "unownedInstances (azCache w') = unownedInstances (azCache w)"
    using c [of unownedInstances] by (simp add: cacheFixed_def)
  show "refreshInterval (azCache w') = refreshInterval (azCache w)"
    using c [of refreshInterval] by (simp add: cacheFixed_def)
qed (use assms in \<open>simp_all add: refreshFrame_def\<close>)

lemma adoptSize_refresh: "refreshFrame w (snd (adoptSize az p v w))"
proof (cases "capacityOf (vmssAt w v)")
  case None
  then show ?thesis by (simp add: adoptSize_def)
next
  case (Some n)
  define w1 where "w1 = (if curSize (ssAt w p) \<noteq> n then invalidateInstanceCache az p w else w)"
  have "refreshFrame w w1"
    by (simp add: w1_def invalidateInstanceCache_def refreshFrame_updSS ssFixed_def)
  also have "refreshFrame w1 (updSS p (\<lambda>s. s\<lparr>curSize := n, lastSizeRefresh := now az w1\<rparr>) w1)"
    by (rule refreshFrame_updSS) (simp add: ssFixed_def)
  finally show ?thesis using Some by (simp add: adoptSize_def w1_def Let_def)
qed

lemma getCurSize_refresh: "refreshFrame w (snd (getCurSize az p w))"
proof -
  have a: "refreshFrame w (snd (adoptSize az p (fst (allocVMSS x w1)) (setScaleSet n (fst (allocVMSS x w1)) (snd (allocVMSS x w1)))))"
    if "w1 = w\<lparr>env := e\<rparr>" for x w1 n e
  proof -
    have "refreshFrame w w1" using that by simp
    also have "refreshFrame w1 (snd (allocVMSS x w1))" by simp
    also have "refreshFrame (snd (allocVMSS x w1)) (setScaleSet n (fst (allocVMSS x w1)) (snd (allocVMSS x w1)))" by simp
    also note adoptSize_refresh
    finally show ?thesis .
  qed
  show ?thesis
    by (auto simp: getCurSize_def call_env Let_def adoptSize_refresh a split: go.splits sum.splits prod.splits)
      (metis a fst_conv snd_conv)+
qed

lemma refreshFrame_andThen:
  assumes "refreshFrame w (snd r)" and "\<And>x w1. r = (Ok x, w1) \<Longrightarrow> refreshFrame w1 (snd (k x w1))"
  shows "refreshFrame w (snd (andThen r k))"
proof -
  obtain a w1 where r: "r = (a, w1)" by (cases r)
  show ?thesis
  proof (cases a)
    case (Ok x)
    with assms r have "refreshFrame w w1" "refreshFrame w1 (snd (k x w1))" by auto
    with r Ok show ?thesis using refreshFrame_trans by auto
  qed (use assms r in auto)
qed

lemma splayed_refresh: "refreshFrame w (snd (splayedRefresh az p w))"
  by (auto simp: splayedRefresh_def call_env Let_def)

lemma listVms_refresh:
  "refreshFrame w (snd (GetScaleSetVms az p w))" "refreshFrame w (snd (GetFlexibleScaleSetVms az p w))"
  by (auto simp: GetScaleSetVms_def GetFlexibleScaleSetVms_def callGo_env split: go.splits option.splits)

lemma rebuildCache_refresh:
  assumes "\<And>w. refreshFrame w (snd (listVms w))"
  shows "refreshFrame w (snd (rebuildCache az p listVms build w))"
  unfolding rebuildCache_def
proof (rule refreshFrame_andThen [OF splayed_refresh])
  fix lastR and w1 :: "'a world"
  obtain r w2 where l: "listVms w1 = (r, w2)" by (cases "listVms w1")
  have "refreshFrame w1 w2" using assms [of w1] l by simp
  then show "refreshFrame w1 (snd (case listVms w1 of
         (Panic, w2) \<Rightarrow> (Panic, w2)
       | (Err e, w2) \<Rightarrow>
           (case isAzureRequestsThrottled az (now az w2) e of
              (throttled, retryAfter) \<Rightarrow>
                if throttled
                then (Ok (), updSS p (\<lambda>s. s\<lparr>lastInstanceRefresh :=
                        throttledRefresh lastR (instancesRefreshPeriod s) (now az w2) retryAfter\<rparr>) w2)
                else (Err e, w2))
       | (Ok vms, w2) \<Rightarrow>
           (case build (ssAt w2 p) vms of
              Ok instances \<Rightarrow>
                (Ok (), updSS p (\<lambda>s. s\<lparr>instanceCache := instances, lastInstanceRefresh := lastR\<rparr>) w2)
            | Err e \<Rightarrow> (Err e, w2)
            | Panic \<Rightarrow> (Panic, w2))))"
    using l by (auto split: go.splits prod.splits intro!: refreshFrame_trans [OF _ refreshFrame_updSS] simp: ssFixed_def)
qed

lemma updateInstanceCache_refresh: "refreshFrame w (snd (updateInstanceCache az p w))"
  unfolding updateInstanceCache_def Let_def buildScaleSetCacheForFlex_def buildScaleSetCacheForUniform_def
  by (auto split: go.splits intro!: rebuildCache_refresh listVms_refresh)

lemma Nodes_refresh: "refreshFrame w (snd (Nodes az p w))"
  unfolding Nodes_def Let_def
  by (rule refreshFrame_andThen [OF getCurSize_refresh])
    (auto split: sum.splits intro!: refreshFrame_andThen updateInstanceCache_refresh)

lemma ngNodes_refresh: "refreshFrame w (snd (ngNodes az ng w))"
  by (simp add: ngNodes_def Nodes_refresh split: nodeGroup.splits)

lemma collectInstances_refresh: "refreshFrame w (snd (collectInstances az ngs maps w))"
proof (induction ngs arbitrary: maps w)
  case (Cons ng ngs)
  show ?case
    unfolding collectInstances.simps by (rule refreshFrame_andThen [OF ngNodes_refresh Cons.IH])
qed simp

lemma storeScaleSets_refresh: "refreshFrame w (snd (storeScaleSets xs sets w))"
proof (induction xs arbitrary: sets w)
  case (Cons x xs)
  show ?case
  proof (cases "vmss_Name x")
    case (Some n)
    have "refreshFrame w (snd (allocVMSS x w))" by simp
    from refreshFrame_trans [OF this Cons.IH] Some show ?thesis by (auto simp: split: prod.splits)
  qed simp
qed simp

lemma refreshFrame_callGo: "refreshFrame w (snd (callGo f w))"
  by (simp add: callGo_env)

lemma fetch_refresh:
  "refreshFrame w (snd (fetchScaleSets az w))" "refreshFrame w (snd (fetchVirtualMachines az w))"
  "refreshFrame w (snd (fetchVMsPools az w))"
proof -
  show "refreshFrame w (snd (fetchScaleSets az w))" unfolding fetchScaleSets_def
    by (rule refreshFrame_andThen [OF refreshFrame_callGo storeScaleSets_refresh])
  show "refreshFrame w (snd (fetchVirtualMachines az w))" unfolding fetchVirtualMachines_def
    by (rule refreshFrame_andThen [OF refreshFrame_callGo]) simp
  show "refreshFrame w (snd (fetchVMsPools az w))"
    by (simp add: fetchVMsPools_def call_env split: go.splits)
qed

lemma fetchAzureResources_refresh: "refreshFrame w (snd (fetchAzureResources az w))"
  unfolding fetchAzureResources_def Let_def
proof (rule refreshFrame_andThen [OF fetch_refresh(1)], goal_cases)
  case (1 sets w1)
  show ?case
  proof (rule refreshFrame_trans [OF refreshFrame_steps(4) [of w1 sets]], rule refreshFrame_andThen [OF fetch_refresh(2)], goal_cases)
    case (1 vms w3)
    show ?case
      by (cases "enableVMsAgentPool (azCache w3)")
        (auto intro!: refreshFrame_andThen fetch_refresh refreshFrame_trans [OF refreshFrame_steps(5) [of w3 vms]])
  qed
qed

section \<open>What regenerating computes\<close>

text \<open>The specification: the instances of every group, listed one group after the other.\<close>

fun listAll :: "'e azClient \<Rightarrow> nodeGroup list \<Rightarrow> 'e world \<Rightarrow> (nodeGroup \<times> inst) list go \<times> 'e world" where
  "listAll az [] w = (Ok [], w)"
| "listAll az (ng # ngs) w =
     andThen (ngNodes az ng w) (\<lambda>instances w1.
       andThen (listAll az ngs w1) (\<lambda>ls w2. (Ok (map (Pair ng) instances @ ls), w2)))"

text \<open>The group that owns an instance, and its state: the last one listed counts.\<close>

definition ownerIn :: "(nodeGroup \<times> inst) list \<Rightarrow> string \<Rightarrow> nodeGroup option" where
  "ownerIn ls i = map_option fst (find (\<lambda>(ng, x). Id x = i) (rev ls))"

definition stateIn :: "(nodeGroup \<times> inst) list \<Rightarrow> string \<Rightarrow> instanceState option" where
  "stateIn ls i =
     map_option (\<lambda>(ng, x). State (the (Status x))) (find (\<lambda>(ng, x). Id x = i \<and> Status x \<noteq> None) (rev ls))"

lemma collectInstances_listAll:
  "collectInstances az ngs maps w =
     (case listAll az ngs w of
        (Ok ls, w') \<Rightarrow> (Ok (fold (\<lambda>(ng, x). addInstance ng x) ls maps), w')
      | (Err e, w') \<Rightarrow> (Err e, w')
      | (Panic, w') \<Rightarrow> (Panic, w'))"
proof (induction ngs arbitrary: maps w)
  case (Cons ng ngs)
  have f: "fold (\<lambda>(ng, x). addInstance ng x) (map (Pair ng) xs) = fold (addInstance ng) xs" for xs
    by (simp add: fold_map comp_def)
  obtain r w1 where r: "ngNodes az ng w = (r, w1)" by (cases "ngNodes az ng w")
  show ?case
  proof (cases r)
    case (Ok xs)
    obtain r' w2 where "listAll az ngs w1 = (r', w2)" by (cases "listAll az ngs w1")
    then show ?thesis using r Ok Cons.IH [of "fold (addInstance ng) xs maps" w1] f [of xs]
      by (cases r') simp_all
  qed (use r in simp_all)
qed simp

lemma fold_addInstance:
  "fold (\<lambda>(ng, x). addInstance ng x) ls (groups, states) =
     (gm.build (\<lambda>(ng, x). Id x) fst ls groups,
      gm.build (\<lambda>(ng, x). Id x) (\<lambda>(ng, x). State (the (Status x))) (filter (\<lambda>(ng, x). Status x \<noteq> None) ls) states)"
  by (induction ls arbitrary: groups states) (auto simp: addInstance_def gm.build_def split: option.splits)

lemma find_filter: "find P (filter Q xs) = find (\<lambda>x. P x \<and> Q x) xs"
  by (induction xs) auto

lemma collected_lookup:
  assumes "fold (\<lambda>(ng, x). addInstance ng x) ls ([], []) = (groups, states)"
  shows "map_of groups = ownerIn ls" and "map_of states = stateIn ls" and "wfMap groups"
proof -
  have g: "groups = gm.build (\<lambda>(ng, x). Id x) fst ls []"
    and s: "states = gm.build (\<lambda>(ng, x). Id x) (\<lambda>(ng, x). State (the (Status x)))
      (filter (\<lambda>(ng, x). Status x \<noteq> None) ls) []"
    using assms by (simp_all add: fold_addInstance)
  show "map_of groups = ownerIn ls"
    by (auto simp: g gm.build_lookup ownerIn_def fun_eq_iff case_prod_unfold split: option.splits)
  show "map_of states = stateIn ls"
    by (auto simp: s gm.build_lookup stateIn_def fun_eq_iff rev_filter find_filter case_prod_unfold split: option.splits)
  show "wfMap groups" by (simp add: g gm.build_invar)
qed

lemma regenerate_cases:
  assumes "regenerate az w = (r, w')"
  obtains (ok) w1 ls w2 groups states options where "r = Ok ()"
      "fetchAzureResources az w = (Ok (), w1)" "listAll az (registeredNodeGroups (azCache w)) w1 = (Ok ls, w2)"
      "fold (\<lambda>(ng, x). addInstance ng x) ls ([], []) = (groups, states)" "refreshFrame w w2"
      "w' = updCache (\<lambda>c. c\<lparr>instanceToNodeGroup := groups, instanceStates := states,
         autoscalingOptions := options, unownedInstances := []\<rparr>) w2"
    | (failed) "r \<noteq> Ok ()" "refreshFrame w w'"
proof -
  obtain r1 w1 where f: "fetchAzureResources az w = (r1, w1)" by (cases "fetchAzureResources az w")
  have rf: "refreshFrame w w1" using fetchAzureResources_refresh [of w az] f by simp
  note regs = refreshFrame_fields(4) [OF rf]
  obtain rc w2 where c: "collectInstances az (registeredNodeGroups (azCache w)) ([], []) w1 = (rc, w2)"
    by (cases "collectInstances az (registeredNodeGroups (azCache w)) ([], []) w1")
  have rf2: "refreshFrame w w2"
    using refreshFrame_trans [OF rf collectInstances_refresh [of w1 az "registeredNodeGroups (azCache w)" "([], [])"]] c
    by simp
  show ?thesis
  proof (cases r1)
    case r1: (Ok u)
    show ?thesis
    proof (cases rc)
      case (Ok maps)
      obtain ls where ls: "listAll az (registeredNodeGroups (azCache w)) w1 = (Ok ls, w2)"
        "maps = fold (\<lambda>(ng, x). addInstance ng x) ls ([], [])"
        using c Ok unfolding collectInstances_listAll by (auto split: prod.splits go.splits)
      show ?thesis
      proof (cases "collectOptions (vmssAt w2) (getScaleSets w2) []")
        case opts: (Ok options)
        show ?thesis
          by (rule ok [of w1 ls w2 "fst maps" "snd maps" options])
            (use assms f r1 Ok c opts ls regs rf2 in \<open>auto simp: regenerate_def\<close>)
      qed (rule failed; use assms f r1 Ok c regs rf2 in \<open>auto simp: regenerate_def\<close>)+
    qed (rule failed; use assms f r1 c regs rf2 in \<open>auto simp: regenerate_def\<close>)+
  qed (rule failed; use assms f rf in \<open>auto simp: regenerate_def\<close>)+
qed

section \<open>What the discovery registers\<close>

definition cachedNames :: "'e world \<Rightarrow> string set" where
  "cachedNames w = {n. \<exists>v \<in> set (map snd (getScaleSets w)). vmss_Name (vmssAt w v) = Some n}"

lemma discoveredSpec_valid:
  assumes "discoveredSpec flt s = Ok (Some spec)"
  shows "vmss_Name s = Some (spec_Name spec)" "0 \<le> spec_MinSize spec" "spec_MinSize spec \<le> spec_MaxSize spec"
  using assms by (auto simp: discoveredSpec_def Let_def split: if_splits option.splits go.splits)

lemma NewScaleSet_fields:
  assumes "NewScaleSet spec sz d w = (p, w')"
  shows "p = ssNext w" "ssNext w' = Suc (ssNext w)" "ss_Name (ssAt w' p) = spec_Name spec"
    "ss_minSize (ssAt w' p) = spec_MinSize spec" "ss_maxSize (ssAt w' p) = spec_MaxSize spec"
    "q < ssNext w \<Longrightarrow> ssAt w' q = ssAt w q" "w' = w\<lparr>ssAt := ssAt w', ssNext := ssNext w'\<rparr>"
  using assms by (auto simp: NewScaleSet_def Let_def)

text \<open>Every new group is a new scale set with the name of a scale set of the list and valid sizes.\<close>

definition validGroup :: "'e world \<Rightarrow> nodeGroup \<Rightarrow> bool" where
  "validGroup w g \<longleftrightarrow> 0 \<le> ngMinSize w g \<and> ngMinSize w g \<le> ngMaxSize w g"

lemma discoverLoop_groups:
  "discoverLoop flt sets w = (r, w') \<Longrightarrow>
     ssNext w \<le> ssNext w' \<and> (\<forall>q < ssNext w. ssAt w' q = ssAt w q) \<and>
     w' = w\<lparr>ssAt := ssAt w', ssNext := ssNext w'\<rparr> \<and>
     (\<forall>gs. r = Ok gs \<longrightarrow> (\<forall>g \<in> set gs. (\<exists>p. g = ScaleSetRef p \<and> ssNext w \<le> p \<and> p < ssNext w') \<and>
        validGroup w' g \<and> (\<exists>v \<in> set (map snd sets). vmss_Name (vmssAt w v) = Some (ngId w' g))))"
proof (induction flt sets w arbitrary: r w' rule: discoverLoop.induct)
  case (1 flt w)
  then show ?case by auto
next
  case (2 flt n v sets w)
  show ?case
  proof (cases "discoveredSpec flt (vmssAt w v)")
    case (Ok so)
    show ?thesis
    proof (cases so)
      case None
      from "2.IH"(1) [OF Ok None] "2.prems" Ok None show ?thesis by fastforce
    next
      case (Some spec)
      let ?sz = "case capacityOf (vmssAt w v) of None \<Rightarrow> -1 | Some c \<Rightarrow> c"
      obtain p w1 where n: "NewScaleSet spec ?sz (hasHostGroup (vmssAt w v)) w = (p, w1)" by fastforce
      obtain r2 w2 where d: "discoverLoop flt sets w1 = (r2, w2)" by fastforce
      note f = NewScaleSet_fields [OF n]
      have at: "vmssAt w1 = vmssAt w" using arg_cong [OF f(7), of vmssAt] by simp
      from "2.IH"(2) [OF Ok Some n [symmetric] d]
      have ih: "ssNext w1 \<le> ssNext w2" "\<forall>q < ssNext w1. ssAt w2 q = ssAt w1 q"
        "w2 = w1\<lparr>ssAt := ssAt w2, ssNext := ssNext w2\<rparr>"
        "\<And>gs g. r2 = Ok gs \<Longrightarrow> g \<in> set gs \<Longrightarrow> (\<exists>p. g = ScaleSetRef p \<and> ssNext w1 \<le> p \<and> p < ssNext w2) \<and>
          validGroup w2 g \<and> (\<exists>v \<in> set (map snd sets). vmss_Name (vmssAt w1 v) = Some (ngId w2 g))"
        by blast+
      have w': "w' = w2" "\<And>gs. r = Ok gs \<longleftrightarrow> (\<exists>gs'. r2 = Ok gs' \<and> gs = ScaleSetRef p # gs')"
        using "2.prems" Ok Some n d by (cases r2; auto)+
      have s: "ssAt w2 p = ssAt w1 p" using f(1,2) ih(2) by simp
      have new: "validGroup w2 (ScaleSetRef p)" "ngId w2 (ScaleSetRef p) = spec_Name spec"
        using discoveredSpec_valid [OF Ok [unfolded Some]] f(3,4,5) s by (simp_all add: validGroup_def ngMinSize_def ngMaxSize_def ngId_def)
      have fr: "w2 = w\<lparr>ssAt := ssAt w2, ssNext := ssNext w2\<rparr>"
      proof -
        have "w2 = (w\<lparr>ssAt := ssAt w1, ssNext := ssNext w1\<rparr>)\<lparr>ssAt := ssAt w2, ssNext := ssNext w2\<rparr>"
          using f(7) ih(3) by simp
        then show ?thesis by simp
      qed
      show ?thesis
        unfolding w' using ih fr f(1,2,6) new at discoveredSpec_valid(1) [OF Ok [unfolded Some]] by fastforce
    qed
  qed (use "2.prems" in auto)
qed

text \<open>Registering and unregistering change the registry and the cache of unowned instances only.\<close>

definition registryOnly :: "'e world \<Rightarrow> 'e world \<Rightarrow> bool" where
  "registryOnly w w' \<longleftrightarrow>
     (\<exists>gs u. w' = updCache (\<lambda>c. c\<lparr>registeredNodeGroups := gs, unownedInstances := u\<rparr>) w)"

lemma registryOnly_refl [simp]: "registryOnly w w"
  unfolding registryOnly_def
  by (intro exI [of _ "registeredNodeGroups (azCache w)"] exI [of _ "unownedInstances (azCache w)"])
    (simp add: updCache_def)

lemma registryOnly_trans: "registryOnly w w1 \<Longrightarrow> registryOnly w1 w2 \<Longrightarrow> registryOnly w w2"
  by (clarsimp simp: registryOnly_def updCache_def) blast

lemma registryOnly_Register: "registryOnly w (snd (RegisterNodeGroup ng w))"
proof (cases "registerLoop w ng (registeredNodeGroups (azCache w))")
  case (Pair c gs)
  show ?thesis
  proof (cases c)
    case True
    have "snd (Register ng w) = updCache (\<lambda>c. c\<lparr>registeredNodeGroups := gs, unownedInstances := []\<rparr>) w"
      using Pair True by (simp add: Register_def invalidateUnownedInstanceCache_def updCache_def)
    then show ?thesis unfolding RegisterNodeGroup_def registryOnly_def by blast
  next
    case False
    then show ?thesis using Pair by (simp add: RegisterNodeGroup_def Register_def)
  qed
qed

lemma registryOnly_Unregister: "registryOnly w (snd (UnregisterNodeGroup ng w))"
  unfolding UnregisterNodeGroup_def Unregister_def registryOnly_def Let_def snd_conv
  by (intro exI [of _ "filter (\<lambda>existing. \<not> sameId w existing ng) (registeredNodeGroups (azCache w))"]
      exI [of _ "unownedInstances (azCache w)"]) (simp add: updCache_def)

lemma registryOnly_fields:
  assumes "registryOnly w w'"
  shows "ngId w' = ngId w" "ngMinSize w' = ngMinSize w" "ngMaxSize w' = ngMaxSize w"
    "sameId w' = sameId w" "isExplicit w' = isExplicit w"
    "explicitlyConfigured w' = explicitlyConfigured w" "lastRefresh w' = lastRefresh w" "env w' = env w"
    "refreshInterval (azCache w') = refreshInterval (azCache w)"
    "instanceToNodeGroup (azCache w') = instanceToNodeGroup (azCache w)"
    "instanceStates (azCache w') = instanceStates (azCache w)"
    "autoscalingOptions (azCache w') = autoscalingOptions (azCache w)"
    "scaleSets (azCache w') = scaleSets (azCache w)" "requests w' = requests w"
  using assms by (auto simp: registryOnly_def isExplicit_def fun_eq_iff)

lemma registerDiscovered_only: "registerDiscovered ngs changed w = (c, w') \<Longrightarrow> registryOnly w w'"
proof (induction ngs changed w arbitrary: c w' rule: registerDiscovered.induct)
  case (2 ng ngs changed w)
  show ?case
  proof (cases "isExplicit w ng")
    case True
    from "2.IH"(1) [OF True] "2.prems" True show ?thesis by simp
  next
    case False
    obtain c1 w1 where r: "RegisterNodeGroup ng w = (c1, w1)" by fastforce
    have "registerDiscovered ngs (changed \<or> c1) w1 = (c, w')" using "2.prems" r False by simp
    from "2.IH"(2) [OF False r [symmetric] this] registryOnly_Register [of w ng] r
    show ?thesis using registryOnly_trans by fastforce
  qed
qed simp

lemma unregisterMissing_only: "unregisterMissing present ngs changed w = (c, w') \<Longrightarrow> registryOnly w w'"
proof (induction present ngs changed w arbitrary: c w' rule: unregisterMissing.induct)
  case (2 present ng ngs changed w)
  show ?case
  proof (cases "ngId w ng \<notin> set present \<and> \<not> isExplicit w ng")
    case True
    have "unregisterMissing present ngs True (snd (UnregisterNodeGroup ng w)) = (c, w')" using "2.prems" True by simp
    from "2.IH"(1) [OF True this] show ?thesis using registryOnly_trans [OF registryOnly_Unregister] by blast
  next
    case False
    have "unregisterMissing present ngs changed w = (c, w')" using "2.prems" False by auto
    from "2.IH"(2) [OF False this] show ?thesis .
  qed
qed simp

lemma registerDiscovered_registry:
  "registerDiscovered ngs changed w = (c, w') \<Longrightarrow> distinctGroups w \<Longrightarrow>
     distinctGroups w' \<and>
     set (registeredNodeGroups (azCache w')) \<subseteq> set (registeredNodeGroups (azCache w)) \<union> set ngs \<and>
     (\<forall>x \<in> set (registeredNodeGroups (azCache w)). isExplicit w x \<longrightarrow>
        (\<forall>g \<in> set ngs. sameId w x g \<longrightarrow> isExplicit w g) \<longrightarrow> x \<in> set (registeredNodeGroups (azCache w')))"
proof (induction ngs changed w arbitrary: c w' rule: registerDiscovered.induct)
  case (1 changed w)
  then show ?case by auto
next
  case (2 ng ngs changed w)
  show ?case
  proof (cases "isExplicit w ng")
    case True
    from "2.IH"(1) [OF True] "2.prems" True show ?thesis by fastforce
  next
    case False
    obtain c1 w1 where r: "RegisterNodeGroup ng w = (c1, w1)" by fastforce
    have o: "registryOnly w w1" using registryOnly_Register [of w ng] r by simp
    have g: "registeredNodeGroups (azCache w1) = snd (registerLoop w ng (registeredNodeGroups (azCache w)))"
      using Register_groups [of ng w] r by (simp add: RegisterNodeGroup_def)
    have d: "distinctGroups w1" using "2.prems"(2) registryOnly_fields(4) [OF o]
      by (simp add: distinctGroups_def g reg.insert_distinct)
    have "registerDiscovered ngs (changed \<or> c1) w1 = (c, w')" using "2.prems"(1) r False by simp
    from "2.IH"(2) [OF False r [symmetric] this d]
    have ih: "distinctGroups w'"
      "set (registeredNodeGroups (azCache w')) \<subseteq> set (registeredNodeGroups (azCache w1)) \<union> set ngs"
      "\<And>x. x \<in> set (registeredNodeGroups (azCache w1)) \<Longrightarrow> isExplicit w1 x \<Longrightarrow>
        (\<forall>g \<in> set ngs. sameId w1 x g \<longrightarrow> isExplicit w1 g) \<Longrightarrow> x \<in> set (registeredNodeGroups (azCache w'))"
      by blast+
    have "set (registeredNodeGroups (azCache w1)) \<subseteq> insert ng (set (registeredNodeGroups (azCache w)))"
      unfolding g using registerLoop_set by fastforce
    with ih(2) have sub: "set (registeredNodeGroups (azCache w')) \<subseteq> set (registeredNodeGroups (azCache w)) \<union> set (ng # ngs)"
      by auto
    have kept: "x \<in> set (registeredNodeGroups (azCache w'))"
      if "x \<in> set (registeredNodeGroups (azCache w))" "isExplicit w x"
        "\<forall>g \<in> set (ng # ngs). sameId w x g \<longrightarrow> isExplicit w g" for x
    proof (rule ih(3))
      have "\<not> sameId w x ng" using that(3) False by auto
      then show "x \<in> set (registeredNodeGroups (azCache w1))"
        unfolding g using that(1) by (rule registerLoop_keeps [rotated])
    qed (use that registryOnly_fields [OF o] in auto)
    show ?thesis using ih(1) sub kept by (intro conjI) simp_all
  qed
qed

lemma unregisterMissing_registry:
  "unregisterMissing present ngs changed w = (c, w') \<Longrightarrow> distinctGroups w \<Longrightarrow>
     distinctGroups w' \<and>
     set (registeredNodeGroups (azCache w')) =
       {x \<in> set (registeredNodeGroups (azCache w)).
          \<not> (\<exists>g \<in> set ngs. sameId w x g \<and> ngId w g \<notin> set present \<and> \<not> isExplicit w g)}"
proof (induction present ngs changed w arbitrary: c w' rule: unregisterMissing.induct)
  case (1 present changed w)
  then show ?case by auto
next
  case (2 present ng ngs changed w)
  show ?case
  proof (cases "ngId w ng \<notin> set present \<and> \<not> isExplicit w ng")
    case True
    let ?w1 = "snd (UnregisterNodeGroup ng w)"
    have o: "registryOnly w ?w1" by (rule registryOnly_Unregister)
    have g: "set (registeredNodeGroups (azCache ?w1)) = {x \<in> set (registeredNodeGroups (azCache w)). \<not> sameId w x ng}"
      by (simp add: UnregisterNodeGroup_def Unregister_groups)
    have d: "distinctGroups ?w1"
      using "2.prems"(2) reg.remove_distinct [of w]
      by (simp add: distinctGroups_def UnregisterNodeGroup_def Unregister_groups)
    have "unregisterMissing present ngs True ?w1 = (c, w')" using "2.prems"(1) True by simp
    from "2.IH"(1) [OF True this d] show ?thesis
      using True g registryOnly_fields [OF o] by auto
  next
    case False
    from "2.IH"(2) [OF False] "2.prems" False show ?thesis by auto
  qed
qed

text \<open>The whole discovery: what is registered afterwards.\<close>

lemma fetchAuto_unfold:
  assumes "fetchAutoNodeGroups az w = (Ok (), w')"
  obtains gs w1 c1 w2 c2 w3 where "getFilteredNodeGroups (autoDiscoverySpecs w) w = (Ok gs, w1)"
    "registerDiscovered gs False w1 = (c1, w2)"
    "unregisterMissing (map (ngId w2) gs) (getNodeGroups w2) c1 w2 = (c2, w3)"
    "w' = (if c2 then invalidateCache az w3 else w3)"
  using assms by (auto simp: fetchAutoNodeGroups_def split: prod.splits go.splits)

lemma discover_frame:
  assumes "getFilteredNodeGroups flt w = (r, w')"
  shows "ssNext w \<le> ssNext w' \<and> (\<forall>q < ssNext w. ssAt w' q = ssAt w q) \<and>
     w' = w\<lparr>ssAt := ssAt w', ssNext := ssNext w'\<rparr> \<and>
     (\<forall>gs. r = Ok gs \<longrightarrow> (\<forall>g \<in> set gs. (\<exists>p. g = ScaleSetRef p \<and> ssNext w \<le> p \<and> p < ssNext w') \<and>
        validGroup w' g \<and> ngId w' g \<in> cachedNames w))"
  using assms discoverLoop_groups [of flt "getScaleSets w" w r w']
  by (auto simp: getFilteredNodeGroups_def getFilteredScaleSets_def cachedNames_def split: if_splits)

text \<open>Registered groups are allocated, so that new groups do not overwrite them.\<close>

definition groupAllocated :: "'e world \<Rightarrow> nodeGroup \<Rightarrow> bool" where
  "groupAllocated w g = (case g of
     ScaleSetRef p \<Rightarrow> p < ssNext w | AgentPoolRef p \<Rightarrow> p < apNext w | VMPoolRef p \<Rightarrow> p < vpNext w)"

definition registryAllocated :: "'e world \<Rightarrow> bool" where
  "registryAllocated w \<longleftrightarrow> list_all (groupAllocated w) (registeredNodeGroups (azCache w))"

lemma discover_keeps:
  assumes "getFilteredNodeGroups flt w = (r, w')" "groupAllocated w g"
  shows "ngId w' g = ngId w g" "ngMinSize w' g = ngMinSize w g" "ngMaxSize w' g = ngMaxSize w g" "groupAllocated w' g"
proof -
  have f: "ssNext w \<le> ssNext w'" "\<forall>q < ssNext w. ssAt w' q = ssAt w q" "w' = w\<lparr>ssAt := ssAt w', ssNext := ssNext w'\<rparr>"
    using discover_frame [OF assms(1)] by auto
  note e = arg_cong [OF f(3), of apAt, simplified] arg_cong [OF f(3), of vpAt, simplified]
    arg_cong [OF f(3), of apNext, simplified] arg_cong [OF f(3), of vpNext, simplified]
  show "ngId w' g = ngId w g" "ngMinSize w' g = ngMinSize w g" "ngMaxSize w' g = ngMaxSize w g" "groupAllocated w' g"
    using assms(2) f(1,2) e by (auto simp: ngId_def ngMinSize_def ngMaxSize_def groupAllocated_def split: nodeGroup.splits)
qed

lemma discover_distinct:
  assumes "getFilteredNodeGroups flt w = (r, w')" "distinctGroups w" "registryAllocated w"
  shows "distinctGroups w'" "registeredNodeGroups (azCache w') = registeredNodeGroups (azCache w)"
proof -
  have f: "w' = w\<lparr>ssAt := ssAt w', ssNext := ssNext w'\<rparr>" using discover_frame [OF assms(1)] by blast
  show regs: "registeredNodeGroups (azCache w') = registeredNodeGroups (azCache w)"
    using arg_cong [OF f, of azCache] by simp
  have "sameId w' x y \<longleftrightarrow> sameId w x y" if "x \<in> set (registeredNodeGroups (azCache w))" "y \<in> set (registeredNodeGroups (azCache w))" for x y
    using that assms(3) discover_keeps(1) [OF assms(1)] by (simp add: sameId_def registryAllocated_def list_all_iff)
  then show "distinctGroups w'"
    using assms(2) regs unfolding distinctGroups_def oneEach_def
    by (metis (mono_tags, lifting) sorted_wrt_mono_rel)
qed

section \<open>Facts on the refresh\<close>

lemma fetchAuto_world:
  assumes "fetchAutoNodeGroups az w = (r, w')"
  shows "lastRefresh w' = lastRefresh w \<or> lastRefresh w' = now az w - refreshInterval (azCache w)"
    and "env w' = env w" "refreshInterval (azCache w') = refreshInterval (azCache w)"
    "instanceToNodeGroup (azCache w') = instanceToNodeGroup (azCache w)"
    "instanceStates (azCache w') = instanceStates (azCache w)"
    "autoscalingOptions (azCache w') = autoscalingOptions (azCache w)" "requests w' = requests w"
proof -
  obtain rg w1 where g: "getFilteredNodeGroups (autoDiscoverySpecs w) w = (rg, w1)" by fastforce
  have f: "w1 = w\<lparr>ssAt := ssAt w1, ssNext := ssNext w1\<rparr>" using discover_frame [OF g] by blast
  have e: "lastRefresh w1 = lastRefresh w" "env w1 = env w" "azCache w1 = azCache w" "requests w1 = requests w"
    using arg_cong [OF f, of lastRefresh] arg_cong [OF f, of env] arg_cong [OF f, of azCache] arg_cong [OF f, of requests]
    by simp_all
  have "(lastRefresh w' = lastRefresh w \<or> lastRefresh w' = now az w - refreshInterval (azCache w)) \<and> env w' = env w \<and>
    refreshInterval (azCache w') = refreshInterval (azCache w) \<and>
    instanceToNodeGroup (azCache w') = instanceToNodeGroup (azCache w) \<and>
    instanceStates (azCache w') = instanceStates (azCache w) \<and>
    autoscalingOptions (azCache w') = autoscalingOptions (azCache w) \<and> requests w' = requests w"
  proof (cases rg)
    case (Ok gs)
    obtain c1 w2 where r: "registerDiscovered gs False w1 = (c1, w2)" by fastforce
    obtain c2 w3 where u: "unregisterMissing (map (ngId w2) gs) (getNodeGroups w2) c1 w2 = (c2, w3)" by fastforce
    have o: "registryOnly w1 w3"
      using registerDiscovered_only [OF r] unregisterMissing_only [OF u] registryOnly_trans by blast
    show ?thesis
      using assms g Ok r u registryOnly_fields [OF o] e
      by (auto simp: fetchAutoNodeGroups_def invalidateCache_def now_def)
  qed (use assms g e in \<open>auto simp: fetchAutoNodeGroups_def\<close>)
  then show "lastRefresh w' = lastRefresh w \<or> lastRefresh w' = now az w - refreshInterval (azCache w)"
    "env w' = env w" "refreshInterval (azCache w') = refreshInterval (azCache w)"
    "instanceToNodeGroup (azCache w') = instanceToNodeGroup (azCache w)"
    "instanceStates (azCache w') = instanceStates (azCache w)"
    "autoscalingOptions (azCache w') = autoscalingOptions (azCache w)" "requests w' = requests w"
    by blast+
qed

lemma invalidateCache_names [simp]:
  "ngId (invalidateCache az w) = ngId w" "ngMinSize (invalidateCache az w) = ngMinSize w"
  "ngMaxSize (invalidateCache az w) = ngMaxSize w" "isExplicit (invalidateCache az w) = isExplicit w"
  "sameId (invalidateCache az w) = sameId w" "azCache (invalidateCache az w) = azCache w"
  by (auto simp: fun_eq_iff ngId_def ngMinSize_def ngMaxSize_def isExplicit_def sameId_def invalidateCache_def
      split: nodeGroup.splits)

lemma fetchAuto_registry:
  assumes "fetchAutoNodeGroups az w = (Ok (), w')" "distinctGroups w" "registryAllocated w"
  shows "distinctGroups w'"
    and "x \<in> set (registeredNodeGroups (azCache w')) \<Longrightarrow>
      isExplicit w' x \<or> ngId w' x \<in> cachedNames w"
    and "x \<in> set (registeredNodeGroups (azCache w)) \<Longrightarrow> isExplicit w x \<Longrightarrow>
      \<forall>n \<in> cachedNames w. strings_EqualFold n (ngId w x) \<longrightarrow> n = ngId w x \<Longrightarrow>
      x \<in> set (registeredNodeGroups (azCache w'))"
    and "x \<in> set (registeredNodeGroups (azCache w')) \<Longrightarrow> x \<in> set (registeredNodeGroups (azCache w)) \<or> validGroup w' x"
    and "registryAllocated w'"
proof -
  obtain gs w1 c1 w2 c2 w3 where g: "getFilteredNodeGroups (autoDiscoverySpecs w) w = (Ok gs, w1)"
    and r: "registerDiscovered gs False w1 = (c1, w2)"
    and u: "unregisterMissing (map (ngId w2) gs) (getNodeGroups w2) c1 w2 = (c2, w3)"
    and w': "w' = (if c2 then invalidateCache az w3 else w3)"
    using fetchAuto_unfold [OF assms(1)] .
  have "w1 = w\<lparr>ssAt := ssAt w1, ssNext := ssNext w1\<rparr>" using discover_frame [OF g] by blast
  note w1 = arg_cong [OF this, of explicitlyConfigured, simplified] arg_cong [OF this, of apNext, simplified]
    arg_cong [OF this, of vpNext, simplified]
  have gs: "h \<in> set gs \<Longrightarrow> (\<exists>p. h = ScaleSetRef p \<and> p < ssNext w1) \<and> validGroup w1 h \<and> ngId w1 h \<in> cachedNames w" for h
    using discover_frame [OF g] by blast
  note d = discover_distinct [OF g assms(2,3)]
  note rr = registerDiscovered_registry [OF r d(1)]
  then have d2: "distinctGroups w2" by blast
  note uu = unregisterMissing_registry [OF u d2]
  note o = registerDiscovered_only [OF r] unregisterMissing_only [OF u]
  have o3: "registryOnly w1 w3" using registryOnly_trans [OF o] .
  have same: "ngId w' = ngId w1" "ngMinSize w' = ngMinSize w1" "ngMaxSize w' = ngMaxSize w1" "isExplicit w' = isExplicit w1"
    "registeredNodeGroups (azCache w') = registeredNodeGroups (azCache w3)" "sameId w' = sameId w1"
    using registryOnly_fields [OF o3] unfolding w' by auto
  have alloc: "groupAllocated w' = groupAllocated w1"
    using o3 unfolding w' by (auto simp: fun_eq_iff groupAllocated_def registryOnly_def invalidateCache_def split: nodeGroup.splits)
  show "distinctGroups w'"
    using uu same registryOnly_fields(4) [OF o3] by (simp add: distinctGroups_def)
  have sub: "set (registeredNodeGroups (azCache w')) \<subseteq> set (registeredNodeGroups (azCache w)) \<union> set gs"
    using rr uu same(5) d(2) by auto
  then show "x \<in> set (registeredNodeGroups (azCache w')) \<Longrightarrow> x \<in> set (registeredNodeGroups (azCache w)) \<or> validGroup w' x"
    using gs same by (auto simp: validGroup_def)
  have "groupAllocated w1 x" if "x \<in> set (registeredNodeGroups (azCache w)) \<union> set gs" for x
    using that
  proof
    assume "x \<in> set (registeredNodeGroups (azCache w))"
    then show ?thesis using assms(3) discover_keeps(4) [OF g] by (simp add: registryAllocated_def list_all_iff)
  next
    assume "x \<in> set gs"
    then show ?thesis using gs by (force simp: groupAllocated_def)
  qed
  then show "registryAllocated w'" using sub by (auto simp: registryAllocated_def list_all_iff alloc)
  show "isExplicit w' x \<or> ngId w' x \<in> cachedNames w" if x: "x \<in> set (registeredNodeGroups (azCache w'))"
  proof (rule ccontr)
    assume "\<not> (isExplicit w' x \<or> ngId w' x \<in> cachedNames w)"
    then have "ngId w1 x \<notin> set (map (ngId w2) gs)" "\<not> isExplicit w1 x"
      using gs same registryOnly_fields(1) [OF o(1)] by auto
    moreover have "x \<in> set (registeredNodeGroups (azCache w2))" "sameId w2 x x"
      using x uu same(5) by (auto simp: sameId_def)
    ultimately show False
      using x uu same(5) registryOnly_fields [OF o(1)] by (auto simp: getNodeGroups_def getRegisteredNodeGroups_def)
  qed
  show "x \<in> set (registeredNodeGroups (azCache w'))"
    if x: "x \<in> set (registeredNodeGroups (azCache w))" "isExplicit w x"
      "\<forall>n \<in> cachedNames w. strings_EqualFold n (ngId w x) \<longrightarrow> n = ngId w x"
  proof -
    have id: "ngId w1 x = ngId w x"
      using x(1) assms(3) discover_keeps(1) [OF g] by (simp add: registryAllocated_def list_all_iff)
    have e: "isExplicit w1 x" using x(2) id w1 by (simp add: isExplicit_def)
    have "isExplicit w1 h" if "h \<in> set gs" "sameId w1 x h" for h
    proof -
      have "ngId w1 h \<in> cachedNames w" "strings_EqualFold (ngId w1 h) (ngId w x)"
        using gs [OF that(1)] that(2) id by (auto simp: sameId_def strings_EqualFold_sym)
      then have "ngId w1 h = ngId w1 x" using x(3) id by simp
      then show ?thesis using e by (simp add: isExplicit_def)
    qed
    then have x2: "x \<in> set (registeredNodeGroups (azCache w2))" using rr x(1) e unfolding d(2) by blast
    moreover have "\<not> (\<exists>h \<in> set (getNodeGroups w2). sameId w2 x h \<and> ngId w2 h \<notin> set (map (ngId w2) gs) \<and> \<not> isExplicit w2 h)"
    proof
      assume "\<exists>h \<in> set (getNodeGroups w2). sameId w2 x h \<and> ngId w2 h \<notin> set (map (ngId w2) gs) \<and> \<not> isExplicit w2 h"
      then obtain h where h: "h \<in> set (registeredNodeGroups (azCache w2))" "sameId w2 x h" "\<not> isExplicit w2 h"
        by (auto simp: getNodeGroups_def getRegisteredNodeGroups_def)
      have "x = h" using reg.oneEach_unique [of w2, OF _ x2 h(1,2)] d2 by (simp add: distinctGroups_def)
      with h(3) e registryOnly_fields(5) [OF o(1)] show False by simp
    qed
    ultimately show ?thesis using uu unfolding same(5) by blast
  qed
qed

section \<open>Sample worlds\<close>

definition brokenClient :: "int azClient" where
  "brokenClient = sampleClient\<lparr>vmssList := (\<lambda>_ e. (Inl (httpError 500 ''Internal'' None), e + 1))\<rparr>"

lemma sample_allocated: "registryAllocated sampleWorld"
  by (simp add: registryAllocated_def groupAllocated_def sampleWorld_def sampleCache_def)

lemma sample_distinct: "distinctGroups sampleWorld"
  by (simp add: distinctGroups_def oneEach_def)

section \<open>Properties\<close>

text \<open>
  C9. Regenerating the cache implements its specification: with the instances that \<open>Nodes\<close> of
  every registered group lists, in the order of the registry, an instance belongs to the last
  group that lists it and has the last listed state; the cache of unowned instances is emptied.
\<close>

theorem regenerate_refines:
  assumes "regenerate az w = (Ok (), w')"
  shows "\<exists>w1 ls w2. fetchAzureResources az w = (Ok (), w1) \<and>
    listAll az (registeredNodeGroups (azCache w)) w1 = (Ok ls, w2) \<and>
    map_of (instanceToNodeGroup (azCache w')) = ownerIn ls \<and>
    map_of (instanceStates (azCache w')) = stateIn ls \<and> unownedInstances (azCache w') = []"
  using assms by (rule regenerate_cases) (use collected_lookup in force)+

theorem regenerate_refines_witness:
  "\<exists>w1 ls w2. fetchAzureResources sampleClient sampleWorld = (Ok (), w1) \<and>
    listAll sampleClient [ScaleSetRef 0] w1 = (Ok ls, w2) \<and>
    map_of (instanceToNodeGroup (azCache (snd (regenerate sampleClient sampleWorld)))) = ownerIn ls"
proof -
  have "fst (regenerate sampleClient sampleWorld) = Ok ()" by code_simp
  from regenerate_refines [OF prod_eq [OF this]] show ?thesis by auto
qed

text \<open>
  C14. A refresh that fails is tried again: the maps from instances to node groups and states stay
  as they were, and the next call of \<open>Refresh\<close>, at any later time, refreshes again.
\<close>

theorem failed_refresh_retried:
  assumes "Refresh az w = (Err e, w')" and "now az w \<le> timeNow az e2"
  shows "instanceToNodeGroup (azCache w') = instanceToNodeGroup (azCache w) \<and>
    instanceStates (azCache w') = instanceStates (azCache w) \<and>
    Refresh az (w'\<lparr>env := e2\<rparr>) = forceRefresh az (w'\<lparr>env := e2\<rparr>)"
proof -
  have due: "\<not> stillFresh (lastRefresh w) (refreshInterval (azCache w)) (now az w)"
    and f: "forceRefresh az w = (Err e, w')" using assms(1) by (auto simp: Refresh_def split: if_splits)
  obtain r1 w1 where a: "fetchAutoNodeGroups az w = (r1, w1)" by fastforce
  have reg: "regenerate az w1 = (Err e, w')"
    using f a by (auto simp: forceRefresh_def andThen_def split: go.splits prod.splits)
  have rf: "refreshFrame w1 w'" using reg by (rule regenerate_cases) auto
  note fa = fetchAuto_world [OF a] and ff = refreshFrame_fields [OF rf]
  have "lastRefresh w' + refreshInterval (azCache w') \<le> timeNow az e2"
    using fa(1,3) ff(9,10) due assms(2) by (auto simp: stillFresh_def)
  then show ?thesis
    using fa ff by (simp add: Refresh_def stillFresh_def now_def)
qed

theorem failed_refresh_retried_witness:
  "Refresh brokenClient ((snd (Refresh brokenClient (sampleWorld\<lparr>env := 60000000000\<rparr>)))\<lparr>env := 60000000001\<rparr>) =
   forceRefresh brokenClient ((snd (Refresh brokenClient (sampleWorld\<lparr>env := 60000000000\<rparr>)))\<lparr>env := 60000000001\<rparr>)"
proof -
  have a: "fst (Refresh brokenClient (sampleWorld\<lparr>env := 60000000000\<rparr>)) = Err (httpError 500 ''Internal'' None)"
    by code_simp
  have b: "now brokenClient (sampleWorld\<lparr>env := 60000000000\<rparr>) \<le> timeNow brokenClient 60000000001"
    by code_simp
  from failed_refresh_retried [OF prod_eq [OF a] b] show ?thesis by (elim conjE)
qed

end
