(* ===== verification/Scale_Set_Delete.thy ===== *)
theory Scale_Set_Delete
  imports Azure_Refresh
begin

text \<open>
  The deletion of instances of a scale set: \<open>azure_force_delete_scale_set.go\<close> and the methods
  \<open>DeleteInstances\<close>, \<open>waitForDeleteInstances\<close>, \<open>DeleteNodes\<close> and \<open>ForceDeleteNodes\<close> of
  \<open>azure_scale_set.go\<close>. An instance is given by its provider ID.
\<close>

section \<open>Forced deletion\<close>

definition isolatedVMSizes :: "string list" where
  "isolatedVMSizes = map strings_ToLower
     [''Standard_E80ids_v4'', ''Standard_E80is_v4'', ''Standard_E104i_v5'', ''Standard_E104is_v5'',
      ''Standard_E104id_v5'', ''Standard_E104ids_v5'', ''Standard_M192is_v2'', ''Standard_M192ims_v2'',
      ''Standard_M192ids_v2'', ''Standard_M192idms_v2'', ''Standard_F72s_v2'', ''Standard_M128ms'']"

definition shouldForceDelete :: "string \<Rightarrow> scaleSet \<Rightarrow> bool" where
  "shouldForceDelete skuName ss \<longleftrightarrow>
     enableForceDelete ss \<and> strings_ToLower skuName \<notin> set isolatedVMSizes \<and> \<not> dedicatedHost ss"

text \<open>Whether an error of the client has a given code, or, without a code, mentions it.\<close>

definition hasErrorCode :: "'e azClient \<Rightarrow> string \<Rightarrow> goerror \<Rightarrow> bool" where
  "hasErrorCode az code err =
     (case isResponseError az err of
        Some r \<Rightarrow> ErrorCode r = code
      | None \<Rightarrow> strings_Contains (errorText az err) code)"

definition isOperationNotAllowed :: "'e azClient \<Rightarrow> goerror \<Rightarrow> bool" where
  "isOperationNotAllowed az err = hasErrorCode az ''OperationNotAllowed'' err"

definition operationPreemptedErrorCode :: string where
  "operationPreemptedErrorCode = ''OperationPreempted''"

definition isOperationPreempted :: "'e azClient \<Rightarrow> goerror \<Rightarrow> bool" where
  "isOperationPreempted az err = hasErrorCode az operationPreemptedErrorCode err"

definition getSKU :: "addr \<Rightarrow> 'e world \<Rightarrow> string go" where
  "getSKU p w =
     (case getVMSSFromCache p w of
        Panic \<Rightarrow> Panic
      | Err e \<Rightarrow> Ok ''''
      | Ok v \<Rightarrow> (case vmss_SKU (vmssAt w v) of
                   None \<Rightarrow> Panic
                 | Some k \<Rightarrow> Ok (derefStr (sku_Name k))))"

text \<open>One request to delete the instances.\<close>

definition sendDelete ::
  "'e azClient \<Rightarrow> string \<Rightarrow> string list \<Rightarrow> bool \<Rightarrow> 'e world \<Rightarrow> poller option go \<times> 'e world" where
  "sendDelete az name ids force w =
     callGo (beginDeleteInstances az (ResourceGroup (provider (config w))) name ids force)
       (sendReq (DeleteVMSSInstances name ids force) w)"

definition deleteInstances ::
  "'e azClient \<Rightarrow> addr \<Rightarrow> string list \<Rightarrow> string \<Rightarrow> 'e world \<Rightarrow> poller option go \<times> 'e world" where
  "deleteInstances az p ids commonAsgId w =
     (case getSKU p w of
        Panic \<Rightarrow> (Panic, w)
      | Err e \<Rightarrow> (Err e, w)
      | Ok skuName \<Rightarrow>
          let force = shouldForceDelete skuName (ssAt w p)
          in case sendDelete az commonAsgId ids force w of
               (Err e, w1) \<Rightarrow>
                 if force \<and> isOperationNotAllowed az e then sendDelete az commonAsgId ids False w1
                 else (Err e, w1)
             | r \<Rightarrow> r)"

section \<open>Deleting instances\<close>

definition Belongs :: "addr \<Rightarrow> k8sNode \<Rightarrow> 'e world \<Rightarrow> bool go \<times> 'e world" where
  "Belongs p node w = belongsTo ''%s doesn't belong to a known scale set'' (ss_Name (ssAt w p)) node w"

text \<open>\<open>ng.Id()\<close> panics when the instance belongs to no group.\<close>

definition verifyNodeGroup :: "string \<Rightarrow> string \<Rightarrow> 'e world \<Rightarrow> unit go \<times> 'e world" where
  "verifyNodeGroup i commonNgID w =
     andThen (GetNodeGroupForInstance i w) (\<lambda>ng w1.
       case ng of
         None \<Rightarrow> (Panic, w1)
       | Some g \<Rightarrow>
           if strings_EqualFold (ngId w1 g) commonNgID then (Ok (), w1)
           else (Err (Errorf ''cannot delete instance (%s) which don't belong to the same Scale Set (%q)''
                        [AStr i, AStr commonNgID]), w1))"

definition alreadyDeleting :: "inst option go \<Rightarrow> bool" where
  "alreadyDeleting r =
     (case r of
        Ok (Some cpi) \<Rightarrow> map_option State (Status cpi) = Some InstanceDeleting
      | _ \<Rightarrow> False)"

fun eligibleInstances ::
  "'e azClient \<Rightarrow> addr \<Rightarrow> nodeGroup option \<Rightarrow> string list \<Rightarrow> 'e world \<Rightarrow> string list go \<times> 'e world" where
  "eligibleInstances az p commonAsg [] w = (Ok [], w)"
| "eligibleInstances az p commonAsg (i # is) w =
     (case commonAsg of
        None \<Rightarrow> (Panic, w)
      | Some g \<Rightarrow>
          andThen (verifyNodeGroup i (ngId w g) w) (\<lambda>_ w1.
            case getInstanceByProviderID az p i w1 of
              (Panic, w2) \<Rightarrow> (Panic, w2)
            | (r, w2) \<Rightarrow>
                andThen (eligibleInstances az p commonAsg is w2) (\<lambda>rest w3.
                  (Ok (if alreadyDeleting r then rest else i # rest), w3))))"

fun lastSegments :: "string list \<Rightarrow> string list go" where
  "lastSegments [] = Ok []"
| "lastSegments (i # is) =
     (case getLastSegment i of
        Ok s \<Rightarrow> (case lastSegments is of Ok ss \<Rightarrow> Ok (s # ss) | Err e \<Rightarrow> Err e | Panic \<Rightarrow> Panic)
      | Err e \<Rightarrow> Err e
      | Panic \<Rightarrow> Panic)"

text \<open>The cached size after a deletion of \<open>n\<close> instances.\<close>

definition decrementSize :: "'e azClient \<Rightarrow> addr \<Rightarrow> int \<Rightarrow> 'e world \<Rightarrow> 'e world" where
  "decrementSize az p n w =
     (if curSize (ssAt w p) < n then updSS p (\<lambda>s. s\<lparr>lastSizeRefresh := zeroTime\<rparr>) w
      else updSS p (\<lambda>s. s\<lparr>curSize := curSize s - n, lastSizeRefresh := now az w\<rparr>) w)"

definition deletingStatus :: instanceStatus where
  "deletingStatus = \<lparr>State = InstanceDeleting, ErrorInfo = None\<rparr>"

fun markLoop :: "'e azClient \<Rightarrow> addr \<Rightarrow> string list \<Rightarrow> 'e world \<Rightarrow> unit go \<times> 'e world" where
  "markLoop az p [] w = (Ok (), w)"
| "markLoop az p (i # is) w =
     andThen (setInstanceStatusByProviderID az p i deletingStatus w) (\<lambda>_ w1.
       markLoop az p is (setInstanceStateByProviderID i InstanceDeleting w1))"

text \<open>What follows an accepted request: the caches and the goroutine.\<close>

definition afterDelete ::
  "'e azClient \<Rightarrow> addr \<Rightarrow> string list \<Rightarrow> string list \<Rightarrow> bool \<Rightarrow> poller option \<Rightarrow> 'e world \<Rightarrow> unit go \<times> 'e world" where
  "afterDelete az p instances ids hasUnregisteredNodes poller w =
     andThen
       (if StrictCacheUpdates (config w) then (Ok (), w)
        else markLoop az p instances
               (if hasUnregisteredNodes then w else decrementSize az p (int (length ids)) w))
       (\<lambda>_ w1. (Ok (), case poller of None \<Rightarrow> w1 | Some q \<Rightarrow> spawn (WaitForDelete p q ids) w1))"

definition DeleteInstances ::
  "'e azClient \<Rightarrow> addr \<Rightarrow> string list \<Rightarrow> bool \<Rightarrow> 'e world \<Rightarrow> unit go \<times> 'e world" where
  "DeleteInstances az p instances hasUnregisteredNodes w =
     (if instances = [] then (Ok (), w)
      else andThen (GetNodeGroupForInstance (hd instances) w) (\<lambda>commonAsg w1.
        andThen (eligibleInstances az p commonAsg instances w1) (\<lambda>instancesToDelete w2.
          if instancesToDelete = [] then (Ok (), w2)
          else case (lastSegments instancesToDelete, commonAsg) of
                 (Ok ids, Some g) \<Rightarrow>
                   andThen (deleteInstances az p ids (ngId w2 g) w2)
                     (afterDelete az p instancesToDelete ids hasUnregisteredNodes)
               | (Err e, _) \<Rightarrow> (Err e, w2)
               | _ \<Rightarrow> (Panic, w2))))"

text \<open>The loop of \<open>ForceDeleteNodes\<close>: the provider IDs, and whether a node is not registered.\<close>

fun belongLoop :: "addr \<Rightarrow> k8sNode list \<Rightarrow> 'e world \<Rightarrow> (string list \<times> bool) go \<times> 'e world" where
  "belongLoop p [] w = (Ok ([], False), w)"
| "belongLoop p (n # ns) w =
     andThen (Belongs p n w) (\<lambda>b w1.
       if \<not> b
       then (Err (Errorf ''%s belongs to a different asg than %s''
                    [AStr (node_Name n), AStr (ss_Name (ssAt w1 p))]), w1)
       else andThen (belongLoop p ns w1) (\<lambda>(refs, unreg) w2.
              (Ok (node_ProviderID n # refs, node_FakeUnregistered n \<or> unreg), w2)))"

definition ForceDeleteNodes :: "'e azClient \<Rightarrow> addr \<Rightarrow> k8sNode list \<Rightarrow> 'e world \<Rightarrow> unit go \<times> 'e world" where
  "ForceDeleteNodes az p ns w =
     andThen (belongLoop p ns w) (\<lambda>(refs, unreg) w1. DeleteInstances az p refs unreg w1)"

definition DeleteNodes :: "'e azClient \<Rightarrow> addr \<Rightarrow> k8sNode list \<Rightarrow> 'e world \<Rightarrow> unit go \<times> 'e world" where
  "DeleteNodes az p ns w =
     andThen (getScaleSetSize az p w) (\<lambda>sz w1.
       if sz \<le> ss_minSize (ssAt w1 p)
       then (Err (Errorf ''min size reached, nodes will not be deleted'' []), w1)
       else ForceDeleteNodes az p ns w1)"

section \<open>The completion of a deletion\<close>

text \<open>\<open>forceRefresh\<close> with the manager's cache invalidated when it fails.\<close>

definition refreshOrInvalidate :: "'e azClient \<Rightarrow> 'e world \<Rightarrow> unit go \<times> 'e world" where
  "refreshOrInvalidate az w =
     (case forceRefresh az w of
        (Panic, w1) \<Rightarrow> (Panic, w1)
      | (Err _, w1) \<Rightarrow> (Ok (), invalidateCache az w1)
      | (Ok _, w1) \<Rightarrow> (Ok (), w1))"

text \<open>The retry after a preempted operation: whether the second attempt succeeded.\<close>

definition retryDelete ::
  "'e azClient \<Rightarrow> addr \<Rightarrow> string list \<Rightarrow> 'e world \<Rightarrow> bool go \<times> 'e world" where
  "retryDelete az p ids w =
     (case deleteInstances az p ids (ss_Name (ssAt w p)) w of
        (Panic, w1) \<Rightarrow> (Panic, w1)
      | (Err _, w1) \<Rightarrow> (Ok False, w1)
      | (Ok None, w1) \<Rightarrow> (Ok True, w1)
      | (Ok (Some q), w1) \<Rightarrow>
          (case call (pollDeleteInstances az q) w1 of (r, w2) \<Rightarrow> (Ok (\<not> isl r), w2)))"

definition waitForDeleteInstances ::
  "'e azClient \<Rightarrow> addr \<Rightarrow> poller \<Rightarrow> string list \<Rightarrow> 'e world \<Rightarrow> unit go \<times> 'e world" where
  "waitForDeleteInstances az p q ids w =
     (case call (pollDeleteInstances az q) w of
        (Inr _, w1) \<Rightarrow>
          if StrictCacheUpdates (config w1)
          then andThen (refreshOrInvalidate az w1) (\<lambda>_ w2. (Ok (), invalidateInstanceCache az p w2))
          else (Ok (), w1)
      | (Inl err, w1) \<Rightarrow>
          andThen (if isOperationPreempted az err then retryDelete az p ids w1 else (Ok False, w1))
            (\<lambda>retried w2.
               if retried then (Ok (), invalidateInstanceCache az p w2)
               else refreshOrInvalidate az
                      (invalidateLastSizeRefresh az p (invalidateInstanceCache az p w2))))"

end
