(* ===== verification/Scale_Set_Deletion.thy ===== *)
theory Scale_Set_Deletion
  imports Scale_Set_Delete
begin

text \<open>
  Facts and properties of the deletion of instances: what the preparation changes, which requests
  are sent, how the cached size follows them, that the deleted instances are reported as gone, and
  what the goroutine that waits for the deletion may send.
\<close>

section \<open>What preparing and marking change\<close>

text \<open>
  \<open>w'\<close> differs from \<open>w\<close> in the instance cache of \<open>p\<close>, the caches of unowned instances and of
  instance states, and the environment only: in particular no request was sent.
\<close>

definition instOnly :: "addr \<Rightarrow> 'e world \<Rightarrow> 'e world \<Rightarrow> bool" where
  "instOnly p w w' \<longleftrightarrow>
     (\<exists>e c t u st. w' = updCache (\<lambda>a. a\<lparr>unownedInstances := u, instanceStates := st\<rparr>)
        (updSS p (\<lambda>s. s\<lparr>instanceCache := c, lastInstanceRefresh := t\<rparr>) (w\<lparr>env := e\<rparr>)))"

lemma instOnlyI:
  assumes "azCache w' = (azCache w)\<lparr>unownedInstances := u, instanceStates := st\<rparr>"
    and "ssAt w' = (ssAt w)(p := (ssAt w p)\<lparr>instanceCache := c, lastInstanceRefresh := t\<rparr>)"
    and "w' = w\<lparr>env := env w', ssAt := ssAt w', azCache := azCache w'\<rparr>"
  shows "instOnly p w w'"
  unfolding instOnly_def
proof (intro exI)
  show "w' = updCache (\<lambda>a. a\<lparr>unownedInstances := u, instanceStates := st\<rparr>)
      (updSS p (\<lambda>s. s\<lparr>instanceCache := c, lastInstanceRefresh := t\<rparr>) (w\<lparr>env := env w'\<rparr>))"
    using assms(3) unfolding assms(1,2) by (simp add: updCache_def updSS_def)
qed

lemma instOnly_env [simp]: "instOnly p w (w\<lparr>env := e\<rparr>)"
  by (rule instOnlyI [where u = "unownedInstances (azCache w)" and st = "instanceStates (azCache w)"
        and c = "instanceCache (ssAt w p)" and t = "lastInstanceRefresh (ssAt w p)"]) simp_all

lemma instOnly_refl [simp]: "instOnly p w w"
  using instOnly_env [of p w "env w"] by simp

lemma instOnly_trans [trans]: "instOnly p w w1 \<Longrightarrow> instOnly p w1 w2 \<Longrightarrow> instOnly p w w2"
  unfolding instOnly_def by (clarsimp simp: updCache_def updSS_def) blast

lemma instOnly_steps [simp]:
  "instOnly p w (updSS p (\<lambda>s. s\<lparr>instanceCache := f s\<rparr>) w)"
  "instOnly p w (updSS p (\<lambda>s. s\<lparr>lastInstanceRefresh := g s\<rparr>) w)"
  "instOnly p w (updSS p (\<lambda>s. s\<lparr>instanceCache := f s, lastInstanceRefresh := g s\<rparr>) w)"
  "instOnly p w (markUnowned i w)" "instOnly p w (setInstanceStateByProviderID i st w)"
proof -
  note I = instOnlyI [where u = "unownedInstances (azCache w)" and st = "instanceStates (azCache w)"]
  show "instOnly p w (updSS p (\<lambda>s. s\<lparr>instanceCache := f s\<rparr>) w)"
    by (rule I [where c = "f (ssAt w p)" and t = "lastInstanceRefresh (ssAt w p)"]) (simp_all add: updSS_def)
  show "instOnly p w (updSS p (\<lambda>s. s\<lparr>lastInstanceRefresh := g s\<rparr>) w)"
    by (rule I [where c = "instanceCache (ssAt w p)" and t = "g (ssAt w p)"]) (simp_all add: updSS_def)
  show "instOnly p w (updSS p (\<lambda>s. s\<lparr>instanceCache := f s, lastInstanceRefresh := g s\<rparr>) w)"
    by (rule I [where c = "f (ssAt w p)" and t = "g (ssAt w p)"]) (simp_all add: updSS_def)
  note J = instOnlyI [where c = "instanceCache (ssAt w p)" and t = "lastInstanceRefresh (ssAt w p)"]
  show "instOnly p w (markUnowned i w)"
    by (rule J [where u = "mapSet i True (unownedInstances (azCache w))" and st = "instanceStates (azCache w)"])
      (simp_all add: markUnowned_def updCache_def)
  have "instOnly p w (updCache (\<lambda>a. a\<lparr>instanceStates := h a\<rparr>) w)" for h
    by (rule J [where u = "unownedInstances (azCache w)" and st = "h (azCache w)"]) (simp_all add: updCache_def)
  then show "instOnly p w (setInstanceStateByProviderID i st w)"
    by (auto simp: setInstanceStateByProviderID_def split: go.splits option.splits)
qed

lemma instOnly_fields:
  assumes "instOnly p w w'"
  shows "config w' = config w" "requests w' = requests w" "goroutines w' = goroutines w"
    "ngId w' = ngId w" "curSize (ssAt w' q) = curSize (ssAt w q)"
    "lastSizeRefresh (ssAt w' q) = lastSizeRefresh (ssAt w q)"
    "enableForceDelete (ssAt w' q) = enableForceDelete (ssAt w q)"
    "dedicatedHost (ssAt w' q) = dedicatedHost (ssAt w q)" "ss_Name (ssAt w' q) = ss_Name (ssAt w q)"
    "instanceToNodeGroup (azCache w') = instanceToNodeGroup (azCache w)"
    "vmssAt w' = vmssAt w" "getSKU q w' = getSKU q w"
proof -
  obtain e c t u st where w': "w' = updCache (\<lambda>a. a\<lparr>unownedInstances := u, instanceStates := st\<rparr>)
        (updSS p (\<lambda>s. s\<lparr>instanceCache := c, lastInstanceRefresh := t\<rparr>) (w\<lparr>env := e\<rparr>))"
    using assms by (auto simp: instOnly_def)
  show "config w' = config w" "requests w' = requests w" "goroutines w' = goroutines w"
    "curSize (ssAt w' q) = curSize (ssAt w q)" "lastSizeRefresh (ssAt w' q) = lastSizeRefresh (ssAt w q)"
    "enableForceDelete (ssAt w' q) = enableForceDelete (ssAt w q)"
    "dedicatedHost (ssAt w' q) = dedicatedHost (ssAt w q)" and n: "ss_Name (ssAt w' q) = ss_Name (ssAt w q)" and
    "instanceToNodeGroup (azCache w') = instanceToNodeGroup (azCache w)" and v: "vmssAt w' = vmssAt w" for q
    by (simp_all add: w')
  show "ngId w' = ngId w" by (auto simp: fun_eq_iff ngId_def w' split: nodeGroup.splits)
  have "getVMSSFromCache q w' = getVMSSFromCache q w"
    unfolding getVMSSFromCache_def getScaleSets_def n by (simp add: w')
  then show "getSKU q w' = getSKU q w" unfolding getSKU_def v by simp
qed

lemma instOnly_andThen:
  assumes "instOnly p w (snd r)" and "\<And>x w1. r = (Ok x, w1) \<Longrightarrow> instOnly p w1 (snd (k x w1))"
  shows "instOnly p w (snd (andThen r k))"
proof -
  obtain a w1 where r: "r = (a, w1)" by (cases r)
  show ?thesis
  proof (cases a)
    case (Ok x)
    with assms r have "instOnly p w w1" "instOnly p w1 (snd (k x w1))" by auto
    with r Ok show ?thesis using instOnly_trans by auto
  qed (use assms r in auto)
qed

lemma splayed_instOnly: "instOnly p w (snd (splayedRefresh az p w))"
  by (auto simp: splayedRefresh_def call_env Let_def)

lemma listVms_instOnly:
  "instOnly p w (snd (GetScaleSetVms az p w))" "instOnly p w (snd (GetFlexibleScaleSetVms az p w))"
  by (auto simp: GetScaleSetVms_def GetFlexibleScaleSetVms_def callGo_env split: go.splits option.splits)

lemma rebuildCache_instOnly:
  assumes "\<And>w. instOnly p w (snd (listVms w))"
  shows "instOnly p w (snd (rebuildCache az p listVms build w))"
  unfolding rebuildCache_def
proof (rule instOnly_andThen [OF splayed_instOnly], goal_cases)
  case (1 lastR w1)
  obtain r w2 where l: "listVms w1 = (r, w2)" by (cases "listVms w1")
  have "instOnly p w1 w2" using assms [of w1] l by simp
  then show ?case
    using l by (auto split: go.splits prod.splits intro!: instOnly_trans [OF _ instOnly_steps(2)] instOnly_trans [OF _ instOnly_steps(3)])
qed

lemma validate_instOnly: "instOnly p w (snd (validateInstanceCache az p w))"
  unfolding validateInstanceCache_def updateInstanceCache_def Let_def buildScaleSetCacheForFlex_def
    buildScaleSetCacheForUniform_def
  by (auto split: go.splits intro!: rebuildCache_instOnly listVms_instOnly)

lemma getInstance_instOnly: "instOnly p w (snd (getInstanceByProviderID az p i w))"
  unfolding getInstanceByProviderID_def by (rule instOnly_andThen [OF validate_instOnly]) simp

lemma setStatus_instOnly: "instOnly p w (snd (setInstanceStatusByProviderID az p i st w))"
proof -
  obtain r w1 where v: "validateInstanceCache az p w = (r, w1)" by fastforce
  have "instOnly p w w1" using validate_instOnly [of p w az] v by simp
  then show ?thesis
    using v by (auto simp: setInstanceStatusByProviderID_def split: go.splits intro!: instOnly_trans [OF _ instOnly_steps(1)])
qed

lemma GetNodeGroup_instOnly: "instOnly p w (snd (GetNodeGroupForInstance i w))"
  by (auto simp: GetNodeGroupForInstance_def FindForInstance_def split: go.splits)

lemma verify_instOnly: "instOnly p w (snd (verifyNodeGroup i n w))"
  unfolding verifyNodeGroup_def
  by (rule instOnly_andThen [OF GetNodeGroup_instOnly]) (auto split: option.splits)

lemma eligible_instOnly: "instOnly p w (snd (eligibleInstances az p g is w))"
proof (induction "is" arbitrary: w)
  case (Cons i "is")
  show ?case
  proof (cases g)
    case (Some n)
    have "instOnly p w1 (snd (case getInstanceByProviderID az p i w1 of
              (Panic, w2) \<Rightarrow> (Panic, w2)
            | (r, w2) \<Rightarrow>
                andThen (eligibleInstances az p g is w2) (\<lambda>rest w3.
                  (Ok (if alreadyDeleting r then rest else i # rest), w3))))" for w1
    proof -
      obtain r w2 where gi: "getInstanceByProviderID az p i w1 = (r, w2)" by fastforce
      have w2: "instOnly p w1 w2" using getInstance_instOnly [of p w1 az i] gi by simp
      have "instOnly p w2 (snd (andThen (eligibleInstances az p g is w2) (\<lambda>rest w3.
                  (Ok (if alreadyDeleting r then rest else i # rest), w3))))"
        by (rule instOnly_andThen [OF Cons.IH]) simp
      then show ?thesis using gi w2 instOnly_trans [OF w2] by (cases r) auto
    qed
    then show ?thesis using Some by (auto intro!: instOnly_andThen [OF verify_instOnly])
  qed simp
qed simp

lemma markLoop_instOnly: "instOnly p w (snd (markLoop az p is w))"
proof (induction "is" arbitrary: w)
  case (Cons i "is")
  show ?case unfolding markLoop.simps
    by (rule instOnly_andThen [OF setStatus_instOnly])
      (rule instOnly_trans [OF instOnly_steps(5) Cons.IH])
qed simp

section \<open>The request\<close>

text \<open>The requests of one deletion: one, or a forced one that is not allowed and then a plain one.\<close>

definition deleteRequests :: "string \<Rightarrow> string list \<Rightarrow> bool \<Rightarrow> request list \<Rightarrow> bool" where
  "deleteRequests name ids force rs \<longleftrightarrow>
     rs = [DeleteVMSSInstances name ids force] \<or>
     force \<and> rs = [DeleteVMSSInstances name ids True, DeleteVMSSInstances name ids False]"

lemma sendDelete_env:
  "sendDelete az name ids force w =
     (liftSum (fst (beginDeleteInstances az (ResourceGroup (provider (config w))) name ids force (env w))),
      w\<lparr>requests := requests w @ [DeleteVMSSInstances name ids force],
        env := snd (beginDeleteInstances az (ResourceGroup (provider (config w))) name ids force (env w))\<rparr>)"
  by (simp add: sendDelete_def callGo_env sendReq_def)

lemma liftSum_not_Panic [simp]: "liftSum x \<noteq> Panic" "Panic \<noteq> liftSum x"
  by (auto simp: liftSum_def split: sum.splits)

lemma deleteInstances_effect:
  assumes "deleteInstances az p ids name w = (r, w')" and "getSKU p w = Ok skuName"
  shows "\<exists>e rs. w' = w\<lparr>requests := requests w @ rs, env := e\<rparr> \<and>
    deleteRequests name ids (shouldForceDelete skuName (ssAt w p)) rs" and "r \<noteq> Panic"
proof -
  let ?f = "shouldForceDelete skuName (ssAt w p)"
  obtain r1 w1 where s: "sendDelete az name ids ?f w = (r1, w1)" by fastforce
  obtain r2 w2 where t: "sendDelete az name ids False w1 = (r2, w2)" by fastforce
  have "(\<exists>e rs. w' = w\<lparr>requests := requests w @ rs, env := e\<rparr> \<and> deleteRequests name ids ?f rs) \<and> r \<noteq> Panic"
    using assms s t unfolding deleteInstances_def
    by (auto simp: sendDelete_env deleteRequests_def Let_def split: go.splits if_splits) blast+
  then show "\<exists>e rs. w' = w\<lparr>requests := requests w @ rs, env := e\<rparr> \<and> deleteRequests name ids ?f rs" "r \<noteq> Panic"
    by blast+
qed

lemma eligible_ConsE:
  assumes "eligibleInstances az p g (i # is) w = (Ok out, w')"
  obtains n w1 r w2 rest where "g = Some n" "verifyNodeGroup i (ngId w n) w = (Ok (), w1)"
    "getInstanceByProviderID az p i w1 = (r, w2)" "eligibleInstances az p g is w2 = (Ok rest, w')"
    "out = (if alreadyDeleting r then rest else i # rest)"
proof -
  obtain n where n: "g = Some n" using assms by (auto split: option.splits)
  obtain w1 where v: "verifyNodeGroup i (ngId w n) w = (Ok (), w1)"
    using assms n by (auto simp: andThen_Ok)
  obtain r w2 where gi: "getInstanceByProviderID az p i w1 = (r, w2)" by fastforce
  have "r \<noteq> Panic" using assms n v gi by auto
  then obtain rest where "eligibleInstances az p g is w2 = (Ok rest, w')"
    "out = (if alreadyDeleting r then rest else i # rest)"
    using assms n v gi by (cases r) (auto simp: andThen_Ok)
  then show ?thesis using that n v gi by blast
qed

lemma eligible_length: "eligibleInstances az p g is w = (Ok out, w') \<Longrightarrow> subseq out is"
proof (induction "is" arbitrary: w out)
  case (Cons i "is")
  obtain r w2 rest where "eligibleInstances az p g is w2 = (Ok rest, w')" "out = (if alreadyDeleting r then rest else i # rest)"
    using Cons.prems by (rule eligible_ConsE)
  then show ?case using Cons.IH by auto
qed simp

lemma GetNodeGroup_cache: "GetNodeGroupForInstance i w = (r, w') \<Longrightarrow> w' = w\<lparr>azCache := azCache w'\<rparr>"
  using FindForInstance_quiet(1) unfolding GetNodeGroupForInstance_def .

lemma DeleteInstances_cases:
  assumes "DeleteInstances az p instances unreg w = (r, w')"
  obtains (quiet) "instOnly p w w'"
    | (refused) todel ids name w2 e where "instOnly p w w2" "subseq todel instances" "lastSegments todel = Ok ids"
        "deleteInstances az p ids name w2 = (Err e, w')" "r = Err e" "todel \<noteq> []"
    | (sent) todel ids name w1 w2 poller w3 g where "w1 = w\<lparr>azCache := azCache w1\<rparr>" "instOnly p w w1"
        "eligibleInstances az p (Some g) instances w1 = (Ok todel, w2)" "instOnly p w1 w2"
        "lastSegments todel = Ok ids" "todel \<noteq> []"
        "deleteInstances az p ids name w2 = (Ok poller, w3)" "afterDelete az p todel ids unreg poller w3 = (r, w')"
proof (cases "instances = []")
  case True
  then show ?thesis using assms quiet by (simp add: DeleteInstances_def)
next
  case False
  obtain r1 w1 where g: "GetNodeGroupForInstance (hd instances) w = (r1, w1)" by fastforce
  have o1: "instOnly p w w1" using GetNodeGroup_instOnly [of p w "hd instances"] g by simp
  note d = assms [unfolded DeleteInstances_def, simplified False g if_False]
  show ?thesis
  proof (cases r1)
    case (Ok commonAsg)
    obtain r2 w2 where e: "eligibleInstances az p commonAsg instances w1 = (r2, w2)" by fastforce
    have o2: "instOnly p w1 w2" using eligible_instOnly [of p w1 az commonAsg instances] e by simp
    note o = instOnly_trans [OF o1 o2]
    show ?thesis
    proof (cases "\<exists>todel ids g. r2 = Ok todel \<and> todel \<noteq> [] \<and> lastSegments todel = Ok ids \<and> commonAsg = Some g")
      case True
      then obtain todel ids gr where t: "r2 = Ok todel" "todel \<noteq> []" "lastSegments todel = Ok ids" "commonAsg = Some gr"
        by blast
      obtain r3 w3 where di: "deleteInstances az p ids (ngId w2 gr) w2 = (r3, w3)" by fastforce
      have dd: "andThen (r3, w3) (afterDelete az p todel ids unreg) = (r, w')"
        using d Ok e t di by simp
      show ?thesis
      proof (cases r3)
        case (Ok poller)
        with sent [OF GetNodeGroup_cache [OF g] o1 _ o2 t(3,2) _ _] di dd e t(1,4) show ?thesis by auto
      next
        case (Err err)
        with refused [OF o eligible_length [OF e [unfolded t(1)]] t(3) _ _ t(2)] di dd show ?thesis by auto
      next
        case Panic
        have "w3 = w2" using di Panic by (auto simp: deleteInstances_def Let_def sendDelete_env split: go.splits if_splits)
        then show ?thesis using quiet o dd Panic by simp
      qed
    next
      case False
      then have "w' = w2" using d Ok e
        by (auto split: go.splits if_splits option.splits simp: andThen_def)
      then show ?thesis using quiet o by simp
    qed
  qed (use d o1 quiet in auto)
qed

lemma decrementSize_fields:
  "curSize (ssAt (decrementSize az p n w) p) = (if curSize (ssAt w p) < n then curSize (ssAt w p) else curSize (ssAt w p) - n)"
  "curSize (ssAt w p) < n \<Longrightarrow> lastSizeRefresh (ssAt (decrementSize az p n w) p) = zeroTime"
  "q \<noteq> p \<Longrightarrow> ssAt (decrementSize az p n w) q = ssAt w q"
  "requests (decrementSize az p n w) = requests w" "goroutines (decrementSize az p n w) = goroutines w"
  "azCache (decrementSize az p n w) = azCache w" "config (decrementSize az p n w) = config w"
  by (simp_all add: decrementSize_def)

lemma spawn_option_fields [simp]:
  "requests (case q of None \<Rightarrow> w | Some x \<Rightarrow> spawn (f x) w) = requests w"
  "ssAt (case q of None \<Rightarrow> w | Some x \<Rightarrow> spawn (f x) w) = ssAt w"
  "azCache (case q of None \<Rightarrow> w | Some x \<Rightarrow> spawn (f x) w) = azCache w"
  by (simp_all split: option.splits)

lemma afterDelete_cases:
  assumes "afterDelete az p todel ids unreg poller w = (r, w')"
  shows "requests w' = requests w"
    and "q \<noteq> p \<Longrightarrow> curSize (ssAt w' q) = curSize (ssAt w q)"
    and "curSize (ssAt w' p) =
      (if StrictCacheUpdates (config w) \<or> unreg \<or> curSize (ssAt w p) < int (length ids) then curSize (ssAt w p)
       else curSize (ssAt w p) - int (length ids))"
    and "\<not> StrictCacheUpdates (config w) \<Longrightarrow> \<not> unreg \<Longrightarrow> curSize (ssAt w p) < int (length ids) \<Longrightarrow>
      lastSizeRefresh (ssAt w' p) = zeroTime"
    and "r = Ok () \<Longrightarrow> \<not> StrictCacheUpdates (config w) \<Longrightarrow>
      \<exists>w2 w3. azCache w2 = azCache w \<and> markLoop az p todel w2 = (Ok (), w3) \<and> azCache w' = azCache w3"
proof -
  let ?w = "if unreg then w else decrementSize az p (int (length ids)) w"
  obtain rm wm where m: "markLoop az p todel ?w = (rm, wm)" by fastforce
  have o: "instOnly p ?w wm" using markLoop_instOnly [of p ?w az todel] m by simp
  note f = instOnly_fields [OF o]
  have w': "w' = (if StrictCacheUpdates (config w) then (case poller of None \<Rightarrow> w | Some q \<Rightarrow> spawn (WaitForDelete p q ids) w)
      else if rm = Ok () then (case poller of None \<Rightarrow> wm | Some q \<Rightarrow> spawn (WaitForDelete p q ids) wm) else wm)"
    and r: "\<not> StrictCacheUpdates (config w) \<Longrightarrow> (r = Ok ()) = (rm = Ok ())"
    using assms m by (cases rm; auto simp: afterDelete_def)+
  show "requests w' = requests w" "q \<noteq> p \<Longrightarrow> curSize (ssAt w' q) = curSize (ssAt w q)"
    "curSize (ssAt w' p) =
      (if StrictCacheUpdates (config w) \<or> unreg \<or> curSize (ssAt w p) < int (length ids) then curSize (ssAt w p)
       else curSize (ssAt w p) - int (length ids))"
    "\<not> StrictCacheUpdates (config w) \<Longrightarrow> \<not> unreg \<Longrightarrow> curSize (ssAt w p) < int (length ids) \<Longrightarrow>
      lastSizeRefresh (ssAt w' p) = zeroTime"
    using f(2,5,6) unfolding w' by (auto simp: decrementSize_fields)
  show "\<exists>w2 w3. azCache w2 = azCache w \<and> markLoop az p todel w2 = (Ok (), w3) \<and> azCache w' = azCache w3"
    if "r = Ok ()" "\<not> StrictCacheUpdates (config w)"
    using that m r unfolding w' by (intro exI [of _ ?w] exI [of _ wm]) (auto simp: decrementSize_fields(6))
qed

lemma lastSegments_length: "lastSegments is = Ok ss \<Longrightarrow> length ss = length is"
  by (induction "is" arbitrary: ss) (auto split: go.splits)

lemma setStatus_not_Err [simp]: "fst (setInstanceStatusByProviderID az p i st w) \<noteq> Err e"
  by (auto simp: setInstanceStatusByProviderID_def split: prod.splits go.splits)

lemma markLoop_not_Err: "markLoop az p is w \<noteq> (Err e, w')"
proof (induction "is" arbitrary: w)
  case (Cons i "is")
  show ?case
  proof
    assume "markLoop az p (i # is) w = (Err e, w')"
    then show False unfolding markLoop.simps
      by (rule andThen_cases) (use Cons.IH setStatus_not_Err [of az p i deletingStatus w e] in auto)
  qed
qed simp

lemma deleteInstances_sku:
  "deleteInstances az p ids name w = (r, w') \<Longrightarrow> r \<noteq> Panic \<Longrightarrow> \<exists>sku. getSKU p w = Ok sku"
  by (cases "getSKU p w") (auto simp: deleteInstances_def getSKU_def split: go.splits option.splits)

text \<open>What every call of \<open>DeleteInstances\<close> does to the requests and to the cached sizes.\<close>

definition deletionSent :: "addr \<Rightarrow> nat \<Rightarrow> string list \<Rightarrow> 'e world \<Rightarrow> 'e world \<Rightarrow> bool" where
  "deletionSent p n ids w w' \<longleftrightarrow>
     ids \<noteq> [] \<and> length ids \<le> n \<and>
     (\<exists>name force rs. requests w' = requests w @ rs \<and> deleteRequests name ids force rs \<and>
        (force \<longrightarrow> (\<exists>sku. getSKU p w = Ok sku \<and> shouldForceDelete sku (ssAt w p))))"

lemma deleteInstances_sent:
  assumes o: "instOnly p w w2" and d: "deleteInstances az p ids name w2 = (r, w3)" and "r \<noteq> Panic"
    and s: "lastSegments todel = Ok ids" "subseq todel instances" "todel \<noteq> []"
  shows "deletionSent p (length instances) ids w w3" and "ssAt w3 = ssAt w2" "config w3 = config w2" "azCache w3 = azCache w2"
proof -
  obtain sku where sku: "getSKU p w2 = Ok sku" using deleteInstances_sku [OF d assms(3)] by blast
  obtain e rs where w3: "w3 = w2\<lparr>requests := requests w2 @ rs, env := e\<rparr>"
    and rs: "deleteRequests name ids (shouldForceDelete sku (ssAt w2 p)) rs"
    using deleteInstances_effect(1) [OF d sku] by blast
  note f = instOnly_fields [OF o]
  have "shouldForceDelete sku (ssAt w2 p) = shouldForceDelete sku (ssAt w p)"
    using f(7,8) by (simp add: shouldForceDelete_def)
  moreover have "ids \<noteq> []" "length ids \<le> length instances"
    using s lastSegments_length [OF s(1)] list_emb_length [OF s(2)] by auto
  ultimately show "deletionSent p (length instances) ids w w3"
    using w3 rs sku f(2,12) by (auto simp: deletionSent_def)
  show "ssAt w3 = ssAt w2" "config w3 = config w2" "azCache w3 = azCache w2" using w3 by simp_all
qed

lemma DeleteInstances_effect:
  assumes "DeleteInstances az p instances unreg w = (r, w')"
  shows "(\<forall>q. curSize (ssAt w' q) = curSize (ssAt w q)) \<and> requests w' = requests w \<or>
    (\<exists>ids. deletionSent p (length instances) ids w w' \<and>
       (\<forall>q. q \<noteq> p \<longrightarrow> curSize (ssAt w' q) = curSize (ssAt w q)) \<and>
       curSize (ssAt w' p) = (if StrictCacheUpdates (config w) \<or> unreg \<or> (\<exists>e. r = Err e) \<or>
           curSize (ssAt w p) < int (length ids)
         then curSize (ssAt w p) else curSize (ssAt w p) - int (length ids)) \<and>
       (r = Ok () \<and> \<not> StrictCacheUpdates (config w) \<and> \<not> unreg \<and> curSize (ssAt w p) < int (length ids) \<longrightarrow>
         lastSizeRefresh (ssAt w' p) = zeroTime))"
  using assms
proof (cases rule: DeleteInstances_cases)
  case quiet
  then show ?thesis using instOnly_fields [OF quiet] by simp
next
  case (refused todel ids name w2 e)
  note s = deleteInstances_sent [OF refused(1,4) _ refused(3,2,6)]
  note f = instOnly_fields [OF refused(1)]
  have "deletionSent p (length instances) ids w w'" using s(1) by simp
  moreover have "curSize (ssAt w' q) = curSize (ssAt w q)" for q using s(2) f(5) by simp
  ultimately show ?thesis using refused(5) by auto
next
  case (sent todel ids name w1 w2 poller w3 g)
  note o = instOnly_trans [OF sent(2,4)]
  note s = deleteInstances_sent [OF o sent(7) _ sent(5) eligible_length [OF sent(3)] sent(6)]
  note f = instOnly_fields [OF o] and a = afterDelete_cases [OF sent(8)]
  have s1: "deletionSent p (length instances) ids w w'"
    using s(1) a(1) by (simp add: deletionSent_def)
  moreover have "\<nexists>e. r = Err e" using sent(8) by (auto simp: afterDelete_def andThen_def markLoop_not_Err split: go.splits prod.splits if_splits)
  ultimately show ?thesis
    using a(2,3,4) s(2,3) f(1,5) by auto
qed

section \<open>The marks\<close>

lemma gone_step:
  assumes "HasInstance i w = Ok False"
  shows "HasInstance i (setInstanceStateByProviderID j InstanceDeleting w) = Ok False"
proof (cases "\<exists>r. convertResourceGroupNameToLower j = Ok r \<and> findFold r (instanceToNodeGroup (azCache w)) \<noteq> None")
  case True
  then obtain r where r: "convertResourceGroupNameToLower j = Ok r" "findFold r (instanceToNodeGroup (azCache w)) \<noteq> None"
    by blast
  obtain q where q: "convertResourceGroupNameToLower i = Ok q"
    using assms by (cases "convertResourceGroupNameToLower i") (auto simp: HasInstance_def)
  show ?thesis
  proof (cases "strings_EqualFold q r")
    case True
    have "HasInstance i w' = HasInstance j w'" for w' :: "'a world"
      using r(1) q by (simp add: HasInstance_def findFold_EqualFold [OF True])
    then show ?thesis using HasInstance_mark(1) [OF r] by simp
  next
    case False
    then show ?thesis using HasInstance_mark(2) [OF r q] assms by simp
  qed
next
  case False
  then have "setInstanceStateByProviderID j InstanceDeleting w = w"
    by (auto simp: setInstanceStateByProviderID_def split: go.splits option.splits)
  then show ?thesis using assms by simp
qed

lemma setStatus_refresh: "refreshFrame w (snd (setInstanceStatusByProviderID az p i st w))"
proof -
  obtain r w1 where v: "validateInstanceCache az p w = (r, w1)" by fastforce
  have "refreshFrame w w1"
    using updateInstanceCache_refresh [of w az p] v by (auto simp: validateInstanceCache_def Let_def split: if_splits)
  also have "refreshFrame w1 (updSS p (\<lambda>s. s\<lparr>instanceCache := setFirstStatus i st (instanceCache s)\<rparr>) w1)"
    by (rule refreshFrame_updSS) (simp add: ssFixed_def)
  finally show ?thesis using v \<open>refreshFrame w w1\<close> by (auto simp: setInstanceStatusByProviderID_def split: go.splits)
qed

lemma HasInstance_refresh: "refreshFrame w w' \<Longrightarrow> HasInstance i w' = HasInstance i w"
  unfolding HasInstance_def by (simp only: refreshFrame_fields)

lemma markLoop_gone:
  "markLoop az p is w = (Ok (), w') \<Longrightarrow>
     (HasInstance i w = Ok False \<or> i \<in> set is \<and> convertResourceGroupNameToLower i = Ok r \<and>
        findFold r (instanceToNodeGroup (azCache w)) \<noteq> None) \<Longrightarrow> HasInstance i w' = Ok False"
proof (induction "is" arbitrary: w)
  case (Cons j "is")
  obtain w1 where s: "setInstanceStatusByProviderID az p j deletingStatus w = (Ok (), w1)"
    and l: "markLoop az p is (setInstanceStateByProviderID j InstanceDeleting w1) = (Ok (), w')"
    using Cons.prems(1) by (auto simp: andThen_Ok)
  have f: "refreshFrame w w1" using setStatus_refresh [of w az p j deletingStatus] s by simp
  let ?w2 = "setInstanceStateByProviderID j InstanceDeleting w1"
  have i2n: "instanceToNodeGroup (azCache ?w2) = instanceToNodeGroup (azCache w)"
    using refreshFrame_fields(5) [OF f] by (auto simp: setInstanceStateByProviderID_def split: go.splits option.splits)
  show ?case
  proof (rule Cons.IH [OF l])
    show "HasInstance i ?w2 = Ok False \<or> i \<in> set is \<and> convertResourceGroupNameToLower i = Ok r \<and>
        findFold r (instanceToNodeGroup (azCache ?w2)) \<noteq> None"
    proof (cases "HasInstance i w = Ok False")
      case True
      then show ?thesis using gone_step HasInstance_refresh [OF f] by metis
    next
      case False
      then have c: "i \<in> set (j # is)" "convertResourceGroupNameToLower i = Ok r"
        "findFold r (instanceToNodeGroup (azCache w)) \<noteq> None" using Cons.prems(2) by blast+
      then show ?thesis
        using HasInstance_mark(1) [of i r w1] refreshFrame_fields(5) [OF f] i2n by auto
    qed
  qed
qed simp

section \<open>Deletions with a fresh instance cache\<close>

text \<open>Whether the instance cache lists an instance as being deleted.\<close>

definition listedDeleting :: "addr \<Rightarrow> 'e world \<Rightarrow> string \<Rightarrow> bool" where
  "listedDeleting p w i \<longleftrightarrow>
     (case find (\<lambda>x. Id x = i) (instanceCache (ssAt w p)) of
        Some x \<Rightarrow> (case Status x of Some st \<Rightarrow> State st = InstanceDeleting | None \<Rightarrow> False)
      | None \<Rightarrow> False)"

lemma alreadyDeleting_cached:
  "alreadyDeleting (Ok (find (\<lambda>x. Id x = i) (instanceCache (ssAt w p)))) = listedDeleting p w i"
  by (auto simp: alreadyDeleting_def listedDeleting_def split: option.splits)

text \<open>The lookups of the groups of the instances change the cache of unowned instances only.\<close>

definition unownedOnly :: "'e world \<Rightarrow> 'e world \<Rightarrow> bool" where
  "unownedOnly w w' \<longleftrightarrow> (\<exists>u. w' = updCache (\<lambda>c. c\<lparr>unownedInstances := u\<rparr>) w)"

lemma unownedOnly_refl [simp]: "unownedOnly w w"
  unfolding unownedOnly_def by (rule exI [of _ "unownedInstances (azCache w)"]) (simp add: updCache_def)

lemma unownedOnly_trans [trans]: "unownedOnly w w1 \<Longrightarrow> unownedOnly w1 w2 \<Longrightarrow> unownedOnly w w2"
  unfolding unownedOnly_def by (clarsimp simp: updCache_def) blast

lemma unownedOnly_fields:
  assumes "unownedOnly w w'"
  shows "instancesFresh az p w' = instancesFresh az p w" "listedDeleting p w' = listedDeleting p w"
    "HasInstance i w' = HasInstance i w" "config w' = config w" "requests w' = requests w"
    "ssAt w' = ssAt w" "ngId w' = ngId w" "getSKU p w' = getSKU p w"
    "instanceToNodeGroup (azCache w') = instanceToNodeGroup (azCache w)"
  using assms
  by (auto simp: unownedOnly_def updCache_def instancesFresh_def now_def listedDeleting_def fun_eq_iff
      HasInstance_def ngId_def getSKU_def getVMSSFromCache_def getScaleSets_def
      split: nodeGroup.splits option.splits go.splits)

lemma GetNodeGroup_unowned: "GetNodeGroupForInstance i w = (r, w') \<Longrightarrow> unownedOnly w w'"
proof -
  assume "GetNodeGroupForInstance i w = (r, w')"
  note q = FindForInstance_quiet(1,2) [OF this [unfolded GetNodeGroupForInstance_def]]
  show ?thesis
    unfolding unownedOnly_def
    by (rule exI [of _ "unownedInstances (azCache w')"])
      (use q in \<open>simp add: updCache_def\<close>)
qed

lemma verify_unowned: "verifyNodeGroup i n w = (r, w') \<Longrightarrow> unownedOnly w w'"
  using GetNodeGroup_unowned [of i w]
  by (cases "GetNodeGroupForInstance i w"; cases "fst (GetNodeGroupForInstance i w)")
    (auto simp: verifyNodeGroup_def split: option.splits if_splits)

text \<open>With a fresh instance cache, the instances asked for are those it does not list as deleting.\<close>

lemma eligible_fresh:
  "eligibleInstances az p g is w = (Ok out, w') \<Longrightarrow> instancesFresh az p w \<Longrightarrow>
     out = filter (\<lambda>i. \<not> listedDeleting p w i) is \<and> unownedOnly w w'"
proof (induction "is" arbitrary: w out)
  case (Cons i "is")
  obtain n w1 r w2 rest where e: "verifyNodeGroup i (ngId w n) w = (Ok (), w1)"
    "getInstanceByProviderID az p i w1 = (r, w2)" "eligibleInstances az p g is w2 = (Ok rest, w')"
    "out = (if alreadyDeleting r then rest else i # rest)"
    using Cons.prems(1) by (rule eligible_ConsE)
  note v = verify_unowned [OF e(1)]
  note u = unownedOnly_fields [OF v]
  have f: "instancesFresh az p w1" using Cons.prems(2) u(1) by simp
  have r: "r = Ok (find (\<lambda>x. Id x = i) (instanceCache (ssAt w1 p)))" "w2 = w1"
    using e(2) by (auto simp: getInstanceByProviderID_def validate_fresh [OF f])
  from Cons.IH [OF e(3) [unfolded r(2)] f] e(4) r(1) u(2) show ?case
    using unownedOnly_trans [OF v] by (simp add: alreadyDeleting_cached)
qed simp

text \<open>An accepted deletion with a fresh instance cache, up to the effects that follow the request.\<close>

lemma DeleteInstances_accepted:
  assumes "DeleteInstances az p instances unreg w = (Ok (), w')" "instancesFresh az p w"
  defines "todel \<equiv> filter (\<lambda>i. \<not> listedDeleting p w i) instances"
  obtains (nothing) "todel = []" "unownedOnly w w'"
  | (sent) g ids sku rs w2 e poller where "todel \<noteq> []" "unownedOnly w w2"
      "fst (GetNodeGroupForInstance (hd instances) w) = Ok (Some g)"
      "lastSegments todel = Ok ids" "getSKU p w = Ok sku"
      "deleteRequests (ngId w g) ids (shouldForceDelete sku (ssAt w p)) rs"
      "afterDelete az p todel ids unreg poller (w2\<lparr>requests := requests w2 @ rs, env := e\<rparr>) = (Ok (), w')"
proof (cases "instances = []")
  case True
  show ?thesis by (rule nothing) (use True assms(1) in \<open>simp_all add: DeleteInstances_def todel_def\<close>)
next
  case False
  obtain r1 w1 where g: "GetNodeGroupForInstance (hd instances) w = (r1, w1)" by fastforce
  note o1 = GetNodeGroup_unowned [OF g]
  note d = assms(1) [unfolded DeleteInstances_def, simplified False g if_False]
  then obtain cg where cg: "r1 = Ok cg" by (cases r1) auto
  obtain r2 w2 where e: "eligibleInstances az p cg instances w1 = (r2, w2)" by fastforce
  with d cg obtain out where out: "r2 = Ok out" by (cases r2) auto
  note el = eligible_fresh [OF e [unfolded out]]
  have f1: "instancesFresh az p w1" using unownedOnly_fields(1) [OF o1] assms(2) by simp
  have o: "out = todel" "unownedOnly w w2"
    using el [OF f1] unownedOnly_fields(2) [OF o1] unownedOnly_trans [OF o1] by (simp_all add: todel_def)
  show ?thesis
  proof (cases "todel = []")
    case True
    show ?thesis by (rule nothing) (use True d cg e out o in simp_all)
  next
    case False
    obtain ids gr where l: "lastSegments todel = Ok ids" "cg = Some gr"
      using d cg e out o False by (auto split: go.splits option.splits)
    obtain r3 w3 where di: "deleteInstances az p ids (ngId w2 gr) w2 = (r3, w3)" by fastforce
    with d cg e out o False l obtain poller where p: "r3 = Ok poller"
      "afterDelete az p todel ids unreg poller w3 = (Ok (), w')" by (cases r3) auto
    note u = unownedOnly_fields [OF o(2)]
    obtain sku where sku: "getSKU p w2 = Ok sku" using deleteInstances_sku [OF di] p(1) by auto
    then obtain e rs where w3: "w3 = w2\<lparr>requests := requests w2 @ rs, env := e\<rparr>"
      "deleteRequests (ngId w2 gr) ids (shouldForceDelete sku (ssAt w2 p)) rs"
      using deleteInstances_effect(1) [OF di] by blast
    show ?thesis
      by (rule sent [of w2 gr ids sku rs poller e])
        (use False o(2) g cg l sku u(6,7,8) w3 p(2) in simp_all)
  qed
qed

lemma afterDelete_strict:
  assumes "afterDelete az p todel ids unreg poller w = (Ok (), w')" "StrictCacheUpdates (config w)"
  shows "azCache w' = azCache w" "ssAt w' = ssAt w"
  using assms by (auto simp: afterDelete_def)

lemma afterDelete_size:
  assumes "afterDelete az p todel ids unreg poller w = (Ok (), w')"
  shows "if StrictCacheUpdates (config w) \<or> unreg
    then curSize (ssAt w' p) = curSize (ssAt w p) \<and> lastSizeRefresh (ssAt w' p) = lastSizeRefresh (ssAt w p)
    else if int (length ids) \<le> curSize (ssAt w p)
    then curSize (ssAt w' p) = curSize (ssAt w p) - int (length ids) \<and> lastSizeRefresh (ssAt w' p) = now az w
    else curSize (ssAt w' p) = curSize (ssAt w p) \<and> lastSizeRefresh (ssAt w' p) = zeroTime"
proof -
  let ?w = "if unreg then w else decrementSize az p (int (length ids)) w"
  obtain rm wm where m: "markLoop az p todel ?w = (rm, wm)" by fastforce
  have o: "instOnly p ?w wm" using markLoop_instOnly [of p ?w az todel] m by simp
  have "\<not> StrictCacheUpdates (config w) \<Longrightarrow> ssAt w' = ssAt wm"
    using assms m by (cases rm) (auto simp: afterDelete_def)
  then show ?thesis
    using instOnly_fields(5,6) [OF o, of p] afterDelete_strict(2) [OF assms]
    by (cases "StrictCacheUpdates (config w)") (auto simp: decrementSize_def)
qed

section \<open>The completion\<close>

lemma fetchAuto_goroutines:
  assumes "fetchAutoNodeGroups az w = (r, w')"
  shows "goroutines w' = goroutines w" "config w' = config w"
proof -
  obtain rg w1 where g: "getFilteredNodeGroups (autoDiscoverySpecs w) w = (rg, w1)" by fastforce
  have f: "w1 = w\<lparr>ssAt := ssAt w1, ssNext := ssNext w1\<rparr>" using discover_frame [OF g] by blast
  note e = arg_cong [OF f, of goroutines, simplified] arg_cong [OF f, of config, simplified]
  have "goroutines w' = goroutines w \<and> config w' = config w"
  proof (cases rg)
    case (Ok gs)
    obtain c1 w2 where r: "registerDiscovered gs False w1 = (c1, w2)" by fastforce
    obtain c2 w3 where u: "unregisterMissing (map (ngId w2) gs) (getNodeGroups w2) c1 w2 = (c2, w3)" by fastforce
    have o: "registryOnly w1 w3"
      using registerDiscovered_only [OF r] unregisterMissing_only [OF u] registryOnly_trans by blast
    have "goroutines w3 = goroutines w1" "config w3 = config w1" using o by (auto simp: registryOnly_def)
    then show ?thesis using assms g Ok r u e by (auto simp: fetchAutoNodeGroups_def invalidateCache_def)
  qed (use assms g e in \<open>auto simp: fetchAutoNodeGroups_def\<close>)
  then show "goroutines w' = goroutines w" "config w' = config w" by blast+
qed

lemma forceRefresh_quiet:
  assumes "forceRefresh az w = (r, w')"
  shows "requests w' = requests w" "goroutines w' = goroutines w" "config w' = config w"
proof -
  obtain r1 w1 where a: "fetchAutoNodeGroups az w = (r1, w1)" by fastforce
  obtain r2 w2 where b: "regenerate az w1 = (r2, w2)" by fastforce
  have "requests w2 = requests w1 \<and> goroutines w2 = goroutines w1 \<and> config w2 = config w1"
    using b
  proof (rule regenerate_cases)
    fix w3 groups states options
    assume "refreshFrame w1 w3" and w2: "w2 = updCache (\<lambda>c. c\<lparr>instanceToNodeGroup := groups,
      instanceStates := states, autoscalingOptions := options, unownedInstances := []\<rparr>) w3"
    note f = refreshFrame_fields [OF this(1)]
    show ?thesis unfolding w2 updCache_simps using f(11,12,13) by (intro conjI)
  next
    assume "refreshFrame w1 w2"
    note f = refreshFrame_fields [OF this]
    show ?thesis using f(11,12,13) by (intro conjI)
  qed
  moreover have "w' = w1 \<or> (\<exists>t. w' = w2\<lparr>lastRefresh := t\<rparr>)"
  proof (cases "r1 = Panic")
    case True
    then show ?thesis using assms a by (simp add: forceRefresh_def)
  next
    case False
    then have "andThen (regenerate az w1) (\<lambda>_ w2. (Ok (), w2\<lparr>lastRefresh := now az w2\<rparr>)) = (r, w')"
      using assms a by (cases r1) (simp_all add: forceRefresh_def)
    then have "w' = w2 \<or> w' = w2\<lparr>lastRefresh := now az w2\<rparr>" using b by (cases r2) simp_all
    moreover have "w2 = w2\<lparr>lastRefresh := lastRefresh w2\<rparr>" by simp
    ultimately show ?thesis by metis
  qed
  ultimately show "requests w' = requests w" "goroutines w' = goroutines w" "config w' = config w"
    using fetchAuto_world(7) [OF a] fetchAuto_goroutines [OF a] by fastforce+
qed

lemma refreshOrInvalidate_quiet:
  assumes "refreshOrInvalidate az w = (r, w')"
  shows "requests w' = requests w \<and> goroutines w' = goroutines w"
proof -
  obtain r1 w1 where f: "forceRefresh az w = (r1, w1)" by fastforce
  have "w' = w1 \<or> w' = invalidateCache az w1" using assms f by (cases r1) (auto simp: refreshOrInvalidate_def)
  then show ?thesis using forceRefresh_quiet [OF f] by (auto simp: invalidateCache_def)
qed

lemma invalidate_quiet [simp]:
  "requests (invalidateLastSizeRefresh az p w) = requests w" "goroutines (invalidateLastSizeRefresh az p w) = goroutines w"
  "requests (invalidateInstanceCache az p w) = requests w" "goroutines (invalidateInstanceCache az p w) = goroutines w"
  by (simp_all add: invalidateLastSizeRefresh_def invalidateInstanceCache_def)

lemma retryDelete_requests:
  assumes "retryDelete az p ids w = (r, w')"
  shows "\<exists>rs force. requests w' = requests w @ rs \<and> goroutines w' = goroutines w \<and>
    (rs = [] \<or> deleteRequests (ss_Name (ssAt w p)) ids force rs)"
proof -
  obtain r1 w1 where d: "deleteInstances az p ids (ss_Name (ssAt w p)) w = (r1, w1)" by fastforce
  have w': "requests w' = requests w1" "goroutines w' = goroutines w1"
    using assms d by (auto simp: retryDelete_def call_env split: go.splits option.splits)
  show ?thesis
  proof (cases "getSKU p w")
    case (Ok sku)
    then show ?thesis using deleteInstances_effect(1) [OF d Ok] w' by auto
  next
    case (Err e)
    then show ?thesis using d w' by (simp add: deleteInstances_def)
  next
    case Panic
    then show ?thesis using d w' by (auto simp: deleteInstances_def)
  qed
qed

section \<open>Sample worlds\<close>

text \<open>The sample cluster with two instances of the scale set \<open>set\<close> in all caches.\<close>

definition deletionWorld :: "int world" where
  "deletionWorld = (updCache (\<lambda>c. c\<lparr>instanceToNodeGroup := [(sampleIDLower, ScaleSetRef 0)],
       vmsPoolMap := [(''pool'', sampleAKSPool)]\<rparr>) sampleWorld)
     \<lparr>ssAt := (\<lambda>_. sampleSet\<lparr>instanceCache := [\<lparr>Id = sampleID, Status = None\<rparr>],
        lastInstanceRefresh := 1000\<rparr>)\<rparr>"

definition notAllowedClient :: "int azClient" where
  "notAllowedClient = sampleClient\<lparr>beginDeleteInstances := (\<lambda>_ _ _ force e.
     if force then (Inl (httpError 409 ''OperationNotAllowed'' None), e) else (Inr (Some 8), e))\<rparr>"

definition preemptedClient :: "int azClient" where
  "preemptedClient = sampleClient\<lparr>pollDeleteInstances := (\<lambda>q e.
     if e = 1000 then (Inl (httpError 409 ''OperationPreempted'' None), e + 1) else (Inr (), e))\<rparr>"

lemma deletionWorld_fields [simp]:
  "instanceToNodeGroup (azCache deletionWorld) = [(sampleIDLower, ScaleSetRef 0)]"
  "getVMsPoolMap deletionWorld = [(''pool'', sampleAKSPool)]" "unownedInstances (azCache deletionWorld) = []"
  "config deletionWorld = sampleConfig" "requests deletionWorld = []" "env deletionWorld = 1000"
  "ssAt deletionWorld q = sampleSet\<lparr>instanceCache := [\<lparr>Id = sampleID, Status = None\<rparr>], lastInstanceRefresh := 1000\<rparr>"
  by (simp_all add: deletionWorld_def getVMsPoolMap_def sampleCache_def)

lemma deletion_group:
  "GetNodeGroupForInstance sampleID deletionWorld = (Ok (Some (ScaleSetRef 0)), deletionWorld)"
  by (simp add: GetNodeGroupForInstance_def FindForInstance_def convert_sampleID getInstanceFromCache_def
      sampleConfig_def VMTypeVMSS_def VMTypeStandard_def)

lemma deletion_fresh: "instancesFresh sampleClient 0 deletionWorld"
  by (simp add: instancesFresh_def stillFresh_def now_def sampleClient_def sampleSet_def minute_def second_def)

lemma deletion_eligible:
  "eligibleInstances sampleClient 0 (Some (ScaleSetRef 0)) [sampleID] deletionWorld = (Ok [sampleID], deletionWorld)"
  using validate_fresh [OF deletion_fresh]
  by (simp add: verifyNodeGroup_def deletion_group getInstanceByProviderID_def alreadyDeleting_def)

lemma listedDeleting_new [simp]: "listedDeleting p deletionWorld sampleID = False"
  by (simp add: listedDeleting_def)

lemma deletion_request:
  "deleteInstances sampleClient 0 [''p''] (ngId deletionWorld (ScaleSetRef 0)) deletionWorld =
     (Ok (Some 8), deletionWorld\<lparr>requests := [DeleteVMSSInstances ''set'' [''p''] True]\<rparr>)"
proof -
  have "getSKU 0 deletionWorld = Ok ''Standard_D2''" "shouldForceDelete ''Standard_D2'' (ssAt deletionWorld 0)"
    "ngId deletionWorld (ScaleSetRef 0) = ''set''"
    by code_simp+
  then show ?thesis by (simp add: deleteInstances_def sendDelete_env sampleClient_def liftSum_def)
qed

text \<open>The deletion of the sample instance is accepted, and its effects on the observed state.\<close>

lemma deletion_Ok:
  assumes "r = DeleteInstances sampleClient 0 [sampleID] False deletionWorld"
  shows "fst r = Ok ()" "requests (snd r) = [DeleteVMSSInstances ''set'' [''p''] True]" "curSize (ssAt (snd r) 0) = 2"
proof -
  have l: "lastSegments [sampleID] = Ok [''p'']" by code_simp
  let ?w = "deletionWorld\<lparr>requests := [DeleteVMSSInstances ''set'' [''p''] True]\<rparr>"
  have r: "r = afterDelete sampleClient 0 [sampleID] [''p''] False (Some 8) ?w"
    unfolding assms DeleteInstances_def by (simp add: deletion_group deletion_eligible l deletion_request del: eligibleInstances.simps lastSegments.simps)
  have strict: "\<not> StrictCacheUpdates (config ?w)" by (simp add: sampleConfig_def)
  let ?w2 = "decrementSize sampleClient 0 1 ?w"
  have fresh: "instancesFresh sampleClient 0 ?w2"
    by (simp add: instancesFresh_def stillFresh_def now_def sampleClient_def sampleSet_def minute_def second_def decrementSize_def)
  obtain w3 where "markLoop sampleClient 0 [sampleID] ?w2 = (Ok (), w3)"
    using setStatus_fresh [OF fresh] by simp
  then show f: "fst r = Ok ()" using strict unfolding r afterDelete_def by simp
  note a = afterDelete_cases(1,3) [OF prod_eq [OF f, unfolded r]]
  show "requests (snd r) = [DeleteVMSSInstances ''set'' [''p''] True]" using a(1) unfolding r by simp
  show "curSize (ssAt (snd r) 0) = 2" using a(2) strict unfolding r by (simp add: sampleSet_def)
qed

lemmas deletion_fst = deletion_Ok(1) [OF refl]

section \<open>Properties\<close>

text \<open>
  C7. Whatever its result, a deletion sends no request and leaves every cached size, or it sends
  the deletion of a non-empty list of at most the given instances, forced only where the scale
  set allows it and with at most one plain repetition. No cached size grows, none becomes
  negative, and the sizes of the other scale sets stay.
\<close>

theorem DeleteInstances_never_negative:
  assumes "DeleteInstances az p instances unreg w = (r, w')" and "0 \<le> curSize (ssAt w p)"
  shows "0 \<le> curSize (ssAt w' p) \<and> curSize (ssAt w' p) \<le> curSize (ssAt w p) \<and>
    (\<forall>q. q \<noteq> p \<longrightarrow> curSize (ssAt w' q) = curSize (ssAt w q)) \<and>
    (requests w' = requests w \<and> curSize (ssAt w' p) = curSize (ssAt w p) \<or>
     (\<exists>ids. deletionSent p (length instances) ids w w'))"
  using DeleteInstances_effect [OF assms(1)]
proof (elim disjE exE conjE)
  fix ids
  assume "deletionSent p (length instances) ids w w'" "\<forall>q. q \<noteq> p \<longrightarrow> curSize (ssAt w' q) = curSize (ssAt w q)"
    "curSize (ssAt w' p) = (if StrictCacheUpdates (config w) \<or> unreg \<or> (\<exists>e. r = Err e) \<or>
           curSize (ssAt w p) < int (length ids)
         then curSize (ssAt w p) else curSize (ssAt w p) - int (length ids))"
  then show ?thesis using assms(2) by (auto split: if_splits)
qed (use assms(2) in auto)

theorem DeleteInstances_never_negative_witness:
  "0 \<le> curSize (ssAt (snd (DeleteInstances sampleClient 0 [sampleID] False deletionWorld)) 0)"
proof -
  have "0 \<le> curSize (ssAt deletionWorld 0)" by (simp add: sampleSet_def)
  from DeleteInstances_never_negative [OF prod_eq [OF deletion_fst] this] show ?thesis by blast
qed

text \<open>
  C8. An accepted deletion while the instance cache is fresh asks Azure to delete, in order, exactly
  the given instances that the cache does not list as being deleted: one request to the node group
  of the first instance (and a plain one after a forced one that is not allowed), or none and no
  change of the scale sets when there is no such instance. Without strict cache updates and for
  registered nodes the cached size drops by the number of these instances; when it is smaller than
  that number it stays and is marked stale. In the other cases size and age stay.
\<close>

theorem DeleteInstances_accounting:
  assumes "DeleteInstances az p instances unreg w = (Ok (), w')" and "instancesFresh az p w"
    and "todel = filter (\<lambda>i. \<not> listedDeleting p w i) instances"
  shows "if todel = [] then requests w' = requests w \<and> ssAt w' = ssAt w
    else (\<exists>g ids sku rs. fst (GetNodeGroupForInstance (hd instances) w) = Ok (Some g) \<and>
        lastSegments todel = Ok ids \<and> getSKU p w = Ok sku \<and> requests w' = requests w @ rs \<and>
        deleteRequests (ngId w g) ids (shouldForceDelete sku (ssAt w p)) rs) \<and>
      (let s = ssAt w p; s' = ssAt w' p; n = int (length todel)
       in if StrictCacheUpdates (config w) \<or> unreg
          then curSize s' = curSize s \<and> lastSizeRefresh s' = lastSizeRefresh s
          else if n \<le> curSize s then curSize s' = curSize s - n
          else curSize s' = curSize s \<and> lastSizeRefresh s' = zeroTime)"
  using assms(1,2)
proof (cases rule: DeleteInstances_accepted)
  case nothing
  then show ?thesis using unownedOnly_fields(5,6) assms(3) by fastforce
next
  case (sent g ids sku rs w2 e poller)
  note u = unownedOnly_fields [OF sent(2)]
  note a = afterDelete_size [OF sent(7)] afterDelete_cases(1) [OF sent(7)]
  have "length ids = length todel" using lastSegments_length sent(4) assms(3) by blast
  with a(1) have "let s = ssAt w p; s' = ssAt w' p; n = int (length todel)
       in if StrictCacheUpdates (config w) \<or> unreg
          then curSize s' = curSize s \<and> lastSizeRefresh s' = lastSizeRefresh s
          else if n \<le> curSize s then curSize s' = curSize s - n
          else curSize s' = curSize s \<and> lastSizeRefresh s' = zeroTime"
    using u(4,6) by (auto simp: Let_def split: if_splits)
  moreover have "requests w' = requests w @ rs" using a(2) u(5) by simp
  ultimately show ?thesis using sent(1,3,4,5,6) assms(3) by auto
qed

theorem DeleteInstances_accounting_witness:
  "\<exists>rs. requests (snd (DeleteInstances sampleClient 0 [sampleID] False deletionWorld)) = requests deletionWorld @ rs \<and>
     deleteRequests ''set'' [''p''] True rs \<and>
   curSize (ssAt (snd (DeleteInstances sampleClient 0 [sampleID] False deletionWorld)) 0) = 2"
proof -
  have l: "lastSegments [sampleID] = Ok [''p'']" by code_simp
  have sku: "getSKU 0 deletionWorld = Ok ''Standard_D2''" "strings_ToLower ''Standard_D2'' \<notin> set isolatedVMSizes"
    "ngId deletionWorld (ScaleSetRef 0) = ''set''"
    by code_simp+
  note DeleteInstances_accounting [OF prod_eq [OF deletion_fst] deletion_fresh refl]
  then show ?thesis
    by (auto simp: deletion_group l sku Let_def sampleConfig_def sampleSet_def shouldForceDelete_def simp del: lastSegments.simps)
qed

text \<open>
  C13. After an accepted deletion while the instance cache is fresh, \<open>HasInstance\<close> reports every given
  instance that the manager's cache knows, and that was not listed as being deleted before, as
  gone; under strict cache updates it reports what it reported before.
\<close>

theorem deleted_instances_gone:
  assumes "DeleteInstances az p instances unreg w = (Ok (), w')" and "instancesFresh az p w"
    and "i \<in> set instances" and "\<not> listedDeleting p w i"
    and "convertResourceGroupNameToLower i = Ok r" and "findFold r (instanceToNodeGroup (azCache w)) \<noteq> None"
  shows "HasInstance i w' = (if StrictCacheUpdates (config w) then HasInstance i w else Ok False)"
  using assms(1,2)
proof (cases rule: DeleteInstances_accepted)
  case nothing
  then show ?thesis using assms(3,4) by (auto simp: filter_empty_conv)
next
  case (sent g ids sku rs w2 e poller)
  note u = unownedOnly_fields [OF sent(2)]
  show ?thesis
  proof (cases "StrictCacheUpdates (config w)")
    case True
    then have "azCache w' = azCache w2" using afterDelete_strict(1) [OF sent(7)] u(4) by simp
    then have "HasInstance i w' = HasInstance i w2" unfolding HasInstance_def by presburger
    then show ?thesis using True u(3) by simp
  next
    case False
    obtain wa wb where m: "azCache wa = azCache w2"
      "markLoop az p (filter (\<lambda>i. \<not> listedDeleting p w i) instances) wa = (Ok (), wb)" "azCache w' = azCache wb"
      using afterDelete_cases(5) [OF sent(7)] u(4) False by auto
    from markLoop_gone [OF m(2) disjI2, of i r] assms(3-6) m(1) u(9)
    have "HasInstance i wb = Ok False" by auto
    then show ?thesis using False unfolding HasInstance_def m(3) by simp
  qed
qed

theorem deleted_instances_gone_witness:
  "HasInstance sampleID (snd (DeleteInstances sampleClient 0 [sampleID] False deletionWorld)) = Ok False"
  using deleted_instances_gone [OF prod_eq [OF deletion_fst] deletion_fresh _ _ convert_sampleID]
  by (simp add: sampleConfig_def)

text \<open>
  C22. A deletion is forced exactly when forced deletion is enabled, the size of the scale set is
  not one of the isolated sizes (in any case of its letters) and the scale set has no dedicated
  host. When Azure answers that a forced deletion is not allowed, the same instances are deleted
  without force, and that answer is the result. In all other cases there is exactly one request.
\<close>

theorem deleteInstances_fallback:
  assumes "getSKU p w = Ok sku"
    and "ask = (\<lambda>force e. beginDeleteInstances az (ResourceGroup (provider (config w))) name ids force e)"
    and "force = (enableForceDelete (ssAt w p) \<and> strings_ToLower sku \<notin> set isolatedVMSizes \<and>
                  \<not> dedicatedHost (ssAt w p))"
  shows "deleteInstances az p ids name w =
    (case ask force (env w) of
       (Inl e, e1) \<Rightarrow>
         if force \<and> isOperationNotAllowed az e
         then (liftSum (fst (ask False e1)),
               w\<lparr>requests := requests w @ [DeleteVMSSInstances name ids True, DeleteVMSSInstances name ids False],
                 env := snd (ask False e1)\<rparr>)
         else (Err e, w\<lparr>requests := requests w @ [DeleteVMSSInstances name ids force], env := e1\<rparr>)
     | (Inr q, e1) \<Rightarrow> (Ok q, w\<lparr>requests := requests w @ [DeleteVMSSInstances name ids force], env := e1\<rparr>))"
proof -
  have force: "force = shouldForceDelete sku (ssAt w p)" using assms(3) by (simp add: shouldForceDelete_def)
  obtain r e1 where a: "beginDeleteInstances az (ResourceGroup (provider (config w))) name ids force (env w) = (r, e1)"
    by fastforce
  note s = sendDelete_env [of az name ids force w] sendDelete_env [of az name ids False]
  show ?thesis
  proof (cases r)
    case (Inl e)
    then show ?thesis
      using a unfolding deleteInstances_def assms(1) assms(2) by (simp add: force [symmetric] s liftSum_def)
  next
    case (Inr q)
    then show ?thesis
      using a unfolding deleteInstances_def assms(1) assms(2) by (simp add: force [symmetric] s liftSum_def)
  qed
qed

theorem deleteInstances_fallback_witness:
  "fst (deleteInstances notAllowedClient 0 [''1''] ''set'' sampleWorld) = Ok (Some 8) \<and>
   requests (snd (deleteInstances notAllowedClient 0 [''1''] ''set'' sampleWorld)) =
     [DeleteVMSSInstances ''set'' [''1''] True, DeleteVMSSInstances ''set'' [''1''] False]"
proof -
  have "getSKU 0 sampleWorld = Ok ''Standard_D2''" by code_simp
  note deleteInstances_fallback [where az = notAllowedClient and name = "''set''" and ids = "[''1'']", OF this refl refl]
  moreover have "enableForceDelete (ssAt sampleWorld 0) \<and> strings_ToLower ''Standard_D2'' \<notin> set isolatedVMSizes \<and>
      \<not> dedicatedHost (ssAt sampleWorld 0)" by code_simp
  moreover have "isOperationNotAllowed notAllowedClient (httpError 409 ''OperationNotAllowed'' None)" by code_simp
  ultimately show ?thesis by (simp add: notAllowedClient_def liftSum_def)
qed

text \<open>
  C12. The goroutine that waits for a deletion repeats it at most once, only after a preempted
  operation, for the same instances, and starts no further goroutine.
\<close>

theorem waitForDelete_retries_once:
  assumes "waitForDeleteInstances az p q ids w = (r, w')"
  shows "goroutines w' = goroutines w \<and>
    (requests w' = requests w \<or>
     (\<exists>err e1 rs force. pollDeleteInstances az q (env w) = (Inl err, e1) \<and> isOperationPreempted az err \<and>
        requests w' = requests w @ rs \<and> deleteRequests (ss_Name (ssAt w p)) ids force rs))"
proof -
  obtain r1 e1 where poll: "pollDeleteInstances az q (env w) = (r1, e1)" by fastforce
  let ?w1 = "w\<lparr>env := e1\<rparr>"
  show ?thesis
  proof (cases r1)
    case (Inr u)
    obtain r2 w2 where f: "refreshOrInvalidate az ?w1 = (r2, w2)" by fastforce
    show ?thesis
      using assms poll Inr refreshOrInvalidate_quiet [OF f] f
      by (cases r2) (auto simp: waitForDeleteInstances_def call_env split: if_splits)
  next
    case (Inl err)
    obtain rr w2 where t: "(if isOperationPreempted az err then retryDelete az p ids ?w1 else (Ok False, ?w1)) = (rr, w2)"
      by fastforce
    have t2: "goroutines w2 = goroutines w" "requests w2 = requests w \<or>
      (isOperationPreempted az err \<and> (\<exists>rs force. requests w2 = requests w @ rs \<and> deleteRequests (ss_Name (ssAt w p)) ids force rs))"
      using t retryDelete_requests [of az p ids ?w1 rr w2] by (auto split: if_splits)
    obtain r3 w3 where f: "refreshOrInvalidate az (invalidateLastSizeRefresh az p (invalidateInstanceCache az p w2)) = (r3, w3)"
      by fastforce
    have "w' = w2 \<or> w' = invalidateInstanceCache az p w2 \<or> w' = w3"
      using assms poll Inl t f unfolding waitForDeleteInstances_def call_env
      by (cases rr) (auto split: if_splits)
    then have "requests w' = requests w2" "goroutines w' = goroutines w2"
      using refreshOrInvalidate_quiet [OF f] by auto
    then show ?thesis using t2 poll Inl by auto
  qed
qed

theorem waitForDelete_retries_once_witness:
  "goroutines (snd (waitForDeleteInstances preemptedClient 0 8 [''1''] sampleWorld)) = []"
proof -
  obtain r w' where "waitForDeleteInstances preemptedClient 0 8 [''1''] sampleWorld = (r, w')" by fastforce
  from waitForDelete_retries_once [OF this] this show ?thesis by simp
qed

text \<open>
  C21. At or below its minimum size a scale set deletes no node: \<open>DeleteNodes\<close> fails after reading
  the size, without a request and without touching a VMSS object.
\<close>

theorem DeleteNodes_min_guard:
  assumes "getScaleSetSize az p w = (Ok sz, w1)" and "sz \<le> ss_minSize (ssAt w p)"
  shows "DeleteNodes az p ns w = (Err (Errorf ''min size reached, nodes will not be deleted'' []), w1) \<and>
    requests w1 = requests w \<and> goroutines w1 = goroutines w"
proof -
  have f: "quietFrame p w w1" using getScaleSetSize_frame [of p w az] assms(1) by simp
  then have "ss_minSize (ssAt w1 p) = ss_minSize (ssAt w p)"
    using ssFrame_fields(2) by (auto simp: quietFrame_def)
  with assms f show ?thesis by (simp add: DeleteNodes_def quietFrame_def quiet_def)
qed

theorem DeleteNodes_min_guard_witness:
  "requests (snd (DeleteNodes sampleClient 0 [] (sampleWorld\<lparr>ssAt := (\<lambda>_. sampleSet\<lparr>ss_minSize := 3\<rparr>)\<rparr>))) = []"
proof -
  let ?w = "sampleWorld\<lparr>ssAt := (\<lambda>_. sampleSet\<lparr>ss_minSize := 3\<rparr>)\<rparr>"
  have a: "fst (getScaleSetSize sampleClient 0 ?w) = Ok 3" by code_simp
  have b: "3 \<le> ss_minSize (ssAt ?w 0)" by simp
  have "requests ?w = []" by simp
  with DeleteNodes_min_guard [OF prod_eq [OF a] b, of "[]"] show ?thesis by simp
qed

end
