(* ===== verification/Node_Template.thy ===== *)
theory Node_Template
  imports Scale_Set_Deletion
begin

text \<open>
  \<open>azure_template.go\<close>, \<open>azure_instance.go\<close> and \<open>azure_instance_gpu_sku.go\<close>: the node that the
  autoscaler expects of a node group that it scales up from zero. The labels, taints and
  capacities come from the tags of the scale set or from the agent pool, the sizes from the SKU
  API or from a static table.

  Outside the repository are the quantities of Kubernetes and the merge of label maps
  (\<open>templateLib\<close>). The table of the instance types is an argument, since a \<open>range\<close> loop may visit
  it in any order; \<open>Instance_Sizes\<close> instantiates it.
\<close>

section \<open>Templates and nodes\<close>

text \<open>The library calls: \<open>JoinStringMaps\<close>, \<open>resource.NewQuantity\<close> and \<open>resource.ParseQuantity\<close>.\<close>

record 'q templateLib =
  joinStringMaps :: "(string, string) gomap \<Rightarrow> (string, string) gomap \<Rightarrow> (string, string) gomap"
  newQuantity :: "int \<Rightarrow> 'q"
  parseQuantity :: "string \<Rightarrow> 'q option"

record taint =
  taint_Key :: string
  taint_Value :: string
  taint_Effect :: string

record vmPoolNodeTemplate =
  pt_AgentPoolName :: string
  pt_Taints :: "taint list"
  pt_Labels :: tags
  pt_OSDiskType :: "string option"

record vmssNodeTemplate =
  st_InputLabels :: "(string, string) gomap"
  st_InputTaints :: string
  st_Tags :: tags
  st_OSDisk :: "osDiskSettings option"

record nodeTemplate =
  nt_SkuName :: string
  nt_Architecture :: string
  nt_InstanceOS :: string
  nt_Location :: string
  nt_Zones :: "string list"
  nt_VMPool :: "vmPoolNodeTemplate option"
  nt_VMSS :: "vmssNodeTemplate option"

text \<open>
  The fields of the built node. \<open>Status.Allocatable\<close> is the same map as \<open>Status.Capacity\<close>, so
  one field stands for both.
\<close>

record 'q builtNode =
  bn_Name :: string
  bn_SelfLink :: string
  bn_Labels :: "(string, string) gomap"
  bn_Taints :: "taint list"
  bn_Capacity :: "(string, 'q) gomap"

section \<open>Instance types\<close>

text \<open>The regular expression \<open>(?i)_promo\<close>: a match, and the removal of every match.\<close>

definition matchesPromo :: "string \<Rightarrow> bool" where
  "matchesPromo s \<longleftrightarrow> strings_Contains (strings_ToLower s) ''_promo''"

function removePromo :: "string \<Rightarrow> string" where
  "removePromo s =
     (if s = [] then []
      else if prefix ''_promo'' (strings_ToLower s) then removePromo (drop 6 s)
      else hd s # removePromo (tl s))"
  by pat_completeness auto
termination by (relation "measure length") (auto simp: Suc_le_eq)

declare removePromo.simps [simp del]

definition GetInstanceTypeStatically :: "(string, instanceType) gomap \<Rightarrow> nodeTemplate \<Rightarrow> goerror + instanceType" where
  "GetInstanceTypeStatically instanceTypes template =
     (case (case findFold (nt_SkuName template) instanceTypes of
              Some kv \<Rightarrow> Some kv
            | None \<Rightarrow> if matchesPromo (nt_SkuName template)
                     then findFold (removePromo (nt_SkuName template)) instanceTypes else None) of
        None \<Rightarrow> Inl (Errorf ''instance type %q not supported'' [AStr (nt_SkuName template)])
      | Some (_, it) \<Rightarrow> Inr it)"

definition defaultArch :: string where "defaultArch = ''amd64''"
definition defaultOS :: string where "defaultOS = ''linux''"

text \<open>A missing or empty capability counts as no GPU; other errors are returned.\<close>

definition getGpuFromSku :: "skuEntry \<Rightarrow> goerror + int" where
  "getGpuFromSku sku = (case sku_GPUs sku of None \<Rightarrow> Inr 0 | Some r \<Rightarrow> r)"

definition instanceTypeOf :: "skuEntry \<Rightarrow> goerror + instanceType" where
  "instanceTypeOf sku =
     (case sku_VCPU sku of
        Inl e \<Rightarrow> Inl e
      | Inr vcpu \<Rightarrow>
          (case getGpuFromSku sku of
             Inl e \<Rightarrow> Inl e
           | Inr gpus \<Rightarrow>
               (case sku_MemoryGb sku of
                  Inl e \<Rightarrow> Inl e
                | Inr memoryGb \<Rightarrow>
                    (case sku_Arch sku of
                       Inl e \<Rightarrow> Inl e
                     | Inr arch \<Rightarrow>
                         Inr \<lparr>it_InstanceType = [], it_SkuFamily = [], it_VCPU = vcpu,
                              it_MemoryMb = i64 (memoryGb * 1024), it_GPU = gpus,
                              it_Architecture =
                                (if strings_ToLower arch = ''arm64'' then ''arm64'' else defaultArch)\<rparr>))))"

definition GetInstanceTypeDynamically :: "'e azClient \<Rightarrow> nodeTemplate \<Rightarrow> 'e world \<Rightarrow> goerror + instanceType" where
  "GetInstanceTypeDynamically az template w =
     (let name = nt_SkuName template; location = nt_Location template;
          unsupported = (\<lambda>e. Inl (Errorf ''instance type %q not supported. Error %v'' [AStr name, AErr e]))
      in case GetSKU az name location w of
           Inr sku \<Rightarrow> instanceTypeOf sku
         | Inl e \<Rightarrow>
             (let skuName = removePromo name
              in if skuName \<noteq> name
                 then (case GetSKU az skuName location w of
                         Inl e' \<Rightarrow> unsupported e'
                       | Inr sku \<Rightarrow> instanceTypeOf sku)
                 else unsupported e))"

definition NvidiaEnabledSKUs :: "string list" where
  "NvidiaEnabledSKUs =
     [''standard_nc6'', ''standard_nc12'', ''standard_nc24'', ''standard_nc24r'',
      ''standard_nv6'', ''standard_nv12'', ''standard_nv12s_v3'', ''standard_nv24'', ''standard_nv24s_v3'',
      ''standard_nv24r'', ''standard_nv48s_v3'',
      ''standard_nd6s'', ''standard_nd12s'', ''standard_nd24s'', ''standard_nd24rs'',
      ''standard_nc6s_v2'', ''standard_nc12s_v2'', ''standard_nc24s_v2'', ''standard_nc24rs_v2'',
      ''standard_nc6s_v3'', ''standard_nc12s_v3'', ''standard_nc24s_v3'', ''standard_nc24rs_v3'',
      ''standard_nd40s_v3'', ''standard_nd40rs_v2'',
      ''standard_nc4as_t4_v3'', ''standard_nc8as_t4_v3'', ''standard_nc16as_t4_v3'', ''standard_nc64as_t4_v3'',
      ''standard_nd96asr_v4'', ''standard_nd112asr_a100_v4'', ''standard_nd120asr_a100_v4'',
      ''standard_nd96amsr_a100_v4'', ''standard_nd112amsr_a100_v4'', ''standard_nd120amsr_a100_v4'',
      ''standard_nc24ads_a100_v4'', ''standard_nc48ads_a100_v4'', ''standard_nc96ads_a100_v4'']"

definition isNvidiaEnabledSKU :: "string \<Rightarrow> bool" where
  "isNvidiaEnabledSKU vmSize \<longleftrightarrow> strings_TrimSuffix (strings_ToLower vmSize) ''_promo'' \<in> set NvidiaEnabledSKUs"

definition isNPSeries :: "string \<Rightarrow> bool" where
  "isNPSeries name \<longleftrightarrow> strings_HasPrefix (strings_ToLower name) ''standard_np''"

section \<open>Labels and taints\<close>

definition nodeLabelTagName :: string where
  "nodeLabelTagName = ''k8s.io_cluster-autoscaler_node-template_label_''"
definition nodeTaintTagName :: string where
  "nodeTaintTagName = ''k8s.io_cluster-autoscaler_node-template_taint_''"
definition nodeResourcesTagName :: string where
  "nodeResourcesTagName = ''k8s.io_cluster-autoscaler_node-template_resources_''"

text \<open>The name that a tag encodes: an underscore stands for a slash and \<open>~2\<close> for an underscore.\<close>

definition decodeName :: "string \<Rightarrow> string" where
  "decodeName s = strings_ReplaceAll (strings_ReplaceAll s ''_'' ''/'') ''~2'' ''_''"

text \<open>The part of a tag name after the prefix; \<open>None\<close> when the prefix does not occur.\<close>

definition tagSuffix :: "string \<Rightarrow> string \<Rightarrow> string option" where
  "tagSuffix pre name = (case strings_Split name pre of _ # s # _ \<Rightarrow> Some s | _ \<Rightarrow> None)"

fun extractLabelsFromTags :: "tags \<Rightarrow> (string, string) gomap \<Rightarrow> (string, string) gomap go" where
  "extractLabelsFromTags [] result = Ok result"
| "extractLabelsFromTags ((name, v) # ts) result =
     (case tagSuffix nodeLabelTagName name of
        None \<Rightarrow> extractLabelsFromTags ts result
      | Some s \<Rightarrow>
          if decodeName s = '''' then extractLabelsFromTags ts result
          else (case v of
                  None \<Rightarrow> Panic
                | Some x \<Rightarrow> extractLabelsFromTags ts (mapSet (decodeName s) x result)))"

text \<open>A match of \<open>(.*):(?:NoSchedule|NoExecute|PreferNoSchedule)\<close> anywhere in the string.\<close>

definition matchesEffect :: "string \<Rightarrow> bool" where
  "matchesEffect s \<longleftrightarrow> strings_Contains s '':NoSchedule'' \<or> strings_Contains s '':NoExecute'' \<or>
     strings_Contains s '':PreferNoSchedule''"

text \<open>\<open>*tagValue\<close> is read for every tag.\<close>

fun extractTaintsFromTags :: "tags \<Rightarrow> taint list go" where
  "extractTaintsFromTags [] = Ok []"
| "extractTaintsFromTags ((name, v) # ts) =
     (case v of
        None \<Rightarrow> Panic
      | Some x \<Rightarrow>
          (case extractTaintsFromTags ts of
             Ok rest \<Rightarrow>
               (if matchesEffect x
                then (case (tagSuffix nodeTaintTagName name, strings_SplitN2 x '':'') of
                        (Some s, [a, b]) \<Rightarrow>
                          Ok (\<lparr>taint_Key = decodeName s, taint_Value = a, taint_Effect = b\<rparr> # rest)
                      | _ \<Rightarrow> Ok rest)
                else Ok rest)
           | Err e \<Rightarrow> Err e
           | Panic \<Rightarrow> Panic))"

definition constructTaintFromString :: "string \<Rightarrow> taint option" where
  "constructTaintFromString s =
     (case strings_Split s ''='' of
        [k, v] \<Rightarrow>
          if matchesEffect v
          then (case strings_SplitN2 v '':'' of
                  [a, b] \<Rightarrow> Some \<lparr>taint_Key = k, taint_Value = a, taint_Effect = b\<rparr>
                | _ \<Rightarrow> None)
          else None
      | _ \<Rightarrow> None)"

text \<open>The loop over the parts, which skips a part it has seen.\<close>

fun taintLoop :: "string list \<Rightarrow> string list \<Rightarrow> taint list" where
  "taintLoop seen [] = []"
| "taintLoop seen (s # ss) =
     (if s \<in> set seen then taintLoop seen ss
      else (case constructTaintFromString s of
              None \<Rightarrow> taintLoop (s # seen) ss
            | Some t \<Rightarrow> t # taintLoop (s # seen) ss))"

definition extractTaintsFromSpecString :: "string \<Rightarrow> taint list" where
  "extractTaintsFromSpecString s = taintLoop [] (strings_Split s '','')"

definition buildNodeTaintsForVMPool :: "string list \<Rightarrow> taint list" where
  "buildNodeTaintsForVMPool ts = List.map_filter constructTaintFromString ts"

text \<open>Here \<open>~2\<close> stands for a slash as well.\<close>

fun extractAllocatableResources :: "'q templateLib \<Rightarrow> tags \<Rightarrow> (string, 'q) gomap \<Rightarrow> (string, 'q) gomap go" where
  "extractAllocatableResources lib [] resources = Ok resources"
| "extractAllocatableResources lib ((name, v) # ts) resources =
     (case tagSuffix nodeResourcesTagName name of
        None \<Rightarrow> extractAllocatableResources lib ts resources
      | Some s \<Rightarrow>
          if s = '''' then extractAllocatableResources lib ts resources
          else (case v of
                  None \<Rightarrow> Panic
                | Some x \<Rightarrow>
                    (case parseQuantity lib x of
                       None \<Rightarrow> extractAllocatableResources lib ts resources
                     | Some q \<Rightarrow>
                         extractAllocatableResources lib ts
                           (mapSet (strings_ReplaceAll (strings_ReplaceAll s ''_'' ''/'') ''~2'' ''/'') q resources))))"

definition extractAllocatableResourcesFromScaleSet :: "'q templateLib \<Rightarrow> tags \<Rightarrow> (string, 'q) gomap go" where
  "extractAllocatableResourcesFromScaleSet lib ts = extractAllocatableResources lib ts []"

section \<open>The templates\<close>

definition buildNodeTemplateFromVMSS ::
  "vmss \<Rightarrow> (string, string) gomap \<Rightarrow> string \<Rightarrow> goerror + nodeTemplate" where
  "buildNodeTemplateFromVMSS s inputLabels inputTaints =
     (let profile = (case vmss_Properties s of None \<Rightarrow> None | Some pr \<Rightarrow> VirtualMachineProfile pr);
          instanceOS = (case profile of
                          Some vp \<Rightarrow> if OSProfile vp = Some True then ''windows'' else defaultOS
                        | None \<Rightarrow> defaultOS);
          disk = (case profile of
                    Some vp \<Rightarrow> (case StorageProfile vp of Some d \<Rightarrow> d | None \<Rightarrow> None)
                  | None \<Rightarrow> None)
      in case (case vmss_SKU s of None \<Rightarrow> None | Some k \<Rightarrow> sku_Name k) of
           None \<Rightarrow> Inl (Errorf ''VMSS %s has no SKU'' [AStr (derefStr (vmss_Name s))])
         | Some skuName \<Rightarrow>
             (case vmss_Location s of
                None \<Rightarrow> Inl (Errorf ''VMSS %s has no location'' [AStr (derefStr (vmss_Name s))])
              | Some location \<Rightarrow>
                  Inr \<lparr>nt_SkuName = skuName, nt_Architecture = '''', nt_InstanceOS = instanceOS,
                       nt_Location = location, nt_Zones = List.map_filter id (vmss_Zones s), nt_VMPool = None,
                       nt_VMSS = Some \<lparr>st_InputLabels = inputLabels, st_InputTaints = inputTaints,
                         st_Tags = vmss_Tags s, st_OSDisk = disk\<rparr>\<rparr>))"

text \<open>
  The labels of the specification are written over those of the agent pool. (The code writes them
  into the map of the agent pool itself; its only caller passes no labels.)
\<close>

definition buildNodeTemplateFromVMPool ::
  "aksAgentPool \<Rightarrow> string \<Rightarrow> string \<Rightarrow> (string, string) gomap \<Rightarrow> string \<Rightarrow> goerror + nodeTemplate" where
  "buildNodeTemplateFromVMPool pool location skuName labelsFromSpec taintsFromSpec =
     (case aks_Properties pool of
        None \<Rightarrow> Inl (Errorf ''vmsPool %s has nil properties'' [AStr (derefStr (aks_Name pool))])
      | Some pr \<Rightarrow>
          let taintsList = filter (\<lambda>t. t \<noteq> '''') (map derefStr (app_NodeTaints pr)) @
                (if taintsFromSpec \<noteq> '''' then [taintsFromSpec] else [])
          in Inr \<lparr>nt_SkuName = skuName, nt_Architecture = '''',
                  nt_InstanceOS = strings_ToLower (derefStr (app_OSType pr)),
                  nt_Location = location, nt_Zones = List.map_filter id (app_AvailabilityZones pr),
                  nt_VMPool = Some \<lparr>pt_AgentPoolName = derefStr (aks_Name pool),
                    pt_Taints = extractTaintsFromSpecString (strings_Join taintsList '',''),
                    pt_Labels = fold (\<lambda>(k, v). mapSet k (Some v)) labelsFromSpec (app_NodeLabels pr),
                    pt_OSDiskType = app_OSDiskType pr\<rparr>,
                  nt_VMSS = None\<rparr>)"

section \<open>The node\<close>

text \<open>The well-known labels and resources of Kubernetes, and those of AKS.\<close>

definition labelArch :: string where "labelArch = ''beta.kubernetes.io/arch''"
definition labelArchStable :: string where "labelArchStable = ''kubernetes.io/arch''"
definition labelOS :: string where "labelOS = ''beta.kubernetes.io/os''"
definition labelOSStable :: string where "labelOSStable = ''kubernetes.io/os''"
definition labelInstanceType :: string where "labelInstanceType = ''beta.kubernetes.io/instance-type''"
definition labelInstanceTypeStable :: string where "labelInstanceTypeStable = ''node.kubernetes.io/instance-type''"
definition labelZoneRegion :: string where "labelZoneRegion = ''failure-domain.beta.kubernetes.io/region''"
definition labelTopologyRegion :: string where "labelTopologyRegion = ''topology.kubernetes.io/region''"
definition labelZoneFailureDomain :: string where "labelZoneFailureDomain = ''failure-domain.beta.kubernetes.io/zone''"
definition labelTopologyZone :: string where "labelTopologyZone = ''topology.kubernetes.io/zone''"
definition labelHostname :: string where "labelHostname = ''kubernetes.io/hostname''"
definition resourceNvidiaGPU :: string where "resourceNvidiaGPU = ''nvidia.com/gpu''"

definition aksPrefix :: string where "aksPrefix = ''kubernetes.azure.com/''"
definition azureDiskTopologyKey :: string where "azureDiskTopologyKey = ''topology.disk.csi.azure.com/zone''"
definition xilinxFpgaResourceName :: string where
  "xilinxFpgaResourceName = ''xilinx.com/fpga-xilinx_u250_gen3x16_xdma_shell_2_1-0''"
definition legacyPoolNameTag :: string where "legacyPoolNameTag = ''poolName''"
definition poolNameTag :: string where "poolNameTag = ''aks-managed-poolName''"
definition legacyAgentPoolNodeLabelKey :: string where "legacyAgentPoolNodeLabelKey = ''agentpool''"
definition agentPoolNodeLabelKey :: string where "agentPoolNodeLabelKey = aksPrefix @ ''agentpool''"
definition legacyStorageProfileNodeLabelKey :: string where "legacyStorageProfileNodeLabelKey = ''storageprofile''"
definition storageProfileNodeLabelKey :: string where "storageProfileNodeLabelKey = aksPrefix @ ''storageprofile''"
definition legacyStorageTierNodeLabelKey :: string where "legacyStorageTierNodeLabelKey = ''storagetier''"
definition storageTierNodeLabelKey :: string where "storageTierNodeLabelKey = aksPrefix @ ''storagetier''"
definition GPULabel :: string where "GPULabel = aksPrefix @ ''accelerator''"
definition legacyGPULabel :: string where "legacyGPULabel = ''accelerator''"

definition setBoth :: "string \<Rightarrow> string \<Rightarrow> string \<Rightarrow> (string, string) gomap \<Rightarrow> (string, string) gomap" where
  "setBoth k k' v m = mapSet k' v (mapSet k v m)"

text \<open>A random zone is chosen by \<open>rand.Intn\<close> when there are zones.\<close>

definition buildGenericLabels ::
  "'e azClient \<Rightarrow> nodeTemplate \<Rightarrow> string \<Rightarrow> 'e world \<Rightarrow> (string, string) gomap \<times> 'e world" where
  "buildGenericLabels az t nodeName w =
     (let region = strings_ToLower (nt_Location t);
          base = setBoth labelZoneRegion labelTopologyRegion region
                   (setBoth labelInstanceType labelInstanceTypeStable (nt_SkuName t)
                     (setBoth labelOS labelOSStable (nt_InstanceOS t)
                       (setBoth labelArch labelArchStable (nt_Architecture t) [])));
          failureDomains = map (\<lambda>z. region @ ''-'' @ z) (nt_Zones t)
      in if failureDomains = []
         then (mapSet labelHostname nodeName
                (mapSet azureDiskTopologyKey '''' (setBoth labelZoneFailureDomain labelTopologyZone ''0'' base)), w)
         else (case call (randIntn az (int (length failureDomains))) w of
                 (k, w1) \<Rightarrow>
                   let randomZone = failureDomains ! nat k
                   in (mapSet labelHostname nodeName
                        (mapSet azureDiskTopologyKey randomZone
                          (setBoth labelZoneFailureDomain labelTopologyZone randomZone base)), w1)))"

definition processVMPoolTemplate ::
  "'q templateLib \<Rightarrow> 'e azClient \<Rightarrow> nodeTemplate \<Rightarrow> vmPoolNodeTemplate \<Rightarrow> string \<Rightarrow> 'q builtNode \<Rightarrow> 'e world \<Rightarrow>
     'q builtNode \<times> 'e world" where
  "processVMPoolTemplate lib az t pt nodeName node w =
     (case buildGenericLabels az t nodeName w of
        (generic, w1) \<Rightarrow>
          let labels = fold (\<lambda>(k, v). mapSet k (derefStr v)) (pt_Labels pt)
                (mapSet agentPoolNodeLabelKey (pt_AgentPoolName pt) generic)
          in (node\<lparr>bn_Labels := joinStringMaps lib (bn_Labels node) labels, bn_Taints := pt_Taints pt\<rparr>, w1))"

text \<open>The labels that AKS will put on the node, as far as they can be predicted.\<close>

definition predictPoolLabels ::
  "(string, string) gomap \<Rightarrow> (string, string) gomap \<Rightarrow> (string, string) gomap" where
  "predictPoolLabels nodeLabels labels =
     (let legacyName = getStr nodeLabels legacyPoolNameTag; name = getStr nodeLabels poolNameTag;
          labels1 = (if legacyName \<noteq> ''''
                     then setBoth legacyAgentPoolNodeLabelKey agentPoolNodeLabelKey legacyName labels else labels)
      in if name \<noteq> '''' then setBoth legacyAgentPoolNodeLabelKey agentPoolNodeLabelKey name labels1 else labels1)"

definition predictStorageLabels :: "osDiskSettings option \<Rightarrow> (string, string) gomap \<Rightarrow> (string, string) gomap" where
  "predictStorageLabels disk labels =
     (case disk of
        None \<Rightarrow> labels
      | Some d \<Rightarrow>
          let profile = (if DiffDiskSettings d = Some (Some DiffDiskOptionsLocal) then ''ephemeral'' else ''managed'');
              labels1 = setBoth legacyStorageProfileNodeLabelKey storageProfileNodeLabelKey profile labels
          in case StorageAccountType d of
               Some (Some tier) \<Rightarrow> setBoth legacyStorageTierNodeLabelKey storageTierNodeLabelKey tier labels1
             | _ \<Rightarrow> labels1)"

definition predictLabels ::
  "nodeTemplate \<Rightarrow> vmssNodeTemplate \<Rightarrow> (string, string) gomap \<Rightarrow> (string, string) gomap \<Rightarrow> (string, string) gomap" where
  "predictLabels t st nodeLabels labels =
     (let labels1 = predictStorageLabels (st_OSDisk st) (predictPoolLabels nodeLabels labels)
      in if isNvidiaEnabledSKU (nt_SkuName t) then setBoth GPULabel legacyGPULabel ''nvidia'' labels1 else labels1)"

definition diskCapacity :: "'q templateLib \<Rightarrow> osDiskSettings option \<Rightarrow> (string, 'q) gomap \<Rightarrow> (string, 'q) gomap" where
  "diskCapacity lib disk capacity =
     (case disk of
        None \<Rightarrow> capacity
      | Some d \<Rightarrow>
          (case DiskSizeGB d of
             None \<Rightarrow> capacity
           | Some n \<Rightarrow> mapSet ''ephemeral-storage'' (newQuantity lib (i64 (n * 1024 * 1024 * 1024))) capacity))"

definition processVMSSTemplate ::
  "'q templateLib \<Rightarrow> 'e azClient \<Rightarrow> nodeTemplate \<Rightarrow> vmssNodeTemplate \<Rightarrow> string \<Rightarrow> 'q builtNode \<Rightarrow> bool \<Rightarrow>
     'e world \<Rightarrow> 'q builtNode go \<times> 'e world" where
  "processVMSSTemplate lib az t st nodeName node enableLabelPrediction w =
     (let tagLabels = fold (\<lambda>(k, v). mapSet k (derefStr v)) (st_Tags st) (bn_Labels node)
      in case buildGenericLabels az t nodeName w of
           (generic, w1) \<Rightarrow>
             let nodeLabels = joinStringMaps lib tagLabels generic
             in case (if st_InputLabels st \<noteq> [] then Ok (st_InputLabels st)
                      else extractLabelsFromTags (st_Tags st) []) of
                  Panic \<Rightarrow> (Panic, w1)
                | Err e \<Rightarrow> (Err e, w1)
                | Ok labels0 \<Rightarrow>
                    let labels = (if enableLabelPrediction then predictLabels t st nodeLabels labels0 else labels0)
                    in case extractAllocatableResourcesFromScaleSet lib (st_Tags st) of
                         Panic \<Rightarrow> (Panic, w1)
                       | Err e \<Rightarrow> (Err e, w1)
                       | Ok resources \<Rightarrow>
                           (case (if st_InputTaints st \<noteq> ''''
                                  then Ok (extractTaintsFromSpecString (st_InputTaints st))
                                  else extractTaintsFromTags (st_Tags st)) of
                              Panic \<Rightarrow> (Panic, w1)
                            | Err e \<Rightarrow> (Err e, w1)
                            | Ok taints \<Rightarrow>
                                (Ok (node\<lparr>bn_Labels := joinStringMaps lib nodeLabels labels,
                                   bn_Capacity := fold (\<lambda>(k, q). mapSet k q) resources
                                     (diskCapacity lib (st_OSDisk st) (bn_Capacity node)),
                                   bn_Taints := taints\<rparr>), w1)))"

text \<open>The SKU API first when it is enabled, the static table otherwise and after an error.\<close>

definition instanceTypeFor ::
  "(string, instanceType) gomap \<Rightarrow> 'e azClient \<Rightarrow> nodeTemplate \<Rightarrow> bool \<Rightarrow> 'e world \<Rightarrow> goerror + instanceType" where
  "instanceTypeFor instanceTypes az t dynamicList w =
     (case (if dynamicList then GetInstanceTypeDynamically az t w else Inl (Errorf '''' [])) of
        Inr it \<Rightarrow> Inr it
      | Inl _ \<Rightarrow> GetInstanceTypeStatically instanceTypes t)"

definition sizeCapacity :: "'q templateLib \<Rightarrow> string \<Rightarrow> instanceType \<Rightarrow> (string, 'q) gomap" where
  "sizeCapacity lib skuName it =
     mapSet ''memory'' (newQuantity lib (i64 (it_MemoryMb it * 1024 * 1024)))
       (mapSet (if isNPSeries skuName then xilinxFpgaResourceName else resourceNvidiaGPU) (newQuantity lib (it_GPU it))
         (mapSet ''cpu'' (newQuantity lib (it_VCPU it)) (mapSet ''pods'' (newQuantity lib 110) [])))"

definition buildNodeFromTemplate ::
  "'q templateLib \<Rightarrow> (string, instanceType) gomap \<Rightarrow> 'e azClient \<Rightarrow> string \<Rightarrow> nodeTemplate \<Rightarrow> bool \<Rightarrow> bool \<Rightarrow>
     'e world \<Rightarrow> 'q builtNode go \<times> 'e world" where
  "buildNodeFromTemplate lib instanceTypes az nodeGroupName t0 dynamicList labelPrediction w =
     (case call (randInt63 az) w of
        (n, w1) \<Rightarrow>
          let nodeName = nodeGroupName @ ''-asg-'' @ fmtInt n
          in case instanceTypeFor instanceTypes az t0 dynamicList w1 of
               Inl e \<Rightarrow> (Err e, w1)
             | Inr it \<Rightarrow>
                 let t = t0\<lparr>nt_Architecture := it_Architecture it\<rparr>;
                     node = \<lparr>bn_Name = nodeName, bn_SelfLink = ''/api/v1/nodes/'' @ nodeName, bn_Labels = [],
                             bn_Taints = [], bn_Capacity = sizeCapacity lib (nt_SkuName t) it\<rparr>
                 in case nt_VMSS t of
                      Some st \<Rightarrow> processVMSSTemplate lib az t st nodeName node labelPrediction w1
                    | None \<Rightarrow>
                        (case nt_VMPool t of
                           Some pt \<Rightarrow> (case processVMPoolTemplate lib az t pt nodeName node w1 of (r, w2) \<Rightarrow> (Ok r, w2))
                         | None \<Rightarrow>
                             (Err (Errorf ''invalid node template: missing both VMSS and VMPool templates'' []), w1)))"

text \<open>\<open>TemplateNodeInfo\<close> of a scale set and of a VMs pool, up to the pod that \<open>BuildKubeProxy\<close> adds.\<close>

definition ss_TemplateNodeInfo ::
  "'q templateLib \<Rightarrow> (string, instanceType) gomap \<Rightarrow> 'e azClient \<Rightarrow> addr \<Rightarrow> 'e world \<Rightarrow> 'q builtNode go \<times> 'e world" where
  "ss_TemplateNodeInfo lib instanceTypes az p w =
     (case getVMSSFromCache p w of
        Panic \<Rightarrow> (Panic, w)
      | Err e \<Rightarrow> (Err e, w)
      | Ok v \<Rightarrow>
          (case buildNodeTemplateFromVMSS (vmssAt w v) [] '''' of
             Inl e \<Rightarrow> (Err e, w)
           | Inr t \<Rightarrow>
               buildNodeFromTemplate lib instanceTypes az (ss_Name (ssAt w p)) t
                 (enableDynamicInstanceList (ssAt w p)) (enableLabelPredictionsOnTemplate (ssAt w p)) w))"

definition vp_TemplateNodeInfo ::
  "'q templateLib \<Rightarrow> (string, instanceType) gomap \<Rightarrow> 'e azClient \<Rightarrow> addr \<Rightarrow> 'e world \<Rightarrow> 'q builtNode go \<times> 'e world" where
  "vp_TemplateNodeInfo lib instanceTypes az p w =
     (case getAgentpoolFromCache p w of
        Panic \<Rightarrow> (Panic, w)
      | Err e \<Rightarrow> (Err e, w)
      | Ok pool \<Rightarrow>
          (case buildNodeTemplateFromVMPool pool (Location (provider (config w))) (vp_sku (vpAt w p)) [] '''' of
             Inl e \<Rightarrow> (Err e, w)
           | Inr t \<Rightarrow>
               buildNodeFromTemplate lib instanceTypes az (vp_agentPoolName (vpAt w p)) t
                 (EnableDynamicInstanceList (config w)) False w))"

section \<open>Facts on replacement\<close>

lemma strings_Index_single: "strings_Index s [c] = None \<longleftrightarrow> c \<notin> set s"
  by (induction s) auto

lemma strings_Index_hd: "sub \<noteq> [] \<Longrightarrow> c \<noteq> hd sub \<Longrightarrow> strings_Index (c # cs) sub = map_option Suc (strings_Index cs sub)"
  by (cases sub) (auto simp: prefix_Cons)

lemma Split_None: "sep \<noteq> [] \<Longrightarrow> strings_Index s sep = None \<Longrightarrow> strings_Split s sep = [s]"
  by (simp add: strings_Split.simps [of s])

lemma Split_here: "sep \<noteq> [] \<Longrightarrow> strings_Split (sep @ t) sep = [] # strings_Split t sep"
proof -
  assume s: "sep \<noteq> []"
  have "strings_Index (sep @ t) sep = Some 0"
  proof (cases "sep @ t")
    case (Cons c cs)
    then have "prefix sep (c # cs)" by (metis prefixI)
    then show ?thesis using Cons by simp
  qed (use s in simp)
  then show ?thesis using s by (simp add: strings_Split.simps [of "sep @ t"])
qed

lemma Split_skip:
  assumes "sep \<noteq> []" and "\<not> prefix sep (c # cs)"
  shows "strings_Split (c # cs) sep = (c # hd (strings_Split cs sep)) # tl (strings_Split cs sep)"
proof (cases "strings_Index cs sep")
  case None
  then show ?thesis using assms by (simp add: Split_None strings_Split.simps [of "c # cs"])
next
  case (Some i)
  then show ?thesis using assms by (simp add: strings_Split.simps [of "c # cs"] strings_Split.simps [of cs])
qed

lemma Join_hd: "strings_Join ((c # x) # xs) sep = c # strings_Join (x # xs) sep"
  by (cases xs) auto

lemma ReplaceAll_Nil [simp]: "old \<noteq> [] \<Longrightarrow> strings_ReplaceAll [] old new = []"
  by (simp add: strings_ReplaceAll_def Split_None)

lemma ReplaceAll_here: "old \<noteq> [] \<Longrightarrow> strings_ReplaceAll (old @ t) old new = new @ strings_ReplaceAll t old new"
  using strings_Split_nonempty [of old t] by (simp add: strings_ReplaceAll_def Split_here strings_Join_Cons)

lemma ReplaceAll_skip:
  assumes "old \<noteq> []" and "\<not> prefix old (c # cs)"
  shows "strings_ReplaceAll (c # cs) old new = c # strings_ReplaceAll cs old new"
  using strings_Split_nonempty [OF assms(1), of cs]
  by (simp add: strings_ReplaceAll_def Split_skip [OF assms] Join_hd)

lemma ReplaceAll_char:
  "strings_ReplaceAll s [c] new = concat (map (\<lambda>x. if x = c then new else [x]) s)"
proof (induction s)
  case (Cons x s)
  then show ?case
    using ReplaceAll_here [of "[c]" s new] ReplaceAll_skip [of "[c]" x s new] by (cases "x = c") auto
qed simp

text \<open>Replacing a pattern removes no character but those of the pattern and adds only those of the new text.\<close>

lemma ReplaceAll_set:
  "old \<noteq> [] \<Longrightarrow> set (strings_ReplaceAll s old new) \<subseteq> set s \<union> set new"
proof (induction "length s" arbitrary: s rule: less_induct)
  case less
  show ?case
  proof (cases s)
    case Nil
    then show ?thesis using less(2) by simp
  next
    case (Cons c cs)
    show ?thesis
    proof (cases "prefix old s")
      case True
      then obtain t where t: "s = old @ t" by (auto simp: prefix_def)
      then have "length t < length s" using less(2) by (cases old) auto
      then show ?thesis using less(1) [OF _ less(2), of t] ReplaceAll_here [OF less(2), of t new] t by auto
    next
      case False
      then show ?thesis using less(1) [OF _ less(2), of cs] ReplaceAll_skip [OF less(2), of c cs new] Cons by auto
    qed
  qed
qed

section \<open>Facts on names\<close>

text \<open>The encoding of a label name that the documentation of the provider describes.\<close>

definition encodeName :: "string \<Rightarrow> string" where
  "encodeName n = concat (map (\<lambda>c. if c = CHR ''_'' then ''~2'' else if c = CHR ''/'' then ''_'' else [c]) n)"

lemma decode_encode_aux:
  "CHR ''~'' \<notin> set n \<Longrightarrow>
     strings_ReplaceAll (concat (map (\<lambda>c. if c = CHR ''_'' then ''~2'' else [c]) n)) ''~2'' ''_'' = n"
proof (induction n)
  case (Cons c n)
  show ?case
  proof (cases "c = CHR ''_''")
    case True
    then show ?thesis using Cons ReplaceAll_here [of "''~2''"] by simp
  next
    case False
    then show ?thesis using Cons ReplaceAll_skip [of "''~2''" c] by auto
  qed
qed simp

lemma decode_encode: "CHR ''~'' \<notin> set n \<Longrightarrow> decodeName (encodeName n) = n"
proof -
  assume n: "CHR ''~'' \<notin> set n"
  have "strings_ReplaceAll (encodeName n) ''_'' ''/'' = concat (map (\<lambda>c. if c = CHR ''_'' then ''~2'' else [c]) n)"
    unfolding ReplaceAll_char encodeName_def by (induction n) auto
  then show ?thesis using decode_encode_aux [OF n] by (simp add: decodeName_def)
qed

lemma Split_prefix_tag:
  assumes "pre \<noteq> []" and "strings_Index s pre = None"
  shows "tagSuffix pre (pre @ s) = Some s"
  using assms by (simp add: tagSuffix_def Split_here Split_None)

section \<open>Facts on taints\<close>

text \<open>The text of a taint, and the taints whose text is read back.\<close>

definition formatTaint :: "taint \<Rightarrow> string" where
  "formatTaint t = taint_Key t @ ''='' @ taint_Value t @ '':'' @ taint_Effect t"

definition wellFormedTaint :: "taint \<Rightarrow> bool" where
  "wellFormedTaint t \<longleftrightarrow>
     set (taint_Key t) \<inter> {CHR ''='', CHR '',''} = {} \<and>
     set (taint_Value t) \<inter> {CHR ''='', CHR '','', CHR '':''} = {} \<and>
     taint_Effect t \<in> {''NoSchedule'', ''NoExecute'', ''PreferNoSchedule''}"

lemma Index_append_char: "c \<notin> set a \<Longrightarrow> strings_Index (a @ c # b) [c] = Some (length a)"
  by (induction a) auto

lemma Split_append_char: "c \<notin> set a \<Longrightarrow> strings_Split (a @ c # b) [c] = a # strings_Split b [c]"
  by (simp add: strings_Split.simps [of "a @ c # b"] Index_append_char)

lemma SplitN2_append_char: "c \<notin> set a \<Longrightarrow> strings_SplitN2 (a @ c # b) [c] = [a, b]"
  by (simp add: strings_SplitN2_def Index_append_char)

lemma construct_format: "wellFormedTaint t \<Longrightarrow> constructTaintFromString (formatTaint t) = Some t"
proof -
  assume w: "wellFormedTaint t"
  let ?v = "taint_Value t @ CHR '':'' # taint_Effect t"
  have e: "CHR ''='' \<notin> set (taint_Effect t)" using w by (auto simp: wellFormedTaint_def)
  have k: "CHR ''='' \<notin> set (taint_Key t)" "CHR ''='' \<notin> set ?v" "CHR '':'' \<notin> set (taint_Value t)"
    using w e by (auto simp: wellFormedTaint_def)
  have s: "strings_Split (formatTaint t) ''='' = [taint_Key t, ?v]"
    using k by (simp add: formatTaint_def Split_append_char Split_None strings_Index_single)
  have "matchesEffect ?v"
  proof -
    have "strings_Contains ?v (CHR '':'' # taint_Effect t)"
      unfolding strings_Contains_iff by (intro exI [of _ "taint_Value t"] exI [of _ "[]"]) simp
    then show ?thesis using w by (auto simp: wellFormedTaint_def matchesEffect_def)
  qed
  then show ?thesis using s k(3) by (simp add: constructTaintFromString_def SplitN2_append_char)
qed

lemma Split_Join:
  "xs \<noteq> [] \<Longrightarrow> \<forall>x \<in> set xs. c \<notin> set x \<Longrightarrow> strings_Split (strings_Join xs [c]) [c] = xs"
proof (induction xs)
  case (Cons x xs)
  show ?case
  proof (cases xs)
    case Nil
    then show ?thesis using Cons.prems by (simp add: Split_None strings_Index_single)
  next
    case (Cons y ys)
    have "strings_Split (strings_Join xs [c]) [c] = xs"
      using Cons Cons.prems by (intro Cons.IH) auto
    then show ?thesis using Cons Cons.prems by (simp add: Split_append_char)
  qed
qed simp

lemma taintLoop_all:
  "distinct ss \<Longrightarrow> set ss \<inter> set seen = {} \<Longrightarrow> taintLoop seen ss = List.map_filter constructTaintFromString ss"
proof (induction ss arbitrary: seen)
  case (Cons s ss)
  then have "taintLoop (s # seen) ss = List.map_filter constructTaintFromString ss" by (intro Cons.IH) auto
  then show ?case using Cons.prems by (auto simp: List.map_filter_simps split: option.splits)
qed (simp add: List.map_filter_simps)

lemma formatTaint_inj: "inj_on formatTaint {t. wellFormedTaint t}"
  by (rule inj_onI) (metis construct_format mem_Collect_eq option.inject)

lemma formatTaint_comma: "wellFormedTaint t \<Longrightarrow> CHR '','' \<notin> set (formatTaint t)"
  by (auto simp: wellFormedTaint_def formatTaint_def)

lemma map_filter_Some: "\<forall>x \<in> set xs. f (g x) = Some x \<Longrightarrow> List.map_filter f (map g xs) = xs"
  by (induction xs) (auto simp: List.map_filter_simps)

section \<open>Facts on resources\<close>

definition noUnderscores :: "(string, 'q) gomap \<Rightarrow> bool" where
  "noUnderscores m \<longleftrightarrow> (\<forall>k \<in> set (keys m). CHR ''_'' \<notin> set k)"

lemma resourceName_underscore:
  "CHR ''_'' \<notin> set (strings_ReplaceAll (strings_ReplaceAll s ''_'' ''/'') ''~2'' ''/'')"
proof -
  have "CHR ''_'' \<notin> set (strings_ReplaceAll s ''_'' ''/'')" by (auto simp: ReplaceAll_char split: if_splits)
  then show ?thesis using ReplaceAll_set [of "''~2''" "strings_ReplaceAll s ''_'' ''/''" "''/''"] by auto
qed

lemma extractAllocatable_names:
  "extractAllocatableResources lib ts m = Ok r \<Longrightarrow> noUnderscores m \<Longrightarrow> noUnderscores r"
proof (induction lib ts m rule: extractAllocatableResources.induct)
  case (2 lib name v ts m)
  have step: "noUnderscores (mapSet (strings_ReplaceAll (strings_ReplaceAll s ''_'' ''/'') ''~2'' ''/'') q m)" for s q
    using "2.prems"(2) resourceName_underscore by (auto simp: noUnderscores_def keys_mapSet)
  show ?case
    using "2.prems" "2.IH" step by (auto split: option.splits if_splits)
qed simp

section \<open>Sample values\<close>

definition sampleLib :: "int templateLib" where
  "sampleLib = \<lparr>joinStringMaps = (\<lambda>a b. fold (\<lambda>(k, v). mapSet k v) b a), newQuantity = (\<lambda>n. n),
     parseQuantity = (\<lambda>s. strconv_Atoi s)\<rparr>"

definition sampleTaints :: "taint list" where
  "sampleTaints = [\<lparr>taint_Key = ''dedicated'', taint_Value = ''foo'', taint_Effect = ''NoSchedule''\<rparr>,
     \<lparr>taint_Key = ''group'', taint_Value = ''bar'', taint_Effect = ''NoExecute''\<rparr>]"

section \<open>Properties\<close>

text \<open>
  C34. Label and taint names survive the encoding that the documentation prescribes for tag names
  (slash to underscore, underscore to \<open>~2\<close>), for every name without a tilde.
\<close>

theorem label_name_roundtrip:
  assumes "CHR ''~'' \<notin> set n" and "n \<noteq> []" and "strings_Index (encodeName n) nodeLabelTagName = None"
  shows "extractLabelsFromTags [(nodeLabelTagName @ encodeName n, Some v)] [] = Ok [(n, v)]"
proof -
  have "tagSuffix nodeLabelTagName (nodeLabelTagName @ encodeName n) = Some (encodeName n)"
    using assms(3) by (intro Split_prefix_tag) (simp_all add: nodeLabelTagName_def)
  then show ?thesis using decode_encode [OF assms(1)] assms(2) by simp
qed

theorem label_name_roundtrip_witness:
  "extractLabelsFromTags [(nodeLabelTagName @ encodeName ''k8s.io/cpu_arch'', Some ''arm'')] [] =
     Ok [(''k8s.io/cpu_arch'', ''arm'')]"
  by (rule label_name_roundtrip) code_simp+

text \<open>
  C35. The taints written in the format of \<open>--register-with-taints\<close> and joined by commas are read
  back, in their order, when they are pairwise different.
\<close>

theorem taints_roundtrip:
  assumes "distinct ts" and "list_all wellFormedTaint ts" and "ts \<noteq> []"
  shows "extractTaintsFromSpecString (strings_Join (map formatTaint ts) '','') = ts"
proof -
  have "strings_Split (strings_Join (map formatTaint ts) '','') '','' = map formatTaint ts"
    using assms(2,3) formatTaint_comma by (intro Split_Join) (auto simp: list_all_iff)
  moreover have "distinct (map formatTaint ts)"
    using assms(1,2) inj_on_subset [OF formatTaint_inj, of "set ts"] by (auto simp: distinct_map list_all_iff)
  ultimately show ?thesis
    using assms(2) construct_format
    by (simp add: extractTaintsFromSpecString_def taintLoop_all map_filter_Some list_all_iff)
qed

theorem taints_roundtrip_witness:
  "extractTaintsFromSpecString (strings_Join (map formatTaint sampleTaints) '','') = sampleTaints"
  by (rule taints_roundtrip) code_simp+

text \<open>
  A taint whose effect only starts with a valid one, or that has a colon in its value, is
  accepted with an effect that Kubernetes does not know, although the comment promises an empty
  taint for a string in the wrong format: the regular expression is not anchored and the string
  is split at the first colon.
\<close>

theorem invalid_effect_accepted:
  "constructTaintFromString ''k=v:NoScheduleNow'' =
     Some \<lparr>taint_Key = ''k'', taint_Value = ''v'', taint_Effect = ''NoScheduleNow''\<rparr> \<and>
   constructTaintFromString ''k=a:b:NoSchedule'' =
     Some \<lparr>taint_Key = ''k'', taint_Value = ''a'', taint_Effect = ''b:NoSchedule''\<rparr>"
  by (intro conjI; code_simp)

text \<open>
  Reading the taints of a scale set panics exactly when some tag, of whatever name, has a nil
  value, although the copy of the same tags into the labels allows for nil values; otherwise the
  taints are those of the taint tags with a recognised effect, in the order of the tags.
\<close>

theorem nil_tag_panics:
  "extractTaintsFromTags ts = (if \<exists>n. (n, None) \<in> set ts then Panic
     else Ok (List.map_filter (\<lambda>(n, v). if matchesEffect (the v) then
       (case (tagSuffix nodeTaintTagName n, strings_SplitN2 (the v) '':'') of
          (Some s, [a, b]) \<Rightarrow> Some \<lparr>taint_Key = decodeName s, taint_Value = a, taint_Effect = b\<rparr>
        | _ \<Rightarrow> None) else None) ts))"
proof (induction ts)
  case (Cons t ts)
  obtain n v where "t = (n, v)" by (cases t)
  with Cons show ?case
    by (cases v) (auto simp: List.map_filter_simps split: option.splits list.splits)
qed (simp add: List.map_filter_simps)

text \<open>
  No tag can set the capacity of a resource whose name has an underscore, since \<open>~2\<close> is decoded
  to a slash here; the name of the FPGA resource that the provider itself uses is one.
\<close>

theorem resource_names_without_underscore:
  assumes "extractAllocatableResourcesFromScaleSet lib ts = Ok r"
  shows "(\<forall>k \<in> set (keys r). CHR ''_'' \<notin> set k) \<and> xilinxFpgaResourceName \<notin> set (keys r)"
proof -
  have "noUnderscores r"
    using extractAllocatable_names [of lib ts "[]" r] assms
    by (simp add: extractAllocatableResourcesFromScaleSet_def noUnderscores_def keys_def)
  moreover have "CHR ''_'' \<in> set xilinxFpgaResourceName" by code_simp
  ultimately show ?thesis by (auto simp: noUnderscores_def)
qed

theorem resource_names_without_underscore_witness:
  "xilinxFpgaResourceName \<notin> set (keys [(''cpu'', 4::int)])"
proof -
  have "extractAllocatableResourcesFromScaleSet sampleLib [(nodeResourcesTagName @ ''cpu'', Some ''4'')] = Ok [(''cpu'', 4)]"
    by code_simp
  from resource_names_without_underscore [OF this] show ?thesis by blast
qed

end
