(* ===== verification/Azure_Config.thy ===== *)
theory Azure_Config
  imports Node_Template
begin

text \<open>
  \<open>azure_config.go\<close>: the configuration from static defaults, the configuration file, its legacy
  fields and the environment variables, each overriding the one before, and its validation.

  The decoder of the configuration file, the metadata service and the file of the deployment
  parameters are outside the repository: they are the fields of \<open>configLib\<close>.
\<close>

section \<open>What the configuration is read from\<close>

record configLib =
  configReader :: "(goerror + string) option"   \<comment> \<open>reading the whole file; \<open>None\<close> without a file\<close>
  jsonUnmarshal :: "string \<Rightarrow> Config \<Rightarrow> goerror + Config"  \<comment> \<open>decoding it over the fields already set\<close>
  lookupEnv :: "string \<Rightarrow> string option"
  parseFloatOk :: "nat \<Rightarrow> string \<Rightarrow> bool"              \<comment> \<open>whether \<open>strconv.ParseFloat\<close> succeeds\<close>
  subscriptionFromMetadata :: "goerror + string"
  readJSONFile :: "string \<Rightarrow> goerror + (string, json) gomap"  \<comment> \<open>reading and decoding a file\<close>
  BackoffRetriesDefault :: int
  BackoffExponentDefault :: string
  BackoffDurationDefault :: int
  BackoffJitterDefault :: string

text \<open>
  The zero value \<open>&Config{}\<close>. A floating point field holds the text it was read from, empty for
  the zero value: the program only passes these fields on.
\<close>

definition zeroConfig :: Config where
  "zeroConfig =
     \<lparr>provider = \<lparr>Cloud = '''', Location = '''', ResourceGroup = '''', TenantID = '''',
        SubscriptionID = '''', AADClientID = '''', AADClientSecret = '''', AADClientCertPath = '''',
        AADClientCertPassword = '''', AADFederatedTokenFile = '''', UserAssignedIdentityID = '''',
        VMType = '''', UseManagedIdentityExtension = False,
        UseFederatedWorkloadIdentityExtension = False, DisableAzureStackCloud = False, VmssCacheTTLInSeconds = 0,
        VmssVirtualMachinesCacheTTLInSeconds = 0, EnableVmssFlexNodes = False,
        CloudProviderBackoff = False, CloudProviderBackoffRetries = 0,
        CloudProviderBackoffExponent = '''', CloudProviderBackoffJitter = '''', CloudProviderBackoffDuration = 0,
        CloudProviderRateLimit = False, CloudProviderRateLimitBucket = 0,
        CloudProviderRateLimitBucketWrite = 0, CloudProviderRateLimitQPS = '''',
        CloudProviderRateLimitQPSWrite = ''''\<rparr>,
      legacy = \<lparr>UseWorkloadIdentityExtension = None, VmssCacheTTL = None, VmssVmsCacheTTL = None,
        EnableVmssFlex = None\<rparr>,
      ClusterName = '''', ClusterResourceGroup = '''', ARMBaseURLForAPClient = '''',
      HostedSubscriptionID = '''', HostedResourceGroup = '''', HostedResourceProxyURL = '''',
      AuthMethod = '''', Deployment = '''', DeploymentParameters = None, VmssVmsCacheJitter = 0,
      MaxDeploymentsCount = 0, EnableForceDelete = False, EnableVMsAgentPool = False,
      EnableDynamicInstanceList = False, EnableDetailedCSEMessage = False, GetVmssSizeRefreshPeriod = 0,
      StrictCacheUpdates = False, EnableFastDeleteOnFailedProvisioning = False,
      EnableLabelPredictionsOnTemplate = False, EnableVMSSEtag = False\<rparr>"

definition deploymentParametersPath :: string where
  "deploymentParametersPath = ''/var/lib/azure/azuredeploy.parameters.json''"
definition authMethodPrincipal :: string where "authMethodPrincipal = ''principal''"
definition authMethodCLI :: string where "authMethodCLI = ''cli''"
definition defaultMaxDeploymentsCount :: int where "defaultMaxDeploymentsCount = 10"

text \<open>The type assertion on the member \<open>parameters\<close> panics when it is not an object.\<close>

definition readDeploymentParameters :: "configLib \<Rightarrow> string \<Rightarrow> (string, json) gomap go" where
  "readDeploymentParameters lib path =
     (case readJSONFile lib path of
        Inl e \<Rightarrow> Err e
      | Inr m \<Rightarrow>
          (case map_of m ''parameters'' of
             None \<Rightarrow> Err (Errorf ''failed to get deployment parameters from file %s'' [AStr path])
           | Some (JObj ps) \<Rightarrow> Ok ps
           | Some _ \<Rightarrow> Panic))"

section \<open>Reading one variable\<close>

text \<open>The value of a variable that is set and not blank, untrimmed.\<close>

definition envValue :: "configLib \<Rightarrow> string \<Rightarrow> string option" where
  "envValue lib name =
     (case lookupEnv lib name of
        None \<Rightarrow> None
      | Some v \<Rightarrow> if strings_TrimSpace v \<noteq> '''' then Some v else None)"

type_synonym assign = "configLib \<Rightarrow> Config \<Rightarrow> Config go"

definition assignParsed :: "string \<Rightarrow> (configLib \<Rightarrow> string \<Rightarrow> 'v option) \<Rightarrow> ('v \<Rightarrow> Config \<Rightarrow> Config) \<Rightarrow> assign" where
  "assignParsed name parse store lib cfg =
     (case envValue lib name of
        None \<Rightarrow> Ok cfg
      | Some v \<Rightarrow>
          (case parse lib v of
             None \<Rightarrow> Err (Errorf ''failed to parse %s %q: %v'' [AStr name, AStr v])
           | Some x \<Rightarrow> Ok (store x cfg)))"

definition assignFromEnvIfExists :: "string \<Rightarrow> (string \<Rightarrow> Config \<Rightarrow> Config) \<Rightarrow> assign" where
  "assignFromEnvIfExists name store = assignParsed name (\<lambda>_ v. Some (strings_TrimSpace v)) store"

definition assignBoolFromEnvIfExists :: "string \<Rightarrow> (bool \<Rightarrow> Config \<Rightarrow> Config) \<Rightarrow> assign" where
  "assignBoolFromEnvIfExists name store = assignParsed name (\<lambda>_. strconv_ParseBool) store"

definition assignIntFromEnvIfExists :: "string \<Rightarrow> (int \<Rightarrow> Config \<Rightarrow> Config) \<Rightarrow> assign" where
  "assignIntFromEnvIfExists name store = assignParsed name (\<lambda>_. parseInt32) store"

definition assignInt64FromEnvIfExists :: "string \<Rightarrow> (int \<Rightarrow> Config \<Rightarrow> Config) \<Rightarrow> assign" where
  "assignInt64FromEnvIfExists name store = assignParsed name (\<lambda>_ v. strconv_ParseInt10 v 64) store"

definition assignFloat32FromEnvIfExists :: "string \<Rightarrow> (string \<Rightarrow> Config \<Rightarrow> Config) \<Rightarrow> assign" where
  "assignFloat32FromEnvIfExists name store =
     assignParsed name (\<lambda>lib v. if parseFloatOk lib 32 v then Some v else None) store"

definition assignFloat64FromEnvIfExists :: "string \<Rightarrow> (string \<Rightarrow> Config \<Rightarrow> Config) \<Rightarrow> assign" where
  "assignFloat64FromEnvIfExists name store =
     assignParsed name (\<lambda>lib v. if parseFloatOk lib 64 v then Some v else None) store"

text \<open>A field of the embedded configuration of the cloud provider.\<close>

definition inProvider :: "('v \<Rightarrow> providerConfig \<Rightarrow> providerConfig) \<Rightarrow> 'v \<Rightarrow> Config \<Rightarrow> Config" where
  "inProvider store v cfg = cfg\<lparr>provider := store v (provider cfg)\<rparr>"

fun assignAll :: "assign list \<Rightarrow> assign" where
  "assignAll [] lib cfg = Ok cfg"
| "assignAll (a # as) lib cfg =
     (case a lib cfg of Ok cfg' \<Rightarrow> assignAll as lib cfg' | Err e \<Rightarrow> Err e | Panic \<Rightarrow> Panic)"

section \<open>The variables\<close>

definition nameVariables :: "assign list" where
  "nameVariables =
     [assignFromEnvIfExists ''CLUSTER_NAME'' (\<lambda>v c. c\<lparr>ClusterName := v\<rparr>),
      assignFromEnvIfExists ''ARM_CLUSTER_RESOURCE_GROUP'' (\<lambda>v c. c\<lparr>ClusterResourceGroup := v\<rparr>),
      assignFromEnvIfExists ''ARM_BASE_URL_FOR_AP_CLIENT'' (\<lambda>v c. c\<lparr>ARMBaseURLForAPClient := v\<rparr>),
      assignFromEnvIfExists ''ARM_CLOUD'' (inProvider (\<lambda>v c. c\<lparr>Cloud := v\<rparr>)),
      assignFromEnvIfExists ''LOCATION'' (inProvider (\<lambda>v c. c\<lparr>Location := v\<rparr>)),
      assignFromEnvIfExists ''ARM_RESOURCE_GROUP'' (inProvider (\<lambda>v c. c\<lparr>ResourceGroup := v\<rparr>)),
      assignFromEnvIfExists ''ARM_TENANT_ID'' (inProvider (\<lambda>v c. c\<lparr>TenantID := v\<rparr>)),
      assignFromEnvIfExists ''AZURE_TENANT_ID'' (inProvider (\<lambda>v c. c\<lparr>TenantID := v\<rparr>)),
      assignFromEnvIfExists ''ARM_CLIENT_ID'' (inProvider (\<lambda>v c. c\<lparr>AADClientID := v\<rparr>)),
      assignFromEnvIfExists ''AZURE_CLIENT_ID'' (inProvider (\<lambda>v c. c\<lparr>AADClientID := v\<rparr>)),
      assignFromEnvIfExists ''AZURE_FEDERATED_TOKEN_FILE'' (inProvider (\<lambda>v c. c\<lparr>AADFederatedTokenFile := v\<rparr>)),
      assignFromEnvIfExists ''ARM_CLIENT_SECRET'' (inProvider (\<lambda>v c. c\<lparr>AADClientSecret := v\<rparr>)),
      assignFromEnvIfExists ''ARM_VM_TYPE'' (inProvider (\<lambda>v c. c\<lparr>VMType := v\<rparr>)),
      assignFromEnvIfExists ''ARM_CLIENT_CERT_PATH'' (inProvider (\<lambda>v c. c\<lparr>AADClientCertPath := v\<rparr>)),
      assignFromEnvIfExists ''ARM_CLIENT_CERT_PASSWORD'' (inProvider (\<lambda>v c. c\<lparr>AADClientCertPassword := v\<rparr>)),
      assignFromEnvIfExists ''ARM_DEPLOYMENT'' (\<lambda>v c. c\<lparr>Deployment := v\<rparr>),
      assignFromEnvIfExists ''ARM_SUBSCRIPTION_ID'' (inProvider (\<lambda>v c. c\<lparr>SubscriptionID := v\<rparr>)),
      assignFromEnvIfExists ''HOSTED_RESOURCE_PROXY_URL'' (\<lambda>v c. c\<lparr>HostedResourceProxyURL := v\<rparr>),
      assignFromEnvIfExists ''HOSTED_SUBSCRIPTION_ID'' (\<lambda>v c. c\<lparr>HostedSubscriptionID := v\<rparr>),
      assignFromEnvIfExists ''HOSTED_RESOURCE_GROUP'' (\<lambda>v c. c\<lparr>HostedResourceGroup := v\<rparr>)]"

definition identityVariables :: "assign list" where
  "identityVariables =
     [assignBoolFromEnvIfExists ''ARM_USE_MANAGED_IDENTITY_EXTENSION''
        (inProvider (\<lambda>v c. c\<lparr>UseManagedIdentityExtension := v\<rparr>)),
      assignBoolFromEnvIfExists ''ARM_USE_FEDERATED_WORKLOAD_IDENTITY_EXTENSION''
        (inProvider (\<lambda>v c. c\<lparr>UseFederatedWorkloadIdentityExtension := v\<rparr>)),
      assignBoolFromEnvIfExists ''ARM_USE_WORKLOAD_IDENTITY_EXTENSION''
        (inProvider (\<lambda>v c. c\<lparr>UseFederatedWorkloadIdentityExtension := v\<rparr>)),
      assignFromEnvIfExists ''ARM_USER_ASSIGNED_IDENTITY_ID''
        (inProvider (\<lambda>v c. c\<lparr>UserAssignedIdentityID := v\<rparr>))]"

definition cacheVariables :: "assign list" where
  "cacheVariables =
     [assignIntFromEnvIfExists ''AZURE_VMSS_CACHE_TTL_IN_SECONDS''
        (inProvider (\<lambda>v c. c\<lparr>VmssCacheTTLInSeconds := v\<rparr>)),
      assignIntFromEnvIfExists ''AZURE_VMSS_CACHE_TTL'' (inProvider (\<lambda>v c. c\<lparr>VmssCacheTTLInSeconds := v\<rparr>)),
      assignIntFromEnvIfExists ''AZURE_VMSS_VMS_CACHE_TTL_IN_SECONDS''
        (inProvider (\<lambda>v c. c\<lparr>VmssVirtualMachinesCacheTTLInSeconds := v\<rparr>)),
      assignIntFromEnvIfExists ''AZURE_VMSS_VMS_CACHE_TTL''
        (inProvider (\<lambda>v c. c\<lparr>VmssVirtualMachinesCacheTTLInSeconds := v\<rparr>)),
      assignIntFromEnvIfExists ''AZURE_VMSS_VMS_CACHE_JITTER'' (\<lambda>v c. c\<lparr>VmssVmsCacheJitter := v\<rparr>),
      assignIntFromEnvIfExists ''AZURE_GET_VMSS_SIZE_REFRESH_PERIOD'' (\<lambda>v c. c\<lparr>GetVmssSizeRefreshPeriod := v\<rparr>),
      assignInt64FromEnvIfExists ''AZURE_MAX_DEPLOYMENT_COUNT'' (\<lambda>v c. c\<lparr>MaxDeploymentsCount := v\<rparr>)]"

definition featureVariables :: "assign list" where
  "featureVariables =
     [assignBoolFromEnvIfExists ''ENABLE_BACKOFF'' (inProvider (\<lambda>v c. c\<lparr>CloudProviderBackoff := v\<rparr>)),
      assignBoolFromEnvIfExists ''AZURE_ENABLE_FORCE_DELETE'' (\<lambda>v c. c\<lparr>EnableForceDelete := v\<rparr>),
      assignBoolFromEnvIfExists ''AZURE_STRICT_CACHE_UPDATES'' (\<lambda>v c. c\<lparr>StrictCacheUpdates := v\<rparr>),
      assignBoolFromEnvIfExists ''AZURE_ENABLE_VMS_AGENT_POOLS'' (\<lambda>v c. c\<lparr>EnableVMsAgentPool := v\<rparr>),
      assignBoolFromEnvIfExists ''AZURE_ENABLE_VMSS_ETAG'' (\<lambda>v c. c\<lparr>EnableVMSSEtag := v\<rparr>),
      assignBoolFromEnvIfExists ''AZURE_ENABLE_DYNAMIC_INSTANCE_LIST'' (\<lambda>v c. c\<lparr>EnableDynamicInstanceList := v\<rparr>),
      assignBoolFromEnvIfExists ''AZURE_ENABLE_DETAILED_CSE_MESSAGE'' (\<lambda>v c. c\<lparr>EnableDetailedCSEMessage := v\<rparr>),
      assignBoolFromEnvIfExists ''AZURE_ENABLE_VMSS_FLEX_NODES'' (inProvider (\<lambda>v c. c\<lparr>EnableVmssFlexNodes := v\<rparr>)),
      assignBoolFromEnvIfExists ''AZURE_ENABLE_VMSS_FLEX'' (inProvider (\<lambda>v c. c\<lparr>EnableVmssFlexNodes := v\<rparr>))]"

text \<open>The four variables of the backoff are read only when it is enabled.\<close>

definition backoffVariables :: assign where
  "backoffVariables lib cfg =
     (if CloudProviderBackoff (provider cfg)
      then assignAll
        [assignIntFromEnvIfExists ''BACKOFF_RETRIES'' (inProvider (\<lambda>v c. c\<lparr>CloudProviderBackoffRetries := v\<rparr>)),
         assignFloat64FromEnvIfExists ''BACKOFF_EXPONENT'' (inProvider (\<lambda>v c. c\<lparr>CloudProviderBackoffExponent := v\<rparr>)),
         assignIntFromEnvIfExists ''BACKOFF_DURATION'' (inProvider (\<lambda>v c. c\<lparr>CloudProviderBackoffDuration := v\<rparr>)),
         assignFloat64FromEnvIfExists ''BACKOFF_JITTER'' (inProvider (\<lambda>v c. c\<lparr>CloudProviderBackoffJitter := v\<rparr>))]
        lib cfg
      else Ok cfg)"

definition limitVariables :: "assign list" where
  "limitVariables =
     [assignBoolFromEnvIfExists ''CLOUD_PROVIDER_RATE_LIMIT'' (inProvider (\<lambda>v c. c\<lparr>CloudProviderRateLimit := v\<rparr>)),
      assignFloat32FromEnvIfExists ''RATE_LIMIT_READ_QPS'' (inProvider (\<lambda>v c. c\<lparr>CloudProviderRateLimitQPS := v\<rparr>)),
      assignIntFromEnvIfExists ''RATE_LIMIT_READ_BUCKETS'' (inProvider (\<lambda>v c. c\<lparr>CloudProviderRateLimitBucket := v\<rparr>)),
      assignFloat32FromEnvIfExists ''RATE_LIMIT_WRITE_QPS'' (inProvider (\<lambda>v c. c\<lparr>CloudProviderRateLimitQPSWrite := v\<rparr>)),
      assignIntFromEnvIfExists ''RATE_LIMIT_WRITE_BUCKETS''
        (inProvider (\<lambda>v c. c\<lparr>CloudProviderRateLimitBucketWrite := v\<rparr>)),
      assignBoolFromEnvIfExists ''AZURE_ENABLE_FAST_DELETE_ON_FAILED_PROVISIONING''
        (\<lambda>v c. c\<lparr>EnableFastDeleteOnFailedProvisioning := v\<rparr>),
      assignBoolFromEnvIfExists ''AZURE_ENABLE_LABEL_PREDICTIONS_ON_TEMPLATE''
        (\<lambda>v c. c\<lparr>EnableLabelPredictionsOnTemplate := v\<rparr>)]"

section \<open>Defaults, file and legacy fields\<close>

definition staticDefaults :: "configLib \<Rightarrow> Config \<Rightarrow> Config" where
  "staticDefaults lib cfg =
     cfg\<lparr>provider := (provider cfg)
           \<lparr>EnableVmssFlexNodes := False, VMType := VMTypeVMSS,
            CloudProviderBackoffRetries := BackoffRetriesDefault lib,
            CloudProviderBackoffExponent := BackoffExponentDefault lib,
            CloudProviderBackoffDuration := BackoffDurationDefault lib,
            CloudProviderBackoffJitter := BackoffJitterDefault lib\<rparr>,
         EnableDynamicInstanceList := False, EnableVMsAgentPool := False,
         MaxDeploymentsCount := defaultMaxDeploymentsCount, StrictCacheUpdates := False,
         EnableLabelPredictionsOnTemplate := True, EnableVMSSEtag := False\<rparr>"

definition configFromFile :: assign where
  "configFromFile lib cfg =
     (case configReader lib of
        None \<Rightarrow> Ok cfg
      | Some (Inl e) \<Rightarrow> Err (Errorf ''failed to read config: %v'' [AErr e])
      | Some (Inr body) \<Rightarrow>
          (case jsonUnmarshal lib body cfg of
             Inl e \<Rightarrow> Err (Errorf ''failed to unmarshal config body: %v'' [AErr e])
           | Inr cfg' \<Rightarrow> Ok cfg'))"

definition maxUint32 :: int where "maxUint32 = 2 ^ 32 - 1"

definition legacyTTL :: "string \<Rightarrow> (legacyConfig \<Rightarrow> int option) \<Rightarrow> (int \<Rightarrow> Config \<Rightarrow> Config) \<Rightarrow> assign" where
  "legacyTTL msg field store lib cfg =
     (case field (legacy cfg) of
        None \<Rightarrow> Ok cfg
      | Some n \<Rightarrow> if n > maxUint32 then Err (Errorf msg [AInt n]) else Ok (store n cfg))"

definition legacyFlag :: "(legacyConfig \<Rightarrow> bool option) \<Rightarrow> (bool \<Rightarrow> Config \<Rightarrow> Config) \<Rightarrow> assign" where
  "legacyFlag field store lib cfg = (case field (legacy cfg) of None \<Rightarrow> Ok cfg | Some b \<Rightarrow> Ok (store b cfg))"

definition legacyFields :: "assign list" where
  "legacyFields =
     [legacyFlag UseWorkloadIdentityExtension (inProvider (\<lambda>v c. c\<lparr>UseFederatedWorkloadIdentityExtension := v\<rparr>)),
      legacyTTL ''VmssCacheTTL value %d is too large'' VmssCacheTTL
        (inProvider (\<lambda>v c. c\<lparr>VmssCacheTTLInSeconds := v\<rparr>)),
      legacyTTL ''VmssVmsCacheTTL value %d is too large'' VmssVmsCacheTTL
        (inProvider (\<lambda>v c. c\<lparr>VmssVirtualMachinesCacheTTLInSeconds := v\<rparr>)),
      legacyFlag EnableVmssFlex (inProvider (\<lambda>v c. c\<lparr>EnableVmssFlexNodes := v\<rparr>))]"

section \<open>The rest of the defaults and the validation\<close>

definition nonstaticDefaults :: assign where
  "nonstaticDefaults lib cfg0 =
     (let cfg1 = inProvider (\<lambda>v c. c\<lparr>VMType := v\<rparr>) (strings_ToLower (VMType (provider cfg0))) cfg0;
          cfg2 = (if MaxDeploymentsCount cfg1 = 0 then cfg1\<lparr>MaxDeploymentsCount := defaultMaxDeploymentsCount\<rparr> else cfg1)
      in case (if SubscriptionID (provider cfg2) = '''' then subscriptionFromMetadata lib
               else Inr (SubscriptionID (provider cfg2))) of
           Inl e \<Rightarrow> Err e
         | Inr sub \<Rightarrow>
             let cfg3 = inProvider (\<lambda>v c. c\<lparr>SubscriptionID := v\<rparr>) sub cfg2
             in if VMType (provider cfg3) = VMTypeStandard \<and>
                   (case DeploymentParameters cfg3 of None \<Rightarrow> True | Some m \<Rightarrow> m = [])
                then (case readDeploymentParameters lib deploymentParametersPath of
                        Ok ps \<Rightarrow> Ok (cfg3\<lparr>DeploymentParameters := Some ps\<rparr>)
                      | Err e \<Rightarrow> Err e
                      | Panic \<Rightarrow> Panic)
                else Ok cfg3)"

definition authCheck :: "Config \<Rightarrow> unit go" where
  "authCheck cfg =
     (let p = provider cfg
      in if UseManagedIdentityExtension p \<or> UseFederatedWorkloadIdentityExtension p then Ok ()
         else if TenantID p = '''' then Err (Errorf ''tenant ID not set'' [])
         else if AuthMethod cfg = '''' \<or> AuthMethod cfg = authMethodPrincipal
         then (if AADClientID p = '''' then Err (Errorf ''ARM Client ID not set'' []) else Ok ())
         else if AuthMethod cfg = authMethodCLI then Ok ()
         else Err (Errorf ''unsupported authorization method: %s'' [AStr (AuthMethod cfg)]))"

definition validate :: "Config \<Rightarrow> unit go" where
  "validate cfg =
     (let p = provider cfg
      in if ResourceGroup p = '''' then Err (Errorf ''resource group not set'' [])
         else if VMType p = VMTypeStandard \<and> Deployment cfg = '''' then Err (Errorf ''deployment not set'' [])
         else if VMType p = VMTypeStandard \<and>
                 (case DeploymentParameters cfg of None \<Rightarrow> True | Some m \<Rightarrow> m = [])
         then Err (Errorf ''deploymentParameters not set'' [])
         else if SubscriptionID p = '''' then Err (Errorf ''subscription ID not set'' [])
         else if UseManagedIdentityExtension p \<and> UseFederatedWorkloadIdentityExtension p
         then Err (Errorf ''you can not combine both managed identity and workload identity as an authentication mechanism'' [])
         else if VMType p \<noteq> VMTypeStandard \<and> VMType p \<noteq> VMTypeVMSS
         then Err (Errorf ''unsupported VM type: %s'' [AStr (VMType p)])
         else (case authCheck cfg of
                 Ok _ \<Rightarrow>
                   if CloudProviderBackoff p \<and> CloudProviderBackoffRetries p = 0
                   then Err (Errorf ''Cloud provider backoff is enabled but retries are not set'' []) else Ok ()
               | r \<Rightarrow> r))"

definition environmentVariables :: "assign list" where
  "environmentVariables =
     nameVariables @ identityVariables @ cacheVariables @ featureVariables @ [backoffVariables] @ limitVariables"

definition BuildAzureConfig :: "configLib \<Rightarrow> Config go" where
  "BuildAzureConfig lib =
     (case assignAll ([configFromFile] @ legacyFields @ environmentVariables @ [nonstaticDefaults]) lib
             (staticDefaults lib zeroConfig) of
        Ok cfg \<Rightarrow> (case validate cfg of Ok _ \<Rightarrow> Ok cfg | Err e \<Rightarrow> Err e | Panic \<Rightarrow> Panic)
      | Err e \<Rightarrow> Err e
      | Panic \<Rightarrow> Panic)"


section \<open>Which fields an assignment keeps\<close>

definition keepsField :: "(Config \<Rightarrow> 'b) \<Rightarrow> assign \<Rightarrow> bool" where
  "keepsField f a \<longleftrightarrow> (\<forall>lib cfg cfg'. a lib cfg = Ok cfg' \<longrightarrow> f cfg' = f cfg)"

named_theorems keeps \<open>which assignments keep a field\<close>

lemma keepsD: "keepsField f a \<Longrightarrow> a lib cfg = Ok cfg' \<Longrightarrow> f cfg' = f cfg"
  by (simp add: keepsField_def)

lemma keeps_parsed:
  assumes "\<And>x c. f (store x c) = f c"
  shows "keepsField f (assignParsed name parse store)"
  unfolding keepsField_def assignParsed_def using assms by (auto split: option.splits)

lemma keeps_assign [keeps]:
  assumes "\<And>x c. f (store x c) = f c"
  shows "keepsField f (assignFromEnvIfExists name store)"
  unfolding assignFromEnvIfExists_def by (rule keeps_parsed) (rule assms)

lemma keeps_bool [keeps]:
  assumes "\<And>x c. f (store x c) = f c"
  shows "keepsField f (assignBoolFromEnvIfExists name store)"
  unfolding assignBoolFromEnvIfExists_def by (rule keeps_parsed) (rule assms)

lemma keeps_int [keeps]:
  assumes "\<And>x c. f (store x c) = f c"
  shows "keepsField f (assignIntFromEnvIfExists name store)"
    "keepsField f (assignInt64FromEnvIfExists name store)"
  unfolding assignIntFromEnvIfExists_def assignInt64FromEnvIfExists_def
  by (rule keeps_parsed, rule assms)+

lemma keeps_float [keeps]:
  assumes "\<And>x c. f (store x c) = f c"
  shows "keepsField f (assignFloat32FromEnvIfExists name store)"
    "keepsField f (assignFloat64FromEnvIfExists name store)"
  unfolding assignFloat32FromEnvIfExists_def assignFloat64FromEnvIfExists_def
  by (rule keeps_parsed, rule assms)+

lemma keeps_assignAll: "list_all (keepsField f) xs \<Longrightarrow> keepsField f (assignAll xs)"
proof (induction xs)
  case Nil then show ?case by (simp add: keepsField_def)
next
  case (Cons a xs)
  then have a: "keepsField f a" and xs: "keepsField f (assignAll xs)" by auto
  show ?case
    unfolding keepsField_def by (auto split: go.splits simp: keepsD [OF a] keepsD [OF xs] dest!: keepsD [OF a] keepsD [OF xs])
qed

lemma keeps_backoff [keeps]:
  assumes "\<And>v x c. f (inProvider (\<lambda>v c. c\<lparr>CloudProviderBackoffRetries := v\<rparr>) x c) = f c"
    "\<And>v x c. f (inProvider (\<lambda>v c. c\<lparr>CloudProviderBackoffExponent := v\<rparr>) v c) = f c"
    "\<And>v x c. f (inProvider (\<lambda>v c. c\<lparr>CloudProviderBackoffDuration := v\<rparr>) x c) = f c"
    "\<And>v x c. f (inProvider (\<lambda>v c. c\<lparr>CloudProviderBackoffJitter := v\<rparr>) v c) = f c"
  shows "keepsField f backoffVariables"
proof -
  have "keepsField f (assignAll
        [assignIntFromEnvIfExists ''BACKOFF_RETRIES'' (inProvider (\<lambda>v c. c\<lparr>CloudProviderBackoffRetries := v\<rparr>)),
         assignFloat64FromEnvIfExists ''BACKOFF_EXPONENT'' (inProvider (\<lambda>v c. c\<lparr>CloudProviderBackoffExponent := v\<rparr>)),
         assignIntFromEnvIfExists ''BACKOFF_DURATION'' (inProvider (\<lambda>v c. c\<lparr>CloudProviderBackoffDuration := v\<rparr>)),
         assignFloat64FromEnvIfExists ''BACKOFF_JITTER'' (inProvider (\<lambda>v c. c\<lparr>CloudProviderBackoffJitter := v\<rparr>))])"
    by (rule keeps_assignAll) (simp add: keeps assms del: assignAll.simps)
  then show ?thesis
    unfolding keepsField_def backoffVariables_def by auto
qed

lemma assignAll_append:
  "assignAll (xs @ ys) lib cfg = Ok cfg' \<longleftrightarrow>
     (\<exists>mid. assignAll xs lib cfg = Ok mid \<and> assignAll ys lib mid = Ok cfg')"
  by (induction xs arbitrary: cfg) (auto split: go.splits)

lemmas variableGroups = nameVariables_def identityVariables_def cacheVariables_def featureVariables_def
  limitVariables_def

lemma nonstatic_keeps:
  assumes "nonstaticDefaults lib cfg = Ok cfg'"
  shows "TenantID (provider cfg') = TenantID (provider cfg)"
    "ResourceGroup (provider cfg') = ResourceGroup (provider cfg)"
    "AADClientID (provider cfg') = AADClientID (provider cfg)"
    "MaxDeploymentsCount cfg' = (if MaxDeploymentsCount cfg = 0 then defaultMaxDeploymentsCount else MaxDeploymentsCount cfg)"
    "VMType (provider cfg') = strings_ToLower (VMType (provider cfg))"
    "EnableDynamicInstanceList cfg' = EnableDynamicInstanceList cfg"
  using assms unfolding nonstaticDefaults_def
  by (auto simp: Let_def inProvider_def split: if_splits sum.splits go.splits option.splits)

lemma BuildAzureConfig_Ok:
  "BuildAzureConfig lib = Ok cfg \<longleftrightarrow>
     (\<exists>base overridden. assignAll (configFromFile # legacyFields) lib (staticDefaults lib zeroConfig) = Ok base \<and>
        assignAll environmentVariables lib base = Ok overridden \<and> nonstaticDefaults lib overridden = Ok cfg \<and>
        validate cfg = Ok ())"
proof -
  let ?all = "(configFromFile # legacyFields) @ environmentVariables @ [nonstaticDefaults]"
  have one: "assignAll [nonstaticDefaults] lib c = nonstaticDefaults lib c" for c
    by (simp split: go.split)
  have "BuildAzureConfig lib = Ok cfg \<longleftrightarrow>
      assignAll ?all lib (staticDefaults lib zeroConfig) = Ok cfg \<and> validate cfg = Ok ()"
    unfolding BuildAzureConfig_def append_Cons append_Nil by (auto split: go.splits)
  then show ?thesis
    by (simp only: assignAll_append one) blast
qed

lemma assignFrom_effect:
  "assignFromEnvIfExists name store lib cfg = Ok cfg' \<Longrightarrow>
     cfg' = (case envValue lib name of None \<Rightarrow> cfg | Some v \<Rightarrow> store (strings_TrimSpace v) cfg)"
  unfolding assignFromEnvIfExists_def assignParsed_def by (auto split: option.splits)

lemma assignAll_around:
  assumes "assignAll (pre @ mid @ post) lib cfg = Ok cfg'"
    "list_all (keepsField f) pre" "list_all (keepsField f) post"
  obtains c d where "f c = f cfg" "assignAll mid lib c = Ok d" "f cfg' = f d"
  using assms(1) keeps_assignAll [OF assms(2)] keeps_assignAll [OF assms(3)]
  unfolding assignAll_append keepsField_def by metis

lemma tenant_from_environment:
  assumes "assignAll environmentVariables lib base = Ok overridden"
  shows "TenantID (provider overridden) =
    (case envValue lib ''AZURE_TENANT_ID'' of
       Some v \<Rightarrow> strings_TrimSpace v
     | None \<Rightarrow> (case envValue lib ''ARM_TENANT_ID'' of
                 Some v \<Rightarrow> strings_TrimSpace v | None \<Rightarrow> TenantID (provider base)))"
proof -
  let ?f = "\<lambda>c. TenantID (provider c)"
  let ?mid = "[assignFromEnvIfExists ''ARM_TENANT_ID'' (inProvider (\<lambda>v c. c\<lparr>TenantID := v\<rparr>)),
      assignFromEnvIfExists ''AZURE_TENANT_ID'' (inProvider (\<lambda>v c. c\<lparr>TenantID := v\<rparr>))]"
  have split: "environmentVariables = take 6 environmentVariables @ ?mid @ drop 8 environmentVariables"
    by (simp add: environmentVariables_def variableGroups)
  have kept: "list_all (keepsField ?f) (take 6 environmentVariables)"
    "list_all (keepsField ?f) (drop 8 environmentVariables)"
    by (simp_all add: environmentVariables_def variableGroups keeps inProvider_def)
  obtain c d where "?f c = ?f base" "assignAll ?mid lib c = Ok d" "?f overridden = ?f d"
    by (rule assignAll_around [OF _ kept]) (rule subst [OF split, where P = "\<lambda>vs. assignAll vs lib base = Ok overridden"], rule assms)
  then show ?thesis
    by (auto simp: inProvider_def split: go.splits option.splits dest!: assignFrom_effect)
qed

lemma deployments_from_environment:
  assumes "assignAll environmentVariables lib base = Ok overridden"
  shows "case envValue lib ''AZURE_MAX_DEPLOYMENT_COUNT'' of
       None \<Rightarrow> MaxDeploymentsCount overridden = MaxDeploymentsCount base
     | Some v \<Rightarrow> strconv_ParseInt10 v 64 = Some (MaxDeploymentsCount overridden)"
proof -
  let ?mid = "[assignInt64FromEnvIfExists ''AZURE_MAX_DEPLOYMENT_COUNT'' (\<lambda>v c. c\<lparr>MaxDeploymentsCount := v\<rparr>)]"
  have split: "environmentVariables = take 30 environmentVariables @ ?mid @ drop 31 environmentVariables"
    by (simp add: environmentVariables_def variableGroups)
  have kept: "list_all (keepsField MaxDeploymentsCount) (take 30 environmentVariables)"
    "list_all (keepsField MaxDeploymentsCount) (drop 31 environmentVariables)"
    by (simp_all add: environmentVariables_def variableGroups keeps inProvider_def)
  obtain c d where "MaxDeploymentsCount c = MaxDeploymentsCount base"
    "assignAll ?mid lib c = Ok d" "MaxDeploymentsCount overridden = MaxDeploymentsCount d"
    by (rule assignAll_around [OF _ kept]) (rule subst [OF split, where P = "\<lambda>vs. assignAll vs lib base = Ok overridden"], rule assms)
  then show ?thesis
    by (auto simp: assignInt64FromEnvIfExists_def assignParsed_def split: go.splits option.splits)
qed

text \<open>
  C32. A configuration that \<open>BuildAzureConfig\<close> returns is usable: it has a resource group, a
  subscription, one of the two supported VM types (with the deployment and its parameters when
  it is the standard one), a nonzero number of deployments to keep, not both kinds of managed
  identity, and, without either of them, a tenant and a known authorization method.
\<close>

theorem validated_config:
  assumes "BuildAzureConfig lib = Ok cfg"
  shows "ResourceGroup (provider cfg) \<noteq> '''' \<and> SubscriptionID (provider cfg) \<noteq> '''' \<and>
    (VMType (provider cfg) = VMTypeVMSS \<or>
       VMType (provider cfg) = VMTypeStandard \<and> Deployment cfg \<noteq> '''' \<and>
       (\<exists>p ps. DeploymentParameters cfg = Some (p # ps))) \<and>
    MaxDeploymentsCount cfg \<noteq> 0 \<and>
    (if UseManagedIdentityExtension (provider cfg) then \<not> UseFederatedWorkloadIdentityExtension (provider cfg)
     else UseFederatedWorkloadIdentityExtension (provider cfg) \<or>
       TenantID (provider cfg) \<noteq> '''' \<and>
       (AuthMethod cfg = authMethodCLI \<or>
        AuthMethod cfg \<in> {'''', authMethodPrincipal} \<and> AADClientID (provider cfg) \<noteq> ''''))"
proof -
  obtain base overridden where overridden: "nonstaticDefaults lib overridden = Ok cfg" and valid: "validate cfg = Ok ()"
    using assms unfolding BuildAzureConfig_Ok by blast
  have "MaxDeploymentsCount cfg \<noteq> 0"
    using nonstatic_keeps(4) [OF overridden] by (simp add: defaultMaxDeploymentsCount_def)
  moreover have "\<exists>p ps. DeploymentParameters cfg = Some (p # ps)"
    if "\<not> (case DeploymentParameters cfg of None \<Rightarrow> True | Some m \<Rightarrow> m = [])"
    using that by (cases "DeploymentParameters cfg") (auto simp: neq_Nil_conv)
  moreover have "authCheck cfg = Ok ()"
    using valid unfolding validate_def Let_def by (auto split: if_splits go.splits)
  ultimately show ?thesis
    using valid unfolding validate_def Let_def authCheck_def by (auto split: if_splits)
qed

text \<open>
  C20. The environment overrides the configuration base, and of the two variables for the tenant
  \<open>AZURE_TENANT_ID\<close> takes precedence over \<open>ARM_TENANT_ID\<close>: the tenant of the configuration is
  the trimmed value of the first of them that is set and not blank, and the one of the base
  only when neither is.
\<close>

theorem tenant_precedence:
  assumes "BuildAzureConfig lib = Ok cfg"
  shows "\<exists>base. assignAll (configFromFile # legacyFields) lib (staticDefaults lib zeroConfig) = Ok base \<and>
    TenantID (provider cfg) =
      (case envValue lib ''AZURE_TENANT_ID'' of
         Some v \<Rightarrow> strings_TrimSpace v
       | None \<Rightarrow> (case envValue lib ''ARM_TENANT_ID'' of
                   Some v \<Rightarrow> strings_TrimSpace v | None \<Rightarrow> TenantID (provider base)))"
proof -
  obtain base overridden where steps: "assignAll environmentVariables lib base = Ok overridden"
    "nonstaticDefaults lib overridden = Ok cfg"
    "assignAll (configFromFile # legacyFields) lib (staticDefaults lib zeroConfig) = Ok base"
    using assms unfolding BuildAzureConfig_Ok by blast
  show ?thesis
    unfolding nonstatic_keeps(1) [OF steps(2)] tenant_from_environment [OF steps(1)]
    using steps(3) by blast
qed

text \<open>
  The number of deployments to keep is not validated: a negative value of
  \<open>AZURE_MAX_DEPLOYMENT_COUNT\<close> reaches the configuration as it is, and every later cleanup of
  deployments that gets the list of them panics at the slice expression \<open>deployments[n:]\<close>.
\<close>

theorem negative_deployments_count_panics:
  assumes "BuildAzureConfig lib = Ok cfg"
    "envValue lib ''AZURE_MAX_DEPLOYMENT_COUNT'' = Some v" "strconv_ParseInt10 v 64 = Some n" "n < 0"
    "config w = cfg" "getAllSucceededAndFailedDeployments az w = (Ok ds, w1)"
  shows "MaxDeploymentsCount cfg = n \<and> fst (deleteOutdatedDeployments az w) = Panic"
proof
  obtain base overridden where steps: "assignAll environmentVariables lib base = Ok overridden"
    "nonstaticDefaults lib overridden = Ok cfg"
    using assms(1) unfolding BuildAzureConfig_Ok by blast
  show n: "MaxDeploymentsCount cfg = n"
    using deployments_from_environment [OF steps(1)] nonstatic_keeps(4) [OF steps(2)] assms(2-4) by simp
  have "config w1 = config w"
    using assms(6) unfolding getAllSucceededAndFailedDeployments_def andThen_def callGo_def call_def
    by (auto split: go.splits prod.splits sum.splits)
  then show "fst (deleteOutdatedDeployments az w) = Panic"
    using n assms(4-6) unfolding deleteOutdatedDeployments_def by (simp add: Let_def)
qed

section \<open>Witnesses\<close>

definition sampleVariables :: "(string, string) gomap" where
  "sampleVariables =
     [(''ARM_RESOURCE_GROUP'', ''rg''), (''ARM_SUBSCRIPTION_ID'', ''s''),
      (''ARM_USE_MANAGED_IDENTITY_EXTENSION'', ''true''), (''ARM_TENANT_ID'', ''arm''),
      (''AZURE_TENANT_ID'', '' azure ''), (''AZURE_MAX_DEPLOYMENT_COUNT'', ''-1'')]"

definition sampleConfigLib :: configLib where
  "sampleConfigLib =
     \<lparr>configReader = None, jsonUnmarshal = (\<lambda>_. Inr), lookupEnv = map_of sampleVariables,
      parseFloatOk = (\<lambda>_ _. True), subscriptionFromMetadata = Inr ''m'', readJSONFile = (\<lambda>_. Inr []),
      BackoffRetriesDefault = 6, BackoffExponentDefault = ''1.5'', BackoffDurationDefault = 5,
      BackoffJitterDefault = ''1.0''\<rparr>"

lemma sample_BuildAzureConfig:
  "case BuildAzureConfig sampleConfigLib of Ok cfg \<Rightarrow> ResourceGroup (provider cfg) = ''rg'' | _ \<Rightarrow> False"
  by code_simp

lemma sample_config:
  obtains cfg where "BuildAzureConfig sampleConfigLib = Ok cfg"
  using sample_BuildAzureConfig by (auto split: go.splits)

lemma sample_variables:
  "envValue sampleConfigLib ''AZURE_TENANT_ID'' = Some '' azure ''"
  "envValue sampleConfigLib ''AZURE_MAX_DEPLOYMENT_COUNT'' = Some ''-1''"
  "strconv_ParseInt10 ''-1'' 64 = Some (-1)"
  by code_simp+

theorem validated_config_witness:
  "\<exists>cfg. BuildAzureConfig sampleConfigLib = Ok cfg \<and> MaxDeploymentsCount cfg \<noteq> 0"
  using sample_config validated_config by metis

theorem tenant_precedence_witness:
  "\<exists>cfg. BuildAzureConfig sampleConfigLib = Ok cfg \<and> TenantID (provider cfg) = ''azure''"
proof -
  obtain cfg where cfg: "BuildAzureConfig sampleConfigLib = Ok cfg" by (rule sample_config)
  have "strings_TrimSpace '' azure '' = ''azure''" by code_simp
  then have "TenantID (provider cfg) = ''azure''"
    using tenant_precedence [OF cfg] by (auto simp: sample_variables)
  with cfg show ?thesis by blast
qed

theorem negative_deployments_count_panics_witness:
  "\<exists>cfg. BuildAzureConfig sampleConfigLib = Ok cfg \<and>
    fst (deleteOutdatedDeployments sampleClient (sampleWorld\<lparr>config := cfg\<rparr>)) = Panic"
proof -
  obtain cfg where cfg: "BuildAzureConfig sampleConfigLib = Ok cfg" by (rule sample_config)
  obtain ds w1 where "getAllSucceededAndFailedDeployments sampleClient (sampleWorld\<lparr>config := cfg\<rparr>) = (Ok ds, w1)"
    by (simp add: getAllSucceededAndFailedDeployments_def callGo_def call_def sampleClient_def andThen_def liftSum_def)
  then have "fst (deleteOutdatedDeployments sampleClient (sampleWorld\<lparr>config := cfg\<rparr>)) = Panic"
    by (intro conjunct2 [OF negative_deployments_count_panics [OF cfg sample_variables(2,3)]]) simp_all
  with cfg show ?thesis by blast
qed

end
