(* ===== verification/Azure_Client.thy ===== *)
theory Azure_Client
  imports Azure_Config
begin

text \<open>
  \<open>azure_client.go\<close>, \<open>azure_deployment_client.go\<close> and \<open>azure_vmss_delete_client.go\<close>: how the
  clients of the Azure SDK are put together from the configuration, and which credentials the
  client of the agent pools uses.

  The constructors of the SDK are the fields of \<open>sdkLib\<close>. A client is the functions it offers, so
  a constructor returns the part of an \<open>azClient\<close> that the provider calls through it.
\<close>

section \<open>What the SDK is given\<close>

text \<open>\<open>azure.Environment\<close>, the fields the provider reads\<close>

record azureEnvironment =
  env_ResourceManagerEndpoint :: string
  env_TokenAudience :: string

text \<open>The constructors of \<open>azidentity\<close> with their arguments.\<close>

datatype credentialOptions =
    ManagedIdentity "string option"                     \<comment> \<open>the client ID of a user assigned identity\<close>
  | ClientSecret string string string                   \<comment> \<open>tenant, client, secret\<close>
  | ClientCertificate string string string string bool  \<comment> \<open>tenant, client, certificates, key, send the chain\<close>
  | WorkloadIdentity string                             \<comment> \<open>token file\<close>

record armClientConfig =
  arm_Cloud :: string
  arm_TenantID :: string
  arm_UserAgent :: string
  arm_ResourceManagerEndpoint :: string
  arm_DisableAzureStackCloud :: bool

record azureAuthConfig =
  auth_AADClientID :: string
  auth_AADClientSecret :: string
  auth_AADClientCertPath :: string
  auth_AADClientCertPassword :: string
  auth_UseManagedIdentityExtension :: bool
  auth_UserAssignedIdentityID :: string
  auth_AADFederatedTokenFile :: string
  auth_UseFederatedWorkloadIdentityExtension :: bool

record rateLimitConfig =
  rate_Enabled :: bool
  rate_Bucket :: int
  rate_BucketWrite :: int
  rate_QPS :: string
  rate_QPSWrite :: string

record clientFactoryConfig =
  factory_SubscriptionID :: string
  factory_RateLimit :: rateLimitConfig

text \<open>\<open>cloud.Configuration\<close>: the one service \<open>cloud.ResourceManager\<close>\<close>

record cloudConfiguration =
  cloud_Endpoint :: string
  cloud_Audience :: string

text \<open>\<open>policy.ClientOptions\<close>; \<open>opt_Retry\<close> tells whether the default retries of the SDK extensions are set.\<close>

record clientOptions =
  opt_Cloud :: cloudConfiguration
  opt_InsecureAllowCredentialWithHTTP :: bool
  opt_Telemetry :: string
  opt_Retry :: bool

section \<open>The clients of the SDK\<close>

text \<open>
  The embedded SDK clients that the two wrappers need; the type assertions of their constructors
  give \<open>None\<close> for a client of another type.
\<close>

record 'e sdkScaleSets =
  sdkBeginDeleteInstances ::
    "string \<Rightarrow> string \<Rightarrow> string list \<Rightarrow> bool \<Rightarrow> 'e \<Rightarrow> (goerror + poller option) \<times> 'e"
  sdkBeginCreateOrUpdate ::
    "string \<Rightarrow> string \<Rightarrow> vmss \<Rightarrow> string option \<Rightarrow> 'e \<Rightarrow> (goerror + poller option) \<times> 'e"

record 'e sdkDeployments =
  sdkExportTemplate :: "string \<Rightarrow> string \<Rightarrow> 'e \<Rightarrow> (goerror + json) \<times> 'e"

text \<open>\<open>AgentPoolsClient\<close>\<close>

record 'e agentPoolsClient =
  apc_Get :: "string \<Rightarrow> string \<Rightarrow> string \<Rightarrow> 'e \<Rightarrow> (goerror + aksAgentPool) \<times> 'e"
  apc_BeginCreateOrUpdate :: "string \<Rightarrow> string \<Rightarrow> string \<Rightarrow> aksAgentPool \<Rightarrow> (string, string) gomap \<Rightarrow>
    'e \<Rightarrow> (goerror + poller) \<times> 'e"
  apc_BeginDeleteMachines :: "string \<Rightarrow> string \<Rightarrow> string \<Rightarrow> string list \<Rightarrow> 'e \<Rightarrow> (goerror + poller) \<times> 'e"
  apc_NewListPager :: "string \<Rightarrow> string \<Rightarrow> 'e \<Rightarrow> (goerror + aksAgentPool option list) list \<times> 'e"

text \<open>
  \<open>azclient.ClientFactory\<close>: its clients for scale sets, virtual machines, interfaces, disks,
  accounts and deployments, and what the type assertions on two of them give.
\<close>

record 'e clientFactory =
  factoryClients :: "'e azClient"
  scaleSetsClient :: "'e sdkScaleSets option"
  deploymentsClient :: "'e sdkDeployments option"

text \<open>\<open>newAuthProvider\<close> includes \<open>GetAzIdentity\<close>, whose result may be nil.\<close>

record ('e, 'c) sdkLib =
  EnvironmentFromName :: "string \<Rightarrow> goerror + azureEnvironment"
  PublicCloud :: azureEnvironment
  newCredential :: "credentialOptions \<Rightarrow> goerror + 'c"
  os_ReadFile :: "string \<Rightarrow> goerror + string"
  ParseCertificates :: "string \<Rightarrow> string \<Rightarrow> goerror + string \<times> string"
  NewAuthProvider :: "armClientConfig \<Rightarrow> azureAuthConfig \<Rightarrow> goerror + 'c option"
  NewClientFactory ::
    "clientFactoryConfig \<Rightarrow> armClientConfig \<Rightarrow> cloudConfiguration \<Rightarrow> 'c \<Rightarrow> goerror + 'e clientFactory"
  NewResourceSKUsClient ::
    "string \<Rightarrow> 'c \<Rightarrow> clientOptions \<Rightarrow> goerror + (string \<Rightarrow> 'e \<Rightarrow> (goerror + (string, skuEntry) gomap) \<times> 'e)"
  NewAgentPoolsClient :: "string \<Rightarrow> 'c \<Rightarrow> clientOptions \<Rightarrow> goerror + 'e agentPoolsClient"

text \<open>The user agent of the clients: the suffix is an environment variable, empty when not set.\<close>

definition ClusterAutoscalerVersion :: string where "ClusterAutoscalerVersion = ''dev''"

definition getUserAgentExtension :: "configLib \<Rightarrow> string" where
  "getUserAgentExtension lib =
     ''cluster-autoscaler'' @
     (case lookupEnv lib ''AZURE_CLUSTER_AUTOSCALER_USER_AGENT_SUFFIX'' of None \<Rightarrow> '''' | Some s \<Rightarrow> s) @
     ''/v'' @ ClusterAutoscalerVersion"

section \<open>The client of the agent pools\<close>

definition certificateCredential :: "('e, 'c) sdkLib \<Rightarrow> providerConfig \<Rightarrow> goerror + 'c" where
  "certificateCredential sdk p =
     (case os_ReadFile sdk (AADClientCertPath p) of
        Inl e \<Rightarrow> Inl (Errorw ''reading the client certificate from file %s failed with error: %w''
                        [AStr (AADClientCertPath p)] e)
      | Inr certData \<Rightarrow>
          (case ParseCertificates sdk certData (AADClientCertPassword p) of
             Inl e \<Rightarrow> Inl (Errorw ''parsing service principal certificate data failed with error: %w'' [] e)
           | Inr (certs, privateKey) \<Rightarrow>
               newCredential sdk (ClientCertificate (TenantID p) (AADClientID p) certs privateKey True)))"

definition workloadCredential :: "('e, 'c) sdkLib \<Rightarrow> Config \<Rightarrow> goerror + 'c" where
  "workloadCredential sdk cfg =
     (if UseFederatedWorkloadIdentityExtension (provider cfg)
      then newCredential sdk (WorkloadIdentity (AADFederatedTokenFile (provider cfg)))
      else Inl (Errorf ''unsupported authorization method: %s'' [AStr (AuthMethod cfg)]))"

definition getAgentpoolClientCredentials :: "('e, 'c) sdkLib \<Rightarrow> Config \<Rightarrow> goerror + 'c" where
  "getAgentpoolClientCredentials sdk cfg =
     (let p = provider cfg
      in if AuthMethod cfg = '''' \<or> AuthMethod cfg = authMethodPrincipal
         then (if UseManagedIdentityExtension p
               then (if UserAssignedIdentityID p = '''' then newCredential sdk (ManagedIdentity None)
                     else newCredential sdk (ManagedIdentity (Some (UserAssignedIdentityID p))))
               else if AADClientID p \<noteq> '''' \<and> AADClientSecret p \<noteq> ''''
               then newCredential sdk (ClientSecret (TenantID p) (AADClientID p) (AADClientSecret p))
               else if AADClientID p \<noteq> '''' \<and> AADClientCertPath p \<noteq> '''' then certificateCredential sdk p
               else workloadCredential sdk cfg)
         else workloadCredential sdk cfg)"

definition newAgentpoolClientWithConfig ::
  "configLib \<Rightarrow> ('e, 'c) sdkLib \<Rightarrow> string \<Rightarrow> 'c \<Rightarrow> string \<Rightarrow> string \<Rightarrow> bool \<Rightarrow> bool \<Rightarrow> goerror + 'e agentPoolsClient" where
  "newAgentpoolClientWithConfig lib sdk subscriptionID cred cloudCfgEndpoint cloudCfgAudience retryOptions
       insecureAllowCredentialWithHTTP =
     (case NewAgentPoolsClient sdk subscriptionID cred
             \<lparr>opt_Cloud = \<lparr>cloud_Endpoint = cloudCfgEndpoint, cloud_Audience = cloudCfgAudience\<rparr>,
              opt_InsecureAllowCredentialWithHTTP = insecureAllowCredentialWithHTTP,
              opt_Telemetry = getUserAgentExtension lib, opt_Retry = retryOptions\<rparr> of
        Inl e \<Rightarrow> Inl (Errorw ''failed to init cluster agent pools client: %w'' [] e)
      | Inr client \<Rightarrow> Inr client)"

text \<open>The environment named by the configuration, the public cloud without a name.\<close>

definition namedEnvironment :: "('e, 'c) sdkLib \<Rightarrow> Config \<Rightarrow> goerror + azureEnvironment" where
  "namedEnvironment sdk cfg =
     (if Cloud (provider cfg) \<noteq> '''' then EnvironmentFromName sdk (Cloud (provider cfg)) else Inr (PublicCloud sdk))"

definition newAgentpoolClient :: "configLib \<Rightarrow> ('e, 'c) sdkLib \<Rightarrow> Config \<Rightarrow> goerror + 'e agentPoolsClient" where
  "newAgentpoolClient lib sdk cfg =
     (case getAgentpoolClientCredentials sdk cfg of
        Inl e \<Rightarrow> Inl e
      | Inr cred \<Rightarrow>
          (case namedEnvironment sdk cfg of
             Inl e \<Rightarrow> Inl e
           | Inr environment \<Rightarrow>
               if ARMBaseURLForAPClient cfg \<noteq> ''''
               then newAgentpoolClientWithConfig lib sdk (SubscriptionID (provider cfg)) cred
                      (ARMBaseURLForAPClient cfg) (env_TokenAudience environment) True True
               else newAgentpoolClientWithConfig lib sdk (SubscriptionID (provider cfg)) cred
                      (env_ResourceManagerEndpoint environment) (env_TokenAudience environment) True False))"

section \<open>The two wrappers\<close>

definition NewVMSSDeleteClient :: "'e sdkScaleSets option \<Rightarrow> 'e sdkScaleSets option" where
  "NewVMSSDeleteClient client = (case client of None \<Rightarrow> None | Some c \<Rightarrow> Some c)"

definition wrapper_BeginDeleteInstances ::
  "'e sdkScaleSets \<Rightarrow> string \<Rightarrow> string \<Rightarrow> string list \<Rightarrow> bool \<Rightarrow> 'e \<Rightarrow> (goerror + poller option) \<times> 'e" where
  "wrapper_BeginDeleteInstances w resourceGroupName vmScaleSetName vmInstanceIDs force =
     sdkBeginDeleteInstances w resourceGroupName vmScaleSetName vmInstanceIDs force"

definition wrapper_BeginCreateOrUpdate ::
  "'e sdkScaleSets \<Rightarrow> string \<Rightarrow> string \<Rightarrow> vmss \<Rightarrow> string option \<Rightarrow> 'e \<Rightarrow> (goerror + poller option) \<times> 'e" where
  "wrapper_BeginCreateOrUpdate w resourceGroupName vmScaleSetName parameters ifMatch =
     sdkBeginCreateOrUpdate w resourceGroupName vmScaleSetName parameters ifMatch"

definition NewDeploymentClient :: "'e sdkDeployments option \<Rightarrow> 'e sdkDeployments option" where
  "NewDeploymentClient client = (case client of None \<Rightarrow> None | Some c \<Rightarrow> Some c)"

definition wrapper_ExportTemplate ::
  "'e sdkDeployments \<Rightarrow> string \<Rightarrow> string \<Rightarrow> 'e \<Rightarrow> (goerror + json) \<times> 'e" where
  "wrapper_ExportTemplate w resourceGroupName deploymentName e =
     (case sdkExportTemplate w resourceGroupName deploymentName e of
        (Inl err, e1) \<Rightarrow> (Inl err, e1)
      | (Inr template, e1) \<Rightarrow> (Inr template, e1))"

section \<open>All clients\<close>

definition newARMClientConfig :: "configLib \<Rightarrow> Config \<Rightarrow> azureEnvironment \<Rightarrow> armClientConfig" where
  "newARMClientConfig lib cfg environment =
     \<lparr>arm_Cloud = Cloud (provider cfg), arm_TenantID = TenantID (provider cfg),
      arm_UserAgent = getUserAgentExtension lib,
      arm_ResourceManagerEndpoint =
        (if HostedResourceProxyURL cfg \<noteq> '''' then HostedResourceProxyURL cfg
         else env_ResourceManagerEndpoint environment),
      arm_DisableAzureStackCloud = DisableAzureStackCloud (provider cfg)\<rparr>"

definition authConfigOf :: "providerConfig \<Rightarrow> azureAuthConfig" where
  "authConfigOf p =
     \<lparr>auth_AADClientID = AADClientID p, auth_AADClientSecret = AADClientSecret p,
      auth_AADClientCertPath = AADClientCertPath p, auth_AADClientCertPassword = AADClientCertPassword p,
      auth_UseManagedIdentityExtension = UseManagedIdentityExtension p,
      auth_UserAssignedIdentityID = UserAssignedIdentityID p,
      auth_AADFederatedTokenFile = AADFederatedTokenFile p,
      auth_UseFederatedWorkloadIdentityExtension = UseFederatedWorkloadIdentityExtension p\<rparr>"

definition factoryConfigOf :: "Config \<Rightarrow> clientFactoryConfig" where
  "factoryConfigOf cfg =
     \<lparr>factory_SubscriptionID =
        (if HostedSubscriptionID cfg \<noteq> '''' then HostedSubscriptionID cfg else SubscriptionID (provider cfg)),
      factory_RateLimit =
        \<lparr>rate_Enabled = CloudProviderRateLimit (provider cfg),
         rate_Bucket = CloudProviderRateLimitBucket (provider cfg),
         rate_BucketWrite = CloudProviderRateLimitBucketWrite (provider cfg),
         rate_QPS = CloudProviderRateLimitQPS (provider cfg),
         rate_QPSWrite = CloudProviderRateLimitQPSWrite (provider cfg)\<rparr>\<rparr>"

text \<open>A failure to make the client of the agent pools matters only when VMs pools are enabled.\<close>

definition agentPoolClientFor ::
  "configLib \<Rightarrow> ('e, 'c) sdkLib \<Rightarrow> Config \<Rightarrow> goerror + 'e agentPoolsClient option" where
  "agentPoolClientFor lib sdk cfg =
     (case newAgentpoolClient lib sdk cfg of
        Inl e \<Rightarrow> if EnableVMsAgentPool cfg then Inl e else Inr None
      | Inr client \<Rightarrow> Inr (Some client))"

text \<open>The result, from the clients of the factory, the SKU client and the client of the agent pools.\<close>

definition assembleClient ::
  "'e azClient \<Rightarrow> 'e sdkScaleSets \<Rightarrow> 'e sdkDeployments \<Rightarrow>
     (string \<Rightarrow> 'e \<Rightarrow> (goerror + (string, skuEntry) gomap) \<times> 'e) \<Rightarrow> 'e agentPoolsClient option \<Rightarrow> 'e azClient" where
  "assembleClient clients forDelete deployments skuClient pools =
     (let az = clients\<lparr>beginDeleteInstances := wrapper_BeginDeleteInstances forDelete,
                 beginCreateOrUpdate := wrapper_BeginCreateOrUpdate forDelete,
                 exportTemplate := wrapper_ExportTemplate deployments,
                 skuList := skuClient\<rparr>
      in case pools of
           None \<Rightarrow> az\<lparr>hasAgentPoolClient := False\<rparr>
         | Some c \<Rightarrow> az\<lparr>hasAgentPoolClient := True, agentPoolGet := apc_Get c,
                        agentPoolPut := apc_BeginCreateOrUpdate c, deleteMachines := apc_BeginDeleteMachines c,
                        agentPoolPages := apc_NewListPager c\<rparr>)"

definition newAzClient ::
  "configLib \<Rightarrow> ('e, 'c) sdkLib \<Rightarrow> Config \<Rightarrow> azureEnvironment \<Rightarrow> goerror + 'e azClient" where
  "newAzClient lib sdk cfg environment =
     (let armConfig = newARMClientConfig lib cfg environment;
          factoryConfig = factoryConfigOf cfg;
          cloudConfig = \<lparr>cloud_Endpoint = arm_ResourceManagerEndpoint armConfig,
                         cloud_Audience = env_TokenAudience environment\<rparr>
      in case NewAuthProvider sdk armConfig (authConfigOf (provider cfg)) of
           Inl e \<Rightarrow> Inl (Errorw ''failed to create auth provider: %w'' [] e)
         | Inr None \<Rightarrow> Inl (Errorf ''failed to get Azure credentials from auth provider'' [])
         | Inr (Some cred) \<Rightarrow>
             (case NewClientFactory sdk factoryConfig armConfig cloudConfig cred of
                Inl e \<Rightarrow> Inl (Errorw ''failed to create azclient factory: %w'' [] e)
              | Inr clientFactory \<Rightarrow>
                  (case NewResourceSKUsClient sdk (factory_SubscriptionID factoryConfig) cred
                          \<lparr>opt_Cloud = cloudConfig, opt_InsecureAllowCredentialWithHTTP = False,
                           opt_Telemetry = getUserAgentExtension lib, opt_Retry = False\<rparr> of
                     Inl e \<Rightarrow> Inl (Errorw ''failed to create SKU client: %w'' [] e)
                   | Inr skuClient \<Rightarrow>
                       (case agentPoolClientFor lib sdk cfg of
                          Inl e \<Rightarrow> Inl e
                        | Inr pools \<Rightarrow>
                            (case NewVMSSDeleteClient (scaleSetsClient clientFactory) of
                               None \<Rightarrow> Inl (Errorf ''failed to create VMSS delete client wrapper: unexpected client type'' [])
                             | Some forDelete \<Rightarrow>
                                 (case NewDeploymentClient (deploymentsClient clientFactory) of
                                    None \<Rightarrow> Inl (Errorf ''failed to create deployment client wrapper: unexpected client type'' [])
                                  | Some deployments \<Rightarrow>
                                      Inr (assembleClient (factoryClients clientFactory) forDelete deployments
                                             skuClient pools)))))))"

section \<open>Properties\<close>

lemma newAgentpoolClient_Inr:
  assumes "newAgentpoolClient lib sdk cfg = Inr client"
  obtains cred where "getAgentpoolClientCredentials sdk cfg = Inr cred"
  using assms by (auto simp: newAgentpoolClient_def split: sum.splits)

lemma agentPoolClientFor_Inr:
  assumes "agentPoolClientFor lib sdk cfg = Inr pools"
  shows "pools \<noteq> None \<or> \<not> EnableVMsAgentPool cfg"
    and "pools \<noteq> None \<Longrightarrow> \<exists>cred. getAgentpoolClientCredentials sdk cfg = Inr cred"
  using assms
  by (auto simp: agentPoolClientFor_def split: sum.splits if_splits elim: newAgentpoolClient_Inr)

lemma assembleClient_pools: "hasAgentPoolClient (assembleClient az d e s pools) \<longleftrightarrow> pools \<noteq> None"
  by (simp add: assembleClient_def Let_def split: option.split)

lemma assembleClient_calls:
  "beginDeleteInstances (assembleClient az d e s pools) = sdkBeginDeleteInstances d"
  "beginCreateOrUpdate (assembleClient az d e s pools) = sdkBeginCreateOrUpdate d"
  "exportTemplate (assembleClient az d e s pools) = sdkExportTemplate e"
  "skuList (assembleClient az d e s pools) = s"
  by (auto simp: assembleClient_def wrapper_BeginDeleteInstances_def wrapper_BeginCreateOrUpdate_def
      wrapper_ExportTemplate_def Let_def fun_eq_iff split: option.split sum.split prod.split)

lemma newAzClient_Inr:
  assumes "newAzClient lib sdk cfg environment = Inr az"
  shows "\<exists>clients d e sku pools. az = assembleClient clients d e sku pools \<and>
    agentPoolClientFor lib sdk cfg = Inr pools"
  using assms by (force simp: newAzClient_def Let_def split: sum.splits option.splits)

text \<open>A client that was made has a client of the agent pools when VMs pools are enabled.\<close>

lemma newAzClient_pools:
  assumes "newAzClient lib sdk cfg environment = Inr az" and "EnableVMsAgentPool cfg"
  shows "hasAgentPoolClient az" and "\<exists>cred. getAgentpoolClientCredentials sdk cfg = Inr cred"
  using newAzClient_Inr [OF assms(1)] agentPoolClientFor_Inr [of lib sdk cfg] assms(2)
  by (auto simp: assembleClient_pools)

text \<open>What a configuration with credentials for the agent pools says.\<close>

lemma credentials_given:
  assumes "getAgentpoolClientCredentials sdk cfg = Inr cred"
  shows "UseFederatedWorkloadIdentityExtension (provider cfg) \<or>
    AuthMethod cfg \<in> {'''', ''principal''} \<and>
      (UseManagedIdentityExtension (provider cfg) \<or> AADClientID (provider cfg) \<noteq> '''' \<and>
        (AADClientSecret (provider cfg) \<noteq> '''' \<or> AADClientCertPath (provider cfg) \<noteq> ''''))"
  using assms
  by (auto simp: getAgentpoolClientCredentials_def workloadCredential_def authMethodPrincipal_def Let_def split: if_splits)

text \<open>
  Which validated configurations the client of the agent pools has credentials for, when the SDK
  rejects none: workload identity, or the default method with a managed identity, a secret or a
  certificate. A validated configuration with the method \<open>cli\<close> has none, nor one with a client
  but neither secret nor certificate, and nor does a managed identity help when another method is
  named.
\<close>

theorem agentpool_credentials:
  assumes "validate cfg = Ok ()"
    and "\<And>opts. \<not> isl (newCredential sdk opts)" and "\<And>path. \<not> isl (os_ReadFile sdk path)"
    and "\<And>bytes pw. \<not> isl (ParseCertificates sdk bytes pw)"
  shows "(\<exists>cred. getAgentpoolClientCredentials sdk cfg = Inr cred) \<longleftrightarrow>
    UseFederatedWorkloadIdentityExtension (provider cfg) \<or>
    AuthMethod cfg \<in> {'''', ''principal''} \<and>
      (UseManagedIdentityExtension (provider cfg) \<or> AADClientSecret (provider cfg) \<noteq> '''' \<or>
       AADClientCertPath (provider cfg) \<noteq> '''')"
proof -
  have new: "\<exists>c. newCredential sdk opts = Inr c" for opts
    using assms(2) [of opts] by (cases "newCredential sdk opts") auto
  have "\<exists>b. os_ReadFile sdk path = Inr b" for path
    using assms(3) [of path] by (cases "os_ReadFile sdk path") auto
  moreover have "\<exists>cs. ParseCertificates sdk bytes pw = Inr cs" for bytes pw
    using assms(4) [of bytes pw] by (cases "ParseCertificates sdk bytes pw") auto
  ultimately have cert: "\<exists>c. certificateCredential sdk p = Inr c" for p
    unfolding certificateCredential_def using new by (metis (no_types, lifting) old.prod.exhaust case_prod_conv old.sum.simps(6))
  have auth: "authCheck cfg = Ok ()"
    using assms(1) by (auto simp: validate_def Let_def split: if_splits go.splits)
  have work: "(\<exists>c. workloadCredential sdk cfg = Inr c) \<longleftrightarrow> UseFederatedWorkloadIdentityExtension (provider cfg)"
    using new by (simp add: workloadCredential_def)
  show ?thesis
    using auth new cert work
    by (auto simp: getAgentpoolClientCredentials_def authCheck_def authMethodPrincipal_def Let_def split: if_splits)
qed

section \<open>A concrete SDK\<close>

text \<open>It rejects nothing, and its clients are those of \<open>sampleClient\<close>.\<close>

definition sampleFactory :: "int clientFactory" where
  "sampleFactory =
     \<lparr>factoryClients = sampleClient,
      scaleSetsClient = Some \<lparr>sdkBeginDeleteInstances = beginDeleteInstances sampleClient,
                              sdkBeginCreateOrUpdate = beginCreateOrUpdate sampleClient\<rparr>,
      deploymentsClient = Some \<lparr>sdkExportTemplate = exportTemplate sampleClient\<rparr>\<rparr>"

definition sampleSDK :: "(int, unit) sdkLib" where
  "sampleSDK =
     \<lparr>EnvironmentFromName = (\<lambda>_. Inl (OtherErr ''no such cloud'')),
      PublicCloud = \<lparr>env_ResourceManagerEndpoint = ''https://arm'', env_TokenAudience = ''arm''\<rparr>,
      newCredential = (\<lambda>_. Inr ()), os_ReadFile = (\<lambda>_. Inr ''pfx''), ParseCertificates = (\<lambda>_ _. Inr ('''', '''')),
      NewAuthProvider = (\<lambda>_ _. Inr (Some ())), NewClientFactory = (\<lambda>_ _ _ _. Inr sampleFactory),
      NewResourceSKUsClient = (\<lambda>_ _ _. Inr (skuList sampleClient)),
      NewAgentPoolsClient = (\<lambda>_ _ _. Inr
        \<lparr>apc_Get = agentPoolGet sampleClient, apc_BeginCreateOrUpdate = agentPoolPut sampleClient,
         apc_BeginDeleteMachines = deleteMachines sampleClient, apc_NewListPager = agentPoolPages sampleClient\<rparr>)\<rparr>"

text \<open>With the method \<open>cli\<close> and a managed identity, as in \<open>sampleConfig\<close>, there are no credentials.\<close>

theorem agentpool_credentials_witness:
  "validate sampleConfig = Ok () \<and> (\<nexists>cred. getAgentpoolClientCredentials sampleSDK sampleConfig = Inr cred)"
proof -
  have v: "validate sampleConfig = Ok ()" by code_simp
  have "AuthMethod sampleConfig = ''cli''" "\<not> UseFederatedWorkloadIdentityExtension (provider sampleConfig)"
    by (simp_all add: sampleConfig_def)
  with agentpool_credentials [OF v, of sampleSDK] have "\<nexists>cred. getAgentpoolClientCredentials sampleSDK sampleConfig = Inr cred"
    by (simp add: sampleSDK_def)
  with v show ?thesis by blast
qed

end
