(* ===== verification/Cloud_Provider.thy ===== *)
theory Cloud_Provider
  imports Azure_Client Azure_Refresh
begin

text \<open>
  \<open>azure_cloud_provider.go\<close>, the methods the cluster autoscaler calls, and the creation of the
  manager (\<open>createAzureManagerInternal\<close> of \<open>azure_manager.go\<close>). The retry loop
  \<open>kretry.OnError\<close>, the Azure SDK and the parser of explicit node group specifications are outside
  the repository: they are the fields of \<open>managerLib\<close>.
\<close>

section \<open>Creating the manager\<close>

record ('e, 'c) managerLib =
  cfgLib :: configLib
  azureSDK :: "('e, 'c) sdkLib"
  SpecFromString :: "string \<Rightarrow> bool \<Rightarrow> goerror + nodeGroupSpec"
  retryOnError :: "(goerror option \<Rightarrow> bool) \<Rightarrow> ('e world \<Rightarrow> unit go \<times> 'e world) \<Rightarrow> 'e world \<Rightarrow> unit go \<times> 'e world"

text \<open>\<open>cloudprovider.NodeGroupDiscoveryOptions\<close>\<close>

record discoveryOptions =
  NodeGroupSpecs :: "string list"
  NodeGroupAutoDiscoverySpecs :: "string list"

definition cacheTTL :: "Config \<Rightarrow> duration" where
  "cacheTTL cfg =
     (if VmssCacheTTLInSeconds (provider cfg) \<noteq> 0 then seconds (VmssCacheTTLInSeconds (provider cfg)) else minute)"

text \<open>\<open>Ok None\<close> where the caller brings its own client; the environment is only used to make one.\<close>

definition managerClient ::
  "('e, 'c) managerLib \<Rightarrow> Config \<Rightarrow> 'e azClient option \<Rightarrow> goerror + 'e azClient" where
  "managerClient lib cfg given =
     (case namedEnvironment (azureSDK lib) cfg of
        Inl e \<Rightarrow> Inl e
      | Inr environment \<Rightarrow>
          (case given of Some az \<Rightarrow> Inr az | None \<Rightarrow> newAzClient (cfgLib lib) (azureSDK lib) cfg environment))"

text \<open>A manager as it is allocated: the heap and the environment stay, its own fields are fresh.\<close>

definition newManager :: "Config \<Rightarrow> 'e world \<Rightarrow> 'e world" where
  "newManager cfg w =
     w\<lparr>config := cfg, lastRefresh := zeroTime, autoDiscoverySpecs := [], explicitlyConfigured := []\<rparr>"

definition disableDynamicList :: "'e world \<Rightarrow> 'e world" where
  "disableDynamicList w =
     (if HasVMSKUs w then w else w\<lparr>config := (config w)\<lparr>EnableDynamicInstanceList := False\<rparr>\<rparr>)"

definition startManager ::
  "('e, 'c) managerLib \<Rightarrow> discoveryOptions \<Rightarrow> 'e azClient \<Rightarrow> 'e world \<Rightarrow> 'e azClient go \<times> 'e world" where
  "startManager lib opts az w =
     andThen (newAzureCache az (cacheTTL (config w)) w) (\<lambda>_ w1.
       let w2 = disableDynamicList w1
       in andThen (ParseLabelAutoDiscoverySpecs (NodeGroupAutoDiscoverySpecs opts), w2) (\<lambda>specs w2.
            andThen (fetchExplicitNodeGroups (SpecFromString lib) az (NodeGroupSpecs opts)
                       (w2\<lparr>autoDiscoverySpecs := specs\<rparr>)) (\<lambda>_ w3.
              andThen (retryOnError lib isErrorRetriable (forceRefresh az) w3) (\<lambda>_ w4. (Ok az, w4)))))"

definition createAzureManagerInternal ::
  "('e, 'c) managerLib \<Rightarrow> discoveryOptions \<Rightarrow> 'e azClient option \<Rightarrow> 'e world \<Rightarrow> 'e azClient go \<times> 'e world" where
  "createAzureManagerInternal lib opts given w =
     (case BuildAzureConfig (cfgLib lib) of
        Panic \<Rightarrow> (Panic, w)
      | Err e \<Rightarrow> (Err e, w)
      | Ok cfg \<Rightarrow>
          (case managerClient lib cfg given of
             Inl e \<Rightarrow> (Err e, w)
           | Inr az \<Rightarrow> startManager lib opts az (newManager cfg w)))"

definition CreateAzureManager ::
  "('e, 'c) managerLib \<Rightarrow> discoveryOptions \<Rightarrow> 'e world \<Rightarrow> 'e azClient go \<times> 'e world" where
  "CreateAzureManager lib opts = createAzureManagerInternal lib opts None"

section \<open>The methods of the provider\<close>

definition ProviderName :: string where "ProviderName = ''azure''"

definition availableGPUTypes :: "string list" where
  "availableGPUTypes = [''nvidia-tesla-a100'', ''nvidia-tesla-k80'', ''nvidia-tesla-p100'', ''nvidia-tesla-v100'']"

text \<open>\<open>gpu.GetNodeGPUFromCloudProvider\<close> is the argument \<open>gpuOf\<close>: it asks for the label and the types.\<close>

definition GetNodeGpuConfig :: "(string \<Rightarrow> string list \<Rightarrow> k8sNode \<Rightarrow> 'g option) \<Rightarrow> k8sNode \<Rightarrow> 'g option" where
  "GetNodeGpuConfig gpuOf node = gpuOf GPULabel availableGPUTypes node"

definition NodeGroups :: "'e world \<Rightarrow> nodeGroup list" where
  "NodeGroups w = map (\<lambda>asg. asg) (getNodeGroups w)"

definition NodeGroupForNode :: "k8sNode \<Rightarrow> 'e world \<Rightarrow> nodeGroup option go \<times> 'e world" where
  "NodeGroupForNode node w =
     (if node_ProviderID node = '''' then (Ok None, w)
      else if \<not> strings_HasPrefix (node_ProviderID node) azurePrefix then (Ok None, w)
      else GetNodeGroupForInstance (node_ProviderID node) w)"

definition cp_HasInstance :: "k8sNode \<Rightarrow> 'e world \<Rightarrow> bool go" where
  "cp_HasInstance node w =
     (if node_ProviderID node = ''''
      then Err (Errorf ''ProviderID for node: %s is empty, skipped'' [AStr (node_Name node)])
      else if \<not> strings_HasPrefix (node_ProviderID node) azurePrefix
      then Err (Errorf ''invalid azure ProviderID prefix for node: %s, skipped'' [AStr (node_Name node)])
      else HasInstance (node_ProviderID node) w)"

definition cp_Refresh :: "'e azClient \<Rightarrow> 'e world \<Rightarrow> unit go \<times> 'e world" where
  "cp_Refresh az w = Refresh az w"

definition Pricing :: "'p go" where "Pricing = Err ErrNotImplemented"
definition GetAvailableMachineTypes :: "string list go" where "GetAvailableMachineTypes = Ok []"
definition NewNodeGroup :: "nodeGroup go" where "NewNodeGroup = Err ErrNotImplemented"

section \<open>Building the provider\<close>

record ('e, 'l) AzureCloudProvider =
  azureManager :: "'e azClient"       \<comment> \<open>the manager: its client, the rest is the world\<close>
  resourceLimiter :: 'l

definition BuildAzureCloudProvider :: "'e azClient \<Rightarrow> 'l \<Rightarrow> ('e, 'l) AzureCloudProvider" where
  "BuildAzureCloudProvider az limiter = \<lparr>azureManager = az, resourceLimiter = limiter\<rparr>"

definition GetResourceLimiter :: "('e, 'l) AzureCloudProvider \<Rightarrow> 'l go" where
  "GetResourceLimiter azure = Ok (resourceLimiter azure)"

text \<open>
  The options \<open>BuildAzure\<close> reads; the processors of the autoscaler are \<open>None\<close> for nil, and else
  hold the labels and ratios of the comparator for Azure, \<open>None\<close> when it is not set.
\<close>

record 'r autoscalerOptions =
  CloudConfig :: string
  Processors :: "(string list \<times> 'r) option option"
  BalancingExtraIgnoredLabels :: "string list"
  NodeGroupSetRatios :: 'r

text \<open>\<open>klog.Fatalf\<close> ends the process, as a panic does. \<open>openFile\<close> is \<open>os.Open\<close>.\<close>

definition BuildAzure ::
  "(string \<Rightarrow> goerror + (goerror + string)) \<Rightarrow> ('e, 'c) managerLib \<Rightarrow> 'r autoscalerOptions \<Rightarrow>
     discoveryOptions \<Rightarrow> 'l \<Rightarrow> 'e world \<Rightarrow> (('e, 'l) AzureCloudProvider \<times> 'r autoscalerOptions) go \<times> 'e world" where
  "BuildAzure openFile lib opts discovery rl w =
     (case (if CloudConfig opts \<noteq> '''' then (case openFile (CloudConfig opts) of Inl e \<Rightarrow> Inl e | Inr r \<Rightarrow> Inr (Some r))
            else Inr None) of
        Inl e \<Rightarrow> (Panic, w)
      | Inr reader \<Rightarrow>
          (case CreateAzureManager (lib\<lparr>cfgLib := (cfgLib lib)\<lparr>configReader := reader\<rparr>\<rparr>) discovery w of
             (Ok az, w1) \<Rightarrow>
               (Ok (BuildAzureCloudProvider az rl,
                    (if Processors opts = None then opts
                     else opts\<lparr>Processors := Some (Some (BalancingExtraIgnoredLabels opts, NodeGroupSetRatios opts))\<rparr>)),
                w1)
           | (_, w1) \<Rightarrow> (Panic, w1)))"

section \<open>The constant methods of the node groups\<close>

text \<open>The three kinds of groups answer these the same way.\<close>

definition ngExist :: "nodeGroup \<Rightarrow> bool" where "ngExist ng = True"
definition ngCreate :: "nodeGroup \<Rightarrow> nodeGroup go" where "ngCreate ng = Err ErrAlreadyExist"
definition ngDelete :: "nodeGroup \<Rightarrow> unit go" where "ngDelete ng = Err ErrNotImplemented"
definition ngAutoprovisioned :: "nodeGroup \<Rightarrow> bool" where "ngAutoprovisioned ng = False"

definition ngDebug :: "'e world \<Rightarrow> nodeGroup \<Rightarrow> string" where
  "ngDebug w ng = ngId w ng @ '' ('' @ fmtInt (ngMinSize w ng) @ '':'' @ fmtInt (ngMaxSize w ng) @ '')''"

text \<open>What a VM pool and an agent pool do not implement; \<open>Ok None\<close> stands for the default options.\<close>

definition vp_ForceDeleteNodes :: "k8sNode list \<Rightarrow> unit go" where
  "vp_ForceDeleteNodes nodes = Err ErrNotImplemented"
definition vp_GetOptions :: "'o \<Rightarrow> 'o option go" where "vp_GetOptions defaults = Ok None"
definition ap_GetOptions :: "'o \<Rightarrow> 'o option go" where "ap_GetOptions defaults = Err ErrNotImplemented"
definition ap_AtomicIncreaseSize :: "int \<Rightarrow> unit go" where "ap_AtomicIncreaseSize delta = Err ErrNotImplemented"
definition ap_TemplateNodeInfo :: "'n go" where "ap_TemplateNodeInfo = Err ErrNotImplemented"

section \<open>Cleaning up\<close>

text \<open>
  The channel \<open>interrupt\<close> of the cache, closed or not. \<open>Cleanup\<close> is the only operation that uses
  it, so it is no part of the world. Closing a closed channel panics.
\<close>

definition closeChannel :: "bool \<Rightarrow> unit go \<times> bool" where
  "closeChannel closed = (if closed then (Panic, True) else (Ok (), True))"

definition cache_Cleanup :: "bool \<Rightarrow> unit go \<times> bool" where
  "cache_Cleanup interrupt = closeChannel interrupt"

definition manager_Cleanup :: "bool \<Rightarrow> unit go \<times> bool" where
  "manager_Cleanup interrupt = cache_Cleanup interrupt"

definition cp_Cleanup :: "bool \<Rightarrow> unit go \<times> bool" where
  "cp_Cleanup interrupt = andThen (manager_Cleanup interrupt) (\<lambda>_ closed. (Ok (), closed))"

text \<open>The provider can be cleaned up once.\<close>

lemma cp_Cleanup_once:
  "cp_Cleanup False = (Ok (), True)" "cp_Cleanup (snd (cp_Cleanup False)) = (Panic, True)"
  by (simp_all add: cp_Cleanup_def manager_Cleanup_def cache_Cleanup_def closeChannel_def andThen_def)

end
