(* ===== verification/Groups_Kept.thy ===== *)
theory Groups_Kept
  imports Cloud_Provider Scale_Set_Deletion
begin

text \<open>
  That the operations of a node group change neither the registry nor the identity of any group:
  the names and sizes of all groups, the registered groups, the allocated objects and the set of
  explicitly configured names are the same before and after. And that every capacity they ask Azure
  for is within the maximum of a scale set of the provider.
\<close>

section \<open>The groups kept\<close>

text \<open>A PUT of a scale set names one of the provider's scale sets, with a capacity up to its maximum.\<close>

definition withinMax :: "'e world \<Rightarrow> request \<Rightarrow> bool" where
  "withinMax w r \<longleftrightarrow>
     (case r of
        PutVMSS name op e \<Rightarrow>
          (\<exists>p c. groupAllocated w (ScaleSetRef p) \<and> ngId w (ScaleSetRef p) = name \<and> capacityOf op = Some c \<and>
             c \<le> ngMaxSize w (ScaleSetRef p))
      | _ \<Rightarrow> True)"

lemma withinMax_other [simp]:
  "withinMax w (DeleteVMSSInstances n ids f)" "withinMax w (PutAgentPool n b h)" "withinMax w (DeleteMachines n ids)"
  "withinMax w (PutDeployment n t ps)" "withinMax w (DeleteDeployment n)" "withinMax w (DeleteVM n)"
  "withinMax w (DeleteNIC n)" "withinMax w (DeleteDisk n)" "withinMax w (DeleteBlobReq a c blob)"
  by (simp_all add: withinMax_def)

definition requestsWithin :: "'e world \<Rightarrow> 'e world \<Rightarrow> bool" where
  "requestsWithin w w' \<longleftrightarrow> (\<forall>r \<in> set (requests w'). r \<in> set (requests w) \<or> withinMax w r)"

lemma requestsWithin_same: "requests w' = requests w \<Longrightarrow> requestsWithin w w'"
  by (simp add: requestsWithin_def)

definition groupsKept :: "'e world \<Rightarrow> 'e world \<Rightarrow> bool" where
  "groupsKept w w' \<longleftrightarrow>
     ngId w' = ngId w \<and> ngMinSize w' = ngMinSize w \<and> ngMaxSize w' = ngMaxSize w \<and>
     registeredNodeGroups (azCache w') = registeredNodeGroups (azCache w) \<and>
     ssNext w' = ssNext w \<and> apNext w' = apNext w \<and> vpNext w' = vpNext w \<and>
     explicitlyConfigured w' = explicitlyConfigured w \<and> requestsWithin w w'"

lemma groupsKept_allocated: "groupsKept w w' \<Longrightarrow> groupAllocated w' = groupAllocated w"
  by (auto simp: groupsKept_def groupAllocated_def fun_eq_iff split: nodeGroup.splits)

lemma groupsKept_within: "groupsKept w w' \<Longrightarrow> withinMax w' = withinMax w"
  by (rule ext, frule groupsKept_allocated) (simp add: withinMax_def groupsKept_def split: request.split)

lemma groupsKept_refl [simp]: "groupsKept w w"
  by (simp add: groupsKept_def requestsWithin_def)

lemma groupsKept_trans [trans]: "groupsKept w w1 \<Longrightarrow> groupsKept w1 w2 \<Longrightarrow> groupsKept w w2"
  using groupsKept_within [of w w1] by (auto simp: groupsKept_def requestsWithin_def)

lemma groupsKeptI:
  assumes "\<And>q. ss_Name (ssAt w' q) = ss_Name (ssAt w q) \<and> ss_minSize (ssAt w' q) = ss_minSize (ssAt w q) \<and>
      ss_maxSize (ssAt w' q) = ss_maxSize (ssAt w q)"
    "\<And>q. ap_Name (apAt w' q) = ap_Name (apAt w q) \<and> ap_minSize (apAt w' q) = ap_minSize (apAt w q) \<and>
      ap_maxSize (apAt w' q) = ap_maxSize (apAt w q)"
    "vpAt w' = vpAt w" "registeredNodeGroups (azCache w') = registeredNodeGroups (azCache w)"
    "ssNext w' = ssNext w" "apNext w' = apNext w" "vpNext w' = vpNext w"
    "explicitlyConfigured w' = explicitlyConfigured w" "requestsWithin w w'"
  shows "groupsKept w w'"
  using assms by (auto simp: groupsKept_def fun_eq_iff ngId_def ngMinSize_def ngMaxSize_def split: nodeGroup.splits)

lemma groupsKept_steps [simp]:
  "groupsKept w (w'\<lparr>env := e\<rparr>) = groupsKept w w'"
  "groupsKept w (w'\<lparr>config := c\<rparr>) = groupsKept w w'"
  "groupsKept w (w'\<lparr>goroutines := gs\<rparr>) = groupsKept w w'"
  "withinMax w r \<Longrightarrow> groupsKept w (sendReq r w') = groupsKept w w'"
  "groupsKept w (spawn g w') = groupsKept w w'"
  "groupsKept w (invalidateCache az w') = groupsKept w w'"
  "groupsKept w (updVMSS v h w') = groupsKept w w'"
  "groupsKept w (setCapacity v cap w') = groupsKept w w'"
  "groupsKept w (w'\<lparr>lastRefresh := t\<rparr>) = groupsKept w w'"
  by (auto simp: groupsKept_def requestsWithin_def fun_eq_iff ngId_def ngMinSize_def ngMaxSize_def invalidateCache_def setCapacity_def
      updVMSS_def spawn_def sendReq_def split: nodeGroup.splits)

lemma groupsKept_updSS [simp]:
  assumes "ss_Name (f (ssAt w' p)) = ss_Name (ssAt w' p)" "ss_minSize (f (ssAt w' p)) = ss_minSize (ssAt w' p)"
    "ss_maxSize (f (ssAt w' p)) = ss_maxSize (ssAt w' p)"
  shows "groupsKept w (updSS p f w') = groupsKept w w'"
  using assms by (auto simp: groupsKept_def requestsWithin_def fun_eq_iff ngId_def ngMinSize_def ngMaxSize_def split: nodeGroup.splits)

lemma groupsKept_updAP [simp]:
  assumes "ap_Name (f (apAt w' p)) = ap_Name (apAt w' p)" "ap_minSize (f (apAt w' p)) = ap_minSize (apAt w' p)"
    "ap_maxSize (f (apAt w' p)) = ap_maxSize (apAt w' p)"
  shows "groupsKept w (updAP p f w') = groupsKept w w'"
  using assms by (auto simp: groupsKept_def requestsWithin_def fun_eq_iff ngId_def ngMinSize_def ngMaxSize_def split: nodeGroup.splits)

lemma groupsKept_updCache [simp]:
  assumes "registeredNodeGroups (f (azCache w')) = registeredNodeGroups (azCache w')"
  shows "groupsKept w (updCache f w') = groupsKept w w'"
  using assms by (auto simp: groupsKept_def requestsWithin_def fun_eq_iff ngId_def ngMinSize_def ngMaxSize_def split: nodeGroup.splits)

lemma groupsKept_states [simp]:
  "groupsKept w (setInstanceStateByProviderID i st w') = groupsKept w w'"
  "groupsKept w (markUnowned i w') = groupsKept w w'"
  "groupsKept w (invalidateInstanceCache az p w') = groupsKept w w'"
  "groupsKept w (invalidateLastSizeRefresh az p w') = groupsKept w w'"
  by (auto simp: setInstanceStateByProviderID_def markUnowned_def invalidateInstanceCache_def
      invalidateLastSizeRefresh_def split: go.splits option.splits)

lemma groupsKept_calls [simp]:
  "groupsKept w (snd (call f w')) = groupsKept w w'" "groupsKept w (snd (callGo f w')) = groupsKept w w'"
  by (simp_all add: call_env callGo_env)

lemma groupsKept_andThen:
  assumes "groupsKept w (snd r)" "\<And>x w1. r = (Ok x, w1) \<Longrightarrow> groupsKept w w1 \<Longrightarrow> groupsKept w (snd (k x w1))"
  shows "groupsKept w (snd (andThen r k))"
  using assms by (cases r) (auto simp: andThen_def split: go.splits)

lemma groupsKept_refresh:
  assumes "refreshFrame w w'"
  shows "groupsKept w w'"
  unfolding groupsKept_def using refreshFrame_fields(1-4,14) [OF assms] requestsWithin_same [OF refreshFrame_fields(11) [OF assms]]
  by (intro conjI) (use assms in \<open>simp_all only: refreshFrame_def\<close>)

lemma groupsKept_ss:
  assumes "ssFrame p w w'" "requestsWithin w w'"
  shows "groupsKept w w'"
proof -
  note f = ssFrame_fields(1-3) [OF assms(1)]
  obtain sets where g: "azCache w' = (azCache w)\<lparr>scaleSets := sets\<rparr>" "apAt w' = apAt w" "vpAt w' = vpAt w"
    "ssNext w' = ssNext w" "apNext w' = apNext w" "vpNext w' = vpNext w" "explicitlyConfigured w' = explicitlyConfigured w"
    using assms(1) unfolding ssFrame_def by blast
  show ?thesis
    by (rule groupsKeptI) (simp_all add: f g assms(2))
qed

lemma groupsKept_quiet: "quietFrame p w w' \<Longrightarrow> groupsKept w w'"
  by (auto simp: quietFrame_def quiet_def intro!: groupsKept_ss requestsWithin_same)

lemma groupsKept_inst: "instOnly p w w' \<Longrightarrow> groupsKept w w'"
  by (auto simp: instOnly_def)

section \<open>Every operation of a group keeps the groups\<close>

lemma callD: "call f w = (r, w1) \<Longrightarrow> groupsKept w0 w1 = groupsKept w0 w"
  by (auto simp: call_env)

lemma callGoD: "callGo f w = (r, w1) \<Longrightarrow> groupsKept w0 w1 = groupsKept w0 w"
  by (auto simp: callGo_env)

lemma andThenD:
  assumes "andThen r k = (x, w1)" "groupsKept w (snd r)"
    "\<And>y w2. r = (Ok y, w2) \<Longrightarrow> groupsKept w w2 \<Longrightarrow> groupsKept w (snd (k y w2))"
  shows "groupsKept w w1"
  using groupsKept_andThen [of w r k] assms by simp

lemma sizes_groupsKept: "groupsKept w (snd (getScaleSetSize az p w))"
  by (rule groupsKept_quiet [OF getScaleSetSize_frame])

lemma canIncrease_groupsKept: "groupsKept w (snd (canIncreaseSize az p delta w))"
  by (rule groupsKept_quiet [OF canIncreaseSize_frame])

lemma publish_groupsKept [simp]: "groupsKept w (publishSize az p n w') = groupsKept w w'"
  by (simp add: publishSize_def)

text \<open>The two operations that send PUTs of a scale set.\<close>

lemma groupsKept_bounded:
  assumes "ssFrame p w w'" "boundedPuts p w w'" "p < ssNext w"
  shows "groupsKept w w'"
proof (rule groupsKept_ss [OF assms(1)])
  show "requestsWithin w w'"
    using assms(2,3)
    by (fastforce simp: boundedPuts_def requestsWithin_def withinMax_def isPut_def list_all_iff ngId_def ngMaxSize_def
        groupAllocated_def split: request.splits)
qed

lemma ssFrame_andThen:
  assumes "ssFrame p w (snd r)" "\<And>x w1. r = (Ok x, w1) \<Longrightarrow> ssFrame p w1 (snd (k x w1))"
  shows "ssFrame p w (snd (andThen r k))"
  using assms ssFrame_trans by (cases r) (fastforce simp: andThen_def split: go.splits)

lemma increase_ssFrame:
  "ssFrame p w (snd (IncreaseSize az p delta w))" "ssFrame p w (snd (AtomicIncreaseSize az p delta w))"
proof -
  have can: "ssFrame p v (snd (canIncreaseSize az p delta v))" for v
    using canIncreaseSize_frame [of p v az delta] by (simp add: quietFrame_def)
  have create: "ssFrame p v (snd (createOrUpdateInstances az p x n v))" for v x n
    using createOrUpdate_requests by blast
  have init: "ssFrame p v (snd (initCreateOrUpdate az p x n v))" for v x n
    using init_sent [of p n v az x] by (auto simp: sentPuts_def)
  have await: "ssFrame p v (snd (awaitAtomicIncrease az p x n y v))" for v x n y
  proof -
    have inst: "ssFrame p v (invalidateInstanceCache az p (v\<lparr>env := e\<rparr>))" for e
      by (rule ssFrame_trans [OF frame_steps(1) frame_invalidate(1)])
    note bad = ssFrame_trans [OF inst ssFrame_trans [OF frame_invalidate(2) frame_steps(6)]]
    note finish = ssFrame_trans [OF inst finishAtomic_frame(1)]
    obtain ev q where y: "y = (ev, q)" by (cases y)
    show ?thesis
    proof (cases q)
      case None
      then show ?thesis by (simp add: y awaitAtomicIncrease_def finishAtomic_frame(1))
    next
      case (Some pl)
      obtain r e where "pollCreateOrUpdate az pl (env v) = (r, e)" by fastforce
      with Some show ?thesis
        by (cases r) (simp_all add: y awaitAtomicIncrease_def call_env Let_def bad finish)
    qed
  qed
  show "ssFrame p w (snd (IncreaseSize az p delta w))"
    unfolding IncreaseSize_def setScaleSetSize_def
    by (rule ssFrame_andThen [OF can]) (auto split: go.split intro: create)
  show "ssFrame p w (snd (AtomicIncreaseSize az p delta w))"
    unfolding AtomicIncreaseSize_def
    by (rule ssFrame_andThen [OF can]) (auto split: go.split intro!: ssFrame_andThen init await)
qed

lemma IncreaseSize_groupsKept: "p < ssNext w \<Longrightarrow> groupsKept w (snd (IncreaseSize az p delta w))"
  using groupsKept_bounded [OF increase_ssFrame(1)] IncreaseSize_requests_aux unfolding boundedPuts_def by metis

lemma AtomicIncreaseSize_groupsKept: "p < ssNext w \<Longrightarrow> groupsKept w (snd (AtomicIncreaseSize az p delta w))"
  using groupsKept_bounded [OF increase_ssFrame(2)] atomic_steps by (metis prod.collapse)

lemma DecreaseTargetSize_groupsKept: "groupsKept w (snd (DecreaseTargetSize az p delta w))"
  unfolding DecreaseTargetSize_def
  by (rule groupsKept_andThen [OF groupsKept_trans [OF _ sizes_groupsKept]]) simp_all

lemma sendDelete_groupsKept [simp]: "groupsKept w (snd (sendDelete az name ids force w')) = groupsKept w w'"
  by (simp add: sendDelete_def callGo_env)

lemma sendDeleteD: "sendDelete az name ids force w = (r, w1) \<Longrightarrow> groupsKept w0 w1 = groupsKept w0 w"
  using sendDelete_groupsKept [of w0 az name ids force w] by simp

lemma deleteInstances_groupsKept: "groupsKept w (snd (deleteInstances az p ids name w))"
  unfolding deleteInstances_def Let_def
  by (auto split: go.splits prod.splits simp: sendDeleteD)

lemma decrementSize_groupsKept [simp]: "groupsKept w (decrementSize az p n w') = groupsKept w w'"
  by (simp add: decrementSize_def)

lemma afterDelete_groupsKept: "groupsKept w (snd (afterDelete az p todel ids unreg poller w))"
  unfolding afterDelete_def
proof (rule groupsKept_andThen, goal_cases)
  case 1
  show ?case by (auto intro: groupsKept_trans [OF _ groupsKept_inst [OF markLoop_instOnly]])
next
  case (2 x w1) then show ?case by (auto split: option.splits)
qed

lemma GetNodeGroup_groupsKept: "groupsKept w (snd (GetNodeGroupForInstance i w))"
  by (rule groupsKept_inst [OF GetNodeGroup_instOnly])

lemma DeleteInstances_groupsKept: "groupsKept w (snd (DeleteInstances az p instances unreg w))"
proof (cases "instances = []")
  case False
  have "groupsKept w (snd (case (lastSegments is, g) of
      (Ok ids, Some g) \<Rightarrow> andThen (deleteInstances az p ids (ngId w2 g) w2) (afterDelete az p is ids unreg)
    | (Err e, _) \<Rightarrow> (Err e, w2) | _ \<Rightarrow> (Panic, w2)))" if "groupsKept w w2" for "is" g w2
    using that by (auto split: go.split option.split intro!: groupsKept_andThen
        groupsKept_trans [OF that deleteInstances_groupsKept] elim: groupsKept_trans [OF _ afterDelete_groupsKept])
  with False show ?thesis
    unfolding DeleteInstances_def
    by (auto intro!: groupsKept_andThen GetNodeGroup_groupsKept groupsKept_trans [OF _ groupsKept_inst [OF eligible_instOnly]])
qed (simp add: DeleteInstances_def)

lemma belongsTo_groupsKept: "groupsKept w (snd (belongsTo unknown own node w))"
  unfolding belongsTo_def by (rule groupsKept_andThen [OF GetNodeGroup_groupsKept]) (auto split: option.splits)

lemma belongLoop_groupsKept: "groupsKept w (snd (belongLoop p ns w))"
proof (induction ns arbitrary: w)
  case (Cons n ns)
  show ?case
    by (auto simp: Belongs_def split: prod.splits intro!: groupsKept_andThen belongsTo_groupsKept groupsKept_trans [OF _ Cons.IH])
qed simp

lemma ForceDeleteNodes_groupsKept: "groupsKept w (snd (ForceDeleteNodes az p ns w))"
  unfolding ForceDeleteNodes_def
  by (rule groupsKept_andThen [OF belongLoop_groupsKept])
    (auto split: prod.splits intro: groupsKept_trans [OF _ DeleteInstances_groupsKept])

lemma DeleteNodes_groupsKept: "groupsKept w (snd (DeleteNodes az p ns w))"
  unfolding DeleteNodes_def
  by (rule groupsKept_andThen [OF sizes_groupsKept]) (auto intro: groupsKept_trans [OF _ ForceDeleteNodes_groupsKept])

lemma waitForCreate_groupsKept: "groupsKept w (waitForCreateOrUpdateInstances az p q v w)"
  unfolding waitForCreateOrUpdateInstances_def Let_def
  by (auto simp: call_env split: prod.splits option.splits sum.splits)

lemma vp_getCurSize_groupsKept: "groupsKept w (snd (vp_getCurSize az op p w))"
  unfolding vp_getCurSize_def getSpotPoolSize_def getAgentpoolFromAzure_def
  by (auto split: go.splits option.splits sum.splits prod.splits intro!: groupsKept_andThen simp: callD)

lemma put_groupsKept [simp]: "groupsKept w (snd (putAgentPool az p body headers w)) "
  unfolding putAgentPool_def Let_def by (auto intro!: groupsKept_andThen)

lemma putD: "putAgentPool az p body headers w = (r, w1) \<Longrightarrow> groupsKept w w1"
  using put_groupsKept [of w az p body headers] by simp

lemma scaleUp_groupsKept: "groupsKept w (snd (scaleUpAgentPool az p ap n w))"
  unfolding scaleUpAgentPool_def Let_def
  by (auto split: option.splits prod.splits if_splits intro!: groupsKept_trans [OF _ put_groupsKept] dest!: putD
      elim!: groupsKept_trans [rotated])

lemma vp_IncreaseSize_groupsKept: "groupsKept w (snd (vp_IncreaseSize az p delta w))"
  unfolding vp_IncreaseSize_def
  by (auto split: go.splits intro!: groupsKept_andThen vp_getCurSize_groupsKept
      groupsKept_trans [OF _ scaleUp_groupsKept])

lemma getProviderIDs_groupsKept: "groupsKept w (snd (getProviderIDsForNodes p ns w))"
proof (induction ns arbitrary: w)
  case (Cons n ns)
  have b: "groupsKept w (snd (vp_Belongs p n w))" by (simp add: vp_Belongs_def belongsTo_groupsKept)
  show ?case
    using b by (auto split: prod.splits go.splits bool.splits intro!: groupsKept_andThen groupsKept_trans [OF _ Cons.IH])
qed simp

lemma markDeleting_groupsKept [simp]: "groupsKept w (markDeleting ids w') = groupsKept w w'"
  unfolding markDeleting_def by (induction ids arbitrary: w') simp_all

lemma deleteMachines_groupsKept:
  "groupsKept w (snd (andThen (callGo f (sendReq (DeleteMachines name ids) w)) (\<lambda>q. callGo (g q))))"
  by (rule groupsKept_andThen) simp_all

lemma vp_DeleteNodes_groupsKept: "groupsKept w (snd (vp_DeleteNodes az p nodes w))"
proof -
  obtain r w1 where c: "vp_getCurSize az \<lparr>skipDeleting = True, skipFailed = False\<rparr> p w = (r, w1)" by fastforce
  have k1: "groupsKept w w1"
    using vp_getCurSize_groupsKept [of w az "\<lparr>skipDeleting = True, skipFailed = False\<rparr>" p] c by simp
  obtain r2 w2 where g: "getProviderIDsForNodes p nodes w1 = (r2, w2)" by fastforce
  have k2: "groupsKept w w2" using groupsKept_trans [OF k1 getProviderIDs_groupsKept [of w1 p nodes]] g by simp
  have kept: "groupsKept w (snd (case andThen (callGo f (sendReq (DeleteMachines name ids) w3)) (\<lambda>q. callGo (h q)) of
      (r, w4) \<Rightarrow> (r, invalidateCache az w4)))"
    if "groupsKept w w3" for w3 f name ids h
    using groupsKept_trans [OF that deleteMachines_groupsKept [of w3 f name ids h]] by (auto split: prod.split)
  show ?thesis
    unfolding vp_DeleteNodes_def c prod.case Let_def
    by (cases r; cases r2) (use k1 k2 in \<open>auto simp: g split: go.split intro!: kept\<close>)
qed

lemma deleteDeployments_groupsKept: "groupsKept w (snd (deleteDeployments az ds errs w))"
proof (induction ds arbitrary: errs w)
  case (Cons d ds)
  show ?case
    by (auto split: option.splits prod.splits sum.splits intro!: groupsKept_trans [OF _ Cons.IH] simp: callD)
qed simp

lemma getDeployments_groupsKept: "groupsKept w (snd (getAllSucceededAndFailedDeployments az w))"
  unfolding getAllSucceededAndFailedDeployments_def by (rule groupsKept_andThen) simp_all

lemma outdated_groupsKept: "groupsKept w (snd (deleteOutdatedDeployments az w))"
  unfolding deleteOutdatedDeployments_def Let_def
  by (auto intro!: groupsKept_andThen getDeployments_groupsKept groupsKept_trans [OF _ deleteDeployments_groupsKept])

lemma deployMore_groupsKept: "groupsKept w (snd (deployMore az p is delta w))"
  unfolding deployMore_def Let_def
  by (auto split: option.splits prod.splits intro!: groupsKept_andThen simp: callD)

lemma ap_IncreaseSize_groupsKept: "groupsKept w (snd (ap_IncreaseSize az p delta w))"
proof -
  obtain r w1 where d: "deleteOutdatedDeployments az w = (r, w1)" by fastforce
  have "groupsKept w w1" using outdated_groupsKept [of w az] d by simp
  then show ?thesis
    unfolding ap_IncreaseSize_def d Let_def
    by (cases r) (auto split: go.split prod.split intro!: groupsKept_trans [OF _ deployMore_groupsKept])
qed

lemma ap_getCurSize_groupsKept: "groupsKept w (snd (ap_getCurSize az p w))"
  unfolding ap_getCurSize_def Let_def by (auto intro!: groupsKept_andThen split: prod.splits)

lemma ap_DecreaseTargetSize_groupsKept: "groupsKept w (snd (ap_DecreaseTargetSize az p delta w))"
  unfolding ap_DecreaseTargetSize_def Let_def by (auto intro!: groupsKept_andThen)

lemma ap_belongLoop_groupsKept: "groupsKept w (snd (ap_belongLoop p nodes w))"
proof (induction nodes arbitrary: w)
  case (Cons n ns)
  show ?case
    by (auto simp: ap_Belongs_def intro!: groupsKept_andThen belongsTo_groupsKept groupsKept_trans [OF _ Cons.IH])
qed simp

lemma sameGroupLoop_groupsKept: "groupsKept w (snd (sameGroupLoop common is w))"
proof (induction "is" arbitrary: common w)
  case (Cons i "is")
  show ?case
    by (auto split: option.splits intro!: groupsKept_andThen GetNodeGroup_groupsKept groupsKept_trans [OF _ Cons.IH])
qed simp

lemma DeleteBlob_groupsKept: "groupsKept w (snd (DeleteBlob az account container blob w))"
  unfolding DeleteBlob_def Let_def
  by (rule groupsKept_andThen) (auto split: option.splits sum.splits)

lemma deleteOSDisk_groupsKept: "groupsKept w (snd (deleteOSDisk az disk w))"
proof -
  have "groupsKept w (snd (andThen (x, w) (\<lambda>(account, container, blob) w1.
            case DeleteBlob az account container blob w1 of
              (Err e, w2) \<Rightarrow> if \<not> isNotFoundErr az e then (Err e, w2) else (Ok (), w2)
            | r \<Rightarrow> r)))" for x
  proof (rule groupsKept_andThen, goal_cases)
    case (2 y w1)
    obtain a c b where y: "y = (a, c, b)" by (cases y)
    obtain r w2 where d: "DeleteBlob az a c b w1 = (r, w2)" by fastforce
    have "groupsKept w w2" using groupsKept_trans [OF 2(2) DeleteBlob_groupsKept [of w1 az a c b]] d by simp
    then show ?case by (cases r) (simp_all add: y d)
  qed simp
  then show ?thesis
    unfolding deleteOSDisk_def
    by (auto split: option.splits prod.splits go.splits simp: callGoD)
qed

lemma deleteVM_groupsKept: "groupsKept w (snd (deleteVirtualMachine az name w))"
proof -
  have parts: "groupsKept w' (snd (deleteParts az name disk nic w'))" for w' disk nic
    unfolding deleteParts_def Let_def
    by (auto split: sum.splits prod.splits intro!: groupsKept_trans [OF _ deleteOSDisk_groupsKept] simp: callD)
  show ?thesis
    unfolding deleteVirtualMachine_def
    by (auto split: sum.splits prod.splits option.splits go.splits simp: callD
        intro!: groupsKept_trans [OF _ parts])
qed

lemma deleteVMsLoop_groupsKept: "groupsKept w (snd (deleteVMsLoop az is w))"
proof (induction "is" arbitrary: w)
  case (Cons i "is")
  have d: "groupsKept w w2" if "deleteVirtualMachine az name w1 = (r, w2)" "groupsKept w w1" for name r w1 w2
    using that deleteVM_groupsKept [of w1 az name] groupsKept_trans by fastforce
  show ?case
    by (auto split: go.splits prod.splits simp: Let_def intro!: groupsKept_trans [OF _ Cons.IH] dest!: d)
qed simp

lemma ap_DeleteInstances_groupsKept: "groupsKept w (snd (ap_DeleteInstances az is w))"
  unfolding ap_DeleteInstances_def
  by (auto split: list.split simp del: sameGroupLoop.simps deleteVMsLoop.simps intro!: groupsKept_andThen GetNodeGroup_groupsKept
      groupsKept_trans [OF _ sameGroupLoop_groupsKept] groupsKept_trans [OF _ deleteVMsLoop_groupsKept])

lemma ap_ForceDeleteNodes_groupsKept: "groupsKept w (snd (ap_ForceDeleteNodes az p nodes w))"
  unfolding ap_ForceDeleteNodes_def
proof (rule groupsKept_andThen [OF ap_belongLoop_groupsKept])
  fix refs w1
  assume k: "groupsKept w w1"
  obtain r w2 where d: "deleteOutdatedDeployments az w1 = (r, w2)" by fastforce
  have "groupsKept w w2" using groupsKept_trans [OF k outdated_groupsKept [of w1 az]] d by simp
  then show "groupsKept w (snd (case deleteOutdatedDeployments az w1 of
      (Panic, w2) \<Rightarrow> (Panic, w2) | (_, w2) \<Rightarrow> ap_DeleteInstances az refs w2))"
    unfolding d by (cases r) (auto intro: groupsKept_trans [OF _ ap_DeleteInstances_groupsKept])
qed

lemma ap_DeleteNodes_groupsKept: "groupsKept w (snd (ap_DeleteNodes az p nodes w))"
  unfolding ap_DeleteNodes_def
  by (rule groupsKept_andThen) (auto split: prod.splits intro: ap_ForceDeleteNodes_groupsKept)

end
