(* ===== verification/Provider_System.thy ===== *)
theory Provider_System
  imports Groups_Kept
begin

text \<open>
  The provider as a transition system: the calls of the autoscaler on the provider and its node
  groups, the goroutines that complete operations, and Azure changing in between, as steps on the
  world; what holds in every state reachable from a manager that \<open>createAzureManagerInternal\<close>
  returned.
\<close>

section \<open>Well-formed worlds\<close>

definition wellFormed :: "'e world \<Rightarrow> bool" where
  "wellFormed w \<longleftrightarrow>
     distinctGroups w \<and> registryAllocated w \<and>
     (\<forall>g \<in> set (registeredNodeGroups (azCache w)). isExplicit w g \<or> validGroup w g)"

text \<open>
  A group that exists keeps its name and sizes, names stay explicitly configured, and every PUT of a
  scale set sent in between is within the maximum of a scale set of that name.
\<close>

definition identitiesKept :: "'e world \<Rightarrow> 'e world \<Rightarrow> bool" where
  "identitiesKept w w' \<longleftrightarrow>
     (\<forall>g. groupAllocated w g \<longrightarrow> ngId w' g = ngId w g \<and> ngMinSize w' g = ngMinSize w g \<and>
        ngMaxSize w' g = ngMaxSize w g \<and> groupAllocated w' g \<and> (isExplicit w g \<longrightarrow> isExplicit w' g)) \<and>
     (\<forall>r \<in> set (requests w'). r \<in> set (requests w) \<or> withinMax w' r)"

lemma identitiesKeptI:
  assumes "\<And>g. groupAllocated w g \<Longrightarrow> ngId w' g = ngId w g \<and> ngMinSize w' g = ngMinSize w g \<and>
      ngMaxSize w' g = ngMaxSize w g \<and> groupAllocated w' g \<and> (isExplicit w g \<longrightarrow> isExplicit w' g)"
    and "requests w' = requests w"
  shows "identitiesKept w w'"
  using assms by (simp add: identitiesKept_def)

lemma identitiesKept_refl [simp]: "identitiesKept w w"
  by (simp add: identitiesKept_def)

lemma identitiesKept_within: "identitiesKept w w' \<Longrightarrow> withinMax w r \<Longrightarrow> withinMax w' r"
  by (force simp: identitiesKept_def withinMax_def split: request.splits)

lemma identitiesKept_trans [trans]:
  assumes "identitiesKept w w1" "identitiesKept w1 w2"
  shows "identitiesKept w w2"
  using assms identitiesKept_within [OF assms(2)] unfolding identitiesKept_def by metis

lemma groupsKept_identities: "groupsKept w w' \<Longrightarrow> identitiesKept w w'"
  using groupsKept_allocated [of w w'] groupsKept_within [of w w']
  by (auto simp: groupsKept_def identitiesKept_def isExplicit_def requestsWithin_def)

text \<open>What is registered afterwards was registered before or is an allocated group of its own.\<close>

lemma wellFormedI:
  assumes "wellFormed w" "identitiesKept w w'" "distinctGroups w'"
    and "\<And>g. g \<in> set (registeredNodeGroups (azCache w')) \<Longrightarrow>
      g \<in> set (registeredNodeGroups (azCache w)) \<or> groupAllocated w' g \<and> (isExplicit w' g \<or> validGroup w' g)"
  shows "wellFormed w'"
  unfolding wellFormed_def registryAllocated_def list_all_iff
  using assms unfolding wellFormed_def identitiesKept_def validGroup_def registryAllocated_def list_all_iff by metis

lemma wellFormed_kept:
  assumes "groupsKept w w'" "wellFormed w"
  shows "wellFormed w'"
proof (rule wellFormedI [OF assms(2) groupsKept_identities [OF assms(1)]])
  have "sameId w' = sameId w" using assms(1) by (simp add: fun_eq_iff sameId_def groupsKept_def)
  then show "distinctGroups w'"
    using assms by (simp add: wellFormed_def distinctGroups_def groupsKept_def)
qed (use assms(1) in \<open>simp add: groupsKept_def\<close>)

lemma wellFormed_invalidate: "wellFormed w \<Longrightarrow> wellFormed (invalidateCache az w)"
  by (rule wellFormed_kept [of w]) simp_all

section \<open>The refresh keeps worlds well formed\<close>

lemma discover_identities:
  assumes "getFilteredNodeGroups flt w = (r, w')"
  shows "identitiesKept w w'"
proof -
  have "w' = w\<lparr>ssAt := ssAt w', ssNext := ssNext w'\<rparr>" using discover_frame [OF assms] by blast
  from arg_cong [OF this, of explicitlyConfigured] arg_cong [OF this, of requests]
  have "explicitlyConfigured w' = explicitlyConfigured w" "requests w' = requests w" by simp_all
  then show ?thesis
    using discover_keeps [OF assms] by (intro identitiesKeptI) (simp_all add: isExplicit_def)
qed

lemma registryOnly_identities:
  assumes "registryOnly w w'"
  shows "identitiesKept w w'"
proof -
  have "groupAllocated w' = groupAllocated w"
    using assms by (auto simp: fun_eq_iff groupAllocated_def registryOnly_def split: nodeGroup.splits)
  then show ?thesis using registryOnly_fields [OF assms] by (simp add: identitiesKept_def)
qed

lemma fetchAuto_wellFormed:
  assumes "fetchAutoNodeGroups az w = (r, w')" "wellFormed w"
  shows "wellFormed w' \<and> identitiesKept w w'"
proof (cases "r = Ok ()")
  case True
  then have f: "fetchAutoNodeGroups az w = (Ok (), w')" using assms(1) by simp
  obtain gs w1 c1 w2 c2 w3 where g: "getFilteredNodeGroups (autoDiscoverySpecs w) w = (Ok gs, w1)"
    and r: "registerDiscovered gs False w1 = (c1, w2)"
    and u: "unregisterMissing (map (ngId w2) gs) (getNodeGroups w2) c1 w2 = (c2, w3)"
    and w': "w' = (if c2 then invalidateCache az w3 else w3)"
    using fetchAuto_unfold [OF f] .
  have "registryOnly w1 w3"
    using registryOnly_trans [OF registerDiscovered_only [OF r] unregisterMissing_only [OF u]] .
  then have "identitiesKept w w3"
    using identitiesKept_trans [OF discover_identities [OF g]] registryOnly_identities by blast
  moreover have "identitiesKept w3 w'" unfolding w' by (auto intro: groupsKept_identities)
  ultimately have k: "identitiesKept w w'" by (rule identitiesKept_trans)
  have w: "distinctGroups w" "registryAllocated w" using assms(2) by (simp_all add: wellFormed_def)
  note reg = fetchAuto_registry [OF f w]
  have "wellFormed w'"
    by (rule wellFormedI [OF assms(2) k reg(1)])
      (use reg(4,5) in \<open>auto simp: registryAllocated_def list_all_iff\<close>)
  with k show ?thesis by blast
next
  case False
  then obtain r1 where g: "getFilteredNodeGroups (autoDiscoverySpecs w) w = (r1, w')"
    using assms(1) by (auto simp: fetchAutoNodeGroups_def split: prod.splits go.splits)
  have w: "distinctGroups w" "registryAllocated w" using assms(2) by (simp_all add: wellFormed_def)
  have "wellFormed w'"
    by (rule wellFormedI [OF assms(2) discover_identities [OF g] discover_distinct(1) [OF g w]])
      (simp add: discover_distinct(2) [OF g w])
  with discover_identities [OF g] show ?thesis by blast
qed

lemma regenerate_groupsKept: "groupsKept w (snd (regenerate az w))"
proof -
  obtain r w' where reg: "regenerate az w = (r, w')" by fastforce
  then have "groupsKept w w'" by (cases rule: regenerate_cases) (auto simp: groupsKept_refresh)
  with reg show ?thesis by simp
qed

lemma forceRefresh_wellFormed:
  assumes "forceRefresh az w = (r, w')" "wellFormed w"
  shows "wellFormed w' \<and> identitiesKept w w'"
proof -
  obtain r1 w1 where a: "fetchAutoNodeGroups az w = (r1, w1)" by fastforce
  note w1 = fetchAuto_wellFormed [OF a assms(2)]
  have "groupsKept w1 w'"
  proof (cases "r1 = Panic")
    case False
    obtain r2 w2 where reg: "regenerate az w1 = (r2, w2)" by fastforce
    have "groupsKept w1 w2" using regenerate_groupsKept [of w1 az] reg by simp
    with assms(1) a reg False show ?thesis
      by (auto simp: forceRefresh_def andThen_def split: go.splits)
  qed (use assms(1) a in \<open>simp add: forceRefresh_def\<close>)
  with w1 show ?thesis using wellFormed_kept groupsKept_identities identitiesKept_trans by metis
qed

section \<open>Creating the manager\<close>

text \<open>
  What the code relies on of \<open>kretry.OnError\<close>: the function is attempted one or more times, each
  attempt after the first in the world its predecessor left with a retriable error, some time
  later, and the result is that of the last attempt.
\<close>

inductive attempts ::
  "(goerror option \<Rightarrow> bool) \<Rightarrow> ('e world \<Rightarrow> unit go \<times> 'e world) \<Rightarrow> 'e world \<Rightarrow> 'e world \<Rightarrow> bool"
  for retriable f where
  first: "attempts retriable f w w"
| again: "attempts retriable f w v \<Longrightarrow> f v = (Err e, v') \<Longrightarrow> retriable (Some e) \<Longrightarrow>
    attempts retriable f w (v'\<lparr>env := later\<rparr>)"

definition retries :: "('e, 'c) managerLib \<Rightarrow> bool" where
  "retries lib \<longleftrightarrow>
     (\<forall>retriable f w. \<exists>v. attempts retriable f w v \<and> retryOnError lib retriable f w = f v)"

lemma attempts_wellFormed:
  assumes "attempts retriable (forceRefresh az) w v" "wellFormed w"
  shows "wellFormed v \<and> identitiesKept w v"
  using assms
proof (induction rule: attempts.induct)
  case (again w v e v' later)
  then have "wellFormed v" "identitiesKept w v" by blast+
  with forceRefresh_wellFormed [OF again.hyps(2)] have "wellFormed v'" "identitiesKept w v'"
    using identitiesKept_trans by blast+
  moreover have "groupsKept v' (v'\<lparr>env := later\<rparr>)" by simp
  ultimately show ?case using wellFormed_kept groupsKept_identities identitiesKept_trans by blast
qed simp

lemma identities_alloc:
  "identitiesKept w (w\<lparr>ssAt := (ssAt w)(ssNext w := s), ssNext := Suc (ssNext w)\<rparr>)"
  "identitiesKept w (w\<lparr>apAt := (apAt w)(apNext w := a), apNext := Suc (apNext w)\<rparr>)"
  "identitiesKept w (w\<lparr>vpAt := (vpAt w)(vpNext w := v), vpNext := Suc (vpNext w)\<rparr>)"
  by (auto simp: identitiesKept_def groupAllocated_def ngId_def ngMinSize_def ngMaxSize_def isExplicit_def
      split: nodeGroup.splits)

lemma initialize_env: "\<exists>e. snd (ap_initialize az w) = w\<lparr>env := e\<rparr>"
  unfolding ap_initialize_def callGo_env andThen_def
  by (auto split: go.splits json.splits)

lemma NewAgentPool_groups:
  assumes "NewAgentPool az spec w = (Ok p, w')"
  shows "identitiesKept w w'" "groupAllocated w' (AgentPoolRef p)"
    "registeredNodeGroups (azCache w') = registeredNodeGroups (azCache w)"
proof -
  obtain r w1 where i: "ap_initialize az w = (r, w1)" by fastforce
  obtain e where w1: "w1 = w\<lparr>env := e\<rparr>" using initialize_env [of az w] i by auto
  obtain a where w': "w' = w1\<lparr>apAt := (apAt w1)(apNext w1 := a), apNext := Suc (apNext w1)\<rparr>" "p = apNext w1"
  proof -
    obtain t where "r = Ok t" using assms i by (cases r) (simp_all add: NewAgentPool_def andThen_def)
    with assms i have "p = apNext w1 \<and> w1\<lparr>apAt := (apAt w1)(apNext w1 := \<lparr>ap_Name = spec_Name spec,
        ap_minSize = spec_MinSize spec, ap_maxSize = spec_MaxSize spec, ap_template = t,
        ap_lastRefresh = zeroTime, ap_curSize = -1\<rparr>), apNext := Suc (apNext w1)\<rparr> = w'"
      by (auto simp: NewAgentPool_def andThen_def)
    then show ?thesis by (elim conjE) (rule that [OF sym])
  qed
  have "identitiesKept w w1" unfolding w1 by (rule groupsKept_identities) simp
  then show "identitiesKept w w'" unfolding w'(1) by (rule identitiesKept_trans [OF _ identities_alloc(2)])
  show "groupAllocated w' (AgentPoolRef p)" unfolding w' by (simp add: groupAllocated_def)
  show "registeredNodeGroups (azCache w') = registeredNodeGroups (azCache w)" unfolding w'(1) by (simp add: w1)
qed

text \<open>A new group is a fresh object of its kind; the groups there were stay as they are.\<close>

lemma build_groups:
  assumes "buildNodeGroupFromSpec parse az spec w = (Ok ng, w')"
  shows "identitiesKept w w' \<and> groupAllocated w' ng \<and>
    registeredNodeGroups (azCache w') = registeredNodeGroups (azCache w)"
proof -
  consider (vp) s n k p where "NewVMPool az s n k w = (Ok p, w')" "ng = VMPoolRef p"
    | (ap) s p where "NewAgentPool az s w = (Ok p, w')" "ng = AgentPoolRef p"
    | (ss) s p where "NewScaleSet s (-1) False w = (p, w')" "ng = ScaleSetRef p"
    using assms unfolding buildNodeGroupFromSpec_def Let_def andThen_def
    by (auto split: sum.splits option.splits prod.splits go.splits if_splits)
  then show ?thesis
  proof cases
    case vp
    then show ?thesis
      by (auto simp: NewVMPool_def identities_alloc(3) groupAllocated_def split: if_splits)
  next
    case ap
    then show ?thesis using NewAgentPool_groups [OF ap(1)] by simp
  next
    case ss
    then show ?thesis by (auto simp: NewScaleSet_def Let_def identities_alloc(1) groupAllocated_def)
  qed
qed

lemma register_explicit_wellFormed:
  assumes "wellFormed w" "groupAllocated w ng"
  shows "wellFormed (markExplicit ng (snd (RegisterNodeGroup ng w)))"
    "identitiesKept w (markExplicit ng (snd (RegisterNodeGroup ng w)))"
proof -
  let ?w1 = "snd (RegisterNodeGroup ng w)"
  let ?w2 = "markExplicit ng ?w1"
  have mark: "ngId ?w2 = ngId ?w1" "ngMinSize ?w2 = ngMinSize ?w1" "ngMaxSize ?w2 = ngMaxSize ?w1"
    "groupAllocated ?w2 = groupAllocated ?w1" "azCache ?w2 = azCache ?w1"
    "isExplicit ?w1 g \<Longrightarrow> isExplicit ?w2 g" "isExplicit ?w2 ng" for g
    by (auto simp: fun_eq_iff markExplicit_def ngId_def ngMinSize_def ngMaxSize_def groupAllocated_def isExplicit_def
        map_of_mapSet split: nodeGroup.splits)
  have o: "identitiesKept w ?w1" by (rule registryOnly_identities [OF registryOnly_Register])
  then have "identitiesKept ?w1 ?w2" by (intro identitiesKeptI) (simp add: mark, simp add: markExplicit_def)
  with o show k: "identitiesKept w ?w2" by (rule identitiesKept_trans)
  have "sameId ?w2 = sameId w"
    using registryOnly_fields [OF registryOnly_Register [of w ng]] by (simp add: fun_eq_iff sameId_def mark)
  moreover have groups: "registeredNodeGroups (azCache ?w2) = snd (registerLoop w ng (registeredNodeGroups (azCache w)))"
    using Register_groups [of ng w] mark(5) unfolding RegisterNodeGroup_def by metis
  ultimately have d: "distinctGroups ?w2"
    using assms(1) by (simp add: distinctGroups_def wellFormed_def reg.insert_distinct)
  show "wellFormed ?w2"
  proof (rule wellFormedI [OF assms(1) k d])
    fix g
    assume "g \<in> set (registeredNodeGroups (azCache ?w2))"
    then have "g = ng \<or> g \<in> set (registeredNodeGroups (azCache w))" unfolding groups by (rule registerLoop_set)
    then show "g \<in> set (registeredNodeGroups (azCache w)) \<or>
        groupAllocated ?w2 g \<and> (isExplicit ?w2 g \<or> validGroup ?w2 g)"
      using mark(7) k assms(2) by (auto simp: identitiesKept_def)
  qed
qed

lemma explicitLoop_wellFormed:
  "explicitLoop parse az specs changed w = (Ok c, w') \<Longrightarrow> wellFormed w \<Longrightarrow> wellFormed w'"
proof (induction specs arbitrary: changed w)
  case (Cons spec specs)
  obtain ng w1 where b: "buildNodeGroupFromSpec parse az spec w = (Ok ng, w1)"
    using Cons.prems(1) by (auto split: prod.splits go.splits)
  obtain ch w2 where r: "RegisterNodeGroup ng w1 = (ch, w2)" by fastforce
  note bg = build_groups [OF b]
  have "sameId w1 x y = sameId w x y" if "x \<in> set (registeredNodeGroups (azCache w))" "y \<in> set (registeredNodeGroups (azCache w))" for x y
    using that bg Cons.prems(2) by (simp add: sameId_def identitiesKept_def wellFormed_def registryAllocated_def list_all_iff)
  then have "distinctGroups w1"
    using bg Cons.prems(2) unfolding distinctGroups_def oneEach_def wellFormed_def
    by (metis (mono_tags, lifting) sorted_wrt_mono_rel)
  then have "wellFormed w1" using bg by (auto intro: wellFormedI [OF Cons.prems(2)])
  from register_explicit_wellFormed(1) [OF this, of ng] bg r have "wellFormed (markExplicit ng w2)" by simp
  then show ?case using Cons.IH [of "changed \<or> ch" "markExplicit ng w2"] Cons.prems(1) b r by simp
qed simp

lemma startManager_wellFormed:
  assumes "startManager lib opts az w = (Ok az', w')" "retries lib"
  shows "wellFormed w' \<and> az' = az"
proof -
  obtain w1 where c: "newAzureCache az (cacheTTL (config w)) w = (Ok (), w1)"
    using assms(1) by (auto simp: startManager_def andThen_def Let_def split: prod.splits go.splits)
  obtain specs where p: "ParseLabelAutoDiscoverySpecs (NodeGroupAutoDiscoverySpecs opts) = Ok specs"
    using assms(1) c by (auto simp: startManager_def andThen_def Let_def split: prod.splits go.splits)
  let ?w2 = "(disableDynamicList w1)\<lparr>autoDiscoverySpecs := specs\<rparr>"
  obtain w3 where e: "fetchExplicitNodeGroups (SpecFromString lib) az (NodeGroupSpecs opts) ?w2 = (Ok (), w3)"
    using assms(1) c p by (auto simp: startManager_def andThen_def Let_def split: prod.splits go.splits)
  have f: "retryOnError lib isErrorRetriable (forceRefresh az) w3 = (Ok (), w')" "az' = az"
    using assms(1) c p e by (auto simp: startManager_def andThen_def Let_def split: prod.splits go.splits)
  let ?w0 = "w\<lparr>azCache := emptyCache (cacheTTL (config w)) (config w)\<rparr>"
  have "wellFormed ?w0"
    by (simp add: wellFormed_def distinctGroups_def registryAllocated_def oneEach_def emptyCache_def)
  moreover have "groupsKept ?w0 w1"
  proof -
    obtain r wr where reg: "regenerate az ?w0 = (r, wr)" by fastforce
    have k: "groupsKept ?w0 wr" using regenerate_groupsKept [of ?w0 az] reg by simp
    have "groupsKept wr (snd (fetchSKUCache az loc wr))" for loc
      unfolding fetchSKUCache_def fetchSKUs_def by (auto intro!: groupsKept_andThen)
    then show ?thesis
      using c reg k groupsKept_trans [OF k] unfolding newAzureCache_def
      by (auto split: go.splits prod.splits if_splits) (metis snd_conv)+
  qed
  ultimately have "wellFormed w1" by (rule wellFormed_kept [rotated])
  moreover have "groupsKept w1 ?w2"
    by (auto simp: disableDynamicList_def groupsKept_def requestsWithin_def fun_eq_iff ngId_def ngMinSize_def ngMaxSize_def split: nodeGroup.splits)
  ultimately have "wellFormed ?w2" by (rule wellFormed_kept [rotated])
  moreover obtain changed w4 where "explicitLoop (SpecFromString lib) az (NodeGroupSpecs opts) False ?w2 = (Ok changed, w4)"
    "w3 = (if changed then invalidateCache az w4 else w4)"
    using e unfolding fetchExplicitNodeGroups_def andThen_def by (auto split: prod.splits go.splits)
  ultimately have "wellFormed w3" using explicitLoop_wellFormed wellFormed_invalidate by metis
  moreover obtain v where "attempts isErrorRetriable (forceRefresh az) w3 v" "forceRefresh az v = (Ok (), w')"
    using assms(2) f unfolding retries_def by metis
  ultimately show ?thesis using attempts_wellFormed forceRefresh_wellFormed f(2) by blast
qed

section \<open>The provider as a transition system\<close>

text \<open>
  The methods of the interface \<open>cloudprovider.NodeGroup\<close> that change the state or talk to Azure, and
  their dispatch on the kind of the group. \<open>VMPool.ForceDeleteNodes\<close> and
  \<open>AgentPool.AtomicIncreaseSize\<close> are not implemented.
\<close>

datatype groupCall =
    CallIncreaseSize int
  | CallAtomicIncreaseSize int
  | CallDecreaseTargetSize int
  | CallDeleteNodes "k8sNode list"
  | CallForceDeleteNodes "k8sNode list"
  | CallTargetSize
  | CallNodes

definition ignoreResult :: "'a go \<times> 'e world \<Rightarrow> unit go \<times> 'e world" where
  "ignoreResult r = andThen r (\<lambda>_ w. (Ok (), w))"

definition callScaleSet :: "'e azClient \<Rightarrow> addr \<Rightarrow> groupCall \<Rightarrow> 'e world \<Rightarrow> unit go \<times> 'e world" where
  "callScaleSet az p c w =
     (case c of
        CallIncreaseSize d \<Rightarrow> IncreaseSize az p d w
      | CallAtomicIncreaseSize d \<Rightarrow> AtomicIncreaseSize az p d w
      | CallDecreaseTargetSize d \<Rightarrow> DecreaseTargetSize az p d w
      | CallDeleteNodes ns \<Rightarrow> DeleteNodes az p ns w
      | CallForceDeleteNodes ns \<Rightarrow> ForceDeleteNodes az p ns w
      | CallTargetSize \<Rightarrow> ignoreResult (TargetSize az p w)
      | CallNodes \<Rightarrow> ignoreResult (Nodes az p w))"

definition callVMPool :: "'e azClient \<Rightarrow> addr \<Rightarrow> groupCall \<Rightarrow> 'e world \<Rightarrow> unit go \<times> 'e world" where
  "callVMPool az p c w =
     (case c of
        CallIncreaseSize d \<Rightarrow> vp_IncreaseSize az p d w
      | CallAtomicIncreaseSize d \<Rightarrow> vp_AtomicIncreaseSize az p d w
      | CallDecreaseTargetSize d \<Rightarrow> vp_DecreaseTargetSize az p d w
      | CallDeleteNodes ns \<Rightarrow> vp_DeleteNodes az p ns w
      | CallForceDeleteNodes ns \<Rightarrow> (vp_ForceDeleteNodes ns, w)
      | CallTargetSize \<Rightarrow> ignoreResult (vp_TargetSize az p w)
      | CallNodes \<Rightarrow> ignoreResult (vp_Nodes p w, w))"

definition callAgentPool :: "'e azClient \<Rightarrow> addr \<Rightarrow> groupCall \<Rightarrow> 'e world \<Rightarrow> unit go \<times> 'e world" where
  "callAgentPool az p c w =
     (case c of
        CallIncreaseSize d \<Rightarrow> ap_IncreaseSize az p d w
      | CallAtomicIncreaseSize d \<Rightarrow> (ap_AtomicIncreaseSize d, w)
      | CallDecreaseTargetSize d \<Rightarrow> ap_DecreaseTargetSize az p d w
      | CallDeleteNodes ns \<Rightarrow> ap_DeleteNodes az p ns w
      | CallForceDeleteNodes ns \<Rightarrow> ap_ForceDeleteNodes az p ns w
      | CallTargetSize \<Rightarrow> ignoreResult (ap_TargetSize az p w)
      | CallNodes \<Rightarrow> ignoreResult (ap_Nodes p w, w))"

definition callGroup :: "'e azClient \<Rightarrow> nodeGroup \<Rightarrow> groupCall \<Rightarrow> 'e world \<Rightarrow> unit go \<times> 'e world" where
  "callGroup az g =
     (case g of
        ScaleSetRef p \<Rightarrow> callScaleSet az p
      | VMPoolRef p \<Rightarrow> callVMPool az p
      | AgentPoolRef p \<Rightarrow> callAgentPool az p)"

definition runGoroutine :: "'e azClient \<Rightarrow> goroutine \<Rightarrow> 'e world \<Rightarrow> unit go \<times> 'e world" where
  "runGoroutine az g w =
     (case g of
        WaitForCreateOrUpdate p q v \<Rightarrow> (Ok (), waitForCreateOrUpdateInstances az p q v w)
      | WaitForDelete p q ids \<Rightarrow> waitForDeleteInstances az p q ids w)"

text \<open>
  One step: a call of the autoscaler, one of the goroutines running to its end, or Azure and the
  clock moving on. A call that panics ends the process, so it is no step. Calls and goroutines are
  atomic here, in every order; \<open>Scale_Up_Threads\<close> lets scale-ups overlap, and \<open>Provider_Locks\<close> has
  the mutexes.
\<close>

inductive providerStep :: "'e azClient \<Rightarrow> 'e world \<Rightarrow> 'e world \<Rightarrow> bool" for az where
  refresh: "cp_Refresh az w = (r, w') \<Longrightarrow> r \<noteq> Panic \<Longrightarrow> providerStep az w w'"
| lookup: "NodeGroupForNode node w = (r, w') \<Longrightarrow> r \<noteq> Panic \<Longrightarrow> providerStep az w w'"
| group: "groupAllocated w g \<Longrightarrow> callGroup az g c w = (r, w') \<Longrightarrow> r \<noteq> Panic \<Longrightarrow> providerStep az w w'"
| goroutine: "goroutines w = before @ g # after \<Longrightarrow>
    runGoroutine az g (w\<lparr>goroutines := before @ after\<rparr>) = (r, w') \<Longrightarrow> r \<noteq> Panic \<Longrightarrow> providerStep az w w'"
| environment: "providerStep az w (w\<lparr>env := e\<rparr>)"

inductive_cases providerStepE: "providerStep az w w'"

text \<open>The steps among these that complete an operation.\<close>

inductive completionStep :: "'e azClient \<Rightarrow> 'e world \<Rightarrow> 'e world \<Rightarrow> bool" for az where
  complete: "goroutines w = before @ g # after \<Longrightarrow>
    runGoroutine az g (w\<lparr>goroutines := before @ after\<rparr>) = (r, w') \<Longrightarrow> r \<noteq> Panic \<Longrightarrow> completionStep az w w'"

lemma ignoreResult_world [simp]: "snd (ignoreResult r) = snd r"
  by (cases r) (auto simp: ignoreResult_def andThen_def split: go.split)

lemmas groupCalls_kept = IncreaseSize_groupsKept AtomicIncreaseSize_groupsKept DecreaseTargetSize_groupsKept
  DeleteNodes_groupsKept ForceDeleteNodes_groupsKept vp_IncreaseSize_groupsKept vp_DeleteNodes_groupsKept
  ap_IncreaseSize_groupsKept ap_DecreaseTargetSize_groupsKept ap_DeleteNodes_groupsKept
  ap_ForceDeleteNodes_groupsKept sizes_groupsKept vp_getCurSize_groupsKept ap_getCurSize_groupsKept
  groupsKept_refresh [OF Nodes_refresh]

text \<open>
  What the provider relies on of the interface \<open>cloudprovider.NodeGroup\<close>, whichever kind implements
  it: a call on a group that exists changes neither the registry nor the identity of a group, and
  asks Azure for no scale set beyond its maximum.
\<close>

locale node_group =
  fixes self :: nodeGroup and invoke :: "groupCall \<Rightarrow> 'e world \<Rightarrow> unit go \<times> 'e world"
  assumes invoke_kept: "groupAllocated w self \<Longrightarrow> groupsKept w (snd (invoke c w))"
begin

lemma invoke_wellFormed:
  assumes "invoke c w = (r, w')" "groupAllocated w self" "wellFormed w"
  shows "wellFormed w' \<and> identitiesKept w w'"
proof -
  have "groupsKept w w'" using invoke_kept [of w c] assms(1,2) by simp
  then show ?thesis using wellFormed_kept groupsKept_identities assms(3) by blast
qed

lemma invokes_kept: "groupAllocated w self \<Longrightarrow> groupsKept w (fold (\<lambda>c v. snd (invoke c v)) cs w)"
proof (induction cs arbitrary: w)
  case (Cons c cs)
  then have k: "groupsKept w (snd (invoke c w))" by (intro invoke_kept)
  have "groupAllocated (snd (invoke c w)) self" using Cons.prems groupsKept_allocated [OF k] by simp
  from groupsKept_trans [OF k Cons.IH [OF this]] show ?case by simp
qed simp

end

interpretation ssCalls: node_group "ScaleSetRef p" "callScaleSet az p" for az :: "'e azClient" and p
proof
  fix w :: "'e world" and c
  assume "groupAllocated w (ScaleSetRef p)"
  then have p: "p < ssNext w" by (simp add: groupAllocated_def)
  have "groupsKept w (snd (TargetSize az p w))"
    unfolding TargetSize_def using sizes_groupsKept [of w az p] by simp
  then show "groupsKept w (snd (callScaleSet az p c w))"
    unfolding callScaleSet_def by (cases c) (simp_all add: groupCalls_kept p)
qed

interpretation vpCalls: node_group "VMPoolRef p" "callVMPool az p" for az :: "'e azClient" and p
  by unfold_locales (auto simp: callVMPool_def vp_AtomicIncreaseSize_def vp_DecreaseTargetSize_def
      vp_TargetSize_def groupCalls_kept split: groupCall.split)

interpretation apCalls: node_group "AgentPoolRef p" "callAgentPool az p" for az :: "'e azClient" and p
  by unfold_locales (auto simp: callAgentPool_def ap_TargetSize_def groupCalls_kept split: groupCall.split)

lemma callGroup_wellFormed:
  assumes "callGroup az g c w = (r, w')" "groupAllocated w g" "wellFormed w"
  shows "wellFormed w' \<and> identitiesKept w w'"
proof (cases g)
  case (ScaleSetRef p)
  with assms show ?thesis by (intro ssCalls.invoke_wellFormed [of az p]) (simp_all add: callGroup_def)
next
  case (AgentPoolRef p)
  with assms show ?thesis by (intro apCalls.invoke_wellFormed [of az p]) (simp_all add: callGroup_def)
next
  case (VMPoolRef p)
  with assms show ?thesis by (intro vpCalls.invoke_wellFormed [of az p]) (simp_all add: callGroup_def)
qed

lemma retryDelete_groupsKept: "groupsKept w (snd (retryDelete az p ids w))"
proof -
  obtain r w1 where d: "deleteInstances az p ids (ss_Name (ssAt w p)) w = (r, w1)" by fastforce
  have "groupsKept w w1" using deleteInstances_groupsKept [of w az p ids "ss_Name (ssAt w p)"] d by simp
  then show ?thesis
    unfolding retryDelete_def d by (cases r) (auto split: option.split prod.split simp: callD)
qed

lemma refreshOrInvalidate_wellFormed:
  assumes "wellFormed w"
  shows "wellFormed (snd (refreshOrInvalidate az w)) \<and> identitiesKept w (snd (refreshOrInvalidate az w))"
proof -
  obtain r w1 where f: "forceRefresh az w = (r, w1)" by fastforce
  note w1 = forceRefresh_wellFormed [OF f assms]
  moreover have "groupsKept w1 (invalidateCache az w1)" by simp
  ultimately have "wellFormed (invalidateCache az w1) \<and> identitiesKept w (invalidateCache az w1)"
    using wellFormed_kept groupsKept_identities identitiesKept_trans by blast
  with w1 show ?thesis unfolding refreshOrInvalidate_def f by (cases r) simp_all
qed

text \<open>Steps that keep the groups may precede and follow one that keeps worlds well formed.\<close>

lemma kept_around:
  assumes "groupsKept w w1" "wellFormed w1 \<Longrightarrow> wellFormed w2 \<and> identitiesKept w1 w2" "groupsKept w2 w3" "wellFormed w"
  shows "wellFormed w3 \<and> identitiesKept w w3"
  using assms wellFormed_kept groupsKept_identities identitiesKept_trans by metis

lemma waitForDelete_wellFormed:
  assumes "waitForDeleteInstances az p q ids w = (r, w')" "wellFormed w"
  shows "wellFormed w' \<and> identitiesKept w w'"
proof -
  obtain a w1 where c: "call (pollDeleteInstances az q) w = (a, w1)" by fastforce
  then have k1: "groupsKept w w1" using callD [OF c, of w] by simp
  show ?thesis
  proof (cases a)
    case (Inr u)
    obtain r2 w2 where f: "refreshOrInvalidate az w1 = (r2, w2)" by fastforce
    have "wellFormed w1 \<Longrightarrow> wellFormed w2 \<and> identitiesKept w1 w2"
      using refreshOrInvalidate_wellFormed [of w1 az] f by simp
    note g = kept_around [OF k1 this _ assms(2)] 
    have "w' = w1 \<or> w' = w2 \<or> w' = invalidateInstanceCache az p w2"
      using assms(1) Inr c f by (auto simp: waitForDeleteInstances_def andThen_def split: if_splits go.splits)
    moreover have "wellFormed w1 \<and> identitiesKept w w1"
      using k1 assms(2) wellFormed_kept groupsKept_identities by blast
    ultimately show ?thesis using g by auto
  next
    case (Inl err)
    let ?r = "if isOperationPreempted az err then retryDelete az p ids w1 else (Ok False, w1)"
    obtain b w2 where d: "?r = (b, w2)" by fastforce
    have "groupsKept w1 (snd ?r)" using retryDelete_groupsKept [of w1 az p ids] by simp
    then have k2: "groupsKept w w2" using k1 d groupsKept_trans by fastforce
    let ?w3 = "invalidateLastSizeRefresh az p (invalidateInstanceCache az p w2)"
    have k3: "groupsKept w ?w3" using k2 by simp
    have step: "wellFormed ?w3 \<Longrightarrow> wellFormed (snd (refreshOrInvalidate az ?w3)) \<and>
        identitiesKept ?w3 (snd (refreshOrInvalidate az ?w3))" by (rule refreshOrInvalidate_wellFormed)
    have "w' = w2 \<or> w' = invalidateInstanceCache az p w2 \<or> w' = snd (refreshOrInvalidate az ?w3)"
      using assms(1) Inl c d by (auto simp: waitForDeleteInstances_def andThen_def split: if_splits go.splits)
    moreover have "wellFormed v \<and> identitiesKept w v" if "groupsKept w v" for v
      using that assms(2) wellFormed_kept groupsKept_identities by blast
    moreover have "groupsKept w (invalidateInstanceCache az p w2)" using k2 by simp
    moreover note kept_around [OF k3 step groupsKept_refl assms(2)]
    ultimately show ?thesis using k2 by blast
  qed
qed

lemma step_wellFormed:
  assumes "providerStep az w w'" "wellFormed w"
  shows "wellFormed w' \<and> identitiesKept w w'"
  using assms(1)
proof cases
  case (refresh r)
  then show ?thesis
    using forceRefresh_wellFormed assms(2) by (auto simp: cp_Refresh_def Refresh_def split: if_splits)
next
  case (lookup node r)
  then have "groupsKept w w'"
    using GetNodeGroup_groupsKept [of w "node_ProviderID node"] by (auto simp: NodeGroupForNode_def split: if_splits)
  then show ?thesis using wellFormed_kept groupsKept_identities assms(2) by blast
next
  case (group g c r)
  then show ?thesis using callGroup_wellFormed assms(2) by blast
next
  case (goroutine before g after r)
  let ?w = "w\<lparr>goroutines := before @ after\<rparr>"
  have k: "groupsKept w ?w" by simp
  have "wellFormed w' \<and> identitiesKept ?w w'" if "wellFormed ?w"
  proof (cases g)
    case (WaitForCreateOrUpdate p q v)
    then have "groupsKept ?w w'" using goroutine(2) waitForCreate_groupsKept [of ?w az p q v] by (simp add: runGoroutine_def)
    then show ?thesis using wellFormed_kept groupsKept_identities that by blast
  next
    case (WaitForDelete p q ids)
    then show ?thesis using waitForDelete_wellFormed that goroutine(2) by (simp add: runGoroutine_def)
  qed
  from kept_around [OF k this groupsKept_refl assms(2)] show ?thesis .
next
  case (environment e)
  then have "groupsKept w w'" by simp
  then show ?thesis using wellFormed_kept groupsKept_identities assms(2) by blast
qed

lemma steps_wellFormed:
  assumes "(providerStep az)\<^sup>*\<^sup>* w w'" "wellFormed w"
  shows "wellFormed w' \<and> identitiesKept w w'"
  using assms
proof (induction rule: rtranclp_induct)
  case (step v v')
  then show ?case using step_wellFormed identitiesKept_trans by blast
qed simp

lemma environment_steps: "(providerStep az)\<^sup>*\<^sup>* w (w\<lparr>env := e\<rparr>)"
  by (rule r_into_rtranclp) (rule providerStep.environment)

lemma waitForDelete_goroutines:
  assumes "waitForDeleteInstances az p q ids w = (r, w')"
  shows "goroutines w' = goroutines w"
proof -
  have refreshed: "goroutines (snd (refreshOrInvalidate az v)) = goroutines v" for v :: "'a world"
    using refreshOrInvalidate_quiet by (cases "refreshOrInvalidate az v") fastforce
  have retried: "goroutines (snd (retryDelete az p ids v)) = goroutines v" for v :: "'a world"
    using retryDelete_requests by (cases "retryDelete az p ids v") fastforce
  obtain a w1 where c: "call (pollDeleteInstances az q) w = (a, w1)" by fastforce
  then have w1: "goroutines w1 = goroutines w" by (auto simp: call_env)
  show ?thesis
  proof (cases a)
    case (Inr u)
    obtain r2 w2 where f: "refreshOrInvalidate az w1 = (r2, w2)" by fastforce
    then show ?thesis
      using assms Inr c w1 refreshed [of w1] by (auto simp: waitForDeleteInstances_def andThen_def split: if_splits go.splits)
  next
    case (Inl err)
    obtain b w2 where d: "(if isOperationPreempted az err then retryDelete az p ids w1 else (Ok False, w1)) = (b, w2)" by fastforce
    then have w2: "goroutines w2 = goroutines w" using retried [of w1] w1 by (auto split: if_splits)
    show ?thesis
      using assms Inl c d w2 refreshed [of "invalidateLastSizeRefresh az p (invalidateInstanceCache az p w2)"]
      by (auto simp: waitForDeleteInstances_def andThen_def split: go.splits if_splits)
  qed
qed

lemma completion_fewer:
  assumes "completionStep az w w'"
  shows "length (goroutines w') < length (goroutines w)"
  using assms
proof cases
  case (complete before g after r)
  have create: "goroutines (waitForCreateOrUpdateInstances az p q v u) = goroutines u" for p q v and u :: "'a world"
    unfolding waitForCreateOrUpdateInstances_def Let_def
    by (auto simp: call_env invalidateCache_def split: prod.splits sum.splits option.splits)
  have "goroutines w' = before @ after"
    using complete(2) create waitForDelete_goroutines
    by (cases g) (force simp: runGoroutine_def)+
  then show ?thesis using complete(1) by simp
qed

section \<open>Properties\<close>

text \<open>
  C2. In every state the provider can reach after its manager was created, by any order of calls
  of the autoscaler, completions of operations and changes in Azure: at most one group is
  registered per name up to case, every registered group is an allocated object of its kind, and
  a group that is not explicitly configured has sizes \<open>0 \<le> min \<le> max\<close>.
\<close>

theorem reachable_registry:
  assumes "createAzureManagerInternal lib opts given w0 = (Ok az, w)" and "retries lib"
    and "(providerStep az)\<^sup>*\<^sup>* w w'"
  shows "distinctGroups w' \<and> registryAllocated w' \<and>
    (\<forall>g \<in> set (NodeGroups w'). isExplicit w' g \<or> 0 \<le> ngMinSize w' g \<and> ngMinSize w' g \<le> ngMaxSize w' g)"
proof -
  have "wellFormed w"
    using assms(1) startManager_wellFormed [OF _ assms(2)]
    by (auto simp: createAzureManagerInternal_def split: go.splits sum.splits)
  with steps_wellFormed [OF assms(3)] show ?thesis
    by (auto simp: wellFormed_def validGroup_def NodeGroups_def getNodeGroups_def getRegisteredNodeGroups_def)
qed

text \<open>
  C17. A node group the autoscaler got from \<open>NodeGroups\<close> stays the same group for as long as the
  autoscaler holds it, whatever happens in between, also when a refresh unregisters it: its name,
  its minimum and its maximum never change, and a name once explicitly configured stays so.
\<close>

theorem group_identity_stable:
  assumes "createAzureManagerInternal lib opts given w0 = (Ok az, w)" and "retries lib"
    and "(providerStep az)\<^sup>*\<^sup>* w v" "g \<in> set (NodeGroups v)" "(providerStep az)\<^sup>*\<^sup>* v w'"
  shows "ngId w' g = ngId v g \<and> ngMinSize w' g = ngMinSize v g \<and> ngMaxSize w' g = ngMaxSize v g \<and>
    (isExplicit v g \<longrightarrow> isExplicit w' g)"
proof -
  have "wellFormed w"
    using assms(1) startManager_wellFormed [OF _ assms(2)]
    by (auto simp: createAzureManagerInternal_def split: go.splits sum.splits)
  then have v: "wellFormed v" using steps_wellFormed [OF assms(3)] by blast
  then have "groupAllocated v g"
    using assms(4) by (auto simp: wellFormed_def registryAllocated_def list_all_iff NodeGroups_def getNodeGroups_def
        getRegisteredNodeGroups_def)
  with steps_wellFormed [OF assms(5) v] show ?thesis by (simp add: identitiesKept_def)
qed

text \<open>
  A node without a provider ID, or with one of another provider, belongs to no group and is
  reported as an error by \<open>HasInstance\<close>; no call is made and nothing is cached for it.
\<close>

theorem foreign_nodes_skipped:
  assumes "\<not> strings_HasPrefix (node_ProviderID node) ''azure://''"
  shows "NodeGroupForNode node w = (Ok None, w) \<and> (\<exists>e. cp_HasInstance node w = Err e)"
  using assms by (auto simp: NodeGroupForNode_def cp_HasInstance_def azurePrefix_def)

text \<open>
  C16. Completing operations terminates: no completion of an operation, retries and forced
  refreshes included, starts another one, so there is no infinite run of completions and those
  that are pending are the only ones left.
\<close>

theorem completions_terminate: "wf {(w', w). completionStep az w w'}"
  by (rule wf_subset [OF wf_measure [of "\<lambda>w. length (goroutines w)"]]) (auto dest: completion_fewer)

text \<open>
  C28. A manager that was created with VMs pools enabled has a client for them, so none of their
  operations meets a nil client, and its configuration names credentials for it: workload identity,
  or the default method with a managed identity, a secret or a certificate. In particular no manager
  is created with VMs pools and the method \<open>cli\<close>, although that method is validated.
\<close>

theorem vms_pools_have_client:
  assumes "createAzureManagerInternal lib opts None w0 = (Ok az, w)" and "retries lib"
    and "BuildAzureConfig (cfgLib lib) = Ok cfg" "EnableVMsAgentPool cfg"
  shows "hasAgentPoolClient az \<and>
    (UseFederatedWorkloadIdentityExtension (provider cfg) \<or>
     AuthMethod cfg \<in> {'''', ''principal''} \<and>
       (UseManagedIdentityExtension (provider cfg) \<or>
        AADClientID (provider cfg) \<noteq> '''' \<and>
          (AADClientSecret (provider cfg) \<noteq> '''' \<or> AADClientCertPath (provider cfg) \<noteq> '''')))"
proof -
  obtain az1 where m: "managerClient lib cfg None = Inr az1" and "startManager lib opts az1 (newManager cfg w0) = (Ok az, w)"
    using assms(1,3) by (auto simp: createAzureManagerInternal_def split: sum.splits)
  then have "az = az1" using startManager_wellFormed assms(2) by blast
  with m obtain environment where "newAzClient (cfgLib lib) (azureSDK lib) cfg environment = Inr az"
    by (auto simp: managerClient_def split: sum.splits)
  note c = newAzClient_pools [OF this assms(4)]
  then obtain cred where "getAgentpoolClientCredentials (azureSDK lib) cfg = Inr cred" by blast
  from credentials_given [OF this] c(1) show ?thesis by blast
qed

section \<open>Witnesses\<close>

text \<open>A library whose retry loop gives up at once, and one explicit scale set \<open>set\<close> of sizes 1 to 3.\<close>

definition sampleManagerLib :: "(int, unit) managerLib" where
  "sampleManagerLib =
     \<lparr>cfgLib = sampleConfigLib, azureSDK = sampleSDK,
      SpecFromString = (\<lambda>_ _. Inr \<lparr>spec_Name = ''set'', spec_MinSize = 1, spec_MaxSize = 3\<rparr>),
      retryOnError = (\<lambda>_ f. f)\<rparr>"

definition sampleOptions :: discoveryOptions where
  "sampleOptions = \<lparr>NodeGroupSpecs = [''1:3:set''], NodeGroupAutoDiscoverySpecs = []\<rparr>"

lemma sample_retries: "retries sampleManagerLib"
  unfolding retries_def sampleManagerLib_def by (auto intro: attempts.first)

lemma sample_created:
  "\<exists>az. createAzureManagerInternal sampleManagerLib sampleOptions None sampleWorld =
     (Ok az, snd (createAzureManagerInternal sampleManagerLib sampleOptions None sampleWorld))"
proof -
  have "case fst (createAzureManagerInternal sampleManagerLib sampleOptions None sampleWorld) of Ok _ \<Rightarrow> True | _ \<Rightarrow> False"
    by code_simp
  then show ?thesis
    by (cases "createAzureManagerInternal sampleManagerLib sampleOptions None sampleWorld") (auto split: go.splits)
qed

lemma sample_created_groups:
  "NodeGroups (snd (createAzureManagerInternal sampleManagerLib sampleOptions None sampleWorld)) = [ScaleSetRef 1]"
  by code_simp

theorem reachable_registry_witness:
  "registryAllocated ((snd (createAzureManagerInternal sampleManagerLib sampleOptions None sampleWorld))\<lparr>env := 2000\<rparr>)"
proof -
  obtain az where "createAzureManagerInternal sampleManagerLib sampleOptions None sampleWorld =
     (Ok az, snd (createAzureManagerInternal sampleManagerLib sampleOptions None sampleWorld))"
    using sample_created by blast
  from reachable_registry [OF this sample_retries environment_steps] show ?thesis by blast
qed

theorem group_identity_stable_witness:
  "ngId ((snd (createAzureManagerInternal sampleManagerLib sampleOptions None sampleWorld))\<lparr>env := 2000\<rparr>) (ScaleSetRef 1) =
   ngId (snd (createAzureManagerInternal sampleManagerLib sampleOptions None sampleWorld)) (ScaleSetRef 1)"
proof -
  obtain az where c: "createAzureManagerInternal sampleManagerLib sampleOptions None sampleWorld =
     (Ok az, snd (createAzureManagerInternal sampleManagerLib sampleOptions None sampleWorld))"
    using sample_created by blast
  from group_identity_stable [OF c sample_retries rtranclp.rtrancl_refl _ environment_steps]
  show ?thesis by (simp add: sample_created_groups)
qed

text \<open>The same library with VMs pools enabled by the environment and the default method.\<close>

definition poolsManagerLib :: "(int, unit) managerLib" where
  "poolsManagerLib = sampleManagerLib\<lparr>cfgLib := sampleConfigLib
     \<lparr>lookupEnv := map_of ((''AZURE_ENABLE_VMS_AGENT_POOLS'', ''true'') # sampleVariables)\<rparr>\<rparr>"

theorem vms_pools_have_client_witness:
  "\<exists>az w. createAzureManagerInternal poolsManagerLib sampleOptions None sampleWorld = (Ok az, w) \<and> hasAgentPoolClient az"
proof -
  have "case createAzureManagerInternal poolsManagerLib sampleOptions None sampleWorld of (Ok _, _) \<Rightarrow> True | _ \<Rightarrow> False"
    by code_simp
  then obtain az w where c: "createAzureManagerInternal poolsManagerLib sampleOptions None sampleWorld = (Ok az, w)"
    by (auto split: prod.splits go.splits)
  have "case BuildAzureConfig (cfgLib poolsManagerLib) of Ok cfg \<Rightarrow> EnableVMsAgentPool cfg | _ \<Rightarrow> False" by code_simp
  then obtain cfg where b: "BuildAzureConfig (cfgLib poolsManagerLib) = Ok cfg" "EnableVMsAgentPool cfg"
    by (auto split: go.splits)
  have "retries poolsManagerLib" using sample_retries by (simp add: poolsManagerLib_def retries_def)
  from vms_pools_have_client [OF c this b] c show ?thesis by blast
qed

theorem foreign_nodes_skipped_witness:
  "NodeGroupForNode \<lparr>node_Name = ''n'', node_ProviderID = ''aws:///i-1'', node_FakeUnregistered = False\<rparr> sampleWorld =
     (Ok None, sampleWorld)"
  using foreign_nodes_skipped [of "\<lparr>node_Name = ''n'', node_ProviderID = ''aws:///i-1'', node_FakeUnregistered = False\<rparr>" sampleWorld]
  by (simp add: strings_HasPrefix_def)

end
