(* ===== verification/Scale_Up_Threads.thy ===== *)
theory Scale_Up_Threads
  imports Provider_System
begin

text \<open>
  Scale-ups that overlap. Nothing keeps two goroutines from increasing the same scale set at once:
  the size mutex is taken several times within \<open>IncreaseSize\<close> and \<open>AtomicIncreaseSize\<close>, and
  given back in between. Here both are cut at the points where they hold no mutex of the scale
  set, and any number of them take turns with one another and with everything else the provider
  does. Run without an interruption the pieces are the operations of \<open>Scale_Set\<close>.
\<close>

section \<open>The points between the critical sections\<close>

text \<open>
  Where a scale-up stands. A target is a new capacity, \<open>v\<close> the VMSS object taken from the cache
  and \<open>ev\<close> the one \<open>initCreateOrUpdate\<close> gave back.
  \<^item> \<open>Checking\<close>: before the size is read under the size mutex; atomic or not, with the delta
  \<^item> \<open>Looking\<close>: before \<open>getVMSSFromCache\<close>
  \<^item> \<open>Eager\<close>: before the capacity of \<open>v\<close> is raised under \<open>vmssSizeMutex\<close>
  \<^item> \<open>Sending\<close>: before \<open>initCreateOrUpdate\<close>, with the capacity to roll back to
  \<^item> \<open>Rejected\<close>: before the roll back
  \<^item> \<open>Sent\<close>: before the capacity is carried to \<open>ev\<close> under \<open>vmssSizeMutex\<close>
  \<^item> \<open>Publishing\<close>: before the size is published under the size mutex and the goroutine started
  \<^item> \<open>AtomicSending\<close>, \<open>AtomicPolling\<close>, \<open>AtomicFailed\<close>, \<open>AtomicFinishing\<close>: the same for
    \<open>AtomicIncreaseSize\<close>, which waits for the operation before it publishes
\<close>

datatype scaleUpPoint =
    Checking bool int
  | Looking bool int int
  | Eager addr int
  | Sending addr int "int option"
  | Rejected addr "int option" goerror
  | Sent addr int addr "poller option"
  | Publishing addr "poller option" int
  | AtomicSending addr int
  | AtomicPolling addr int addr "poller option"
  | AtomicFailed goerror
  | AtomicFinishing addr int addr "poller option" "string option"
  | Returned "unit go"

text \<open>From one point to the next, for the scale set \<open>p\<close>.\<close>

fun advance :: "'e azClient \<Rightarrow> addr \<Rightarrow> scaleUpPoint \<Rightarrow> 'e world \<Rightarrow> scaleUpPoint \<times> 'e world" where
  "advance az p (Checking atomic delta) w =
     (case canIncreaseSize az p delta w of
        (Panic, w1) \<Rightarrow> (Returned Panic, w1)
      | (Err e, w1) \<Rightarrow> (Returned (Err e), w1)
      | (Ok sz, w1) \<Rightarrow> (Looking atomic (i64 (sz + delta)) delta, w1))"
| "advance az p (Looking atomic n delta) w =
     (case getVMSSFromCache p w of
        Panic \<Rightarrow> (Returned Panic, w)
      | Err e \<Rightarrow> (Returned (Err e), w)
      | Ok v \<Rightarrow> (if atomic then AtomicSending v n
                else if 0 < delta then Eager v n else Returned (Ok ()), w))"
| "advance az p (Eager v n) w =
     (case vmss_SKU (vmssAt w v) of
        None \<Rightarrow> (Returned Panic, w)
      | Some k \<Rightarrow> (Sending v n (sku_Capacity k), setCapacity v (Some n) w))"
| "advance az p (Sending v n c) w =
     (case initCreateOrUpdate az p v n w of
        (Panic, w1) \<Rightarrow> (Returned Panic, w1)
      | (Err e, w1) \<Rightarrow> (Rejected v c e, w1)
      | (Ok (ev, q), w1) \<Rightarrow> (Sent v n ev q, w1))"
| "advance az p (Rejected v c e) w = (Returned (Err e), setCapacity v c w)"
| "advance az p (Sent v n ev q) w =
     (if q \<noteq> None
      then if vmss_SKU (vmssAt w ev) = None then (Returned Panic, w)
           else (Publishing ev q n, setCapacity ev (Some n) w)
      else if ev \<noteq> v
      then (case capacityOf (vmssAt w ev) of
              None \<Rightarrow> (Returned Panic, w)
            | Some sz \<Rightarrow> (Publishing ev q sz, w))
      else (Publishing ev q n, w))"
| "advance az p (Publishing ev q sz) w =
     (let w1 = publishSize az p sz w
      in (Returned (Ok ()), case q of None \<Rightarrow> w1 | Some pl \<Rightarrow> spawn (WaitForCreateOrUpdate p pl ev) w1))"
| "advance az p (AtomicSending v n) w =
     (case initCreateOrUpdate az p v n w of
        (Panic, w1) \<Rightarrow> (Returned Panic, w1)
      | (Err e, w1) \<Rightarrow> (Returned (Err e), w1)
      | (Ok (ev, q), w1) \<Rightarrow> (AtomicPolling v n ev q, w1))"
| "advance az p (AtomicPolling v n ev q) w =
     (case q of
        None \<Rightarrow> (AtomicFinishing v n ev None None, w)
      | Some pl \<Rightarrow>
          (case call (pollCreateOrUpdate az pl) w of
             (r, w1) \<Rightarrow>
               (case r of Inl e \<Rightarrow> AtomicFailed e | Inr etag \<Rightarrow> AtomicFinishing v n ev q etag,
                invalidateInstanceCache az p w1)))"
| "advance az p (AtomicFailed e) w =
     (Returned (Err (Errorw ''AtomicIncreaseSize: VMSS %q capacity update failed: %w''
                       [AStr (ss_Name (ssAt w p))] e)),
      invalidateCache az (invalidateLastSizeRefresh az p w))"
| "advance az p (AtomicFinishing v n ev q etag) w =
     (case finishAtomicIncrease az p v ev q etag n w of (r, w1) \<Rightarrow> (Returned r, w1))"
| "advance az p (Returned r) w = (Returned r, w)"

text \<open>A scale-up on its own; six pieces are enough.\<close>

fun advances :: "nat \<Rightarrow> 'e azClient \<Rightarrow> addr \<Rightarrow> scaleUpPoint \<Rightarrow> 'e world \<Rightarrow> scaleUpPoint \<times> 'e world" where
  "advances 0 az p pt w = (pt, w)"
| "advances (Suc n) az p pt w = (case advance az p pt w of (pt1, w1) \<Rightarrow> advances n az p pt1 w1)"

lemma advances_returned [simp]: "advances n az p (Returned r) w = (Returned r, w)"
  by (induction n) simp_all

lemma advances_create:
  "advances 4 az p (Eager v n) w =
     (case createOrUpdateInstances az p v n w of (r, w1) \<Rightarrow> (Returned r, w1))"
  by (auto simp: numeral_eq_Suc createOrUpdateInstances_def Let_def
      split: option.splits go.splits prod.splits)

lemma advances_await:
  "advances 2 az p (AtomicPolling v n ev q) w =
     (case awaitAtomicIncrease az p v n (ev, q) w of (r, w1) \<Rightarrow> (Returned r, w1))"
  by (auto simp: numeral_eq_Suc awaitAtomicIncrease_def Let_def call_env
      split: option.splits prod.splits sum.splits)

lemma advances_increase:
  "advances 6 az p (Checking False delta) w =
     (case IncreaseSize az p delta w of (r, w1) \<Rightarrow> (Returned r, w1))"
proof -
  have six: "advances 6 az p pt w = (case advance az p pt w of (pt1, w1) \<Rightarrow>
      (case advance az p pt1 w1 of (pt2, w2) \<Rightarrow> advances 4 az p pt2 w2))" for pt
    by (simp add: numeral_eq_Suc split: prod.split)
  show ?thesis
    unfolding six
    by (auto simp: IncreaseSize_def setScaleSetSize_def andThen_def advances_create
        split: go.splits prod.splits)
qed

lemma advances_atomic:
  "advances 5 az p (Checking True delta) w =
     (case AtomicIncreaseSize az p delta w of (r, w1) \<Rightarrow> (Returned r, w1))"
proof -
  have five: "advances 5 az p pt w = (case advance az p pt w of (pt1, w1) \<Rightarrow>
      (case advance az p pt1 w1 of (pt2, w2) \<Rightarrow>
        (case advance az p pt2 w2 of (pt3, w3) \<Rightarrow> advances 2 az p pt3 w3)))" for pt
    by (simp add: numeral_eq_Suc split: prod.split)
  show ?thesis
    unfolding five
    by (auto simp: AtomicIncreaseSize_def andThen_def advances_await split: go.splits prod.splits)
qed

text \<open>Run without an interruption, the pieces are the operation.\<close>

lemma scale_up_uninterrupted:
  "advances 6 az p (Checking False delta) w =
     (Returned (fst (IncreaseSize az p delta w)), snd (IncreaseSize az p delta w))"
  "advances 5 az p (Checking True delta) w =
     (Returned (fst (AtomicIncreaseSize az p delta w)), snd (AtomicIncreaseSize az p delta w))"
  by (simp_all add: advances_increase advances_atomic split: prod.split)

section \<open>Scale-ups among everything else\<close>

text \<open>
  A scale-up of an existing scale set begins, one that has begun goes on to its next point, or the
  provider takes any other step. As everywhere, a panic ends the process.
\<close>

inductive scaleUpStep :: "'e azClient \<Rightarrow> 'e world \<times> (addr \<times> scaleUpPoint) list
    \<Rightarrow> 'e world \<times> (addr \<times> scaleUpPoint) list \<Rightarrow> bool" for az where
  begins: "groupAllocated w (ScaleSetRef p) \<Longrightarrow>
    scaleUpStep az (w, ts) (w, ts @ [(p, Checking atomic delta)])"
| goesOn: "i < length ts \<Longrightarrow> ts ! i = (p, pt) \<Longrightarrow> advance az p pt w = (pt', w') \<Longrightarrow>
    pt' \<noteq> Returned Panic \<Longrightarrow> scaleUpStep az (w, ts) (w', ts[i := (p, pt')])"
| other: "providerStep az w w' \<Longrightarrow> scaleUpStep az (w, ts) (w', ts)"

text \<open>The target a scale-up has still to send.\<close>

fun target :: "scaleUpPoint \<Rightarrow> int option" where
  "target (Looking atomic n delta) = Some n"
| "target (Eager v n) = Some n"
| "target (Sending v n c) = Some n"
| "target (AtomicSending v n) = Some n"
| "target _ = None"

definition targetsWithin :: "'e world \<Rightarrow> (addr \<times> scaleUpPoint) list \<Rightarrow> bool" where
  "targetsWithin w ts \<longleftrightarrow> (\<forall>(p, pt) \<in> set ts. groupAllocated w (ScaleSetRef p) \<and>
     (case target pt of None \<Rightarrow> True | Some n \<Rightarrow> n \<le> ngMaxSize w (ScaleSetRef p)))"

lemma targetsWithin_kept: "identitiesKept w w' \<Longrightarrow> targetsWithin w ts \<Longrightarrow> targetsWithin w' ts"
  by (fastforce simp: targetsWithin_def identitiesKept_def split: option.splits)

lemma init_groupsKept:
  assumes "initCreateOrUpdate az p v n w = (r, w')" "p < ssNext w" "n \<le> ss_maxSize (ssAt w p)"
  shows "groupsKept w w'"
proof -
  obtain rs where rs: "length rs \<le> 2" "sentPuts p n rs w w'"
    using init_sent [of p n w az v] assms(1) by auto
  then have "boundedPuts p w w'"
    using assms(3) by (auto simp: sentPuts_def boundedPuts_def list_all_iff)
  with rs(2) assms(2) show ?thesis
    by (intro groupsKept_bounded [of p]) (simp_all add: sentPuts_def)
qed

lemma finishAtomic_groupsKept: "groupsKept w (snd (finishAtomicIncrease az p v ev q etag n w))"
  by (rule groupsKept_ss [OF finishAtomic_frame(1) requestsWithin_same [OF finishAtomic_frame(2)]])

lemma advance_keeps:
  assumes "advance az p pt w = (pt', w')" "groupAllocated w (ScaleSetRef p)"
    and "case target pt of None \<Rightarrow> True | Some n \<Rightarrow> n \<le> ngMaxSize w (ScaleSetRef p)"
  shows "groupsKept w w' \<and>
    (case target pt' of None \<Rightarrow> True | Some n \<Rightarrow> n \<le> ngMaxSize w (ScaleSetRef p))"
proof -
  have p: "p < ssNext w" and m: "ngMaxSize w (ScaleSetRef p) = ss_maxSize (ssAt w p)"
    using assms(2) by (simp_all add: groupAllocated_def ngMaxSize_def)
  show ?thesis
  proof (cases pt)
    case (Checking atomic delta)
    then show ?thesis
      using assms(1) canIncrease_groupsKept [of w az p delta] canIncreaseSize_Ok(3) [of az p delta w]
      by (auto simp: m split: prod.splits go.splits)
  next
    case (Sending v n c)
    then show ?thesis
      using assms(1,3) init_groupsKept [OF _ p, of az v n] m
      by (auto split: prod.splits go.splits)
  next
    case (AtomicSending v n)
    then show ?thesis
      using assms(1,3) init_groupsKept [OF _ p, of az v n] m
      by (auto split: prod.splits go.splits)
  next
    case (AtomicFinishing v n ev q etag)
    then show ?thesis
      using assms(1) finishAtomic_groupsKept [of w az p v ev q etag n] by (auto split: prod.splits)
  next
    case (AtomicPolling v n ev q)
    then show ?thesis
      using assms(1) by (auto simp: callD split: prod.splits option.splits sum.splits)
  qed (use assms(1,3) in \<open>auto simp: Let_def split: go.splits option.splits if_splits\<close>)
qed

lemma scaleUpStep_keeps:
  assumes "scaleUpStep az (w, ts) (w', ts')" "wellFormed w" "targetsWithin w ts"
  shows "wellFormed w' \<and> identitiesKept w w' \<and> targetsWithin w' ts'"
  using assms(1)
proof cases
  case (begins p atomic delta)
  then show ?thesis
    using assms(2,3) by (auto simp: targetsWithin_def)
next
  case (goesOn i p pt pt')
  have "(p, pt) \<in> set ts"
    using goesOn(2,3) nth_mem by metis
  then have "groupAllocated w (ScaleSetRef p)"
    "case target pt of None \<Rightarrow> True | Some n \<Rightarrow> n \<le> ngMaxSize w (ScaleSetRef p)"
    using assms(3) by (auto simp: targetsWithin_def)
  note k = advance_keeps [OF goesOn(4) this]
  then have w': "wellFormed w'" "identitiesKept w w'"
    using wellFormed_kept groupsKept_identities assms(2) by blast+
  have "targetsWithin w ts'"
    using assms(3) k \<open>groupAllocated w (ScaleSetRef p)\<close> goesOn(1)
    by (auto simp: targetsWithin_def dest!: set_update_subset_insert [THEN subsetD])
  with w' show ?thesis
    using targetsWithin_kept by blast
next
  case other
  then show ?thesis
    using step_wellFormed assms(2,3) targetsWithin_kept by blast
qed

lemma scaleUpSteps_keep:
  assumes "(scaleUpStep az)\<^sup>*\<^sup>* (w, []) (w', ts)" "wellFormed w"
  shows "wellFormed w' \<and> identitiesKept w w' \<and> targetsWithin w' ts"
  using assms(1)
proof (induction "(w', ts)" arbitrary: w' ts rule: rtranclp_induct)
  case base
  then show ?case
    using assms(2) by (simp add: targetsWithin_def)
next
  case (step c)
  obtain v us where c: "c = (v, us)"
    by (cases c)
  from step(3) [OF c] scaleUpStep_keeps [OF step(2) [unfolded c]] show ?case
    using identitiesKept_trans by blast
qed

section \<open>Turns taken in a given order\<close>

fun takeTurns :: "'e azClient \<Rightarrow> nat list \<Rightarrow> 'e world \<times> (addr \<times> scaleUpPoint) list
    \<Rightarrow> ('e world \<times> (addr \<times> scaleUpPoint) list) option" where
  "takeTurns az [] c = Some c"
| "takeTurns az (i # is) (w, ts) =
     (if length ts \<le> i then None
      else case ts ! i of (p, pt) \<Rightarrow>
        (case advance az p pt w of (pt', w') \<Rightarrow>
           if pt' = Returned Panic then None else takeTurns az is (w', ts[i := (p, pt')])))"

lemma takeTurns_steps: "takeTurns az is c = Some c' \<Longrightarrow> (scaleUpStep az)\<^sup>*\<^sup>* c c'"
proof (induction az "is" c rule: takeTurns.induct)
  case (2 az i "is" w ts)
  obtain p pt pt' w' where e: "ts ! i = (p, pt)" "advance az p pt w = (pt', w')"
    by fastforce
  with 2(2) have "i < length ts" "pt' \<noteq> Returned Panic"
    "takeTurns az is (w', ts[i := (p, pt')]) = Some c'"
    by (auto split: if_splits)
  then have "scaleUpStep az (w, ts) (w', ts[i := (p, pt')])"
    "(scaleUpStep az)\<^sup>*\<^sup>* (w', ts[i := (p, pt')]) c'"
    using 2(1) e scaleUpStep.goesOn [OF _ e] by auto
  then show ?case
    by (rule converse_rtranclp_into_rtranclp)
qed simp

lemma two_begin:
  assumes "groupAllocated w (ScaleSetRef p)"
  shows "(scaleUpStep az)\<^sup>*\<^sup>* (w, []) (w, [(p, Checking a d), (p, Checking b e)])"
  using scaleUpStep.begins [OF assms, of az "[]" a d]
    scaleUpStep.begins [OF assms, of az "[(p, Checking a d)]" b e]
  by (simp add: converse_rtranclp_into_rtranclp r_into_rtranclp)

section \<open>Scale-ups that overlap\<close>

text \<open>
  A scale-up that has checked the size and asks for a capacity of \<open>N\<close>. Without ETags the object
  that \<open>initCreateOrUpdate\<close> gives back is the one it was given.
\<close>

fun carries :: "bool \<Rightarrow> int set \<Rightarrow> scaleUpPoint \<Rightarrow> bool" where
  "carries etags N (Checking atomic delta) = False"
| "carries etags N (Looking atomic n delta) = (n \<in> N \<and> 0 < delta)"
| "carries etags N (Eager v n) = (n \<in> N)"
| "carries etags N (Sending v n c) = (n \<in> N)"
| "carries etags N (Rejected v c e) = True"
| "carries etags N (Sent v n ev q) = (n \<in> N \<and> (etags \<or> ev = v))"
| "carries etags N (Publishing ev q sz) = (etags \<or> sz \<in> N)"
| "carries etags N (AtomicSending v n) = (n \<in> N)"
| "carries etags N (AtomicPolling v n ev q) = (n \<in> N \<and> (etags \<or> ev = v))"
| "carries etags N (AtomicFailed e) = True"
| "carries etags N (AtomicFinishing v n ev q etag) = (n \<in> N \<and> (etags \<or> ev = v))"
| "carries etags N (Returned r) = True"

lemma init_same_object:
  "initCreateOrUpdate az p v n w = (Ok (ev, q), w') \<Longrightarrow> \<not> EnableVMSSEtag (config w) \<Longrightarrow> ev = v"
  by (auto simp: initCreateOrUpdate_def putVMSS_def call_env sendReq_def Let_def
      split: go.splits prod.splits sum.splits if_splits)

lemma advance_carries:
  assumes "advance az p pt w = (pt', w')" "carries (EnableVMSSEtag (config w)) N pt"
  shows "carries (EnableVMSSEtag (config w)) N pt' \<and> ssFrame p w w' \<and>
    (\<exists>rs. requests w' = requests w @ rs \<and> list_all (\<lambda>r. \<exists>n \<in> N. isPut (ss_Name (ssAt w p)) n r) rs) \<and>
    (EnableVMSSEtag (config w) \<or> curSize (ssAt w' p) \<in> insert (curSize (ssAt w p)) N) \<and>
    (pt' = Returned (Ok ()) \<longrightarrow> EnableVMSSEtag (config w) \<or> pt = pt' \<or> curSize (ssAt w' p) \<in> N)"
proof -
  let ?E = "EnableVMSSEtag (config w)" and ?puts = "\<lambda>rs. list_all (\<lambda>r. \<exists>n \<in> N. isPut (ss_Name (ssAt w p)) n r) rs"
  have init: "ssFrame p w (snd r) \<and> curSize (ssAt (snd r) p) = curSize (ssAt w p) \<and>
      (\<exists>rs. requests (snd r) = requests w @ rs \<and> ?puts rs)"
    if "r = initCreateOrUpdate az p v n w" "n \<in> N" for r v n
    using init_sent [of p n w az v] that by (force simp: sentPuts_def list_all_iff)
  show ?thesis
  proof (cases pt)
    case (Sending v n c)
    obtain r w1 where i: "initCreateOrUpdate az p v n w = (r, w1)" by fastforce
    then have "ev = v \<or> ?E" if "r = Ok (ev, q)" for ev q using that init_same_object by blast
    with i init [OF refl, of n v] Sending assms show ?thesis by (cases r) (auto split: prod.splits)
  next
    case (AtomicSending v n)
    obtain r w1 where i: "initCreateOrUpdate az p v n w = (r, w1)" by fastforce
    then have "ev = v \<or> ?E" if "r = Ok (ev, q)" for ev q using that init_same_object by blast
    with i init [OF refl, of n v] AtomicSending assms show ?thesis by (cases r) (auto split: prod.splits)
  next
    case (AtomicFinishing v n ev q etag)
    obtain r w1 where f: "finishAtomicIncrease az p v ev q etag n w = (r, w1)" by fastforce
    have "ssFrame p w w1" "requests w1 = requests w"
      using finishAtomic_frame(1) [of p w az v ev q etag n] finishAtomic_frame(2) [of az p v ev q etag n w] f by simp_all
    moreover have "curSize (ssAt w1 p) = curSize (ssAt w p) \<or> ?E \<or> curSize (ssAt w1 p) = n" "r = Ok () \<Longrightarrow> ?E \<or> curSize (ssAt w1 p) = n"
      using f AtomicFinishing assms(2)
      by (auto simp: finishAtomicIncrease_def publishSize_def Let_def split: if_splits option.splits)
    ultimately show ?thesis using assms AtomicFinishing f by auto
  next
    case (AtomicPolling v n ev q)
    obtain r e1 where c: "pollCreateOrUpdate az pl (env w) = (r, e1)" if "q = Some pl" for pl
      using that by (cases q) fastforce+
    have "ssFrame p w (invalidateInstanceCache az p (w\<lparr>env := e1\<rparr>))"
      by (rule ssFrame_trans [OF frame_steps(1) frame_invalidate(1)])
    then show ?thesis
      using assms AtomicPolling c by (auto simp: call_env invalidateInstanceCache_def split: option.splits sum.splits)
  next
    case (AtomicFailed e)
    have "ssFrame p w (invalidateCache az (invalidateLastSizeRefresh az p w))"
      by (rule ssFrame_trans [OF frame_invalidate(2) frame_steps(6)])
    then show ?thesis
      using assms AtomicFailed by (auto simp: invalidateCache_def invalidateLastSizeRefresh_def)
  next
    case (Publishing ev q sz)
    have "ssFrame p w (publishSize az p sz w)" "ssFrame p w (spawn g (publishSize az p sz w))" for g
      using ssFrame_trans [OF frame_invalidate(3) frame_steps(3)] by simp_all
    then show ?thesis
      using assms Publishing by (auto simp: Let_def publishSize_def split: option.splits)
  qed (use assms in \<open>auto split: go.splits option.splits if_splits\<close>)
qed


text \<open>The runs of scale-ups of one scale set that started when its size was \<open>sz\<close>.\<close>

definition allCarry :: "addr \<Rightarrow> int set \<Rightarrow> 'e world \<Rightarrow> 'e world \<times> (addr \<times> scaleUpPoint) list \<Rightarrow> bool" where
  "allCarry p N w0 c \<longleftrightarrow>
     (case c of (w, ts) \<Rightarrow> ssFrame p w0 w \<and>
        (\<exists>rs. requests w = requests w0 @ rs \<and> list_all (\<lambda>r. \<exists>n \<in> N. isPut (ss_Name (ssAt w0 p)) n r) rs) \<and>
        (\<forall>(q, pt) \<in> set ts. q = p \<and> carries (EnableVMSSEtag (config w0)) N pt) \<and>
        (EnableVMSSEtag (config w0) \<or> curSize (ssAt w p) \<in> N \<or> (p, Returned (Ok ())) \<notin> set ts))"

lemma advance_allCarry:
  assumes "allCarry p N w0 (w, ts)" "i < length ts" "ts ! i = (q, pt)" "advance az q pt w = (pt', w')"
  shows "allCarry p N w0 (w', ts[i := (q, pt')])"
proof -
  have m: "(q, pt) \<in> set ts" using assms(2,3) nth_mem by metis
  then have q: "q = p" "carries (EnableVMSSEtag (config w0)) N pt" and f: "ssFrame p w0 w"
    using assms(1) by (auto simp: allCarry_def)
  have k: "config w = config w0" "ss_Name (ssAt w p) = ss_Name (ssAt w0 p)"
    using f ssFrame_fields(1) [OF f] by (simp_all add: ssFrame_def)
  note a = advance_carries [OF assms(4) [unfolded q(1)], unfolded k, OF q(2)]
  obtain rs where rs: "requests w = requests w0 @ rs"
    "list_all (\<lambda>r. \<exists>n \<in> N. isPut (ss_Name (ssAt w0 p)) n r) rs" using assms(1) by (auto simp: allCarry_def)
  obtain rs' where rs': "requests w' = requests w @ rs'"
    "list_all (\<lambda>r. \<exists>n \<in> N. isPut (ss_Name (ssAt w0 p)) n r) rs'" using a by blast
  have r: "\<exists>rs. requests w' = requests w0 @ rs \<and> list_all (\<lambda>r. \<exists>n \<in> N. isPut (ss_Name (ssAt w0 p)) n r) rs"
    using rs rs' by (intro exI [of _ "rs @ rs'"]) simp
  have s: "set (ts[i := (q, pt')]) \<subseteq> insert (p, pt') (set ts)" using set_update_subset_insert q(1) by metis
  have d: "EnableVMSSEtag (config w0) \<or> curSize (ssAt w' p) \<in> N \<or> (p, Returned (Ok ())) \<notin> set (ts[i := (q, pt')])"
  proof (rule ccontr)
    assume c: "\<not> ?thesis"
    then have "pt' = Returned (Ok ()) \<or> (p, Returned (Ok ())) \<in> set ts" using s by auto
    then have "(p, Returned (Ok ())) \<in> set ts" using a c m q(1) by auto
    then show False using assms(1) a c by (auto simp: allCarry_def)
  qed
  have t: "\<forall>(q, pt) \<in> set (ts[i := (q, pt')]). q = p \<and> carries (EnableVMSSEtag (config w0)) N pt"
    using s a assms(1) by (auto simp: allCarry_def)
  have "ssFrame p w0 w'" using ssFrame_trans [OF f] a by blast
  then show ?thesis using r d t by (simp add: allCarry_def)
qed

lemma takeTurns_allCarry:
  "takeTurns az is c = Some c' \<Longrightarrow> allCarry p N w0 c \<Longrightarrow> allCarry p N w0 c'"
proof (induction az "is" c rule: takeTurns.induct)
  case (2 az i "is" w ts)
  obtain q pt pt' w' where e: "ts ! i = (q, pt)" "advance az q pt w = (pt', w')"
    by fastforce
  with 2(2) have t: "i < length ts" "pt' \<noteq> Returned Panic" "takeTurns az is (w', ts[i := (q, pt')]) = Some c'"
    by (auto split: if_splits)
  show ?case
    using 2(1) [OF _ e(1) [symmetric] e(2) [symmetric]] t advance_allCarry [OF 2(3) t(1) e] by auto
qed simp

text \<open>Scale-ups, atomic or not, that have all checked the size and done nothing else.\<close>

definition checked :: "'e azClient \<Rightarrow> addr \<Rightarrow> 'e world \<Rightarrow> (bool \<times> int) list \<Rightarrow> (addr \<times> scaleUpPoint) list" where
  "checked az p w ups = map (\<lambda>(atomic, delta). (p, fst (advance az p (Checking atomic delta) w))) ups"

section \<open>Properties\<close>

text \<open>
  C1. Whatever the order of calls, completions, refreshes and changes in Azure, and also when
  scale-ups of the same scale set overlap between any two of their critical sections, every PUT of
  a scale set that the provider sends after the creation of its manager names a scale set the
  provider has or had registered, and asks for a capacity that is at most the maximum size of that
  scale set.
\<close>

theorem scale_ups_within_max:
  assumes "createAzureManagerInternal lib opts given w0 = (Ok az, w)" and "retries lib"
    and "(scaleUpStep az)\<^sup>*\<^sup>* (w, []) (w', ts)"
    and "PutVMSS name body etag \<in> set (requests w') - set (requests w)"
  shows "\<exists>p size. groupAllocated w' (ScaleSetRef p) \<and> ngId w' (ScaleSetRef p) = name \<and>
    capacityOf body = Some size \<and> size \<le> ngMaxSize w' (ScaleSetRef p)"
proof -
  have "wellFormed w"
    using assms(1) startManager_wellFormed [OF _ assms(2)]
    by (auto simp: createAzureManagerInternal_def split: go.splits sum.splits)
  with scaleUpSteps_keep [OF assms(3)] assms(4) have "withinMax w' (PutVMSS name body etag)"
    by (auto simp: identitiesKept_def)
  then show ?thesis by (simp add: withinMax_def)
qed

text \<open>
  C19. Scale-ups of one scale set that overlap count once. Take any number of them, atomic or not,
  that have all checked the same size and not gone on yet. However they interleave afterwards, and
  whatever Azure answers, every PUT they send asks for that size plus one of the increases, never
  for more than one of them together; and without ETags, as soon as one of them has succeeded, the
  published size is that size plus one of the increases.
\<close>

theorem overlapping_increases_count_once:
  assumes "\<And>atomic delta. (atomic, delta) \<in> set ups \<Longrightarrow> canIncreaseSize az p delta w = (Ok sz, w)"
    and "takeTurns az is (w, checked az p w ups) = Some (w', ts)"
  shows "(\<exists>rs. requests w' = requests w @ rs \<and>
      list_all (\<lambda>r. \<exists>(atomic, delta) \<in> set ups. isPut (ss_Name (ssAt w p)) (i64 (sz + delta)) r) rs) \<and>
    (\<not> EnableVMSSEtag (config w) \<and> (p, Returned (Ok ())) \<in> set ts \<longrightarrow>
      (\<exists>(atomic, delta) \<in> set ups. curSize (ssAt w' p) = i64 (sz + delta)))"
proof -
  let ?N = "(\<lambda>(atomic, delta). i64 (sz + delta)) ` set ups"
  have "advance az p (Checking a d) w = (Looking a (i64 (sz + d)) d, w) \<and> 0 < d" if "(a, d) \<in> set ups" for a d
    using assms(1) [OF that] canIncreaseSize_Ok(1) [of az p d w] by auto
  then have "allCarry p ?N w (w, checked az p w ups)"
    by (force simp: allCarry_def checked_def)
  from takeTurns_allCarry [OF assms(2) this] show ?thesis
    by (auto simp: allCarry_def list_all_iff image_iff split_beta)
qed


section \<open>Witnesses\<close>

text \<open>A manager with room to grow, and its scale set increased by two calls that overlap.\<close>

definition growingManagerLib :: "(int, unit) managerLib" where
  "growingManagerLib = sampleManagerLib
     \<lparr>SpecFromString := (\<lambda>_ _. Inr \<lparr>spec_Name = ''set'', spec_MinSize = 1, spec_MaxSize = 10\<rparr>)\<rparr>"

definition growingManager :: "int azClient go \<times> int world" where
  "growingManager = createAzureManagerInternal growingManagerLib sampleOptions None sampleWorld"

definition twoScaleUps :: "(addr \<times> scaleUpPoint) list" where
  "twoScaleUps = [(1, Checking False 2), (1, Checking True 3)]"

definition grownWorld :: "int world option" where
  "grownWorld =
     (case growingManager of
        (Ok az, w) \<Rightarrow> map_option fst (takeTurns az [0, 1, 0, 1, 0, 1, 0, 1, 0, 0, 1] (w, twoScaleUps))
      | _ \<Rightarrow> None)"

definition sentPut :: "request list \<Rightarrow> (string \<times> vmss \<times> string option) option" where
  "sentPut rs = (case rs of PutVMSS name body etag # _ \<Rightarrow> Some (name, body, etag) | _ \<Rightarrow> None)"

theorem scale_ups_within_max_witness:
  "\<exists>name body etag p size w. grownWorld = Some w \<and> sentPut (requests w) = Some (name, body, etag) \<and>
     capacityOf body = Some size \<and> size \<le> ngMaxSize w (ScaleSetRef p)"
proof -
  have "case growingManager of (Ok _, w) \<Rightarrow> requests w = [] \<and> ssNext w = 2 | _ \<Rightarrow> False" by code_simp
  then obtain az w where c: "growingManager = (Ok az, w)" "requests w = []" "ssNext w = 2"
    by (auto split: prod.splits go.splits)
  have "case grownWorld of None \<Rightarrow> False | Some w' \<Rightarrow> sentPut (requests w') \<noteq> None" by code_simp
  then obtain w' name body etag where g: "grownWorld = Some w'"
    "sentPut (requests w') = Some (name, body, etag)"
    by (auto split: option.splits)
  from g(1) obtain ts where
    "takeTurns az [0, 1, 0, 1, 0, 1, 0, 1, 0, 0, 1] (w, twoScaleUps) = Some (w', ts)"
    unfolding grownWorld_def c(1) by auto
  from rtranclp_trans [OF two_begin takeTurns_steps [OF this [unfolded twoScaleUps_def]]]
  have s: "(scaleUpStep az)\<^sup>*\<^sup>* (w, []) (w', ts)"
    using c(3) by (simp add: groupAllocated_def)
  have "PutVMSS name body etag \<in> set (requests w') - set (requests w)"
    using c(2) g(2) by (auto simp: sentPut_def split: list.splits request.splits)
  moreover have "retries growingManagerLib"
    using sample_retries by (simp add: growingManagerLib_def retries_def)
  ultimately show ?thesis
    using scale_ups_within_max [OF c(1) [unfolded growingManager_def] _ s] g by blast
qed

text \<open>Two scale-ups without ETags that overlap, an increase by one and an atomic one by two.\<close>

definition noEtagWorld :: "int world" where
  "noEtagWorld = sampleWorld\<lparr>config := sampleConfig\<lparr>EnableVMSSEtag := False\<rparr>,
     ssAt := (\<lambda>_. sampleSet\<lparr>lastSizeRefresh := 1000\<rparr>)\<rparr>"

definition overlap :: "nat list" where
  "overlap = [0, 1, 0, 1, 0, 1, 0, 1, 0]"

lemma noEtag_check:
  assumes "delta = 1 \<or> delta = 2"
  shows "canIncreaseSize sampleClient 0 delta noEtagWorld = (Ok 3, noEtagWorld)"
proof -
  have "getVMSSFromCache 0 noEtagWorld = Ok 0" "curSize (ssAt noEtagWorld 0) = 3" "ss_maxSize (ssAt noEtagWorld 0) = 10"
    "stillFresh (lastSizeRefresh (ssAt noEtagWorld 0)) (sizePeriod 0 (vmssAt noEtagWorld 0) noEtagWorld) (now sampleClient noEtagWorld)"
    by code_simp+
  with getCurSize_fresh [of 0 noEtagWorld 0 sampleClient] assms show ?thesis
    by (auto simp: canIncreaseSize_def getScaleSetSize_def i64_def)
qed

theorem overlapping_increases_count_once_witness:
  "case takeTurns sampleClient overlap (noEtagWorld, checked sampleClient 0 noEtagWorld [(False, 1), (True, 2)]) of
     None \<Rightarrow> False
   | Some (w, ts) \<Rightarrow> ts = [(0, Returned (Ok ())), (0, Returned (Ok ()))] \<and> length (requests w) = 2 \<and>
       (curSize (ssAt w 0) = 3 + 1 \<or> curSize (ssAt w 0) = 3 + 2)"
proof -
  let ?ups = "[(False, 1), (True, 2)] :: (bool \<times> int) list"
  have "case takeTurns sampleClient overlap (noEtagWorld, checked sampleClient 0 noEtagWorld ?ups) of
     None \<Rightarrow> False | Some (w, ts) \<Rightarrow> ts = [(0, Returned (Ok ())), (0, Returned (Ok ()))] \<and> length (requests w) = 2"
    by code_simp
  then obtain w where t: "takeTurns sampleClient overlap (noEtagWorld, checked sampleClient 0 noEtagWorld ?ups) =
      Some (w, [(0, Returned (Ok ())), (0, Returned (Ok ()))])" "length (requests w) = 2"
    by (auto split: option.splits)
  have c: "canIncreaseSize sampleClient 0 delta noEtagWorld = (Ok 3, noEtagWorld)" if "(atomic, delta) \<in> set ?ups" for atomic delta
    using that noEtag_check by auto
  have "\<not> EnableVMSSEtag (config noEtagWorld)" by (simp add: noEtagWorld_def)
  with overlapping_increases_count_once [OF c t(1)] t show ?thesis by (auto simp: i64_def)
qed

end
