(* ===== verification/Discovered_Groups.thy ===== *)
theory Discovered_Groups
  imports Azure_Refresh
begin

text \<open>
  Which node groups are registered after a discovery (\<open>fetchAutoNodeGroups\<close> of
  \<open>azure_manager.go\<close>): the specifications made of the cached scale sets, and exactly when they
  replace a group that is configured explicitly.
\<close>


section \<open>The discovered specifications\<close>

text \<open>The specifications the discovery makes of the cached scale sets, in the order it visits them.\<close>

definition discoveredSpecs :: "'e world \<Rightarrow> nodeGroupSpec list" where
  "discoveredSpecs w =
     (if autoDiscoverySpecs w = [] then []
      else List.map_filter (\<lambda>(_, v). case discoveredSpec (autoDiscoverySpecs w) (vmssAt w v) of
          Ok so \<Rightarrow> so | _ \<Rightarrow> None) (getScaleSets w))"

definition specOfGroup :: "'e world \<Rightarrow> nodeGroup \<Rightarrow> nodeGroupSpec" where
  "specOfGroup w g = \<lparr>spec_Name = ngId w g, spec_MinSize = ngMinSize w g, spec_MaxSize = ngMaxSize w g\<rparr>"

lemma specOfGroup_fields [simp]:
  "spec_Name (specOfGroup w g) = ngId w g" "spec_MinSize (specOfGroup w g) = ngMinSize w g"
  "spec_MaxSize (specOfGroup w g) = ngMaxSize w g"
  by (simp_all add: specOfGroup_def)

lemma discoverLoop_specs:
  "discoverLoop flt sets w = (Ok gs, w') \<Longrightarrow>
     map (specOfGroup w') gs =
       List.map_filter (\<lambda>(_, v). case discoveredSpec flt (vmssAt w v) of Ok so \<Rightarrow> so | _ \<Rightarrow> None) sets"
proof (induction flt sets w arbitrary: gs w' rule: discoverLoop.induct)
  case (1 flt w)
  then show ?case by (simp add: List.map_filter_simps)
next
  case (2 flt n v sets w)
  show ?case
  proof (cases "discoveredSpec flt (vmssAt w v)")
    case (Ok so)
    show ?thesis
    proof (cases so)
      case None
      from "2.IH"(1) [OF Ok None] "2.prems" Ok None show ?thesis by (simp add: List.map_filter_simps)
    next
      case (Some spec)
      let ?sz = "case capacityOf (vmssAt w v) of None \<Rightarrow> -1 | Some c \<Rightarrow> c"
      obtain p w1 where n: "NewScaleSet spec ?sz (hasHostGroup (vmssAt w v)) w = (p, w1)" by fastforce
      obtain r2 w2 where d: "discoverLoop flt sets w1 = (r2, w2)" by fastforce
      then obtain gs' where gs': "r2 = Ok gs'" "gs = ScaleSetRef p # gs'" "w' = w2"
        using "2.prems" Ok Some n by (cases r2) auto
      note f = NewScaleSet_fields [OF n]
      have at: "vmssAt w1 = vmssAt w" using arg_cong [OF f(7), of vmssAt] by simp
      have "ssAt w2 p = ssAt w1 p" using discoverLoop_groups [OF d] f(1,2) by auto
      then have "specOfGroup w2 (ScaleSetRef p) = spec"
        using f(3,4,5) by (simp add: specOfGroup_def ngId_def ngMinSize_def ngMaxSize_def)
      with "2.IH"(2) [OF Ok Some n [symmetric] d [unfolded gs'(1)]] show ?thesis
        using Ok Some gs' at by (simp add: List.map_filter_simps)
    qed
  qed (use "2.prems" in auto)
qed

lemma discovered_specs:
  assumes "getFilteredNodeGroups (autoDiscoverySpecs w) w = (Ok gs, w')"
  shows "map (specOfGroup w') gs = discoveredSpecs w"
  using assms discoverLoop_specs [of "autoDiscoverySpecs w" "getScaleSets w" w gs w']
  by (auto simp: getFilteredNodeGroups_def getFilteredScaleSets_def discoveredSpecs_def split: if_splits)

section \<open>Registering and unregistering\<close>

text \<open>What registering the discovered groups does to one registered group.\<close>

lemma registerLoop_same:
  "x \<in> set gs \<Longrightarrow> sameSizes w x ng \<or> \<not> sameId w x ng \<Longrightarrow> x \<in> set (snd (registerLoop w ng gs))"
  by (induction gs) (auto split: prod.splits)

lemma registerLoop_takes: "\<exists>y \<in> set (snd (registerLoop w ng gs)). sameId w y ng \<and> sameSizes w y ng"
  by (induction gs) (auto simp: sameId_def sameSizes_def split: prod.splits)

lemma registerLoop_replaces:
  "oneEach (sameId w) gs \<Longrightarrow> sameId w x ng \<Longrightarrow> \<not> sameSizes w x ng \<Longrightarrow>
     x \<notin> set (snd (registerLoop w ng gs))"
proof (induction gs)
  case Nil
  then show ?case by (auto simp: sameSizes_def)
next
  case (Cons y gs)
  have eq: "sameId w y ng \<Longrightarrow> sameId w y x"
    using Cons.prems(2) by (simp add: sameId_def strings_EqualFold_def)
  show ?case
  proof (cases "sameId w y ng")
    case True
    then have "x \<notin> set gs" using eq Cons.prems(1) by (auto simp: oneEach_def)
    then show ?thesis using True Cons.prems by (auto simp: sameSizes_def)
  next
    case False
    then have "x \<noteq> y" using Cons.prems(2) by auto
    then show ?thesis using Cons False by (auto simp: oneEach_def split: prod.splits)
  qed
qed

lemma RegisterNodeGroup_registry:
  assumes "RegisterNodeGroup ng w = (c, w')"
  shows "registeredNodeGroups (azCache w') = snd (registerLoop w ng (registeredNodeGroups (azCache w)))"
    "registryOnly w w'"
  using Register_groups [of ng w] registryOnly_Register [of w ng] assms by (simp_all add: RegisterNodeGroup_def)

lemma registryOnly_sameSizes: "registryOnly w w' \<Longrightarrow> sameSizes w' = sameSizes w"
  by (simp add: sameSizes_def fun_eq_iff registryOnly_fields(2,3))

lemma registerDiscovered_same:
  "registerDiscovered ngs changed w = (c, w') \<Longrightarrow> x \<in> set (registeredNodeGroups (azCache w)) \<Longrightarrow>
     (\<forall>g \<in> set ngs. sameId w x g \<and> \<not> isExplicit w g \<longrightarrow> sameSizes w x g) \<Longrightarrow>
     x \<in> set (registeredNodeGroups (azCache w'))"
proof (induction ngs changed w arbitrary: c w' rule: registerDiscovered.induct)
  case (2 ng ngs changed w)
  show ?case
  proof (cases "isExplicit w ng")
    case True
    from "2.IH"(1) [OF True] "2.prems" True show ?thesis by simp
  next
    case False
    obtain c1 w1 where r: "RegisterNodeGroup ng w = (c1, w1)" by fastforce
    note g = RegisterNodeGroup_registry [OF r]
    note o = registryOnly_fields(4,5) [OF g(2)] registryOnly_sameSizes [OF g(2)]
    have "x \<in> set (registeredNodeGroups (azCache w1))"
      unfolding g(1) using "2.prems"(2,3) False by (intro registerLoop_same) auto
    moreover have "registerDiscovered ngs (changed \<or> c1) w1 = (c, w')" using "2.prems"(1) r False by simp
    ultimately show ?thesis using "2.IH"(2) [OF False r [symmetric]] "2.prems"(3) o by simp
  qed
qed simp

lemma registerDiscovered_replaces:
  "registerDiscovered ngs changed w = (c, w') \<Longrightarrow> distinctGroups w \<Longrightarrow> x \<notin> set ngs \<Longrightarrow>
     g \<in> set ngs \<Longrightarrow> sameId w x g \<Longrightarrow> \<not> isExplicit w g \<Longrightarrow> \<not> sameSizes w x g \<Longrightarrow>
     x \<notin> set (registeredNodeGroups (azCache w'))"
proof (induction ngs changed w arbitrary: c w' rule: registerDiscovered.induct)
  case (2 ng ngs changed w)
  show ?case
  proof (cases "isExplicit w ng")
    case True
    then have "g \<in> set ngs" using "2.prems"(4,6) by auto
    with "2.IH"(1) [OF True] "2.prems" True show ?thesis by simp
  next
    case False
    obtain c1 w1 where r: "RegisterNodeGroup ng w = (c1, w1)" by fastforce
    note gr = RegisterNodeGroup_registry [OF r]
    note o = registryOnly_fields(4,5) [OF gr(2)] registryOnly_sameSizes [OF gr(2)]
    have d: "registerDiscovered ngs (changed \<or> c1) w1 = (c, w')" using "2.prems"(1) r False by simp
    have dist: "distinctGroups w1" using "2.prems"(2) o(1)
      by (simp add: distinctGroups_def gr(1) reg.insert_distinct)
    show ?thesis
    proof (cases "g = ng")
      case True
      then have "x \<notin> set (registeredNodeGroups (azCache w1))"
        unfolding gr(1) using "2.prems"(2,5,7) by (intro registerLoop_replaces) (simp_all add: distinctGroups_def)
      then show ?thesis using registerDiscovered_registry [OF d dist] "2.prems"(3) by auto
    next
      case False
      then have g: "g \<in> set ngs" using "2.prems"(4) by simp
      have "x \<notin> set ngs" "sameId w1 x g" "\<not> isExplicit w1 g" "\<not> sameSizes w1 x g"
        using "2.prems"(3,5,6,7) o by simp_all
      then show ?thesis using "2.IH"(2) [OF \<open>\<not> isExplicit w ng\<close> r [symmetric] d dist _ g] by blast
    qed
  qed
qed simp

lemma registerDiscovered_takes:
  "registerDiscovered ngs changed w = (c, w') \<Longrightarrow>
     (\<exists>g \<in> set ngs. sameId w x g \<and> \<not> isExplicit w g) \<or>
       (\<exists>y \<in> set (registeredNodeGroups (azCache w)). sameId w x y \<and> sameSizes w y z) \<Longrightarrow>
     (\<forall>g \<in> set ngs. sameId w x g \<and> \<not> isExplicit w g \<longrightarrow> sameSizes w g z) \<Longrightarrow>
     \<exists>y \<in> set (registeredNodeGroups (azCache w')). sameId w x y \<and> sameSizes w y z"
proof (induction ngs changed w arbitrary: c w' rule: registerDiscovered.induct)
  case (2 ng ngs changed w)
  show ?case
  proof (cases "isExplicit w ng")
    case True
    from "2.IH"(1) [OF True] "2.prems" True show ?thesis by auto
  next
    case False
    obtain c1 w1 where r: "RegisterNodeGroup ng w = (c1, w1)" by fastforce
    note gr = RegisterNodeGroup_registry [OF r]
    note o = registryOnly_fields(4,5) [OF gr(2)] registryOnly_sameSizes [OF gr(2)]
    have d: "registerDiscovered ngs (changed \<or> c1) w1 = (c, w')" using "2.prems"(1) r False by simp
    have "(\<exists>g \<in> set ngs. sameId w x g \<and> \<not> isExplicit w g) \<or>
       (\<exists>y \<in> set (registeredNodeGroups (azCache w1)). sameId w x y \<and> sameSizes w y z)"
    proof (cases "sameId w x ng")
      case True
      obtain y where y: "y \<in> set (registeredNodeGroups (azCache w1))" "sameId w y ng" "sameSizes w y ng"
        using registerLoop_takes unfolding gr(1) by blast
      then have "sameId w x y" "sameSizes w y z"
        using True "2.prems"(3) False by (auto simp: sameId_def strings_EqualFold_def sameSizes_def)
      with y show ?thesis by blast
    next
      case nid: False
      have "y \<in> set (registeredNodeGroups (azCache w1))"
        if "y \<in> set (registeredNodeGroups (azCache w))" "sameId w x y" for y
        unfolding gr(1) using that nid by (intro registerLoop_keeps) (auto simp: sameId_def strings_EqualFold_def)
      then show ?thesis using "2.prems"(2) nid by auto
    qed
    then show ?thesis using "2.IH"(2) [OF False r [symmetric] d] "2.prems"(3) o by simp
  qed
qed simp


section \<open>Explicitly configured groups\<close>

text \<open>
  A discovered specification that replaces a registered group: its name is the group's up to case,
  it is not configured explicitly in its own spelling, and the sizes differ.
\<close>

definition overrides :: "'e world \<Rightarrow> nodeGroup \<Rightarrow> nodeGroupSpec \<Rightarrow> bool" where
  "overrides w x s \<longleftrightarrow>
     strings_EqualFold (spec_Name s) (ngId w x) \<and> map_of (explicitlyConfigured w) (spec_Name s) \<noteq> Some True \<and>
     \<not> (spec_MinSize s = ngMinSize w x \<and> spec_MaxSize s = ngMaxSize w x)"

text \<open>A group that the discovery leaves registered after its first loop survives the second one.\<close>

lemma unregisterMissing_keeps:
  assumes "unregisterMissing present (getNodeGroups w) changed w = (c, w')" "distinctGroups w"
    and "x \<in> set (registeredNodeGroups (azCache w))" "ngId w x \<in> set present \<or> isExplicit w x"
  shows "x \<in> set (registeredNodeGroups (azCache w'))"
proof -
  have "\<not> (\<exists>h \<in> set (getNodeGroups w). sameId w x h \<and> ngId w h \<notin> set present \<and> \<not> isExplicit w h)"
  proof
    assume "\<exists>h \<in> set (getNodeGroups w). sameId w x h \<and> ngId w h \<notin> set present \<and> \<not> isExplicit w h"
    then obtain h where h: "h \<in> set (registeredNodeGroups (azCache w))" "sameId w x h"
      "ngId w h \<notin> set present" "\<not> isExplicit w h"
      by (auto simp: getNodeGroups_def getRegisteredNodeGroups_def)
    then have "x = h" using reg.oneEach_unique [of w, OF _ assms(3) h(1,2)] assms(2) by (simp add: distinctGroups_def)
    with h(3,4) assms(4) show False by simp
  qed
  then show ?thesis using unregisterMissing_registry [OF assms(1,2)] assms(3) by blast
qed

lemma fetchAuto_explicit:
  assumes "fetchAutoNodeGroups az w = (Ok (), w')" "distinctGroups w" "registryAllocated w"
    and x: "x \<in> set (registeredNodeGroups (azCache w))" "isExplicit w x"
  shows "x \<in> set (registeredNodeGroups (azCache w')) \<longleftrightarrow> (\<forall>s \<in> set (discoveredSpecs w). \<not> overrides w x s)"
    and "s \<in> set (discoveredSpecs w) \<Longrightarrow> overrides w x s \<Longrightarrow>
      \<forall>s' \<in> set (discoveredSpecs w). strings_EqualFold (spec_Name s') (ngId w x) \<longrightarrow> s' = s \<Longrightarrow>
      \<exists>y \<in> set (registeredNodeGroups (azCache w')). specOfGroup w' y = s"
proof -
  obtain gs w1 c1 w2 c2 w3 where g: "getFilteredNodeGroups (autoDiscoverySpecs w) w = (Ok gs, w1)"
    and r: "registerDiscovered gs False w1 = (c1, w2)"
    and u: "unregisterMissing (map (ngId w2) gs) (getNodeGroups w2) c1 w2 = (c2, w3)"
    and w': "w' = (if c2 then invalidateCache az w3 else w3)"
    using fetchAuto_unfold [OF assms(1)] .
  have fr: "w1 = w\<lparr>ssAt := ssAt w1, ssNext := ssNext w1\<rparr>"
    and new: "\<And>h. h \<in> set gs \<Longrightarrow> \<exists>p. h = ScaleSetRef p \<and> ssNext w \<le> p"
    using discover_frame [OF g] by blast+
  have ex: "explicitlyConfigured w1 = explicitlyConfigured w" using arg_cong [OF fr, of explicitlyConfigured] by simp
  note d = discover_distinct [OF g assms(2,3)]
  have d2: "distinctGroups w2" using registerDiscovered_registry [OF r d(1)] by blast
  note o = registryOnly_fields [OF registerDiscovered_only [OF r]] registryOnly_sameSizes [OF registerDiscovered_only [OF r]]
  note o3 = registryOnly_fields(1,2,3) [OF unregisterMissing_only [OF u]]
  have same: "ngId w' = ngId w1" "ngMinSize w' = ngMinSize w1" "ngMaxSize w' = ngMaxSize w1"
    "registeredNodeGroups (azCache w') = registeredNodeGroups (azCache w3)"
    using o(1,2,3) o3 unfolding w' by auto
  have ax: "groupAllocated w x" using x(1) assms(3) by (simp add: registryAllocated_def list_all_iff)
  note kx = discover_keeps(1,2,3) [OF g ax]
  have e1: "isExplicit w1 x" using x(2) kx(1) ex by (simp add: isExplicit_def)
  have xgs: "x \<notin> set gs" using new ax by (force simp: groupAllocated_def)
  have specs: "set (discoveredSpecs w) = specOfGroup w1 ` set gs"
    using arg_cong [OF discovered_specs [OF g], of set] by simp
  have ov: "overrides w x (specOfGroup w1 h) \<longleftrightarrow> sameId w1 x h \<and> \<not> isExplicit w1 h \<and> \<not> sameSizes w1 x h" for h
    using kx ex by (auto simp: overrides_def sameId_def isExplicit_def sameSizes_def strings_EqualFold_sym)
  have fin: "x \<in> set (registeredNodeGroups (azCache w')) \<longleftrightarrow> x \<in> set (registeredNodeGroups (azCache w2))"
    using unregisterMissing_keeps [OF u d2] unregisterMissing_registry [OF u d2] same(4) e1 o(5) by auto
  show "x \<in> set (registeredNodeGroups (azCache w')) \<longleftrightarrow> (\<forall>s \<in> set (discoveredSpecs w). \<not> overrides w x s)"
  proof
    assume "x \<in> set (registeredNodeGroups (azCache w'))"
    then show "\<forall>s \<in> set (discoveredSpecs w). \<not> overrides w x s"
      using registerDiscovered_replaces [OF r d(1) xgs] fin ov unfolding specs by blast
  next
    assume "\<forall>s \<in> set (discoveredSpecs w). \<not> overrides w x s"
    then have "x \<in> set (registeredNodeGroups (azCache w2))"
      using registerDiscovered_same [OF r] x(1) ov d(2) unfolding specs by auto
    then show "x \<in> set (registeredNodeGroups (azCache w'))" using fin by simp
  qed
  assume s: "s \<in> set (discoveredSpecs w)" "overrides w x s"
    and only: "\<forall>s' \<in> set (discoveredSpecs w). strings_EqualFold (spec_Name s') (ngId w x) \<longrightarrow> s' = s"
  then obtain h where h: "h \<in> set gs" "s = specOfGroup w1 h" unfolding specs by blast
  have one: "specOfGroup w1 h' = s" if "h' \<in> set gs" "sameId w1 x h'" for h'
    using only that kx(1) unfolding specs by (auto simp: sameId_def strings_EqualFold_sym)
  have "sameSizes w1 h' h" if "h' \<in> set gs" "sameId w1 x h'" for h'
    using one [OF that] h(2) by (auto simp: sameSizes_def specOfGroup_def)
  then obtain y where y: "y \<in> set (registeredNodeGroups (azCache w2))" "sameId w1 x y" "sameSizes w1 y h"
    using registerDiscovered_takes [OF r, of x h] h s(2) ov by blast
  have "y \<in> set gs"
  proof (rule ccontr)
    assume "y \<notin> set gs"
    then have "y \<in> set (registeredNodeGroups (azCache w1))"
      using registerDiscovered_registry [OF r d(1)] y(1) by blast
    then have "x = y" using reg.oneEach_unique [of w1 _ x y] d x(1) y(2) by (simp add: distinctGroups_def)
    then show False using y(3) s(2) ov h(2) by simp
  qed
  then have "specOfGroup w1 y = s" "ngId w2 y \<in> set (map (ngId w2) gs)" using one y(2) by auto
  then show "\<exists>y \<in> set (registeredNodeGroups (azCache w')). specOfGroup w' y = s"
    using unregisterMissing_keeps [OF u d2 y(1)] same by (auto simp: specOfGroup_def)
qed

section \<open>Sample worlds\<close>

text \<open>
  Clusters with an explicit group of sizes 1 to 3, for the scale set \<open>set\<close> whose tags give it sizes
  1 to 10: configured as \<open>SET\<close>, and configured as \<open>set\<close> beside a discovered scale set \<open>new\<close>.
\<close>

definition caseWorld :: "int world" where
  "caseWorld = sampleWorld
     \<lparr>autoDiscoverySpecs := [\<lparr>Selector = [(''env'', ''x'')], MinSize = Some 1, MaxSize = Some 10\<rparr>],
      vmssAt := (\<lambda>_. sampleVMSS\<lparr>vmss_Tags := [(''env'', Some ''x'')]\<rparr>),
      ssAt := (\<lambda>_. sampleSet\<lparr>ss_Name := ''SET'', ss_maxSize := 3\<rparr>),
      explicitlyConfigured := [(''SET'', True)]\<rparr>"

definition keptWorld :: "int world" where
  "keptWorld = updCache (\<lambda>c. c\<lparr>scaleSets := [(''set'', 0), (''new'', 1)]\<rparr>) (caseWorld
     \<lparr>vmssAt := (\<lambda>v. sampleVMSS\<lparr>vmss_Name := Some (if v = 0 then ''set'' else ''new''), vmss_Tags := [(''env'', Some ''x'')]\<rparr>),
      ssAt := (\<lambda>_. sampleSet\<lparr>ss_maxSize := 3\<rparr>),
      explicitlyConfigured := [(''set'', True)]\<rparr>)"

definition registeredSizes :: "'e world \<Rightarrow> nodeGroupSpec list" where
  "registeredSizes w = map (specOfGroup w) (registeredNodeGroups (azCache w))"

lemma case_selectors:
  "registeredNodeGroups (azCache caseWorld) = [ScaleSetRef 0]"
  "registeredNodeGroups (azCache keptWorld) = [ScaleSetRef 0]"
  by (simp_all add: caseWorld_def keptWorld_def)

lemma case_wellFormed:
  "distinctGroups caseWorld" "registryAllocated caseWorld" "distinctGroups keptWorld" "registryAllocated keptWorld"
  by (simp_all add: distinctGroups_def oneEach_def registryAllocated_def groupAllocated_def case_selectors)
    (simp_all add: caseWorld_def keptWorld_def sampleWorld_def)

section \<open>Properties\<close>

text \<open>
  C11. After a discovery that succeeds at most one group is registered per identifier; a registered
  group is explicitly configured or has the name of a cached scale set; a group that is new in the
  registry has sizes \<open>0 \<le> min \<le> max\<close>. An explicitly configured group stays registered exactly when
  the discovery finds no scale set of its name up to case that is not configured in its own
  spelling and has other sizes.
\<close>

theorem discovery_registry:
  assumes "distinctGroups w" and "registryAllocated w" and "fetchAutoNodeGroups az w = (Ok (), w')"
  shows "distinctGroups w' \<and>
    (\<forall>x \<in> set (registeredNodeGroups (azCache w')).
       (isExplicit w' x \<or> ngId w' x \<in> cachedNames w) \<and>
       (x \<in> set (registeredNodeGroups (azCache w)) \<or> 0 \<le> ngMinSize w' x \<and> ngMinSize w' x \<le> ngMaxSize w' x)) \<and>
    (\<forall>x \<in> set (registeredNodeGroups (azCache w)). isExplicit w x \<longrightarrow>
       (x \<in> set (registeredNodeGroups (azCache w')) \<longleftrightarrow>
        \<not> (\<exists>s \<in> set (discoveredSpecs w).
             strings_EqualFold (spec_Name s) (ngId w x) \<and> map_of (explicitlyConfigured w) (spec_Name s) \<noteq> Some True \<and>
             \<not> (spec_MinSize s = ngMinSize w x \<and> spec_MaxSize s = ngMaxSize w x))))"
proof -
  note f = fetchAuto_registry [OF assms(3,1,2)] and e = fetchAuto_explicit(1) [OF assms(3,1,2)]
  have "\<forall>x \<in> set (registeredNodeGroups (azCache w')).
       (isExplicit w' x \<or> ngId w' x \<in> cachedNames w) \<and>
       (x \<in> set (registeredNodeGroups (azCache w)) \<or> 0 \<le> ngMinSize w' x \<and> ngMinSize w' x \<le> ngMaxSize w' x)"
    using f(2,4) unfolding validGroup_def by blast
  with f(1) e show ?thesis unfolding overrides_def by blast
qed

text \<open>The explicit group \<open>set\<close> keeps its sizes although the tags give others, and \<open>new\<close> is added.\<close>

theorem discovery_registry_witness:
  "ScaleSetRef 0 \<in> set (registeredNodeGroups (azCache (snd (fetchAutoNodeGroups sampleClient keptWorld)))) \<and>
   registeredSizes (snd (fetchAutoNodeGroups sampleClient keptWorld)) =
     [\<lparr>spec_Name = ''set'', spec_MinSize = 1, spec_MaxSize = 3\<rparr>, \<lparr>spec_Name = ''new'', spec_MinSize = 1, spec_MaxSize = 10\<rparr>]"
proof -
  have "fst (fetchAutoNodeGroups sampleClient keptWorld) = Ok ()" by code_simp
  note t = discovery_registry [OF case_wellFormed(3,4) prod_eq [OF this]]
  have "isExplicit keptWorld (ScaleSetRef 0)" by code_simp
  moreover have "list_all (\<lambda>s. \<not> overrides keptWorld (ScaleSetRef 0) s) (discoveredSpecs keptWorld)" by code_simp
  ultimately have "ScaleSetRef 0 \<in> set (registeredNodeGroups (azCache (snd (fetchAutoNodeGroups sampleClient keptWorld))))"
    using t by (auto simp: case_selectors list_all_iff overrides_def)
  moreover have "registeredSizes (snd (fetchAutoNodeGroups sampleClient keptWorld)) =
     [\<lparr>spec_Name = ''set'', spec_MinSize = 1, spec_MaxSize = 3\<rparr>, \<lparr>spec_Name = ''new'', spec_MinSize = 1, spec_MaxSize = 10\<rparr>]"
    by code_simp
  ultimately show ?thesis by blast
qed

text \<open>
  C39. The sizes of an explicitly configured group do not take precedence when Azure reports its
  scale set in another case: if a scale set is discovered whose name is the group's up to case but is
  not configured in that spelling, with other sizes, and no other discovered one has that name, then
  the explicit group is no longer registered after the discovery, and a group with the name and the
  sizes of the discovered one is, since \<open>explicitlyConfigured\<close> is looked up by the exact name and
  \<open>Register\<close> compares names up to case.
\<close>

theorem explicit_sizes_overridden:
  assumes "distinctGroups w" and "registryAllocated w" and "fetchAutoNodeGroups az w = (Ok (), w')"
    and "x \<in> set (registeredNodeGroups (azCache w))" and "isExplicit w x"
    and "s \<in> set (discoveredSpecs w)" and "strings_EqualFold (spec_Name s) (ngId w x)"
    and "map_of (explicitlyConfigured w) (spec_Name s) \<noteq> Some True"
    and "(spec_MinSize s, spec_MaxSize s) \<noteq> (ngMinSize w x, ngMaxSize w x)"
    and "\<And>s'. s' \<in> set (discoveredSpecs w) \<Longrightarrow> strings_EqualFold (spec_Name s') (ngId w x) \<Longrightarrow> s' = s"
  shows "x \<notin> set (registeredNodeGroups (azCache w')) \<and>
    (\<exists>y \<in> set (registeredNodeGroups (azCache w')).
       ngId w' y = spec_Name s \<and> ngMinSize w' y = spec_MinSize s \<and> ngMaxSize w' y = spec_MaxSize s)"
proof -
  have "overrides w x s" using assms(7-9) by (auto simp: overrides_def)
  note e = fetchAuto_explicit [OF assms(3,1,2,4,5)]
  have "x \<notin> set (registeredNodeGroups (azCache w'))" using e(1) assms(6) \<open>overrides w x s\<close> by blast
  moreover obtain y where "y \<in> set (registeredNodeGroups (azCache w'))" "specOfGroup w' y = s"
    using e(2) [OF assms(6) \<open>overrides w x s\<close>] assms(10) by blast
  ultimately show ?thesis by auto
qed

text \<open>The group \<open>SET\<close> with sizes 1 to 3 is replaced by the discovered group \<open>set\<close> with sizes 1 to 10.\<close>

theorem explicit_sizes_overridden_witness:
  "ScaleSetRef 0 \<notin> set (registeredNodeGroups (azCache (snd (fetchAutoNodeGroups sampleClient caseWorld)))) \<and>
   registeredSizes caseWorld = [\<lparr>spec_Name = ''SET'', spec_MinSize = 1, spec_MaxSize = 3\<rparr>] \<and>
   registeredSizes (snd (fetchAutoNodeGroups sampleClient caseWorld)) =
     [\<lparr>spec_Name = ''set'', spec_MinSize = 1, spec_MaxSize = 10\<rparr>]"
proof -
  let ?s = "\<lparr>spec_Name = ''set'', spec_MinSize = 1, spec_MaxSize = 10\<rparr>"
  have r: "registeredSizes caseWorld = [\<lparr>spec_Name = ''SET'', spec_MinSize = 1, spec_MaxSize = 3\<rparr>]"
    "registeredSizes (snd (fetchAutoNodeGroups sampleClient caseWorld)) = [?s]"
    by code_simp+
  have f: "fst (fetchAutoNodeGroups sampleClient caseWorld) = Ok ()" by code_simp
  have w: "isExplicit caseWorld (ScaleSetRef 0)" "discoveredSpecs caseWorld = [?s]"
    "strings_EqualFold (spec_Name ?s) (ngId caseWorld (ScaleSetRef 0))"
    "map_of (explicitlyConfigured caseWorld) (spec_Name ?s) \<noteq> Some True"
    "(spec_MinSize ?s, spec_MaxSize ?s) \<noteq> (ngMinSize caseWorld (ScaleSetRef 0), ngMaxSize caseWorld (ScaleSetRef 0))"
    by code_simp+
  have in_registry: "ScaleSetRef 0 \<in> set (registeredNodeGroups (azCache caseWorld))" "?s \<in> set (discoveredSpecs caseWorld)"
    by (simp_all add: case_selectors w(2))
  have only: "s' = ?s" if "s' \<in> set (discoveredSpecs caseWorld)" for s' using that by (simp add: w(2))
  have "ScaleSetRef 0 \<notin> set (registeredNodeGroups (azCache (snd (fetchAutoNodeGroups sampleClient caseWorld))))"
    by (rule conjunct1 [OF explicit_sizes_overridden [OF case_wellFormed(1,2) prod_eq [OF f] in_registry(1) w(1)
          in_registry(2) w(3,4,5)]]) (rule only)
  then show ?thesis using r by blast
qed

end
