(* ===== verification/Lock_Program.thy ===== *)
theory Lock_Program
  imports Main
begin

text \<open>Programs that take mutexes, run by threads that interleave. A method of the code is reduced
  to what other threads can observe of its order of work: the mutexes it locks, the shared fields
  it reads and writes, the calls it makes, and the goroutines it starts. Conditions become choices
  (either branch may be taken, a loop may run any number of times), so a statement about every run
  of the program is a statement about every run of the code.

  Locked m p is the code's m.Lock(); defer m.Unlock() around p, or
  the same pair of calls around a block. A thread is the stack of what it has left to do; entering
  Locked m p leaves Unlock m on the stack, so the mutexes a thread holds can
  be read off it. Go's mutexes are not reentrant: a thread that holds a mutex blocks on it too.

  The locale states what the methods have to respect (mutexes are taken in the order of a rank, a
  guarded field is touched only under its mutex) and what follows for every interleaving: no
  deadlock, and no race on a guarded field.\<close>

section \<open>Programs and threads\<close>

datatype ('m, 'f) prog =
    Nop
  | Read 'f
  | Write 'f
  | Seq "('m, 'f) prog" "('m, 'f) prog"
  | Either "('m, 'f) prog" "('m, 'f) prog"
  | Repeat "('m, 'f) prog"
  | Locked 'm "('m, 'f) prog"
  | Unlock 'm
  | Go "('m, 'f) prog"

type_synonym ('m, 'f) thread = "('m, 'f) prog list"
type_synonym ('m, 'f) config = "('m, 'f) thread list"

primrec block :: "('m, 'f) prog list \<Rightarrow> ('m, 'f) prog" where
  "block [] = Nop"
| "block (p # ps) = Seq p (block ps)"

primrec choice :: "('m, 'f) prog list \<Rightarrow> ('m, 'f) prog" where
  "choice [] = Nop"
| "choice (p # ps) = Either p (choice ps)"

text \<open>maybe p is a conditional without an else, or the rest of a body after an early
  return.\<close>

definition maybe :: "('m, 'f) prog \<Rightarrow> ('m, 'f) prog" where
  "maybe p = Either p Nop"

fun held :: "('m, 'f) thread \<Rightarrow> 'm list" where
  "held [] = []"
| "held (Unlock m # s) = m # held s"
| "held (_ # s) = held s"

definition free :: "('m, 'f) config \<Rightarrow> 'm \<Rightarrow> bool" where
  "free c m = (\<forall>s\<in>set c. m \<notin> set (held s))"

text \<open>What a thread can do next, given which mutexes are free: its new stack and the threads it
  starts.\<close>

fun moves :: "('m \<Rightarrow> bool) \<Rightarrow> ('m, 'f) thread \<Rightarrow> (('m, 'f) thread \<times> ('m, 'f) config) list" where
  "moves fr [] = []"
| "moves fr (Nop # s) = [(s, [])]"
| "moves fr (Read f # s) = [(s, [])]"
| "moves fr (Write f # s) = [(s, [])]"
| "moves fr (Seq p q # s) = [(p # q # s, [])]"
| "moves fr (Either p q # s) = [(p # s, []), (q # s, [])]"
| "moves fr (Repeat p # s) = [(s, []), (p # Repeat p # s, [])]"
| "moves fr (Locked m p # s) = (if fr m then [(p # Unlock m # s, [])] else [])"
| "moves fr (Unlock m # s) = [(s, [])]"
| "moves fr (Go p # s) = [(s, [[p]])]"

inductive lstep :: "('m, 'f) config \<Rightarrow> ('m, 'f) config \<Rightarrow> bool" where
  lstepI: "i < length c \<Longrightarrow> (s', started) \<in> set (moves (free c) (c ! i))
    \<Longrightarrow> lstep c (c[i := s'] @ started)"

inductive_cases lstepE: "lstep c c'"

definition finished :: "('m, 'f) config \<Rightarrow> bool" where
  "finished c = (\<forall>s\<in>set c. s = [])"

text \<open>A thread is at a field when its next move reads or writes it; two threads race on a field
  when both are at it and one of them writes.\<close>

fun reads_next :: "('m, 'f) thread \<Rightarrow> 'f \<Rightarrow> bool" where
  "reads_next (Read f # s) g = (f = g)"
| "reads_next _ g = False"

fun writes_next :: "('m, 'f) thread \<Rightarrow> 'f \<Rightarrow> bool" where
  "writes_next (Write f # s) g = (f = g)"
| "writes_next _ g = False"

definition race :: "'f \<Rightarrow> ('m, 'f) config \<Rightarrow> bool" where
  "race f c = (\<exists>i<length c. \<exists>j<length c. i \<noteq> j \<and> writes_next (c ! i) f \<and>
     (reads_next (c ! j) f \<or> writes_next (c ! j) f))"

section \<open>The discipline\<close>

text \<open>Every mutex is taken above the rank b of the last one taken; a goroutine starts
  with nothing held.\<close>

primrec ordered :: "('m \<Rightarrow> nat) \<Rightarrow> ('m, 'f) prog \<Rightarrow> nat \<Rightarrow> bool" where
  "ordered rank Nop b = True"
| "ordered rank (Read f) b = True"
| "ordered rank (Write f) b = True"
| "ordered rank (Seq p q) b = (ordered rank p b \<and> ordered rank q b)"
| "ordered rank (Either p q) b = (ordered rank p b \<and> ordered rank q b)"
| "ordered rank (Repeat p) b = ordered rank p b"
| "ordered rank (Locked m p) b = (b < rank m \<and> ordered rank p (rank m))"
| "ordered rank (Unlock m) b = False"
| "ordered rank (Go p) b = ordered rank p 0"

text \<open>A field with a guard is touched only while the guard is among the held mutexes.\<close>

primrec guarded :: "('f \<Rightarrow> 'm option) \<Rightarrow> ('m, 'f) prog \<Rightarrow> 'm set \<Rightarrow> bool" where
  "guarded g Nop H = True"
| "guarded g (Read f) H = (case g f of None \<Rightarrow> True | Some m \<Rightarrow> m \<in> H)"
| "guarded g (Write f) H = (case g f of None \<Rightarrow> True | Some m \<Rightarrow> m \<in> H)"
| "guarded g (Seq p q) H = (guarded g p H \<and> guarded g q H)"
| "guarded g (Either p q) H = (guarded g p H \<and> guarded g q H)"
| "guarded g (Repeat p) H = guarded g p H"
| "guarded g (Locked m p) H = guarded g p (insert m H)"
| "guarded g (Unlock m) H = True"
| "guarded g (Go p) H = guarded g p {}"

lemma ordered_block [simp]: "ordered rank (block ps) b = (\<forall>p\<in>set ps. ordered rank p b)"
  by (induction ps) auto

lemma guarded_block [simp]: "guarded g (block ps) H = (\<forall>p\<in>set ps. guarded g p H)"
  by (induction ps) auto

lemma ordered_choice [simp]: "ordered rank (choice ps) b = (\<forall>p\<in>set ps. ordered rank p b)"
  by (induction ps) auto

lemma guarded_choice [simp]: "guarded g (choice ps) H = (\<forall>p\<in>set ps. guarded g p H)"
  by (induction ps) auto

lemma ordered_maybe [simp]: "ordered rank (maybe p) b = ordered rank p b"
  by (simp add: maybe_def)

lemma guarded_maybe [simp]: "guarded g (maybe p) H = guarded g p H"
  by (simp add: maybe_def)

lemma guarded_mono: "guarded g p H \<Longrightarrow> H \<subseteq> H' \<Longrightarrow> guarded g p H'"
  by (induction p arbitrary: H H') (auto split: option.splits, meson insert_mono)

text \<open>The same for what is left of a thread.\<close>

definition bound :: "('m \<Rightarrow> nat) \<Rightarrow> ('m, 'f) thread \<Rightarrow> nat" where
  "bound rank s = (case held s of [] \<Rightarrow> 0 | m # _ \<Rightarrow> rank m)"

primrec thread_ordered :: "('m \<Rightarrow> nat) \<Rightarrow> ('m, 'f) thread \<Rightarrow> bool" where
  "thread_ordered rank [] = True"
| "thread_ordered rank (p # s) =
     ((case p of Unlock m \<Rightarrow> bound rank s < rank m | _ \<Rightarrow> ordered rank p (bound rank s))
      \<and> thread_ordered rank s)"

primrec thread_guarded :: "('f \<Rightarrow> 'm option) \<Rightarrow> ('m, 'f) thread \<Rightarrow> bool" where
  "thread_guarded g [] = True"
| "thread_guarded g (p # s) = (guarded g p (set (held s)) \<and> thread_guarded g s)"

declare thread_ordered.simps(2) [simp del]

text \<open>No mutex is held twice, by one thread or by two.\<close>

definition exclusive :: "('m, 'f) config \<Rightarrow> bool" where
  "exclusive c = ((\<forall>i<length c. distinct (held (c ! i))) \<and>
     (\<forall>i<length c. \<forall>j<length c. i \<noteq> j \<longrightarrow> set (held (c ! i)) \<inter> set (held (c ! j)) = {}))"

lemma held_bodies [simp]: "ordered rank p b \<Longrightarrow> held (p # s) = held s"
  by (cases p) auto

lemma bound_body [simp]: "ordered rank p b \<Longrightarrow> bound rank (p # s) = bound rank s"
  by (simp add: bound_def)

lemma bound_Unlock [simp]: "bound rank (Unlock m # s) = rank m"
  by (simp add: bound_def)

lemma thread_ordered_Cons [simp]:
  "thread_ordered rank (p # s) =
     (((\<exists>m. p = Unlock m \<and> bound rank s < rank m) \<or> ordered rank p (bound rank s))
      \<and> thread_ordered rank s)"
  by (cases p) (auto simp: thread_ordered.simps(2))

lemma thread_ordered_le_bound:
  "thread_ordered rank s \<Longrightarrow> m \<in> set (held s) \<Longrightarrow> rank m \<le> bound rank s"
proof (induction s)
  case (Cons p s)
  then show ?case
    by (cases p) (auto simp: bound_def split: list.splits)
qed simp

section \<open>One step keeps the discipline\<close>

lemma moves_held:
  "(s', started) \<in> set (moves fr s) \<Longrightarrow> thread_ordered rank s
    \<Longrightarrow> (\<exists>m. fr m \<and> held s' = m # held s) \<or> held s' = held s \<or> (\<exists>m. held s = m # held s')"
  by (cases s; cases "hd s") (auto split: if_splits)

lemma moves_started:
  "(s', started) \<in> set (moves fr s) \<Longrightarrow> thread_ordered rank s \<Longrightarrow> t \<in> set started
    \<Longrightarrow> held t = [] \<and> thread_ordered rank t"
  by (cases s; cases "hd s") (auto split: if_splits simp: bound_def)

lemma moves_ordered:
  "(s', started) \<in> set (moves fr s) \<Longrightarrow> thread_ordered rank s \<Longrightarrow> thread_ordered rank s'"
  by (cases s; cases "hd s") (auto split: if_splits)

lemma moves_guarded:
  assumes "(s', started) \<in> set (moves fr s)" "thread_ordered rank s" "thread_guarded g s"
  shows "thread_guarded g s' \<and> (\<forall>t\<in>set started. thread_guarded g t)"
  using assms by (cases s; cases "hd s") (auto split: if_splits)

text \<open>What every reachable configuration satisfies.\<close>

definition disciplined :: "('m \<Rightarrow> nat) \<Rightarrow> ('f \<Rightarrow> 'm option) \<Rightarrow> ('m, 'f) config \<Rightarrow> bool" where
  "disciplined rank g c =
     (exclusive c \<and> (\<forall>s\<in>set c. thread_ordered rank s \<and> thread_guarded g s))"

lemma nth_after_step:
  "k < length (c[i := s'] @ started) \<Longrightarrow> i < length c \<Longrightarrow>
    (c[i := s'] @ started) ! k =
      (if k = i then s' else if k < length c then c ! k else started ! (k - length c))"
  by (auto simp: nth_append)

lemma step_exclusive:
  assumes i: "i < length c" and m: "(s', started) \<in> set (moves (free c) (c ! i))"
    and ord: "\<forall>s\<in>set c. thread_ordered rank s" and ex: "exclusive c"
  shows "exclusive (c[i := s'] @ started)"
proof -
  let ?c = "c[i := s'] @ started"
  have o: "thread_ordered rank (c ! i)"
    using ord i by simp
  have new: "\<And>k. k < length ?c \<Longrightarrow> \<not> k < length c \<Longrightarrow> held (?c ! k) = []"
    using moves_started [OF m o] i by (auto simp: nth_append)
  have old: "\<And>k. k < length c \<Longrightarrow> k \<noteq> i \<Longrightarrow> ?c ! k = c ! k"
    using i by (simp add: nth_append)
  have at: "?c ! i = s'"
    using i by (simp add: nth_append)
  have fresh: "\<And>x k. free c x \<Longrightarrow> k < length c \<Longrightarrow> x \<notin> set (held (c ! k))"
    by (auto simp: free_def)
  have s': "distinct (held s') \<and> (\<forall>k<length c. k \<noteq> i \<longrightarrow> set (held s') \<inter> set (held (c ! k)) = {})"
  proof -
    have others: "\<And>k. k < length c \<Longrightarrow> k \<noteq> i \<Longrightarrow> set (held (c ! i)) \<inter> set (held (c ! k)) = {}"
      and own: "distinct (held (c ! i))"
      using ex i by (auto simp: exclusive_def)
    consider x where "free c x" "held s' = x # held (c ! i)" | "held s' = held (c ! i)"
      | x where "held (c ! i) = x # held s'"
      using moves_held [OF m o] by blast
    then show ?thesis
    proof cases
      case 1
      then show ?thesis
        using others own fresh [OF 1(1)] i by simp
    next
      case 3
      then show ?thesis
        using others own by simp
    qed (use others own in simp)
  qed
  have d: "\<And>k. k < length ?c \<Longrightarrow> distinct (held (?c ! k))"
    using s' ex new old at by (metis distinct.simps(1) exclusive_def)
  have "\<And>k l. k < length ?c \<Longrightarrow> l < length ?c \<Longrightarrow> k \<noteq> l \<Longrightarrow>
      set (held (?c ! k)) \<inter> set (held (?c ! l)) = {}"
  proof -
    fix k l assume kl: "k < length ?c" "l < length ?c" "k \<noteq> l"
    show "set (held (?c ! k)) \<inter> set (held (?c ! l)) = {}"
    proof (cases "k < length c \<and> l < length c")
      case True
      then show ?thesis
        using s' ex kl(3) i old at by (cases "k = i"; cases "l = i") (auto simp: exclusive_def)
    next
      case False
      then show ?thesis
        using new kl by auto
    qed
  qed
  then show ?thesis
    using d unfolding exclusive_def by blast
qed

lemma step_disciplined:
  assumes "lstep c c'" "disciplined rank g c"
  shows "disciplined rank g c'"
  using assms(1)
proof cases
  case (lstepI i s' started)
  note m = lstepI(3)
  have i: "c ! i \<in> set c"
    using lstepI by simp
  have o: "thread_ordered rank (c ! i)" "thread_guarded g (c ! i)"
    using assms(2) i by (auto simp: disciplined_def)
  have ex: "exclusive c'"
    using step_exclusive [OF lstepI(2,3)] assms(2) lstepI(1) by (auto simp: disciplined_def)
  moreover have "\<forall>s\<in>set c'. thread_ordered rank s \<and> thread_guarded g s"
    using moves_ordered [OF m o(1)] moves_guarded [OF m o] moves_started [OF m o(1)] assms(2)
    by (auto simp: lstepI(1) disciplined_def dest!: set_update_subset_insert [THEN subsetD])
  ultimately show ?thesis
    by (simp add: disciplined_def)
qed

lemma steps_disciplined: "lstep\<^sup>*\<^sup>* c c' \<Longrightarrow> disciplined rank g c \<Longrightarrow> disciplined rank g c'"
  by (induction rule: rtranclp_induct) (auto intro: step_disciplined)

section \<open>No deadlock\<close>

text \<open>What is left to do, with every loop left at once.\<close>

primrec work :: "('m, 'f) prog \<Rightarrow> nat" where
  "work Nop = 1"
| "work (Read f) = 1"
| "work (Write f) = 1"
| "work (Seq p q) = work p + work q + 1"
| "work (Either p q) = work p + work q + 1"
| "work (Repeat p) = 1"
| "work (Locked m p) = work p + 2"
| "work (Unlock m) = 1"
| "work (Go p) = work p + 1"

definition config_work :: "('m, 'f) config \<Rightarrow> nat" where
  "config_work c = sum_list (map (\<lambda>s. sum_list (map work s)) c)"

lemma work_pos [simp]: "0 < work p"
  by (induction p) auto

lemma unblocked_move:
  assumes "s \<noteq> []" "\<And>m p t. s = Locked m p # t \<Longrightarrow> fr m"
  obtains s' started where "(s', started) \<in> set (moves fr s)"
    "sum_list (map work s') + config_work started < sum_list (map work s)"
proof -
  have "\<exists>x\<in>set (moves fr s). sum_list (map work (fst x)) + config_work (snd x) < sum_list (map work s)"
    using assms by (cases s; cases "hd s") (auto simp: config_work_def)
  then show ?thesis
    using that by auto
qed

lemma config_work_step:
  assumes "i < length c"
    and "sum_list (map work s') + config_work started < sum_list (map work (c ! i))"
  shows "config_work (c[i := s'] @ started) < config_work c"
proof -
  have c: "c = take i c @ c ! i # drop (Suc i) c"
    using assms(1) by (simp add: id_take_nth_drop)
  have u: "c[i := s'] = take i c @ s' # drop (Suc i) c"
    using assms(1) by (simp add: upd_conv_take_nth_drop)
  have "config_work c = config_work (take i c) + sum_list (map work (c ! i)) + config_work (drop (Suc i) c)"
    by (subst c) (simp add: config_work_def)
  then show ?thesis
    using assms(2) by (simp add: u) (simp add: config_work_def)
qed

text \<open>A blocked thread that wants the mutex of the highest rank cannot be waiting for a blocked
  thread: its holder, were it blocked, would want a mutex of a higher rank still.\<close>

lemma some_thread_moves:
  assumes d: "\<forall>s\<in>set c. thread_ordered rank s" and nf: "\<not> finished c"
  obtains i where "i < length c" "c ! i \<noteq> []" "\<And>m p t. c ! i = Locked m p # t \<Longrightarrow> free c m"
proof (cases "\<exists>s\<in>set c. s \<noteq> [] \<and> (\<forall>m p t. s = Locked m p # t \<longrightarrow> free c m)")
  case True
  then show ?thesis
    using that by (metis in_set_conv_nth)
next
  case False
  define wanted where "wanted = {rank m |m p t. Locked m p # t \<in> set c \<and> \<not> free c m}"
  have blocked: "\<And>s. s \<in> set c \<Longrightarrow> s \<noteq> [] \<Longrightarrow> \<exists>m p t. s = Locked m p # t \<and> \<not> free c m"
    using False by blast
  have "wanted \<subseteq> (\<lambda>s. case s of Locked m p # t \<Rightarrow> rank m | _ \<Rightarrow> 0) ` set c"
    by (force simp: wanted_def)
  then have fin: "finite wanted"
    by (rule finite_subset) simp
  have ne: "wanted \<noteq> {}"
    using nf blocked by (fastforce simp: wanted_def finished_def)
  obtain m p t where top: "Locked m p # t \<in> set c" "\<not> free c m" "rank m = Max wanted"
    using Max_in [OF fin ne] by (auto simp: wanted_def)
  obtain s where s: "s \<in> set c" "m \<in> set (held s)"
    using top(2) by (auto simp: free_def)
  then have "s \<noteq> []"
    by auto
  then obtain n q u where b: "s = Locked n q # u" "\<not> free c n"
    using blocked s by blast
  then have "rank m \<le> bound rank u" "bound rank u < rank n"
    using s d thread_ordered_le_bound [of rank u m] by auto
  moreover have "rank n \<le> Max wanted"
    using b s fin by (intro Max_ge) (auto simp: wanted_def)
  ultimately show ?thesis
    using top(3) by simp
qed

lemma ordered_step:
  assumes "\<forall>s\<in>set c. thread_ordered rank s" "\<not> finished c"
  obtains c' where "lstep c c'" "config_work c' < config_work c"
proof -
  obtain i where i: "i < length c" "c ! i \<noteq> []" "\<And>m p t. c ! i = Locked m p # t \<Longrightarrow> free c m"
    using some_thread_moves [OF assms] by metis
  obtain s' started where "(s', started) \<in> set (moves (free c) (c ! i))"
    "sum_list (map work s') + config_work started < sum_list (map work (c ! i))"
    using unblocked_move [of "c ! i" "free c"] i by blast
  then show ?thesis
    using that i(1) lstep.lstepI config_work_step by metis
qed

lemma disciplined_finishes:
  "disciplined rank g c \<Longrightarrow> \<exists>c'. lstep\<^sup>*\<^sup>* c c' \<and> finished c'"
proof (induction "config_work c" arbitrary: c rule: less_induct)
  case less
  show ?case
  proof (cases "finished c")
    case False
    obtain c1 where c1: "lstep c c1" "config_work c1 < config_work c"
      using ordered_step [of c rank] less(2) False by (auto simp: disciplined_def)
    then obtain c' where "lstep\<^sup>*\<^sup>* c1 c'" "finished c'"
      using less(1) [OF c1(2)] step_disciplined [OF c1(1) less(2)] by blast
    then show ?thesis
      using c1(1) by (meson converse_rtranclp_into_rtranclp)
  qed auto
qed

section \<open>Running one thread\<close>

text \<open>To show a run: thread i moves until the decisions ds are used up and it is at the field f
  or has ended. Where a thread has one move it takes it; where it has several, the next decision
  says which. None: it is blocked, or has no decision left to take.\<close>

lemma single_move_work:
  "moves fr s = [(s', started)] \<Longrightarrow>
    sum_list (map work s') + config_work started < sum_list (map work s)"
  by (cases s; cases "hd s") (auto simp: config_work_def split: if_splits)

function (sequential) drive ::
  "nat \<Rightarrow> nat list \<Rightarrow> 'f \<Rightarrow> ('m, 'f) config \<Rightarrow> ('m, 'f) config option" where
  "drive i ds f c =
     (if length c \<le> i then None
      else if ds = [] \<and> (c ! i = [] \<or> reads_next (c ! i) f \<or> writes_next (c ! i) f) then Some c
      else (case moves (free c) (c ! i) of
              [] \<Rightarrow> None
            | [(s', started)] \<Rightarrow> drive i ds f (c[i := s'] @ started)
            | ms \<Rightarrow> (case ds of
                  [] \<Rightarrow> None
                | d # ds' \<Rightarrow> if d < length ms
                    then (case ms ! d of (s', started) \<Rightarrow> drive i ds' f (c[i := s'] @ started))
                    else None)))"
  by pat_completeness auto
termination
  by (relation "inv_image (less_than <*lex*> less_than) (\<lambda>(i, ds, f, c). (length ds, config_work c))")
    (auto intro: config_work_step single_move_work)

declare drive.simps [simp del]

lemma drive_steps: "drive i ds f c = Some c' \<Longrightarrow> lstep\<^sup>*\<^sup>* c c'"
proof (induction i ds f c rule: drive.induct)
  case (1 i ds f c)
  have step: "lstep\<^sup>*\<^sup>* c c'"
    if "i < length c" "(s', started) \<in> set (moves (free c) (c ! i))"
      "lstep\<^sup>*\<^sup>* (c[i := s'] @ started) c'" for s' started
    using lstepI [OF that(1,2)] that(3) by (rule converse_rtranclp_into_rtranclp)
  consider (stays) "c' = c"
    | (one) s' started where "i < length c" "moves (free c) (c ! i) = [(s', started)]"
        "drive i ds f (c[i := s'] @ started) = Some c'"
        "\<not> (ds = [] \<and> (c ! i = [] \<or> reads_next (c ! i) f \<or> writes_next (c ! i) f))"
    | (many) d ds' s' started where "i < length c" "ds = d # ds'"
        "d < length (moves (free c) (c ! i))" "moves (free c) (c ! i) ! d = (s', started)"
        "drive i ds' f (c[i := s'] @ started) = Some c'" "2 \<le> length (moves (free c) (c ! i))"
    using 1(3) by (subst (asm) drive.simps)
      (auto split: if_splits list.splits prod.splits)
  then show ?case
  proof cases
    case one
    then show ?thesis
      using 1(1) step by simp
  next
    case many
    obtain m1 m2 ms where ms: "moves (free c) (c ! i) = m1 # m2 # ms"
      using many(6) by (cases "moves (free c) (c ! i)"; cases "tl (moves (free c) (c ! i))") auto
    have "lstep\<^sup>*\<^sup>* (c[i := s'] @ started) c'"
      using 1(2) many ms by (cases m1) auto
    moreover have "(s', started) \<in> set (moves (free c) (c ! i))"
      using many(3,4) nth_mem by metis
    ultimately show ?thesis
      using step many(1) by blast
  qed auto
qed

section \<open>No race on a guarded field\<close>

lemma at_guarded_field:
  "thread_guarded g s \<Longrightarrow> reads_next s f \<or> writes_next s f \<Longrightarrow> g f = Some m \<Longrightarrow> m \<in> set (held s)"
  by (cases s; cases "hd s") auto

lemma disciplined_no_race:
  assumes "disciplined rank g c" "g f = Some m"
  shows "\<not> race f c"
proof
  assume "race f c"
  then obtain i j where ij: "i < length c" "j < length c" "i \<noteq> j" "writes_next (c ! i) f"
    "reads_next (c ! j) f \<or> writes_next (c ! j) f"
    by (auto simp: race_def)
  have "m \<in> set (held (c ! i))" "m \<in> set (held (c ! j))"
    using assms ij at_guarded_field by (metis disciplined_def nth_mem)+
  then show False
    using assms(1) ij by (auto simp: disciplined_def exclusive_def)
qed

section \<open>Methods that respect the discipline\<close>

text \<open>The contract between the methods of a program and its mutexes. Threads start at a method
  each; the goroutines they start are part of their bodies.\<close>

locale lock_discipline =
  fixes rank :: "'m \<Rightarrow> nat"
    and guard :: "'f \<Rightarrow> 'm option"
    and bodies :: "('m, 'f) prog set"
  assumes bodies_ordered: "p \<in> bodies \<Longrightarrow> ordered rank p 0"
    and bodies_guarded: "p \<in> bodies \<Longrightarrow> guarded guard p {}"
begin

lemma start_disciplined:
  assumes "set ps \<subseteq> bodies"
  shows "disciplined rank guard (map (\<lambda>p. [p]) ps)"
proof -
  have o: "\<And>p. p \<in> set ps \<Longrightarrow> ordered rank p 0" and g: "\<And>p. p \<in> set ps \<Longrightarrow> guarded guard p {}"
    using assms bodies_ordered bodies_guarded by auto
  have h: "\<And>p. p \<in> set ps \<Longrightarrow> held [p] = []"
    using held_bodies [OF o] by auto
  then have "exclusive (map (\<lambda>p. [p]) ps)"
    by (auto simp: exclusive_def)
  then show ?thesis
    using o g by (auto simp: disciplined_def bound_def)
qed

lemma reachable_disciplined:
  "set ps \<subseteq> bodies \<Longrightarrow> lstep\<^sup>*\<^sup>* (map (\<lambda>p. [p]) ps) c \<Longrightarrow> disciplined rank guard c"
  by (rule steps_disciplined [OF _ start_disciplined])

lemma can_finish:
  "set ps \<subseteq> bodies \<Longrightarrow> lstep\<^sup>*\<^sup>* (map (\<lambda>p. [p]) ps) c \<Longrightarrow> \<exists>c'. lstep\<^sup>*\<^sup>* c c' \<and> finished c'"
  by (rule disciplined_finishes [OF reachable_disciplined])

lemma race_free:
  "set ps \<subseteq> bodies \<Longrightarrow> lstep\<^sup>*\<^sup>* (map (\<lambda>p. [p]) ps) c \<Longrightarrow> guard f = Some m \<Longrightarrow> \<not> race f c"
  by (rule disciplined_no_race [OF reachable_disciplined])

end

end
