(* ===== verification/Provider_Locks.thy ===== *)
theory Provider_Locks
  imports Lock_Program
begin

text \<open>The mutexes and the shared fields of the provider. Every method that locks a mutex, touches
  a field other goroutines touch, or calls a method that does, is given as a program: a definition
  with suffix sync per method, with the calls, locks, loops, early returns and goroutines
  of the code in the code's order. Conditions are choices, so each program has at least the runs
  of its method. Calls to Azure touch no shared field of the program and are left out; a mutex
  held over such a call stays held across whatever other threads do meanwhile.

  Shared state that never changes once it can be seen by two goroutines is left out: the
  configuration, the fields set by the constructors, and the maps and objects that are replaced
  and never written (the scale set map is copied by setScaleSet). The constructors run
  before the first goroutine, so createAzureManagerInternal and HasVMSKUs are
  not operations here.

  The lemmas show the order in which the mutexes nest, that no mutex is ever taken by a thread
  that holds it, that no interleaving of any number of operations deadlocks, which fields are
  protected from races, and which are not.\<close>

section \<open>Mutexes and fields\<close>

text \<open>Node groups and cached scale set objects are named by their addresses. There is one cache
  and one package-level vmssSizeMutex.\<close>

datatype mutex =
    AgentPoolMutex nat
  | SizeMutex nat
  | InstanceMutex nat
  | CacheMutex
  | VmssSizeMutex

text \<open>Of a scale set: CurSize is curSize and lastSizeRefresh,
  InstanceList the slice instanceCache and lastInstanceRefresh,
  InstanceStatuses the elements of the slice. Of a cached scale set object:
  SKU.Capacity and Etag. Of the cache: the maps of Azure resources
  (scaleSets, virtualMachines, vmsPoolMap), the slice
  registeredNodeGroups and its elements, the maps of regenerate
  (instanceToNodeGroup, instanceStates, unownedInstances,
  autoscalingOptions) and skus. Then AzureManager.lastRefresh;
  curSize and lastRefresh of an agent pool; the map
  config.DeploymentParameters, which every agent pool has as its parameters; and
  the counts in the scale profile of a cached VMs pool.\<close>

datatype field =
    CurSize nat
  | InstanceList nat
  | InstanceStatuses nat
  | VmssCapacity nat
  | VmssEtag nat
  | CachedResources
  | NodeGroupList
  | NodeGroupEntries
  | InstanceMaps
  | Skus
  | LastRefresh
  | PoolSize nat
  | DeploymentParameters
  | ScaleProfiles nat

type_synonym sync = "(mutex, field) prog"

text \<open>The registered node groups, and the cached scale set objects, a refresh may meet. A scale
  set comes with the object whose capacity getCurSize reads: the cached one, or the one
  it fetched and cached if the set is a Spot set.\<close>

datatype group_at = ScaleSetAt nat nat | AgentPoolAt nat | VMPoolAt nat

record fleet =
  fleet_groups :: "group_at list"
  fleet_vmss :: "nat list"

section \<open>The cache\<close>

definition getVMsPoolMap_sync :: sync where
  "getVMsPoolMap_sync = Locked CacheMutex (Read CachedResources)"

definition getVirtualMachines_sync :: sync where
  "getVirtualMachines_sync = Locked CacheMutex (Read CachedResources)"

definition getScaleSets_sync :: sync where
  "getScaleSets_sync = Locked CacheMutex (Read CachedResources)"

definition setScaleSet_sync :: sync where
  "setScaleSet_sync = Locked CacheMutex (block [Read CachedResources, Write CachedResources])"

definition fetchAzureResources_sync :: sync where
  "fetchAzureResources_sync = Locked CacheMutex
     (maybe (block [Write CachedResources,
        maybe (block [Write CachedResources, maybe (Write CachedResources)])]))"

definition Register_sync :: sync where
  "Register_sync = Locked CacheMutex
     (block [Read NodeGroupList, Repeat (Read NodeGroupEntries),
        maybe (block [Either (Write NodeGroupEntries) (Write NodeGroupList), Write InstanceMaps])])"

definition Unregister_sync :: sync where
  "Unregister_sync = Locked CacheMutex
     (block [Read NodeGroupList, Repeat (Read NodeGroupEntries), Write NodeGroupList])"

definition GetSKU_sync :: sync where
  "GetSKU_sync = Locked CacheMutex (Read Skus)"

definition getRegisteredNodeGroups_sync :: sync where
  "getRegisteredNodeGroups_sync = Locked CacheMutex (Read NodeGroupList)"

definition getAutoscalingOptions_sync :: sync where
  "getAutoscalingOptions_sync = Locked CacheMutex (Read InstanceMaps)"

definition HasInstance_sync :: sync where
  "HasInstance_sync = Locked CacheMutex (maybe (Read InstanceMaps))"

definition FindForInstance_sync :: sync where
  "FindForInstance_sync = block [getVMsPoolMap_sync,
     Locked CacheMutex
       (maybe (block [Read InstanceMaps,
          maybe (block [maybe (Read CachedResources),
            Either (Write InstanceMaps) (Read InstanceMaps)])]))]"

definition setInstanceStateByProviderID_sync :: sync where
  "setInstanceStateByProviderID_sync = Locked CacheMutex
     (maybe (block [Read InstanceMaps, maybe (Write InstanceMaps)]))"

section \<open>Scale sets\<close>

text \<open>AzureManager.invalidateCache is called by the node groups.\<close>

definition invalidateCache_sync :: sync where
  "invalidateCache_sync = Write LastRefresh"

definition getVMSSFromCache_sync :: sync where
  "getVMSSFromCache_sync = getScaleSets_sync"

definition ss_GetOptions_sync :: sync where
  "ss_GetOptions_sync = block [getVMSSFromCache_sync, maybe getAutoscalingOptions_sync]"

definition invalidateInstanceCache_sync :: "nat \<Rightarrow> sync" where
  "invalidateInstanceCache_sync a = Locked (InstanceMutex a) (Write (InstanceList a))"

definition invalidateLastSizeRefresh_sync :: "nat \<Rightarrow> sync" where
  "invalidateLastSizeRefresh_sync a = Write (CurSize a)"

definition invalidateLastSizeRefreshWithLock_sync :: "nat \<Rightarrow> sync" where
  "invalidateLastSizeRefreshWithLock_sync a =
     Locked (SizeMutex a) (invalidateLastSizeRefresh_sync a)"

text \<open>The size of scale set a, from the scale set object u: the in-memory size
  while it is young enough, else (after a GET, for a Spot set, which replaces the cached object)
  the object's capacity.\<close>

definition ss_getCurSize_sync :: "nat \<Rightarrow> nat \<Rightarrow> sync" where
  "ss_getCurSize_sync a u = Locked (SizeMutex a)
     (block [getVMSSFromCache_sync,
        maybe (block [Read (CurSize a),
          maybe (block [maybe setScaleSet_sync,
            Locked VmssSizeMutex (Read (VmssCapacity u)),
            Read (CurSize a),
            maybe (invalidateInstanceCache_sync a),
            Write (CurSize a)])])])"

text \<open>After the check that delta is positive, whose failure ends the callers too.\<close>

definition canIncreaseSize_sync :: "nat \<Rightarrow> nat \<Rightarrow> sync" where
  "canIncreaseSize_sync a u = ss_getCurSize_sync a u"

definition invalidateForPreconditionFailure_sync :: "nat \<Rightarrow> sync" where
  "invalidateForPreconditionFailure_sync a =
     block [invalidateInstanceCache_sync a, invalidateLastSizeRefresh_sync a, invalidateCache_sync]"

text \<open>w is the object the retry fetches and caches.\<close>

definition retryCreateOrUpdate_sync :: "nat \<Rightarrow> nat \<Rightarrow> sync" where
  "retryCreateOrUpdate_sync a w =
     Either (invalidateForPreconditionFailure_sync a)
       (block [setScaleSet_sync, invalidateInstanceCache_sync a, Read (VmssCapacity w),
          maybe (block [Read (VmssEtag w), maybe (invalidateForPreconditionFailure_sync a)])])"

definition initCreateOrUpdate_sync :: "nat \<Rightarrow> nat \<Rightarrow> nat \<Rightarrow> sync" where
  "initCreateOrUpdate_sync a v w = maybe (Locked (SizeMutex a)
     (block [maybe (Locked VmssSizeMutex (Read (VmssEtag v))),
        maybe (retryCreateOrUpdate_sync a w)]))"

definition waitForCreateOrUpdate_sync :: "nat \<Rightarrow> nat \<Rightarrow> sync" where
  "waitForCreateOrUpdate_sync a v = block [invalidateInstanceCache_sync a,
     Either
       (block [invalidateLastSizeRefreshWithLock_sync a, invalidateCache_sync])
       (maybe (Either
          (Locked VmssSizeMutex (Write (VmssEtag v)))
          (block [invalidateLastSizeRefreshWithLock_sync a, invalidateCache_sync])))]"

text \<open>The object whose capacity is published is v, or w after a retry.\<close>

definition createOrUpdateInstances_sync :: "nat \<Rightarrow> nat \<Rightarrow> nat \<Rightarrow> sync" where
  "createOrUpdateInstances_sync a v w =
     block [Locked VmssSizeMutex (block [Read (VmssCapacity v), Write (VmssCapacity v)]),
       initCreateOrUpdate_sync a v w,
       Either
         (Locked VmssSizeMutex (Write (VmssCapacity v)))
         (block [
            Locked VmssSizeMutex
              (choice [Write (VmssCapacity v), Write (VmssCapacity w), Read (VmssCapacity w)]),
            Locked (SizeMutex a) (Write (CurSize a)),
            maybe (Go (Either (waitForCreateOrUpdate_sync a v) (waitForCreateOrUpdate_sync a w)))])]"

definition ss_IncreaseSize_sync :: "nat \<Rightarrow> nat \<Rightarrow> nat \<Rightarrow> nat \<Rightarrow> sync" where
  "ss_IncreaseSize_sync a u v w = maybe (block [canIncreaseSize_sync a u,
     maybe (block [getVMSSFromCache_sync, maybe (createOrUpdateInstances_sync a v w)])])"

definition adoptUpdate_sync :: "nat \<Rightarrow> nat \<Rightarrow> sync" where
  "adoptUpdate_sync a x =
     block [Write (VmssCapacity x), maybe (Write (VmssEtag x)), Write (CurSize a)]"

definition ss_AtomicIncreaseSize_sync :: "nat \<Rightarrow> nat \<Rightarrow> nat \<Rightarrow> nat \<Rightarrow> sync" where
  "ss_AtomicIncreaseSize_sync a u v w = maybe (block [canIncreaseSize_sync a u,
     maybe (block [getVMSSFromCache_sync,
       maybe (block [initCreateOrUpdate_sync a v w,
         maybe (Either
           (block [invalidateInstanceCache_sync a, invalidateLastSizeRefreshWithLock_sync a,
              invalidateCache_sync])
           (block [maybe (invalidateInstanceCache_sync a),
              Locked (SizeMutex a)
                (block [
                   Locked VmssSizeMutex
                     (Either (block [Read (VmssCapacity w), Write (CurSize a)])
                       (Either (adoptUpdate_sync a v) (adoptUpdate_sync a w))),
                   Write (CurSize a)])]))])])])"

definition ss_DecreaseTargetSize_sync :: "nat \<Rightarrow> nat \<Rightarrow> sync" where
  "ss_DecreaseTargetSize_sync a u = block [invalidateInstanceCache_sync a, ss_getCurSize_sync a u]"

subsection \<open>The instance cache\<close>

text \<open>A uniform set keeps the cached status of a VM that is being updated.\<close>

definition buildScaleSetCacheForUniform_sync :: "nat \<Rightarrow> sync" where
  "buildScaleSetCacheForUniform_sync a = maybe (block [
     Repeat (block [Read (InstanceList a), Repeat (Read (InstanceStatuses a))]),
     Write (InstanceList a)])"

definition buildScaleSetCacheForFlex_sync :: "nat \<Rightarrow> sync" where
  "buildScaleSetCacheForFlex_sync a = block [getVMSSFromCache_sync, maybe (Write (InstanceList a))]"

definition updateInstanceCache_sync :: "nat \<Rightarrow> sync" where
  "updateInstanceCache_sync a = block [getVMSSFromCache_sync,
     maybe (Either (buildScaleSetCacheForFlex_sync a) (buildScaleSetCacheForUniform_sync a))]"

definition validateInstanceCacheWithoutLock_sync :: "nat \<Rightarrow> sync" where
  "validateInstanceCacheWithoutLock_sync a =
     block [Read (InstanceList a), maybe (updateInstanceCache_sync a)]"

definition validateInstanceCache_sync :: "nat \<Rightarrow> sync" where
  "validateInstanceCache_sync a =
     Locked (InstanceMutex a) (validateInstanceCacheWithoutLock_sync a)"

definition getInstanceByProviderID_sync :: "nat \<Rightarrow> sync" where
  "getInstanceByProviderID_sync a = Locked (InstanceMutex a)
     (block [validateInstanceCacheWithoutLock_sync a,
        maybe (block [Read (InstanceList a), Repeat (Read (InstanceStatuses a))])])"

definition getInstancesByState_sync :: "nat \<Rightarrow> sync" where
  "getInstancesByState_sync a = Locked (InstanceMutex a)
     (block [validateInstanceCacheWithoutLock_sync a,
        maybe (block [Read (InstanceList a), Repeat (Read (InstanceStatuses a))])])"

definition getInstanceCacheSize_sync :: "nat \<Rightarrow> sync" where
  "getInstanceCacheSize_sync a = Locked (InstanceMutex a)
     (block [validateInstanceCacheWithoutLock_sync a, maybe (Read (InstanceList a))])"

definition setInstanceStatusByProviderID_sync :: "nat \<Rightarrow> sync" where
  "setInstanceStatusByProviderID_sync a = Locked (InstanceMutex a)
     (block [validateInstanceCacheWithoutLock_sync a, Read (InstanceList a),
        Repeat (Read (InstanceStatuses a)), maybe (Write (InstanceStatuses a))])"

definition ss_Nodes_sync :: "nat \<Rightarrow> nat \<Rightarrow> sync" where
  "ss_Nodes_sync a u = block [ss_getCurSize_sync a u,
     maybe (Locked (InstanceMutex a)
       (block [Read (InstanceList a),
          maybe (block [updateInstanceCache_sync a, maybe (Read (InstanceList a))])]))]"

text \<open>A template is built from the cached scale set; with the dynamic instance list the SKU is
  looked up, twice for a promo size.\<close>

definition GetInstanceTypeDynamically_sync :: sync where
  "GetInstanceTypeDynamically_sync = block [GetSKU_sync, maybe GetSKU_sync]"

definition ss_TemplateNodeInfo_sync :: sync where
  "ss_TemplateNodeInfo_sync =
     block [getVMSSFromCache_sync, maybe GetInstanceTypeDynamically_sync]"

section \<open>Refreshing the cache\<close>

text \<open>The node groups of other kinds: their nodes are the cached virtual machines.\<close>

definition vm_Nodes_sync :: sync where
  "vm_Nodes_sync = getVirtualMachines_sync"

fun group_Nodes_sync :: "group_at \<Rightarrow> sync" where
  "group_Nodes_sync (ScaleSetAt a u) = ss_Nodes_sync a u"
| "group_Nodes_sync (AgentPoolAt p) = vm_Nodes_sync"
| "group_Nodes_sync (VMPoolAt q) = vm_Nodes_sync"

text \<open>The loop of regenerate reads the instances a group returned; those of a scale set are the
  elements of its instance cache.\<close>

fun group_instances_sync :: "group_at \<Rightarrow> sync" where
  "group_instances_sync (ScaleSetAt a u) = Repeat (Read (InstanceStatuses a))"
| "group_instances_sync _ = Nop"

definition regenerate_sync :: "fleet \<Rightarrow> sync" where
  "regenerate_sync fl = block [fetchAzureResources_sync,
     maybe (block [Read NodeGroupList,
       Repeat (block [Read NodeGroupEntries,
         choice (map (\<lambda>g. block [group_Nodes_sync g, group_instances_sync g]) (fleet_groups fl))]),
       maybe (block [getScaleSets_sync, Repeat getAutoscalingOptions_sync,
         Locked CacheMutex (Write InstanceMaps)])])]"

definition getFilteredScaleSets_sync :: "fleet \<Rightarrow> sync" where
  "getFilteredScaleSets_sync fl = block [getScaleSets_sync,
     Repeat (choice (map (\<lambda>v. Read (VmssCapacity v)) (fleet_vmss fl)))]"

definition fetchAutoNodeGroups_sync :: "fleet \<Rightarrow> sync" where
  "fetchAutoNodeGroups_sync fl = block [maybe (getFilteredScaleSets_sync fl),
     maybe (block [Repeat Register_sync,
       getRegisteredNodeGroups_sync,
       Repeat (block [Read NodeGroupEntries, maybe Unregister_sync]),
       maybe invalidateCache_sync])]"

definition forceRefresh_sync :: "fleet \<Rightarrow> sync" where
  "forceRefresh_sync fl = block [fetchAutoNodeGroups_sync fl, regenerate_sync fl,
     maybe (block [Write LastRefresh, Read LastRefresh])]"

definition Refresh_sync :: "fleet \<Rightarrow> sync" where
  "Refresh_sync fl = block [Read LastRefresh, maybe (forceRefresh_sync fl)]"

section \<open>Deleting from a scale set\<close>

definition deleteInstances_sync :: "nat \<Rightarrow> sync" where
  "deleteInstances_sync a = Locked (InstanceMutex a) getVMSSFromCache_sync"

text \<open>Success; a preempted deletion whose retry succeeds; any other failure.\<close>

definition waitForDeleteInstances_sync :: "fleet \<Rightarrow> nat \<Rightarrow> sync" where
  "waitForDeleteInstances_sync fl a = Either
     (maybe (block [forceRefresh_sync fl, maybe invalidateCache_sync, invalidateInstanceCache_sync a]))
     (Either
       (block [deleteInstances_sync a, invalidateInstanceCache_sync a])
       (block [maybe (deleteInstances_sync a), invalidateInstanceCache_sync a,
          invalidateLastSizeRefreshWithLock_sync a, forceRefresh_sync fl,
          maybe invalidateCache_sync]))"

definition DeleteInstances_sync :: "fleet \<Rightarrow> nat \<Rightarrow> sync" where
  "DeleteInstances_sync fl a = maybe (block [FindForInstance_sync,
     Repeat (block [FindForInstance_sync, maybe (getInstanceByProviderID_sync a)]),
     maybe (block [deleteInstances_sync a,
       maybe (block [
         maybe (block [
           maybe (Locked (SizeMutex a) (block [Read (CurSize a), Write (CurSize a)])),
           Repeat (block [setInstanceStatusByProviderID_sync a, setInstanceStateByProviderID_sync])]),
         maybe (Go (waitForDeleteInstances_sync fl a))])])])"

definition ss_ForceDeleteNodes_sync :: "fleet \<Rightarrow> nat \<Rightarrow> sync" where
  "ss_ForceDeleteNodes_sync fl a =
     block [Repeat FindForInstance_sync, maybe (DeleteInstances_sync fl a)]"

definition ss_DeleteNodes_sync :: "fleet \<Rightarrow> nat \<Rightarrow> nat \<Rightarrow> sync" where
  "ss_DeleteNodes_sync fl a u =
     block [ss_getCurSize_sync a u, maybe (ss_ForceDeleteNodes_sync fl a)]"

section \<open>Agent pools and VMs pools\<close>

definition ap_getCurSize_sync :: "nat \<Rightarrow> sync" where
  "ap_getCurSize_sync p = Locked (AgentPoolMutex p)
     (block [Read (PoolSize p),
        maybe (block [getVirtualMachines_sync,
          maybe (block [Read (PoolSize p), maybe invalidateCache_sync, Write (PoolSize p)])])])"

text \<open>The request that is sent reads the parameters.\<close>

definition ap_IncreaseSize_sync :: "nat \<Rightarrow> sync" where
  "ap_IncreaseSize_sync p = Locked (AgentPoolMutex p)
     (block [Read (PoolSize p),
        maybe (block [invalidateCache_sync, getVirtualMachines_sync,
          maybe (block [Write DeploymentParameters, Write DeploymentParameters,
            Read DeploymentParameters,
            maybe (block [Write (PoolSize p), invalidateCache_sync])])])])"

definition ap_DecreaseTargetSize_sync :: "nat \<Rightarrow> sync" where
  "ap_DecreaseTargetSize_sync p = Locked (AgentPoolMutex p)
     (block [getVirtualMachines_sync,
        maybe (block [Read (PoolSize p), maybe (Write (PoolSize p))])])"

definition ap_DeleteInstances_sync :: sync where
  "ap_DeleteInstances_sync = maybe (block [FindForInstance_sync, Repeat FindForInstance_sync,
     maybe (block [Repeat (maybe setInstanceStateByProviderID_sync), maybe invalidateCache_sync])])"

definition ap_ForceDeleteNodes_sync :: sync where
  "ap_ForceDeleteNodes_sync = block [Repeat FindForInstance_sync, maybe ap_DeleteInstances_sync]"

definition ap_DeleteNodes_sync :: sync where
  "ap_DeleteNodes_sync = block [getVirtualMachines_sync, maybe ap_ForceDeleteNodes_sync]"

definition vp_getCurSize_sync :: sync where
  "vp_getCurSize_sync = block [getVMsPoolMap_sync, maybe getVirtualMachines_sync]"

definition vp_IncreaseSize_sync :: "nat \<Rightarrow> sync" where
  "vp_IncreaseSize_sync q = maybe (block [vp_getCurSize_sync,
     maybe (block [getVMsPoolMap_sync,
       maybe (block [maybe (Write (ScaleProfiles q)), invalidateCache_sync])])])"

definition vp_DeleteNodes_sync :: sync where
  "vp_DeleteNodes_sync = block [vp_getCurSize_sync,
     maybe (block [Repeat FindForInstance_sync,
       maybe (block [Repeat setInstanceStateByProviderID_sync, maybe invalidateCache_sync])])]"

definition vp_TemplateNodeInfo_sync :: sync where
  "vp_TemplateNodeInfo_sync = block [getVMsPoolMap_sync, maybe GetInstanceTypeDynamically_sync]"

section \<open>The operations a thread may run\<close>

text \<open>What the autoscaler calls: the operations of the provider and of a node group. A scale set
  operation is given the addresses of the scale set objects it meets.\<close>

datatype operation =
    CallNodeGroups
  | CallNodeGroupForNode
  | CallHasInstance
  | CallRefresh fleet
  | ScaleSetTargetSize nat nat
  | ScaleSetNodes nat nat
  | ScaleSetGetOptions
  | ScaleSetTemplateNodeInfo
  | ScaleSetIncreaseSize nat nat nat nat
  | ScaleSetAtomicIncreaseSize nat nat nat nat
  | ScaleSetDecreaseTargetSize nat nat
  | ScaleSetDeleteNodes fleet nat nat
  | ScaleSetForceDeleteNodes fleet nat
  | ScaleSetGetInstancesByState nat
  | ScaleSetInstanceCacheSize nat
  | ScaleSetValidateInstanceCache nat
  | AgentPoolTargetSize nat
  | AgentPoolNodes
  | AgentPoolIncreaseSize nat
  | AgentPoolDecreaseTargetSize nat
  | AgentPoolDeleteNodes
  | AgentPoolForceDeleteNodes
  | VMPoolTargetSize
  | VMPoolNodes
  | VMPoolIncreaseSize nat
  | VMPoolDecreaseTargetSize
  | VMPoolDeleteNodes
  | VMPoolTemplateNodeInfo

fun operation_sync :: "operation \<Rightarrow> sync" where
  "operation_sync CallNodeGroups = block [getRegisteredNodeGroups_sync, Repeat (Read NodeGroupEntries)]"
| "operation_sync CallNodeGroupForNode = maybe FindForInstance_sync"
| "operation_sync CallHasInstance = maybe HasInstance_sync"
| "operation_sync (CallRefresh fl) = Refresh_sync fl"
| "operation_sync (ScaleSetTargetSize a u) = ss_getCurSize_sync a u"
| "operation_sync (ScaleSetNodes a u) = ss_Nodes_sync a u"
| "operation_sync ScaleSetGetOptions = ss_GetOptions_sync"
| "operation_sync ScaleSetTemplateNodeInfo = ss_TemplateNodeInfo_sync"
| "operation_sync (ScaleSetIncreaseSize a u v w) = ss_IncreaseSize_sync a u v w"
| "operation_sync (ScaleSetAtomicIncreaseSize a u v w) = ss_AtomicIncreaseSize_sync a u v w"
| "operation_sync (ScaleSetDecreaseTargetSize a u) = ss_DecreaseTargetSize_sync a u"
| "operation_sync (ScaleSetDeleteNodes fl a u) = ss_DeleteNodes_sync fl a u"
| "operation_sync (ScaleSetForceDeleteNodes fl a) = ss_ForceDeleteNodes_sync fl a"
| "operation_sync (ScaleSetGetInstancesByState a) = getInstancesByState_sync a"
| "operation_sync (ScaleSetInstanceCacheSize a) = getInstanceCacheSize_sync a"
| "operation_sync (ScaleSetValidateInstanceCache a) = validateInstanceCache_sync a"
| "operation_sync (AgentPoolTargetSize p) = ap_getCurSize_sync p"
| "operation_sync AgentPoolNodes = vm_Nodes_sync"
| "operation_sync (AgentPoolIncreaseSize p) = ap_IncreaseSize_sync p"
| "operation_sync (AgentPoolDecreaseTargetSize p) = ap_DecreaseTargetSize_sync p"
| "operation_sync AgentPoolDeleteNodes = ap_DeleteNodes_sync"
| "operation_sync AgentPoolForceDeleteNodes = ap_ForceDeleteNodes_sync"
| "operation_sync VMPoolTargetSize = vp_getCurSize_sync"
| "operation_sync VMPoolNodes = vm_Nodes_sync"
| "operation_sync (VMPoolIncreaseSize q) = vp_IncreaseSize_sync q"
| "operation_sync VMPoolDecreaseTargetSize = invalidateCache_sync"
| "operation_sync VMPoolDeleteNodes = vp_DeleteNodes_sync"
| "operation_sync VMPoolTemplateNodeInfo = vp_TemplateNodeInfo_sync"

text \<open>One thread per operation; the goroutines start from there.\<close>

definition threads :: "operation list \<Rightarrow> (mutex, field) config" where
  "threads ops = map (\<lambda>p. [p]) (map operation_sync ops)"

section \<open>The discipline\<close>

text \<open>A node group's size mutex comes before its instance mutex; the cache's mutex and
  vmssSizeMutex come last, and nothing is taken under either.\<close>

fun mutex_rank :: "mutex \<Rightarrow> nat" where
  "mutex_rank (AgentPoolMutex p) = 1"
| "mutex_rank (SizeMutex a) = 1"
| "mutex_rank (InstanceMutex a) = 2"
| "mutex_rank CacheMutex = 3"
| "mutex_rank VmssSizeMutex = 3"

text \<open>The fields that are only ever touched under one mutex. The others are read or written
  without a mutex somewhere, or under different ones.\<close>

fun field_guard :: "field \<Rightarrow> mutex option" where
  "field_guard (CurSize a) = Some (SizeMutex a)"
| "field_guard (InstanceList a) = Some (InstanceMutex a)"
| "field_guard CachedResources = Some CacheMutex"
| "field_guard InstanceMaps = Some CacheMutex"
| "field_guard Skus = Some CacheMutex"
| "field_guard (PoolSize p) = Some (AgentPoolMutex p)"
| "field_guard _ = None"

lemmas cache_sync =
   getVMsPoolMap_sync_def getVirtualMachines_sync_def getScaleSets_sync_def setScaleSet_sync_def
   fetchAzureResources_sync_def Register_sync_def Unregister_sync_def GetSKU_sync_def
   getRegisteredNodeGroups_sync_def getAutoscalingOptions_sync_def HasInstance_sync_def
   FindForInstance_sync_def setInstanceStateByProviderID_sync_def invalidateCache_sync_def
   getVMSSFromCache_sync_def

lemmas instance_sync =
   invalidateInstanceCache_sync_def updateInstanceCache_sync_def
   validateInstanceCacheWithoutLock_sync_def validateInstanceCache_sync_def
   getInstanceByProviderID_sync_def getInstancesByState_sync_def getInstanceCacheSize_sync_def
   setInstanceStatusByProviderID_sync_def buildScaleSetCacheForUniform_sync_def
   buildScaleSetCacheForFlex_sync_def

lemmas refresh_sync =
   getFilteredScaleSets_sync_def fetchAutoNodeGroups_sync_def regenerate_sync_def
   forceRefresh_sync_def

lemmas group_sync =
   ss_GetOptions_sync_def invalidateLastSizeRefresh_sync_def
   invalidateLastSizeRefreshWithLock_sync_def ss_getCurSize_sync_def canIncreaseSize_sync_def
   invalidateForPreconditionFailure_sync_def retryCreateOrUpdate_sync_def
   initCreateOrUpdate_sync_def waitForCreateOrUpdate_sync_def createOrUpdateInstances_sync_def
   ss_IncreaseSize_sync_def adoptUpdate_sync_def ss_AtomicIncreaseSize_sync_def
   ss_DecreaseTargetSize_sync_def ss_Nodes_sync_def GetInstanceTypeDynamically_sync_def
   ss_TemplateNodeInfo_sync_def vm_Nodes_sync_def Refresh_sync_def deleteInstances_sync_def
   waitForDeleteInstances_sync_def DeleteInstances_sync_def ss_ForceDeleteNodes_sync_def
   ss_DeleteNodes_sync_def ap_getCurSize_sync_def ap_IncreaseSize_sync_def
   ap_DecreaseTargetSize_sync_def ap_DeleteInstances_sync_def ap_ForceDeleteNodes_sync_def
   ap_DeleteNodes_sync_def vp_getCurSize_sync_def vp_IncreaseSize_sync_def vp_DeleteNodes_sync_def
   vp_TemplateNodeInfo_sync_def

lemma group_Nodes_ordered: "ordered mutex_rank (group_Nodes_sync g) 0"
  by (cases g) (simp_all add: cache_sync instance_sync group_sync)

lemma group_Nodes_guarded: "guarded field_guard (group_Nodes_sync g) {}"
  by (cases g) (simp_all add: cache_sync instance_sync group_sync)

lemma group_instances_ordered: "ordered mutex_rank (group_instances_sync g) 0"
  by (cases g) simp_all

lemma group_instances_guarded: "guarded field_guard (group_instances_sync g) {}"
  by (cases g) simp_all

lemma forceRefresh_ordered [simp]: "ordered mutex_rank (forceRefresh_sync fl) 0"
  by (simp add: refresh_sync cache_sync group_Nodes_ordered group_instances_ordered)

lemma forceRefresh_guarded [simp]: "guarded field_guard (forceRefresh_sync fl) {}"
  by (simp add: refresh_sync cache_sync group_Nodes_guarded group_instances_guarded)

lemma operation_ordered: "ordered mutex_rank (operation_sync op) 0"
  by (cases op) (simp_all add: cache_sync instance_sync group_sync)

lemma operation_guarded: "guarded field_guard (operation_sync op) {}"
  by (cases op) (simp_all add: cache_sync instance_sync group_sync)

interpretation provider: lock_discipline mutex_rank field_guard "range operation_sync"
  by unfold_locales (auto simp: operation_ordered operation_guarded)

lemma operations_are_bodies: "set (map operation_sync ops) \<subseteq> range operation_sync"
  by auto

section \<open>What follows for the provider\<close>

text \<open>Decisions of some runs. A lookup that finds the instance in the cache; a deletion up to
  Azure's acceptance (one node, which belongs to the group, is not being deleted yet, and whose
  status is still young); the rest of it under strict cache updates, and without them for a
  registered node.\<close>

definition lookup_found :: "nat list" where
  "lookup_found = [0, 0, 0, 1]"

definition deletion_accepted :: "nat list" where
  "deletion_accepted = [1] @ lookup_found @ [0, 0, 0] @ lookup_found @ [1] @ lookup_found
     @ [0, 1, 0, 1, 0, 0, 0, 0]"

definition deletion_strict :: "nat list" where
  "deletion_strict = deletion_accepted @ [1, 0]"

definition deletion_marks :: "nat list" where
  "deletion_marks = deletion_accepted @ [0, 0, 1, 1, 1, 0]"

text \<open>A refresh up to the registration of the one scale set discovered; the rest of the
  discovery when nothing has changed; then the listing of the one registered group, whose size
  and instances are still young.\<close>

definition refresh_discovers :: "nat list" where
  "refresh_discovers = [0, 1, 0, 0, 0, 1, 1, 0]"

definition refresh_unchanged :: "nat list" where
  "refresh_unchanged = refresh_discovers @ [1, 0, 1, 1, 0, 1]"

definition refresh_lists :: "nat list" where
  "refresh_lists = refresh_unchanged @ [0, 0, 1, 0, 1, 0, 0, 1, 0, 1, 1]"

definition one_scale_set :: fleet where
  "one_scale_set = \<lparr>fleet_groups = [ScaleSetAt 0 0], fleet_vmss = [0]\<rparr>"

definition can_race :: "operation list \<Rightarrow> field \<Rightarrow> bool" where
  "can_race ops f \<longleftrightarrow> (\<exists>c. lstep\<^sup>*\<^sup>* (threads ops) c \<and> race f c)"

text \<open>The runs of drive in order, each thread to where the list says.\<close>

fun drive_all :: "(nat \<times> nat list \<times> field) list \<Rightarrow> (mutex, field) config
    \<Rightarrow> (mutex, field) config option" where
  "drive_all [] c = Some c"
| "drive_all ((i, ds, f) # runs) c =
     (case drive i ds f c of None \<Rightarrow> None | Some c' \<Rightarrow> drive_all runs c')"

lemma drive_all_steps: "drive_all runs c = Some c' \<Longrightarrow> lstep\<^sup>*\<^sup>* c c'"
proof (induction runs c rule: drive_all.induct)
  case (2 i ds f runs c)
  then show ?case
    by (auto split: option.splits intro: rtranclp_trans [OF drive_steps])
qed simp

lemma can_raceI:
  assumes "case drive_all runs (threads ops) of None \<Rightarrow> False | Some c \<Rightarrow> race f c"
  shows "can_race ops f"
  using assms drive_all_steps unfolding can_race_def by (auto split: option.splits)

text \<open>Evaluation that unfolds a method only when a thread comes to it.\<close>

lemma moves_head: "p = q \<Longrightarrow> moves fr (p # s) = moves fr (q # s)"
  by simp

lemma held_head: "p = q \<Longrightarrow> held (p # s) = held (q # s)"
  by simp

lemma reads_next_head: "p = q \<Longrightarrow> reads_next (p # s) f = reads_next (q # s) f"
  by simp

lemma writes_next_head: "p = q \<Longrightarrow> writes_next (p # s) f = writes_next (q # s) f"
  by simp

lemma held_structure [simp]:
  "held (block ps # s) = held s" "held (choice ps # s) = held s" "held (maybe p # s) = held s"
  by (cases ps; simp add: maybe_def)+

lemma next_structure [simp]:
  "reads_next (block ps # s) f = False" "writes_next (block ps # s) f = False"
  "reads_next (choice ps # s) f = False" "writes_next (choice ps # s) f = False"
  "reads_next (maybe p # s) f = False" "writes_next (maybe p # s) f = False"
  by (cases ps; simp add: maybe_def)+

lemma moves_structure [simp]:
  "moves fr (block [] # s) = [(s, [])]" "moves fr (block (p # ps) # s) = [(p # block ps # s, [])]"
  "moves fr (choice [] # s) = [(s, [])]"
  "moves fr (choice (p # ps) # s) = [(p # s, []), (choice ps # s, [])]"
  "moves fr (maybe p # s) = [(p # s, []), (Nop # s, [])]"
  by (simp_all add: maybe_def)

lemmas sync_defs = cache_sync instance_sync refresh_sync group_sync

lemmas lazy_sync = sync_defs [THEN moves_head] sync_defs [THEN held_head]
  sync_defs [THEN reads_next_head] sync_defs [THEN writes_next_head]

lemmas run_sync = drive.simps lazy_sync free_def threads_def one_scale_set_def
  lookup_found_def deletion_accepted_def deletion_strict_def deletion_marks_def
  refresh_discovers_def refresh_unchanged_def refresh_lists_def

lemma race_node_group_list:
  "can_race [CallRefresh one_scale_set, ScaleSetForceDeleteNodes one_scale_set 0] NodeGroupList"
  by (rule can_raceI [where runs = "[(0, [0] @ refresh_unchanged @ [0, 0, 1, 0], NodeGroupList),
      (1, deletion_strict, NodeGroupList), (2, [0, 0] @ refresh_discovers @ [0, 1], NodeGroupList)]"])
    (simp add: run_sync race_def Ex_less_Suc del: block.simps choice.simps)

lemma race_node_group_entries:
  "can_race [CallNodeGroups, ScaleSetForceDeleteNodes one_scale_set 0] NodeGroupEntries"
  by (rule can_raceI [where runs = "[(1, deletion_strict, NodeGroupEntries),
      (0, [1], NodeGroupEntries), (2, [0, 0] @ refresh_discovers @ [0, 0], NodeGroupEntries)]"])
    (simp add: run_sync race_def Ex_less_Suc del: block.simps choice.simps)

lemma race_last_refresh:
  "can_race [CallRefresh one_scale_set, ScaleSetForceDeleteNodes one_scale_set 0] LastRefresh"
  by (rule can_raceI [where runs = "[(0, [], LastRefresh), (1, deletion_strict, LastRefresh),
      (2, [0, 0] @ refresh_lists @ [0, 0, 0, 1, 0, 0], LastRefresh)]"])
    (simp add: run_sync race_def Ex_less_Suc del: block.simps choice.simps)

lemma race_vmss_capacity:
  "can_race [ScaleSetIncreaseSize 0 0 0 1, ScaleSetForceDeleteNodes one_scale_set 0] (VmssCapacity 0)"
  by (rule can_raceI [where runs = "[(1, deletion_strict, VmssCapacity 0),
      (0, [0, 0, 1, 0, 0, 0, 1, 1, 0], VmssCapacity 0), (2, [0, 0, 0, 1, 0], VmssCapacity 0)]"])
    (simp add: run_sync race_def Ex_less_Suc del: block.simps choice.simps)

lemma race_instance_statuses:
  "can_race [ScaleSetForceDeleteNodes one_scale_set 0, ScaleSetForceDeleteNodes one_scale_set 0]
     (InstanceStatuses 0)"
  by (rule can_raceI [where runs = "[(0, deletion_marks @ [0, 0, 0, 0, 0], InstanceStatuses 0),
      (2, [1, 1, 1] @ refresh_lists, InstanceStatuses 0),
      (1, deletion_marks @ [0], InstanceStatuses 0)]"])
    (simp add: run_sync race_def Ex_less_Suc del: block.simps choice.simps)

lemma race_deployment_parameters:
  "can_race [AgentPoolIncreaseSize 0, AgentPoolIncreaseSize 1] DeploymentParameters"
  by (rule can_raceI [where runs = "[(0, [0, 0], DeploymentParameters),
      (1, [0, 0], DeploymentParameters)]"])
    (simp add: run_sync race_def Ex_less_Suc del: block.simps choice.simps)

text \<open>C3. Operations of the provider and of its node groups cannot deadlock: from whatever point
  any number of them have reached, in any interleaving and with the goroutines they have started,
  all of them can be run to their end. No method therefore locks a mutex it already holds, and
  the order in which the mutexes nest has no cycle.\<close>

theorem operations_never_deadlock:
  assumes "lstep\<^sup>*\<^sup>* (threads ops) c"
  shows "\<exists>c'. lstep\<^sup>*\<^sup>* c c' \<and> finished c'"
  by (rule provider.can_finish [OF operations_are_bodies assms [unfolded threads_def]])

text \<open>While an increase holds vmssSizeMutex and a lookup of the size holds the size mutex.\<close>

theorem operations_never_deadlock_witness:
  "case drive_all [(0, [0, 0, 1, 0, 0], VmssCapacity 0), (1, [0], CurSize 0)]
      (threads [ScaleSetIncreaseSize 0 0 0 1, ScaleSetTargetSize 0 0]) of
     None \<Rightarrow> False | Some c \<Rightarrow> \<exists>c'. lstep\<^sup>*\<^sup>* c c' \<and> finished c'"
proof -
  let ?run = "drive_all [(0, [0, 0, 1, 0, 0], VmssCapacity 0), (1, [0], CurSize 0)]
      (threads [ScaleSetIncreaseSize 0 0 0 1, ScaleSetTargetSize 0 0])"
  have "?run \<noteq> None"
    by (simp add: run_sync del: block.simps choice.simps)
  then show ?thesis
    using operations_never_deadlock [OF drive_all_steps] by (cases ?run) (simp_all del: drive_all.simps)
qed

text \<open>C4. The fields with a guard are safe from races: whatever operations run and however they
  interleave, no thread writes one of them while another thread is reading or writing it. They are
  curSize with lastSizeRefresh of a scale set, the slice instanceCache of a scale set with
  lastInstanceRefresh (not the statuses in the elements of the slice, which are a field of their
  own without a guard), curSize with lastRefresh of an agent pool, and of the cache the maps of
  Azure resources, the maps of instances and options, and the SKUs.\<close>

theorem guarded_fields_race_free:
  assumes "lstep\<^sup>*\<^sup>* (threads ops) c" "field_guard f = Some m"
  shows "\<not> race f c"
  by (rule provider.race_free [OF operations_are_bodies assms(1) [unfolded threads_def] assms(2)])

theorem guarded_fields_race_free_witness:
  "case drive_all [(0, [0, 0, 1, 0, 0], VmssCapacity 0), (1, [0], CurSize 0)]
      (threads [ScaleSetIncreaseSize 0 0 0 1, ScaleSetTargetSize 0 0]) of
     None \<Rightarrow> False | Some c \<Rightarrow> field_guard (CurSize 0) = Some (SizeMutex 0) \<and> \<not> race (CurSize 0) c"
proof -
  let ?run = "drive_all [(0, [0, 0, 1, 0, 0], VmssCapacity 0), (1, [0], CurSize 0)]
      (threads [ScaleSetIncreaseSize 0 0 0 1, ScaleSetTargetSize 0 0])"
  have "?run \<noteq> None"
    by (simp add: run_sync del: block.simps choice.simps)
  then show ?thesis
    using guarded_fields_race_free [OF drive_all_steps, where f = "CurSize 0" and m = "SizeMutex 0"]
    by (cases ?run) (simp_all del: drive_all.simps)
qed

text \<open>The fields without a guard are not covered, and the discipline cannot be extended to them:
  the programs have runs in which they race. Since conditions are choices here, each such run
  has to be read against the code. A deletion leaves a goroutine that refreshes the cache
  (the deletion succeeded under strict cache updates, or failed) while the autoscaler goes on.
  That refresh replaces registeredNodeGroups, or an element of it, while a refresh of the main
  loop ranges over it without the cache's mutex, or NodeGroups copies it; it writes
  AzureManager.lastRefresh while Refresh reads it; it reads the capacity of a cached scale set
  while an increase writes it; and it reads the instance statuses that another deletion is marking.
  Two agent pools that are increased together write the one map of deployment parameters.\<close>

lemma unguarded_fields_race:
  "can_race [CallRefresh one_scale_set, ScaleSetForceDeleteNodes one_scale_set 0] NodeGroupList
   \<and> can_race [CallNodeGroups, ScaleSetForceDeleteNodes one_scale_set 0] NodeGroupEntries
   \<and> can_race [CallRefresh one_scale_set, ScaleSetForceDeleteNodes one_scale_set 0] LastRefresh
   \<and> can_race [ScaleSetIncreaseSize 0 0 0 1, ScaleSetForceDeleteNodes one_scale_set 0]
       (VmssCapacity 0)
   \<and> can_race [ScaleSetForceDeleteNodes one_scale_set 0, ScaleSetForceDeleteNodes one_scale_set 0]
       (InstanceStatuses 0)
   \<and> can_race [AgentPoolIncreaseSize 0, AgentPoolIncreaseSize 1] DeploymentParameters"
  by (intro conjI race_node_group_list race_node_group_entries race_last_refresh
      race_vmss_capacity race_instance_statuses race_deployment_parameters)

end
