(* ===== verification/Size_Convergence.thy ===== *)
theory Size_Convergence
  imports Azure_Refresh
begin

text \<open>
  That the sizes the provider reports follow the sizes Azure has: fetching the scale sets stores
  what Azure listed, listing the instances of the groups keeps it, and a size that is due to be
  refreshed is read from it.
\<close>

section \<open>Fetching stores what Azure listed\<close>

lemma find_snoc: "find P (xs @ [y]) = (case find P xs of None \<Rightarrow> if P y then Some y else None | Some x \<Rightarrow> Some x)"
  by (induction xs) auto

text \<open>The scale set of a name in a response: the last one counts.\<close>

definition listed :: "vmss list \<Rightarrow> string \<Rightarrow> vmss option" where
  "listed xs n = find (\<lambda>x. vmss_Name x = Some n) (rev xs)"

text \<open>The scale set the cache has for a name.\<close>

definition cached :: "'e world \<Rightarrow> (string, addr) gomap \<Rightarrow> string \<Rightarrow> vmss option" where
  "cached w sets n = map_option (vmssAt w) (map_of sets n)"

definition setsAllocated :: "'e world \<Rightarrow> (string, addr) gomap \<Rightarrow> bool" where
  "setsAllocated w sets \<longleftrightarrow> (\<forall>n v. map_of sets n = Some v \<longrightarrow> v < vmssNext w)"

lemma storeScaleSets_listed:
  assumes "storeScaleSets xs sets w = (Ok sets', w')" "setsAllocated w sets"
  shows "setsAllocated w' sets' \<and> cached w' sets' =
    (\<lambda>n. case listed xs n of None \<Rightarrow> cached w sets n | Some x \<Rightarrow> Some x)"
  using assms
proof (induction xs arbitrary: sets w)
  case (Cons x xs)
  obtain name where name: "vmss_Name x = Some name" using Cons.prems(1) by (auto split: option.splits)
  let ?w1 = "w\<lparr>vmssAt := (vmssAt w)(vmssNext w := x), vmssNext := Suc (vmssNext w)\<rparr>"
  let ?sets1 = "mapSet name (vmssNext w) sets"
  have s: "storeScaleSets xs ?sets1 ?w1 = (Ok sets', w')"
    using Cons.prems(1) name by (simp add: allocVMSS_def)
  have al: "setsAllocated ?w1 ?sets1"
    using Cons.prems(2) by (auto simp: setsAllocated_def map_of_mapSet less_Suc_eq)
  have "cached ?w1 ?sets1 = (cached w sets)(name \<mapsto> x)"
  proof
    fix n
    show "cached ?w1 ?sets1 n = ((cached w sets)(name \<mapsto> x)) n"
      using Cons.prems(2)
      by (cases "map_of sets n") (auto simp: cached_def setsAllocated_def map_of_mapSet)
  qed
  moreover have "listed (x # xs) n = (case listed xs n of None \<Rightarrow> if name = n then Some x else None | Some y \<Rightarrow> Some y)" for n
    using name by (simp add: listed_def find_snoc split: option.split)
  ultimately show ?case using Cons.IH [OF s al] by (auto simp: fun_eq_iff split: option.splits)
qed (simp add: listed_def)

section \<open>Listing instances keeps it\<close>

text \<open>
  No VMSS object changes, and the object of a name stays unless it is a Spot scale set, which
  \<open>getCurSize\<close> fetches again.
\<close>

definition regularKept :: "'e world \<Rightarrow> 'e world \<Rightarrow> bool" where
  "regularKept w w' \<longleftrightarrow>
     vmssNext w \<le> vmssNext w' \<and> vmssKept w w' \<and>
     (\<forall>n v. map_of (getScaleSets w) n = Some v \<and> v < vmssNext w \<and> \<not> isSpot (vmssAt w v) \<longrightarrow>
        map_of (getScaleSets w') n = Some v)"

lemma regularKept_refl [simp]: "regularKept w w"
  by (simp add: regularKept_def vmssKept_def)

lemma regularKept_trans [trans]: "regularKept w w1 \<Longrightarrow> regularKept w1 w2 \<Longrightarrow> regularKept w w2"
  by (auto simp: regularKept_def vmssKept_def)

lemma regularKept_steps [simp]:
  "regularKept w (w\<lparr>env := e\<rparr>)" "regularKept w (updSS p f w)" "regularKept w (invalidateInstanceCache az p w)"
  "regularKept w (updCache (\<lambda>c. c\<lparr>virtualMachines := a\<rparr>) w)" "regularKept w (updCache (\<lambda>c. c\<lparr>vmsPoolMap := b\<rparr>) w)"
  "regularKept w (updCache (\<lambda>c. c\<lparr>instanceToNodeGroup := g, instanceStates := s, autoscalingOptions := opts,
     unownedInstances := u\<rparr>) w)"
  by (simp_all add: regularKept_def vmssKept_def getScaleSets_def invalidateInstanceCache_def)

lemma regularKept_andThen:
  assumes "regularKept w (snd r)" and "\<And>x w1. r = (Ok x, w1) \<Longrightarrow> regularKept w1 (snd (k x w1))"
  shows "regularKept w (snd (andThen r k))"
proof -
  obtain a w1 where "r = (a, w1)" by (cases r)
  with assms show ?thesis using regularKept_trans by (cases a) fastforce+
qed

lemma regularKept_callGo [simp]: "regularKept w (snd (callGo f w))"
  by (simp add: callGo_env)

lemma adoptSize_regular: "regularKept w (snd (adoptSize az p v w))"
  by (auto simp: adoptSize_def Let_def split: option.split intro: regularKept_trans [OF regularKept_steps(3) regularKept_steps(2)])

lemma getCurSize_regularKept: "regularKept w (snd (getCurSize az p w))"
proof (cases "getVMSSFromCache p w")
  case (Ok v)
  then have v: "map_of (getScaleSets w) (ss_Name (ssAt w p)) = Some v"
    by (auto simp: getVMSSFromCache_def split: option.splits)
  have spot: "regularKept w (snd (adoptSize az p (vmssNext w) (setScaleSet (ss_Name (ssAt w p)) (vmssNext w)
      (w\<lparr>env := e, vmssAt := (vmssAt w)(vmssNext w := x), vmssNext := Suc (vmssNext w)\<rparr>))))"
    if "isSpot (vmssAt w v)" for x e
  proof (rule regularKept_trans [OF _ adoptSize_regular])
    show "regularKept w (setScaleSet (ss_Name (ssAt w p)) (vmssNext w)
      (w\<lparr>env := e, vmssAt := (vmssAt w)(vmssNext w := x), vmssNext := Suc (vmssNext w)\<rparr>))"
      using that v by (auto simp: regularKept_def vmssKept_def setScaleSet_def getScaleSets_def map_of_mapSet)
  qed
  obtain r e where call: "vmssGet az (ResourceGroup (provider (config w))) (ss_Name (ssAt w p)) (env w) = (r, e)"
    by fastforce
  show ?thesis
    using Ok call spot
    by (cases r) (simp_all add: getCurSize_def call_env Let_def allocVMSS_def adoptSize_regular)
qed (simp_all add: getCurSize_def)

lemma rebuildCache_regular:
  assumes "\<And>w. regularKept w (snd (listVms w))"
  shows "regularKept w (snd (rebuildCache az p listVms build w))"
  unfolding rebuildCache_def
proof (rule regularKept_andThen, goal_cases)
  case 1
  show ?case by (simp add: splayedRefresh_def call_env Let_def split: prod.split)
next
  case (2 lastR w1)
  obtain r w2 where l: "listVms w1 = (r, w2)" by (cases "listVms w1")
  have "regularKept w1 w2" using assms [of w1] l by simp
  then show ?case
    using l by (auto split: go.splits prod.splits intro: regularKept_trans [OF _ regularKept_steps(2)])
qed

lemma listVms_regular:
  "regularKept w (snd (GetScaleSetVms az p w))" "regularKept w (snd (GetFlexibleScaleSetVms az p w))"
  by (auto simp: GetScaleSetVms_def GetFlexibleScaleSetVms_def callGo_env split: go.splits option.splits)

lemma updateInstanceCache_regular: "regularKept w (snd (updateInstanceCache az p w))"
  unfolding updateInstanceCache_def Let_def buildScaleSetCacheForFlex_def buildScaleSetCacheForUniform_def
  by (auto split: go.splits intro!: rebuildCache_regular listVms_regular)

lemma ngNodes_regular: "regularKept w (snd (ngNodes az ng w))"
proof -
  have "regularKept w (snd (Nodes az p w))" for p
    unfolding Nodes_def Let_def
    by (rule regularKept_andThen [OF getCurSize_regularKept])
      (auto split: sum.splits intro!: regularKept_andThen updateInstanceCache_regular)
  then show ?thesis by (simp add: ngNodes_def split: nodeGroup.splits)
qed

lemma listAll_regular: "regularKept w (snd (listAll az ngs w))"
proof (induction ngs arbitrary: w)
  case (Cons ng ngs)
  show ?case
    unfolding listAll.simps by (intro regularKept_andThen ngNodes_regular Cons.IH) simp
qed simp

section \<open>The size after a refresh\<close>

lemma fetchAzureResources_listed:
  assumes "fetchAzureResources az w = (Ok (), w')" "vmssList az (resourceGroup (azCache w)) (env w) = (Inr xs, e)"
  shows "\<And>n x. listed xs n = Some x \<Longrightarrow> \<not> isSpot x \<Longrightarrow>
    \<exists>v < vmssNext w'. map_of (getScaleSets w') n = Some v \<and> vmssAt w' v = x"
proof -
  obtain sets w1 where f: "fetchScaleSets az w = (Ok sets, w1)" and
    k: "regularKept (updCache (\<lambda>c. c\<lparr>scaleSets := sets\<rparr>) w1) w'"
  proof -
    obtain r w1 where f: "fetchScaleSets az w = (r, w1)" by fastforce
    then obtain sets where r: "r = Ok sets" using assms(1) by (cases r) (auto simp: fetchAzureResources_def)
    let ?w2 = "updCache (\<lambda>c. c\<lparr>scaleSets := sets\<rparr>) w1"
    have vm: "regularKept v (snd (fetchVirtualMachines az v))" for v
      unfolding fetchVirtualMachines_def by (intro regularKept_andThen regularKept_callGo) simp
    have pools: "regularKept v (snd (fetchVMsPools az v))" for v
      by (simp add: fetchVMsPools_def call_env split: go.split prod.split)
    let ?rest = "\<lambda>vmResult w3.
         if enableVMsAgentPool (azCache (updCache (\<lambda>c. c\<lparr>virtualMachines := vmResult\<rparr>) w3))
         then andThen (fetchVMsPools az (updCache (\<lambda>c. c\<lparr>virtualMachines := vmResult\<rparr>) w3))
                (\<lambda>pools w5. (Ok (), updCache (\<lambda>c. c\<lparr>vmsPoolMap := pools\<rparr>) w5))
         else (Ok (), updCache (\<lambda>c. c\<lparr>virtualMachines := vmResult\<rparr>) w3)"
    have "regularKept v (snd (?rest vms v))" for vms v
      by (rule regularKept_trans [OF regularKept_steps(4) [of v vms]])
        (auto simp del: updCache_def intro!: regularKept_andThen pools)
    then have "regularKept ?w2 (snd (andThen (fetchVirtualMachines az ?w2) ?rest))"
      by (intro regularKept_andThen vm)
    with assms(1) f r show ?thesis by (intro that [of sets w1]) (simp_all add: fetchAzureResources_def Let_def)
  qed
  fix n x
  assume x: "listed xs n = Some x" "\<not> isSpot x"
  have "storeScaleSets xs [] (w\<lparr>env := e\<rparr>) = (Ok sets, w1)"
    using f assms(2) by (simp add: fetchScaleSets_def callGo_env liftSum_def)
  from storeScaleSets_listed [OF this] x
  have "setsAllocated w1 sets" "cached w1 sets n = Some x" by (auto simp: setsAllocated_def)
  then obtain v where "map_of sets n = Some v" "v < vmssNext w1" "vmssAt w1 v = x"
    by (auto simp: cached_def setsAllocated_def)
  with k x(2) show "\<exists>v < vmssNext w'. map_of (getScaleSets w') n = Some v \<and> vmssAt w' v = x"
    by (intro exI [of _ v]) (auto simp: regularKept_def vmssKept_def getScaleSets_def)
qed

lemma regenerate_names: "regenerate az w = (r, w') \<Longrightarrow> ngId w' = ngId w"
  by (cases rule: regenerate_cases, assumption)
    (auto simp: fun_eq_iff ngId_def dest!: refreshFrame_fields(1) split: nodeGroup.splits)

lemma regenerate_listed:
  assumes "regenerate az w = (Ok (), w')" "vmssList az (resourceGroup (azCache w)) (env w) = (Inr xs, e)"
    "listed xs n = Some x" "\<not> isSpot x"
  shows "\<exists>v. map_of (getScaleSets w') n = Some v \<and> vmssAt w' v = x"
  using assms(1)
proof (cases rule: regenerate_cases)
  case (ok w1 ls w2 groups states options)
  obtain v where v: "v < vmssNext w1" "map_of (getScaleSets w1) n = Some v" "vmssAt w1 v = x"
    using fetchAzureResources_listed [OF ok(2) assms(2-4)] by blast
  have "regularKept w1 w2" using listAll_regular [of w1 az "registeredNodeGroups (azCache w)"] ok(3) by simp
  with v assms(4) have "map_of (getScaleSets w2) n = Some v \<and> vmssAt w2 v = x"
    by (auto simp: regularKept_def vmssKept_def)
  then show ?thesis unfolding ok(6) by (simp add: getScaleSets_def)
qed simp

text \<open>
  C27. The size of a scale set follows Azure: once the cache has been regenerated and the refresh
  period of the size is over, the next read of the size, at any later time, is the capacity Azure
  listed for the scale set, whatever the provider had published before; a size that differs from
  the published one makes the cache of the instances stale. Spot scale sets are read from Azure
  directly and are not concerned.
\<close>

theorem size_follows_azure:
  assumes "regenerate az w = (Ok (), w')" and "vmssList az (resourceGroup (azCache w)) (env w) = (Inr xs, e)"
    and "listed xs (ss_Name (ssAt w p)) = Some x" "\<not> isSpot x" "capacityOf x = Some c"
    and "lastSizeRefresh (ssAt w' p) + sizeRefreshPeriod (ssAt w' p) \<le> timeNow az e2" "c \<noteq> -1"
  shows "\<exists>w2. TargetSize az p (w'\<lparr>env := e2\<rparr>) = (Ok c, w2) \<and> curSize (ssAt w2 p) = c \<and>
    lastSizeRefresh (ssAt w2 p) = timeNow az e2 \<and> requests w2 = requests w'"
proof -
  have "ss_Name (ssAt w' p) = ss_Name (ssAt w p)"
    using fun_cong [OF regenerate_names [OF assms(1)], of "ScaleSetRef p"] by (simp add: ngId_def)
  then obtain v where v: "map_of (getScaleSets w') (ss_Name (ssAt w' p)) = Some v" "vmssAt w' v = x"
    using regenerate_listed [OF assms(1-4)] by auto
  let ?w1 = "w'\<lparr>env := e2\<rparr>"
  have "getCurSize az p ?w1 = adoptSize az p v ?w1"
    using v assms(4,6) by (simp add: getCurSize_def getVMSSFromCache_def getScaleSets_def stillFresh_def now_def Let_def)
  then show ?thesis
    using v assms(5,7)
    by (auto simp: TargetSize_def getScaleSetSize_def adoptSize_def Let_def now_def invalidateInstanceCache_def)
qed

text \<open>A published size of 7 that Azure does not know, and Azure answering with the capacity 3.\<close>

definition publishedWorld :: "int world" where
  "publishedWorld = sampleWorld\<lparr>ssAt := (\<lambda>_. sampleSet\<lparr>curSize := 7, lastSizeRefresh := 900\<rparr>)\<rparr>"

theorem size_follows_azure_witness:
  "\<exists>w2. TargetSize sampleClient 0 ((snd (regenerate sampleClient publishedWorld))\<lparr>env := 2000000000000\<rparr>) = (Ok 3, w2) \<and>
    curSize (ssAt w2 0) = 3"
proof -
  let ?w = "snd (regenerate sampleClient publishedWorld)"
  have r: "regenerate sampleClient publishedWorld = (Ok (), ?w)"
    by (rule prod_eq) code_simp
  have a: "vmssList sampleClient (resourceGroup (azCache publishedWorld)) (env publishedWorld) =
      (Inr [sampleVMSS], 1000)"
    by (simp add: sampleClient_def publishedWorld_def sampleWorld_def)
  have l: "listed [sampleVMSS] (ss_Name (ssAt publishedWorld 0)) = Some sampleVMSS" by code_simp
  have t: "lastSizeRefresh (ssAt ?w 0) + sizeRefreshPeriod (ssAt ?w 0) \<le> timeNow sampleClient 2000000000000"
    by code_simp
  from size_follows_azure [OF r a l _ _ t, of 3] show ?thesis
    by (auto simp: isSpot_def capacityOf_def sampleVMSS_def)
qed

end
