(* ===== verification/Instance_Types.thy ===== *)
theory Instance_Types
  imports Azure_Cache
begin

text \<open>
  \<open>azure_instance_types.go\<close>: the table of the Azure instance types, which \<open>gen.go\<close> writes and
  \<open>GetInstanceTypeStatically\<close> searches. The map of the source has one entry per instance type;
  here it is a list of the same entries, cut into definitions of eighteen entries each that
  follow the file from top to bottom. \<open>InstanceTypes\<close> puts them together. The order of the list
  is that of the file: a \<open>range\<close> loop over the map may visit the entries in any order, so the
  theorems on the lookup speak of every permutation of it.
\<close>

definition entry :: "string \<Rightarrow> string \<Rightarrow> int \<Rightarrow> int \<Rightarrow> int \<Rightarrow> string \<Rightarrow> string \<times> instanceType" where
  "entry name family vcpu memoryMb gpu arch =
     (name, \<lparr>it_InstanceType = name, it_SkuFamily = family, it_VCPU = vcpu, it_MemoryMb = memoryMb,
            it_GPU = gpu, it_Architecture = arch\<rparr>)"

section \<open>The entries\<close>

definition instanceTypes01 :: "(string, instanceType) gomap" where
  "instanceTypes01 =
    [entry ''Standard_A1_v2'' ''standardAv2Family'' 1 2048 0 ''amd64'',
     entry ''Standard_A2_v2'' ''standardAv2Family'' 2 4096 0 ''amd64'',
     entry ''Standard_A2m_v2'' ''standardAv2Family'' 2 16384 0 ''amd64'',
     entry ''Standard_A4_v2'' ''standardAv2Family'' 4 8192 0 ''amd64'',
     entry ''Standard_A4m_v2'' ''standardAv2Family'' 4 32768 0 ''amd64'',
     entry ''Standard_A8_v2'' ''standardAv2Family'' 8 16384 0 ''amd64'',
     entry ''Standard_A8m_v2'' ''standardAv2Family'' 8 65536 0 ''amd64'',
     entry ''Standard_B12ms'' ''standardBSFamily'' 12 49152 0 ''amd64'',
     entry ''Standard_B16als_v2'' ''standardBasv2Family'' 16 32768 0 ''amd64'',
     entry ''Standard_B16as_v2'' ''standardBasv2Family'' 16 65536 0 ''amd64'',
     entry ''Standard_B16ls_v2'' ''standardBsv2Family'' 16 32768 0 ''amd64'',
     entry ''Standard_B16ms'' ''standardBSFamily'' 16 65536 0 ''amd64'',
     entry ''Standard_B16pls_v2'' ''standardBpsv2Family'' 16 32768 0 ''arm64'',
     entry ''Standard_B16ps_v2'' ''standardBpsv2Family'' 16 65536 0 ''arm64'',
     entry ''Standard_B16s_v2'' ''standardBsv2Family'' 16 65536 0 ''amd64'',
     entry ''Standard_B1ls'' ''standardBSFamily'' 1 0 0 ''amd64'',
     entry ''Standard_B1ms'' ''standardBSFamily'' 1 2048 0 ''amd64'',
     entry ''Standard_B1s'' ''standardBSFamily'' 1 1024 0 ''amd64'']"

definition instanceTypes02 :: "(string, instanceType) gomap" where
  "instanceTypes02 =
    [entry ''Standard_B20ms'' ''standardBSFamily'' 20 81920 0 ''amd64'',
     entry ''Standard_B2als_v2'' ''standardBasv2Family'' 2 4096 0 ''amd64'',
     entry ''Standard_B2as_v2'' ''standardBasv2Family'' 2 8192 0 ''amd64'',
     entry ''Standard_B2ats_v2'' ''standardBasv2Family'' 2 1024 0 ''amd64'',
     entry ''Standard_B2ls_v2'' ''standardBsv2Family'' 2 4096 0 ''amd64'',
     entry ''Standard_B2ms'' ''standardBSFamily'' 2 8192 0 ''amd64'',
     entry ''Standard_B2pls_v2'' ''standardBpsv2Family'' 2 4096 0 ''arm64'',
     entry ''Standard_B2ps_v2'' ''standardBpsv2Family'' 2 8192 0 ''arm64'',
     entry ''Standard_B2pts_v2'' ''standardBpsv2Family'' 2 1024 0 ''arm64'',
     entry ''Standard_B2s'' ''standardBSFamily'' 2 4096 0 ''amd64'',
     entry ''Standard_B2s_v2'' ''standardBsv2Family'' 2 8192 0 ''amd64'',
     entry ''Standard_B2ts_v2'' ''standardBsv2Family'' 2 1024 0 ''amd64'',
     entry ''Standard_B32als_v2'' ''standardBasv2Family'' 32 65536 0 ''amd64'',
     entry ''Standard_B32as_v2'' ''standardBasv2Family'' 32 131072 0 ''amd64'',
     entry ''Standard_B32ls_v2'' ''standardBsv2Family'' 32 65536 0 ''amd64'',
     entry ''Standard_B32s_v2'' ''standardBsv2Family'' 32 131072 0 ''amd64'',
     entry ''Standard_B4als_v2'' ''standardBasv2Family'' 4 8192 0 ''amd64'',
     entry ''Standard_B4as_v2'' ''standardBasv2Family'' 4 16384 0 ''amd64'']"

definition instanceTypes03 :: "(string, instanceType) gomap" where
  "instanceTypes03 =
    [entry ''Standard_B4ls_v2'' ''standardBsv2Family'' 4 8192 0 ''amd64'',
     entry ''Standard_B4ms'' ''standardBSFamily'' 4 16384 0 ''amd64'',
     entry ''Standard_B4pls_v2'' ''standardBpsv2Family'' 4 8192 0 ''arm64'',
     entry ''Standard_B4ps_v2'' ''standardBpsv2Family'' 4 16384 0 ''arm64'',
     entry ''Standard_B4s_v2'' ''standardBsv2Family'' 4 16384 0 ''amd64'',
     entry ''Standard_B8als_v2'' ''standardBasv2Family'' 8 16384 0 ''amd64'',
     entry ''Standard_B8as_v2'' ''standardBasv2Family'' 8 32768 0 ''amd64'',
     entry ''Standard_B8ls_v2'' ''standardBsv2Family'' 8 16384 0 ''amd64'',
     entry ''Standard_B8ms'' ''standardBSFamily'' 8 32768 0 ''amd64'',
     entry ''Standard_B8pls_v2'' ''standardBpsv2Family'' 8 16384 0 ''arm64'',
     entry ''Standard_B8ps_v2'' ''standardBpsv2Family'' 8 32768 0 ''arm64'',
     entry ''Standard_B8s_v2'' ''standardBsv2Family'' 8 32768 0 ''amd64'',
     entry ''Standard_D1'' ''standardDFamily'' 1 3072 0 ''amd64'',
     entry ''Standard_D11'' ''standardDFamily'' 2 14336 0 ''amd64'',
     entry ''Standard_D11_v2'' ''standardDv2Family'' 2 14336 0 ''amd64'',
     entry ''Standard_D11_v2_Promo'' ''standardDv2PromoFamily'' 2 14336 0 ''amd64'',
     entry ''Standard_D12'' ''standardDFamily'' 4 28672 0 ''amd64'',
     entry ''Standard_D128ads_v7'' ''StandardDadsv7Family'' 128 524288 0 ''amd64'']"

definition instanceTypes04 :: "(string, instanceType) gomap" where
  "instanceTypes04 =
    [entry ''Standard_D128alds_v7'' ''StandardDaldsv7Family'' 128 262144 0 ''amd64'',
     entry ''Standard_D128als_v7'' ''StandardDalsv7Family'' 128 262144 0 ''amd64'',
     entry ''Standard_D128as_v7'' ''StandardDasv7Family'' 128 524288 0 ''amd64'',
     entry ''Standard_D128ds_v6'' ''StandardDdsv6Family'' 128 524288 0 ''amd64'',
     entry ''Standard_D128lds_v6'' ''StandardDldsv6Family'' 128 262144 0 ''amd64'',
     entry ''Standard_D128ls_v6'' ''StandardDlsv6Family'' 128 262144 0 ''amd64'',
     entry ''Standard_D128s_v6'' ''StandardDsv6Family'' 128 524288 0 ''amd64'',
     entry ''Standard_D12_v2'' ''standardDv2Family'' 4 28672 0 ''amd64'',
     entry ''Standard_D12_v2_Promo'' ''standardDv2PromoFamily'' 4 28672 0 ''amd64'',
     entry ''Standard_D13'' ''standardDFamily'' 8 57344 0 ''amd64'',
     entry ''Standard_D13_v2'' ''standardDv2Family'' 8 57344 0 ''amd64'',
     entry ''Standard_D13_v2_Promo'' ''standardDv2PromoFamily'' 8 57344 0 ''amd64'',
     entry ''Standard_D14'' ''standardDFamily'' 16 114688 0 ''amd64'',
     entry ''Standard_D14_v2'' ''standardDv2Family'' 16 114688 0 ''amd64'',
     entry ''Standard_D14_v2_Promo'' ''standardDv2PromoFamily'' 16 114688 0 ''amd64'',
     entry ''Standard_D15_v2'' ''standardDv2Family'' 20 143360 0 ''amd64'',
     entry ''Standard_D160ads_v7'' ''StandardDadsv7Family'' 160 655360 0 ''amd64'',
     entry ''Standard_D160alds_v7'' ''StandardDaldsv7Family'' 160 327680 0 ''amd64'']"

definition instanceTypes05 :: "(string, instanceType) gomap" where
  "instanceTypes05 =
    [entry ''Standard_D160als_v7'' ''StandardDalsv7Family'' 160 327680 0 ''amd64'',
     entry ''Standard_D160as_v7'' ''StandardDasv7Family'' 160 655360 0 ''amd64'',
     entry ''Standard_D16_v3'' ''standardDv3Family'' 16 65536 0 ''amd64'',
     entry ''Standard_D16_v4'' ''standardDv4Family'' 16 65536 0 ''amd64'',
     entry ''Standard_D16_v5'' ''standardDv5Family'' 16 65536 0 ''amd64'',
     entry ''Standard_D16a_v4'' ''standardDAv4Family'' 16 65536 0 ''amd64'',
     entry ''Standard_D16ads_v5'' ''standardDADSv5Family'' 16 65536 0 ''amd64'',
     entry ''Standard_D16ads_v6'' ''standardDadv6Family'' 16 65536 0 ''amd64'',
     entry ''Standard_D16ads_v7'' ''StandardDadsv7Family'' 16 65536 0 ''amd64'',
     entry ''Standard_D16alds_v6'' ''standardDaldv6Family'' 16 32768 0 ''amd64'',
     entry ''Standard_D16alds_v7'' ''StandardDaldsv7Family'' 16 32768 0 ''amd64'',
     entry ''Standard_D16als_v6'' ''standardDalv6Family'' 16 32768 0 ''amd64'',
     entry ''Standard_D16als_v7'' ''StandardDalsv7Family'' 16 32768 0 ''amd64'',
     entry ''Standard_D16as_v4'' ''standardDASv4Family'' 16 65536 0 ''amd64'',
     entry ''Standard_D16as_v5'' ''standardDASv5Family'' 16 65536 0 ''amd64'',
     entry ''Standard_D16as_v6'' ''standardDav6Family'' 16 65536 0 ''amd64'',
     entry ''Standard_D16as_v7'' ''StandardDasv7Family'' 16 65536 0 ''amd64'',
     entry ''Standard_D16d_v4'' ''standardDDv4Family'' 16 65536 0 ''amd64'']"

definition instanceTypes06 :: "(string, instanceType) gomap" where
  "instanceTypes06 =
    [entry ''Standard_D16d_v5'' ''standardDDv5Family'' 16 65536 0 ''amd64'',
     entry ''Standard_D16ds_v4'' ''standardDDSv4Family'' 16 65536 0 ''amd64'',
     entry ''Standard_D16ds_v5'' ''standardDDSv5Family'' 16 65536 0 ''amd64'',
     entry ''Standard_D16ds_v6'' ''StandardDdsv6Family'' 16 65536 0 ''amd64'',
     entry ''Standard_D16lds_v5'' ''standardDLDSv5Family'' 16 32768 0 ''amd64'',
     entry ''Standard_D16lds_v6'' ''StandardDldsv6Family'' 16 32768 0 ''amd64'',
     entry ''Standard_D16ls_v5'' ''standardDLSv5Family'' 16 32768 0 ''amd64'',
     entry ''Standard_D16ls_v6'' ''StandardDlsv6Family'' 16 32768 0 ''amd64'',
     entry ''Standard_D16pds_v5'' ''standardDPDSv5Family'' 16 65536 0 ''arm64'',
     entry ''Standard_D16pds_v6'' ''StandardDpdsv6Family'' 16 65536 0 ''arm64'',
     entry ''Standard_D16plds_v5'' ''standardDPLDSv5Family'' 16 32768 0 ''arm64'',
     entry ''Standard_D16plds_v6'' ''StandardDpldsv6Family'' 16 32768 0 ''arm64'',
     entry ''Standard_D16pls_v5'' ''standardDPLSv5Family'' 16 32768 0 ''arm64'',
     entry ''Standard_D16pls_v6'' ''StandardDplsv6Family'' 16 32768 0 ''arm64'',
     entry ''Standard_D16ps_v5'' ''standardDPSv5Family'' 16 65536 0 ''arm64'',
     entry ''Standard_D16ps_v6'' ''StandardDpsv6Family'' 16 65536 0 ''arm64'',
     entry ''Standard_D16s_v3'' ''standardDSv3Family'' 16 65536 0 ''amd64'',
     entry ''Standard_D16s_v4'' ''standardDSv4Family'' 16 65536 0 ''amd64'']"

definition instanceTypes07 :: "(string, instanceType) gomap" where
  "instanceTypes07 =
    [entry ''Standard_D16s_v5'' ''standardDSv5Family'' 16 65536 0 ''amd64'',
     entry ''Standard_D16s_v6'' ''StandardDsv6Family'' 16 65536 0 ''amd64'',
     entry ''Standard_D192ds_v6'' ''StandardDdsv6Family'' 192 786432 0 ''amd64'',
     entry ''Standard_D192s_v6'' ''StandardDsv6Family'' 192 786432 0 ''amd64'',
     entry ''Standard_D1_v2'' ''standardDv2Family'' 1 3072 0 ''amd64'',
     entry ''Standard_D2'' ''standardDFamily'' 2 7168 0 ''amd64'',
     entry ''Standard_D2_v2'' ''standardDv2Family'' 2 7168 0 ''amd64'',
     entry ''Standard_D2_v2_Promo'' ''standardDv2PromoFamily'' 2 7168 0 ''amd64'',
     entry ''Standard_D2_v3'' ''standardDv3Family'' 2 8192 0 ''amd64'',
     entry ''Standard_D2_v4'' ''standardDv4Family'' 2 8192 0 ''amd64'',
     entry ''Standard_D2_v5'' ''standardDv5Family'' 2 8192 0 ''amd64'',
     entry ''Standard_D2a_v4'' ''standardDAv4Family'' 2 8192 0 ''amd64'',
     entry ''Standard_D2ads_v5'' ''standardDADSv5Family'' 2 8192 0 ''amd64'',
     entry ''Standard_D2ads_v6'' ''standardDadv6Family'' 2 8192 0 ''amd64'',
     entry ''Standard_D2ads_v7'' ''StandardDadsv7Family'' 2 8192 0 ''amd64'',
     entry ''Standard_D2alds_v6'' ''standardDaldv6Family'' 2 4096 0 ''amd64'',
     entry ''Standard_D2alds_v7'' ''StandardDaldsv7Family'' 2 4096 0 ''amd64'',
     entry ''Standard_D2als_v6'' ''standardDalv6Family'' 2 4096 0 ''amd64'']"

definition instanceTypes08 :: "(string, instanceType) gomap" where
  "instanceTypes08 =
    [entry ''Standard_D2als_v7'' ''StandardDalsv7Family'' 2 4096 0 ''amd64'',
     entry ''Standard_D2as_v4'' ''standardDASv4Family'' 2 8192 0 ''amd64'',
     entry ''Standard_D2as_v5'' ''standardDASv5Family'' 2 8192 0 ''amd64'',
     entry ''Standard_D2as_v6'' ''standardDav6Family'' 2 8192 0 ''amd64'',
     entry ''Standard_D2as_v7'' ''StandardDasv7Family'' 2 8192 0 ''amd64'',
     entry ''Standard_D2d_v4'' ''standardDDv4Family'' 2 8192 0 ''amd64'',
     entry ''Standard_D2d_v5'' ''standardDDv5Family'' 2 8192 0 ''amd64'',
     entry ''Standard_D2ds_v4'' ''standardDDSv4Family'' 2 8192 0 ''amd64'',
     entry ''Standard_D2ds_v5'' ''standardDDSv5Family'' 2 8192 0 ''amd64'',
     entry ''Standard_D2ds_v6'' ''StandardDdsv6Family'' 2 8192 0 ''amd64'',
     entry ''Standard_D2lds_v5'' ''standardDLDSv5Family'' 2 4096 0 ''amd64'',
     entry ''Standard_D2lds_v6'' ''StandardDldsv6Family'' 2 4096 0 ''amd64'',
     entry ''Standard_D2ls_v5'' ''standardDLSv5Family'' 2 4096 0 ''amd64'',
     entry ''Standard_D2ls_v6'' ''StandardDlsv6Family'' 2 4096 0 ''amd64'',
     entry ''Standard_D2pds_v5'' ''standardDPDSv5Family'' 2 8192 0 ''arm64'',
     entry ''Standard_D2pds_v6'' ''StandardDpdsv6Family'' 2 8192 0 ''arm64'',
     entry ''Standard_D2plds_v5'' ''standardDPLDSv5Family'' 2 4096 0 ''arm64'',
     entry ''Standard_D2plds_v6'' ''StandardDpldsv6Family'' 2 4096 0 ''arm64'']"

definition instanceTypes09 :: "(string, instanceType) gomap" where
  "instanceTypes09 =
    [entry ''Standard_D2pls_v5'' ''standardDPLSv5Family'' 2 4096 0 ''arm64'',
     entry ''Standard_D2pls_v6'' ''StandardDplsv6Family'' 2 4096 0 ''arm64'',
     entry ''Standard_D2ps_v5'' ''standardDPSv5Family'' 2 8192 0 ''arm64'',
     entry ''Standard_D2ps_v6'' ''StandardDpsv6Family'' 2 8192 0 ''arm64'',
     entry ''Standard_D2s_v3'' ''standardDSv3Family'' 2 8192 0 ''amd64'',
     entry ''Standard_D2s_v4'' ''standardDSv4Family'' 2 8192 0 ''amd64'',
     entry ''Standard_D2s_v5'' ''standardDSv5Family'' 2 8192 0 ''amd64'',
     entry ''Standard_D2s_v6'' ''StandardDsv6Family'' 2 8192 0 ''amd64'',
     entry ''Standard_D3'' ''standardDFamily'' 4 14336 0 ''amd64'',
     entry ''Standard_D32_v3'' ''standardDv3Family'' 32 131072 0 ''amd64'',
     entry ''Standard_D32_v4'' ''standardDv4Family'' 32 131072 0 ''amd64'',
     entry ''Standard_D32_v5'' ''standardDv5Family'' 32 131072 0 ''amd64'',
     entry ''Standard_D32a_v4'' ''standardDAv4Family'' 32 131072 0 ''amd64'',
     entry ''Standard_D32ads_v5'' ''standardDADSv5Family'' 32 131072 0 ''amd64'',
     entry ''Standard_D32ads_v6'' ''standardDadv6Family'' 32 131072 0 ''amd64'',
     entry ''Standard_D32ads_v7'' ''StandardDadsv7Family'' 32 131072 0 ''amd64'',
     entry ''Standard_D32alds_v6'' ''standardDaldv6Family'' 32 65536 0 ''amd64'',
     entry ''Standard_D32alds_v7'' ''StandardDaldsv7Family'' 32 65536 0 ''amd64'']"

definition instanceTypes10 :: "(string, instanceType) gomap" where
  "instanceTypes10 =
    [entry ''Standard_D32als_v6'' ''standardDalv6Family'' 32 65536 0 ''amd64'',
     entry ''Standard_D32als_v7'' ''StandardDalsv7Family'' 32 65536 0 ''amd64'',
     entry ''Standard_D32as_v4'' ''standardDASv4Family'' 32 131072 0 ''amd64'',
     entry ''Standard_D32as_v5'' ''standardDASv5Family'' 32 131072 0 ''amd64'',
     entry ''Standard_D32as_v6'' ''standardDav6Family'' 32 131072 0 ''amd64'',
     entry ''Standard_D32as_v7'' ''StandardDasv7Family'' 32 131072 0 ''amd64'',
     entry ''Standard_D32d_v4'' ''standardDDv4Family'' 32 131072 0 ''amd64'',
     entry ''Standard_D32d_v5'' ''standardDDv5Family'' 32 131072 0 ''amd64'',
     entry ''Standard_D32ds_v4'' ''standardDDSv4Family'' 32 131072 0 ''amd64'',
     entry ''Standard_D32ds_v5'' ''standardDDSv5Family'' 32 131072 0 ''amd64'',
     entry ''Standard_D32ds_v6'' ''StandardDdsv6Family'' 32 131072 0 ''amd64'',
     entry ''Standard_D32lds_v5'' ''standardDLDSv5Family'' 32 65536 0 ''amd64'',
     entry ''Standard_D32lds_v6'' ''StandardDldsv6Family'' 32 65536 0 ''amd64'',
     entry ''Standard_D32ls_v5'' ''standardDLSv5Family'' 32 65536 0 ''amd64'',
     entry ''Standard_D32ls_v6'' ''StandardDlsv6Family'' 32 65536 0 ''amd64'',
     entry ''Standard_D32pds_v5'' ''standardDPDSv5Family'' 32 131072 0 ''arm64'',
     entry ''Standard_D32pds_v6'' ''StandardDpdsv6Family'' 32 131072 0 ''arm64'',
     entry ''Standard_D32plds_v5'' ''standardDPLDSv5Family'' 32 65536 0 ''arm64'']"

definition instanceTypes11 :: "(string, instanceType) gomap" where
  "instanceTypes11 =
    [entry ''Standard_D32plds_v6'' ''StandardDpldsv6Family'' 32 65536 0 ''arm64'',
     entry ''Standard_D32pls_v5'' ''standardDPLSv5Family'' 32 65536 0 ''arm64'',
     entry ''Standard_D32pls_v6'' ''StandardDplsv6Family'' 32 65536 0 ''arm64'',
     entry ''Standard_D32ps_v5'' ''standardDPSv5Family'' 32 131072 0 ''arm64'',
     entry ''Standard_D32ps_v6'' ''StandardDpsv6Family'' 32 131072 0 ''arm64'',
     entry ''Standard_D32s_v3'' ''standardDSv3Family'' 32 131072 0 ''amd64'',
     entry ''Standard_D32s_v4'' ''standardDSv4Family'' 32 131072 0 ''amd64'',
     entry ''Standard_D32s_v5'' ''standardDSv5Family'' 32 131072 0 ''amd64'',
     entry ''Standard_D32s_v6'' ''StandardDsv6Family'' 32 131072 0 ''amd64'',
     entry ''Standard_D3_v2'' ''standardDv2Family'' 4 14336 0 ''amd64'',
     entry ''Standard_D3_v2_Promo'' ''standardDv2PromoFamily'' 4 14336 0 ''amd64'',
     entry ''Standard_D4'' ''standardDFamily'' 8 28672 0 ''amd64'',
     entry ''Standard_D48_v3'' ''standardDv3Family'' 48 196608 0 ''amd64'',
     entry ''Standard_D48_v4'' ''standardDv4Family'' 48 196608 0 ''amd64'',
     entry ''Standard_D48_v5'' ''standardDv5Family'' 48 196608 0 ''amd64'',
     entry ''Standard_D48a_v4'' ''standardDAv4Family'' 48 196608 0 ''amd64'',
     entry ''Standard_D48ads_v5'' ''standardDADSv5Family'' 48 196608 0 ''amd64'',
     entry ''Standard_D48ads_v6'' ''standardDadv6Family'' 48 196608 0 ''amd64'']"

definition instanceTypes12 :: "(string, instanceType) gomap" where
  "instanceTypes12 =
    [entry ''Standard_D48ads_v7'' ''StandardDadsv7Family'' 48 196608 0 ''amd64'',
     entry ''Standard_D48alds_v6'' ''standardDaldv6Family'' 48 98304 0 ''amd64'',
     entry ''Standard_D48alds_v7'' ''StandardDaldsv7Family'' 48 98304 0 ''amd64'',
     entry ''Standard_D48als_v6'' ''standardDalv6Family'' 48 98304 0 ''amd64'',
     entry ''Standard_D48als_v7'' ''StandardDalsv7Family'' 48 98304 0 ''amd64'',
     entry ''Standard_D48as_v4'' ''standardDASv4Family'' 48 196608 0 ''amd64'',
     entry ''Standard_D48as_v5'' ''standardDASv5Family'' 48 196608 0 ''amd64'',
     entry ''Standard_D48as_v6'' ''standardDav6Family'' 48 196608 0 ''amd64'',
     entry ''Standard_D48as_v7'' ''StandardDasv7Family'' 48 196608 0 ''amd64'',
     entry ''Standard_D48d_v4'' ''standardDDv4Family'' 48 196608 0 ''amd64'',
     entry ''Standard_D48d_v5'' ''standardDDv5Family'' 48 196608 0 ''amd64'',
     entry ''Standard_D48ds_v4'' ''standardDDSv4Family'' 48 196608 0 ''amd64'',
     entry ''Standard_D48ds_v5'' ''standardDDSv5Family'' 48 196608 0 ''amd64'',
     entry ''Standard_D48ds_v6'' ''StandardDdsv6Family'' 48 196608 0 ''amd64'',
     entry ''Standard_D48lds_v5'' ''standardDLDSv5Family'' 48 98304 0 ''amd64'',
     entry ''Standard_D48lds_v6'' ''StandardDldsv6Family'' 48 98304 0 ''amd64'',
     entry ''Standard_D48ls_v5'' ''standardDLSv5Family'' 48 98304 0 ''amd64'',
     entry ''Standard_D48ls_v6'' ''StandardDlsv6Family'' 48 98304 0 ''amd64'']"

definition instanceTypes13 :: "(string, instanceType) gomap" where
  "instanceTypes13 =
    [entry ''Standard_D48pds_v5'' ''standardDPDSv5Family'' 48 196608 0 ''arm64'',
     entry ''Standard_D48pds_v6'' ''StandardDpdsv6Family'' 48 196608 0 ''arm64'',
     entry ''Standard_D48plds_v5'' ''standardDPLDSv5Family'' 48 98304 0 ''arm64'',
     entry ''Standard_D48plds_v6'' ''StandardDpldsv6Family'' 48 98304 0 ''arm64'',
     entry ''Standard_D48pls_v5'' ''standardDPLSv5Family'' 48 98304 0 ''arm64'',
     entry ''Standard_D48pls_v6'' ''StandardDplsv6Family'' 48 98304 0 ''arm64'',
     entry ''Standard_D48ps_v5'' ''standardDPSv5Family'' 48 196608 0 ''arm64'',
     entry ''Standard_D48ps_v6'' ''StandardDpsv6Family'' 48 196608 0 ''arm64'',
     entry ''Standard_D48s_v3'' ''standardDSv3Family'' 48 196608 0 ''amd64'',
     entry ''Standard_D48s_v4'' ''standardDSv4Family'' 48 196608 0 ''amd64'',
     entry ''Standard_D48s_v5'' ''standardDSv5Family'' 48 196608 0 ''amd64'',
     entry ''Standard_D48s_v6'' ''StandardDsv6Family'' 48 196608 0 ''amd64'',
     entry ''Standard_D4_v2'' ''standardDv2Family'' 8 28672 0 ''amd64'',
     entry ''Standard_D4_v2_Promo'' ''standardDv2PromoFamily'' 8 28672 0 ''amd64'',
     entry ''Standard_D4_v3'' ''standardDv3Family'' 4 16384 0 ''amd64'',
     entry ''Standard_D4_v4'' ''standardDv4Family'' 4 16384 0 ''amd64'',
     entry ''Standard_D4_v5'' ''standardDv5Family'' 4 16384 0 ''amd64'',
     entry ''Standard_D4a_v4'' ''standardDAv4Family'' 4 16384 0 ''amd64'']"

definition instanceTypes14 :: "(string, instanceType) gomap" where
  "instanceTypes14 =
    [entry ''Standard_D4ads_v5'' ''standardDADSv5Family'' 4 16384 0 ''amd64'',
     entry ''Standard_D4ads_v6'' ''standardDadv6Family'' 4 16384 0 ''amd64'',
     entry ''Standard_D4ads_v7'' ''StandardDadsv7Family'' 4 16384 0 ''amd64'',
     entry ''Standard_D4alds_v6'' ''standardDaldv6Family'' 4 8192 0 ''amd64'',
     entry ''Standard_D4alds_v7'' ''StandardDaldsv7Family'' 4 8192 0 ''amd64'',
     entry ''Standard_D4als_v6'' ''standardDalv6Family'' 4 8192 0 ''amd64'',
     entry ''Standard_D4als_v7'' ''StandardDalsv7Family'' 4 8192 0 ''amd64'',
     entry ''Standard_D4as_v4'' ''standardDASv4Family'' 4 16384 0 ''amd64'',
     entry ''Standard_D4as_v5'' ''standardDASv5Family'' 4 16384 0 ''amd64'',
     entry ''Standard_D4as_v6'' ''standardDav6Family'' 4 16384 0 ''amd64'',
     entry ''Standard_D4as_v7'' ''StandardDasv7Family'' 4 16384 0 ''amd64'',
     entry ''Standard_D4d_v4'' ''standardDDv4Family'' 4 16384 0 ''amd64'',
     entry ''Standard_D4d_v5'' ''standardDDv5Family'' 4 16384 0 ''amd64'',
     entry ''Standard_D4ds_v4'' ''standardDDSv4Family'' 4 16384 0 ''amd64'',
     entry ''Standard_D4ds_v5'' ''standardDDSv5Family'' 4 16384 0 ''amd64'',
     entry ''Standard_D4ds_v6'' ''StandardDdsv6Family'' 4 16384 0 ''amd64'',
     entry ''Standard_D4lds_v5'' ''standardDLDSv5Family'' 4 8192 0 ''amd64'',
     entry ''Standard_D4lds_v6'' ''StandardDldsv6Family'' 4 8192 0 ''amd64'']"

definition instanceTypes15 :: "(string, instanceType) gomap" where
  "instanceTypes15 =
    [entry ''Standard_D4ls_v5'' ''standardDLSv5Family'' 4 8192 0 ''amd64'',
     entry ''Standard_D4ls_v6'' ''StandardDlsv6Family'' 4 8192 0 ''amd64'',
     entry ''Standard_D4pds_v5'' ''standardDPDSv5Family'' 4 16384 0 ''arm64'',
     entry ''Standard_D4pds_v6'' ''StandardDpdsv6Family'' 4 16384 0 ''arm64'',
     entry ''Standard_D4plds_v5'' ''standardDPLDSv5Family'' 4 8192 0 ''arm64'',
     entry ''Standard_D4plds_v6'' ''StandardDpldsv6Family'' 4 8192 0 ''arm64'',
     entry ''Standard_D4pls_v5'' ''standardDPLSv5Family'' 4 8192 0 ''arm64'',
     entry ''Standard_D4pls_v6'' ''StandardDplsv6Family'' 4 8192 0 ''arm64'',
     entry ''Standard_D4ps_v5'' ''standardDPSv5Family'' 4 16384 0 ''arm64'',
     entry ''Standard_D4ps_v6'' ''StandardDpsv6Family'' 4 16384 0 ''arm64'',
     entry ''Standard_D4s_v3'' ''standardDSv3Family'' 4 16384 0 ''amd64'',
     entry ''Standard_D4s_v4'' ''standardDSv4Family'' 4 16384 0 ''amd64'',
     entry ''Standard_D4s_v5'' ''standardDSv5Family'' 4 16384 0 ''amd64'',
     entry ''Standard_D4s_v6'' ''StandardDsv6Family'' 4 16384 0 ''amd64'',
     entry ''Standard_D5_v2'' ''standardDv2Family'' 16 57344 0 ''amd64'',
     entry ''Standard_D5_v2_Promo'' ''standardDv2PromoFamily'' 16 57344 0 ''amd64'',
     entry ''Standard_D64_v3'' ''standardDv3Family'' 64 262144 0 ''amd64'',
     entry ''Standard_D64_v4'' ''standardDv4Family'' 64 262144 0 ''amd64'']"

definition instanceTypes16 :: "(string, instanceType) gomap" where
  "instanceTypes16 =
    [entry ''Standard_D64_v5'' ''standardDv5Family'' 64 262144 0 ''amd64'',
     entry ''Standard_D64a_v4'' ''standardDAv4Family'' 64 262144 0 ''amd64'',
     entry ''Standard_D64ads_v5'' ''standardDADSv5Family'' 64 262144 0 ''amd64'',
     entry ''Standard_D64ads_v6'' ''standardDadv6Family'' 64 262144 0 ''amd64'',
     entry ''Standard_D64ads_v7'' ''StandardDadsv7Family'' 64 262144 0 ''amd64'',
     entry ''Standard_D64alds_v6'' ''standardDaldv6Family'' 64 131072 0 ''amd64'',
     entry ''Standard_D64alds_v7'' ''StandardDaldsv7Family'' 64 131072 0 ''amd64'',
     entry ''Standard_D64als_v6'' ''standardDalv6Family'' 64 131072 0 ''amd64'',
     entry ''Standard_D64als_v7'' ''StandardDalsv7Family'' 64 131072 0 ''amd64'',
     entry ''Standard_D64as_v4'' ''standardDASv4Family'' 64 262144 0 ''amd64'',
     entry ''Standard_D64as_v5'' ''standardDASv5Family'' 64 262144 0 ''amd64'',
     entry ''Standard_D64as_v6'' ''standardDav6Family'' 64 262144 0 ''amd64'',
     entry ''Standard_D64as_v7'' ''StandardDasv7Family'' 64 262144 0 ''amd64'',
     entry ''Standard_D64d_v4'' ''standardDDv4Family'' 64 262144 0 ''amd64'',
     entry ''Standard_D64d_v5'' ''standardDDv5Family'' 64 262144 0 ''amd64'',
     entry ''Standard_D64ds_v4'' ''standardDDSv4Family'' 64 262144 0 ''amd64'',
     entry ''Standard_D64ds_v5'' ''standardDDSv5Family'' 64 262144 0 ''amd64'',
     entry ''Standard_D64ds_v6'' ''StandardDdsv6Family'' 64 262144 0 ''amd64'']"

definition instanceTypes17 :: "(string, instanceType) gomap" where
  "instanceTypes17 =
    [entry ''Standard_D64lds_v5'' ''standardDLDSv5Family'' 64 131072 0 ''amd64'',
     entry ''Standard_D64lds_v6'' ''StandardDldsv6Family'' 64 131072 0 ''amd64'',
     entry ''Standard_D64ls_v5'' ''standardDLSv5Family'' 64 131072 0 ''amd64'',
     entry ''Standard_D64ls_v6'' ''StandardDlsv6Family'' 64 131072 0 ''amd64'',
     entry ''Standard_D64pds_v5'' ''standardDPDSv5Family'' 64 212992 0 ''arm64'',
     entry ''Standard_D64pds_v6'' ''StandardDpdsv6Family'' 64 262144 0 ''arm64'',
     entry ''Standard_D64plds_v5'' ''standardDPLDSv5Family'' 64 131072 0 ''arm64'',
     entry ''Standard_D64plds_v6'' ''StandardDpldsv6Family'' 64 131072 0 ''arm64'',
     entry ''Standard_D64pls_v5'' ''standardDPLSv5Family'' 64 131072 0 ''arm64'',
     entry ''Standard_D64pls_v6'' ''StandardDplsv6Family'' 64 131072 0 ''arm64'',
     entry ''Standard_D64ps_v5'' ''standardDPSv5Family'' 64 212992 0 ''arm64'',
     entry ''Standard_D64ps_v6'' ''StandardDpsv6Family'' 64 262144 0 ''arm64'',
     entry ''Standard_D64s_v3'' ''standardDSv3Family'' 64 262144 0 ''amd64'',
     entry ''Standard_D64s_v4'' ''standardDSv4Family'' 64 262144 0 ''amd64'',
     entry ''Standard_D64s_v5'' ''standardDSv5Family'' 64 262144 0 ''amd64'',
     entry ''Standard_D64s_v6'' ''StandardDsv6Family'' 64 262144 0 ''amd64'',
     entry ''Standard_D8_v3'' ''standardDv3Family'' 8 32768 0 ''amd64'',
     entry ''Standard_D8_v4'' ''standardDv4Family'' 8 32768 0 ''amd64'']"

definition instanceTypes18 :: "(string, instanceType) gomap" where
  "instanceTypes18 =
    [entry ''Standard_D8_v5'' ''standardDv5Family'' 8 32768 0 ''amd64'',
     entry ''Standard_D8a_v4'' ''standardDAv4Family'' 8 32768 0 ''amd64'',
     entry ''Standard_D8ads_v5'' ''standardDADSv5Family'' 8 32768 0 ''amd64'',
     entry ''Standard_D8ads_v6'' ''standardDadv6Family'' 8 32768 0 ''amd64'',
     entry ''Standard_D8ads_v7'' ''StandardDadsv7Family'' 8 32768 0 ''amd64'',
     entry ''Standard_D8alds_v6'' ''standardDaldv6Family'' 8 16384 0 ''amd64'',
     entry ''Standard_D8alds_v7'' ''StandardDaldsv7Family'' 8 16384 0 ''amd64'',
     entry ''Standard_D8als_v6'' ''standardDalv6Family'' 8 16384 0 ''amd64'',
     entry ''Standard_D8als_v7'' ''StandardDalsv7Family'' 8 16384 0 ''amd64'',
     entry ''Standard_D8as_v4'' ''standardDASv4Family'' 8 32768 0 ''amd64'',
     entry ''Standard_D8as_v5'' ''standardDASv5Family'' 8 32768 0 ''amd64'',
     entry ''Standard_D8as_v6'' ''standardDav6Family'' 8 32768 0 ''amd64'',
     entry ''Standard_D8as_v7'' ''StandardDasv7Family'' 8 32768 0 ''amd64'',
     entry ''Standard_D8d_v4'' ''standardDDv4Family'' 8 32768 0 ''amd64'',
     entry ''Standard_D8d_v5'' ''standardDDv5Family'' 8 32768 0 ''amd64'',
     entry ''Standard_D8ds_v4'' ''standardDDSv4Family'' 8 32768 0 ''amd64'',
     entry ''Standard_D8ds_v5'' ''standardDDSv5Family'' 8 32768 0 ''amd64'',
     entry ''Standard_D8ds_v6'' ''StandardDdsv6Family'' 8 32768 0 ''amd64'']"

definition instanceTypes19 :: "(string, instanceType) gomap" where
  "instanceTypes19 =
    [entry ''Standard_D8lds_v5'' ''standardDLDSv5Family'' 8 16384 0 ''amd64'',
     entry ''Standard_D8lds_v6'' ''StandardDldsv6Family'' 8 16384 0 ''amd64'',
     entry ''Standard_D8ls_v5'' ''standardDLSv5Family'' 8 16384 0 ''amd64'',
     entry ''Standard_D8ls_v6'' ''StandardDlsv6Family'' 8 16384 0 ''amd64'',
     entry ''Standard_D8pds_v5'' ''standardDPDSv5Family'' 8 32768 0 ''arm64'',
     entry ''Standard_D8pds_v6'' ''StandardDpdsv6Family'' 8 32768 0 ''arm64'',
     entry ''Standard_D8plds_v5'' ''standardDPLDSv5Family'' 8 16384 0 ''arm64'',
     entry ''Standard_D8plds_v6'' ''StandardDpldsv6Family'' 8 16384 0 ''arm64'',
     entry ''Standard_D8pls_v5'' ''standardDPLSv5Family'' 8 16384 0 ''arm64'',
     entry ''Standard_D8pls_v6'' ''StandardDplsv6Family'' 8 16384 0 ''arm64'',
     entry ''Standard_D8ps_v5'' ''standardDPSv5Family'' 8 32768 0 ''arm64'',
     entry ''Standard_D8ps_v6'' ''StandardDpsv6Family'' 8 32768 0 ''arm64'',
     entry ''Standard_D8s_v3'' ''standardDSv3Family'' 8 32768 0 ''amd64'',
     entry ''Standard_D8s_v4'' ''standardDSv4Family'' 8 32768 0 ''amd64'',
     entry ''Standard_D8s_v5'' ''standardDSv5Family'' 8 32768 0 ''amd64'',
     entry ''Standard_D8s_v6'' ''StandardDsv6Family'' 8 32768 0 ''amd64'',
     entry ''Standard_D96_v5'' ''standardDv5Family'' 96 393216 0 ''amd64'',
     entry ''Standard_D96a_v4'' ''standardDAv4Family'' 96 393216 0 ''amd64'']"

definition instanceTypes20 :: "(string, instanceType) gomap" where
  "instanceTypes20 =
    [entry ''Standard_D96ads_v5'' ''standardDADSv5Family'' 96 393216 0 ''amd64'',
     entry ''Standard_D96ads_v6'' ''standardDadv6Family'' 96 393216 0 ''amd64'',
     entry ''Standard_D96ads_v7'' ''StandardDadsv7Family'' 96 393216 0 ''amd64'',
     entry ''Standard_D96alds_v6'' ''standardDaldv6Family'' 96 196608 0 ''amd64'',
     entry ''Standard_D96alds_v7'' ''StandardDaldsv7Family'' 96 196608 0 ''amd64'',
     entry ''Standard_D96als_v6'' ''standardDalv6Family'' 96 196608 0 ''amd64'',
     entry ''Standard_D96als_v7'' ''StandardDalsv7Family'' 96 196608 0 ''amd64'',
     entry ''Standard_D96as_v4'' ''standardDASv4Family'' 96 393216 0 ''amd64'',
     entry ''Standard_D96as_v5'' ''standardDASv5Family'' 96 393216 0 ''amd64'',
     entry ''Standard_D96as_v6'' ''standardDav6Family'' 96 393216 0 ''amd64'',
     entry ''Standard_D96as_v7'' ''StandardDasv7Family'' 96 393216 0 ''amd64'',
     entry ''Standard_D96d_v5'' ''standardDDv5Family'' 96 393216 0 ''amd64'',
     entry ''Standard_D96ds_v5'' ''standardDDSv5Family'' 96 393216 0 ''amd64'',
     entry ''Standard_D96ds_v6'' ''StandardDdsv6Family'' 96 393216 0 ''amd64'',
     entry ''Standard_D96lds_v5'' ''standardDLDSv5Family'' 96 196608 0 ''amd64'',
     entry ''Standard_D96lds_v6'' ''StandardDldsv6Family'' 96 196608 0 ''amd64'',
     entry ''Standard_D96ls_v5'' ''standardDLSv5Family'' 96 196608 0 ''amd64'',
     entry ''Standard_D96ls_v6'' ''StandardDlsv6Family'' 96 196608 0 ''amd64'']"

definition instanceTypes21 :: "(string, instanceType) gomap" where
  "instanceTypes21 =
    [entry ''Standard_D96pds_v6'' ''StandardDpdsv6Family'' 96 393216 0 ''arm64'',
     entry ''Standard_D96plds_v6'' ''StandardDpldsv6Family'' 96 196608 0 ''arm64'',
     entry ''Standard_D96pls_v6'' ''StandardDplsv6Family'' 96 196608 0 ''arm64'',
     entry ''Standard_D96ps_v6'' ''StandardDpsv6Family'' 96 393216 0 ''arm64'',
     entry ''Standard_D96s_v5'' ''standardDSv5Family'' 96 393216 0 ''amd64'',
     entry ''Standard_D96s_v6'' ''StandardDsv6Family'' 96 393216 0 ''amd64'',
     entry ''Standard_DC128eds_v6'' ''standardDCEDV6Family'' 128 524288 0 ''amd64'',
     entry ''Standard_DC128es_v6'' ''standardDCEV6Family'' 128 524288 0 ''amd64'',
     entry ''Standard_DC16ads_cc_v5'' ''standardDCADCCV5Family'' 16 65536 0 ''amd64'',
     entry ''Standard_DC16ads_v5'' ''standardDCADSv5Family'' 16 65536 0 ''amd64'',
     entry ''Standard_DC16ads_v6'' ''standardDCadsv6Family'' 16 65536 0 ''amd64'',
     entry ''Standard_DC16as_cc_v5'' ''standardDCACCV5Family'' 16 65536 0 ''amd64'',
     entry ''Standard_DC16as_v5'' ''standardDCASv5Family'' 16 65536 0 ''amd64'',
     entry ''Standard_DC16as_v6'' ''standardDCasv6Family'' 16 65536 0 ''amd64'',
     entry ''Standard_DC16ds_v3'' ''standardDDCSv3Family'' 16 131072 0 ''amd64'',
     entry ''Standard_DC16eds_v5'' ''standardDCEDV5Family'' 16 65536 0 ''amd64'',
     entry ''Standard_DC16eds_v6'' ''standardDCEDV6Family'' 16 65536 0 ''amd64'',
     entry ''Standard_DC16es_v5'' ''standardDCEV5Family'' 16 65536 0 ''amd64'']"

definition instanceTypes22 :: "(string, instanceType) gomap" where
  "instanceTypes22 =
    [entry ''Standard_DC16es_v6'' ''standardDCEV6Family'' 16 65536 0 ''amd64'',
     entry ''Standard_DC16s_v3'' ''standardDCSv3Family'' 16 131072 0 ''amd64'',
     entry ''Standard_DC1ds_v3'' ''standardDDCSv3Family'' 1 8192 0 ''amd64'',
     entry ''Standard_DC1s_v2'' ''standardDCSv2Family'' 1 4096 0 ''amd64'',
     entry ''Standard_DC1s_v3'' ''standardDCSv3Family'' 1 8192 0 ''amd64'',
     entry ''Standard_DC24ds_v3'' ''standardDDCSv3Family'' 24 196608 0 ''amd64'',
     entry ''Standard_DC24s_v3'' ''standardDCSv3Family'' 24 196608 0 ''amd64'',
     entry ''Standard_DC2ads_v5'' ''standardDCADSv5Family'' 2 8192 0 ''amd64'',
     entry ''Standard_DC2ads_v6'' ''standardDCadsv6Family'' 2 8192 0 ''amd64'',
     entry ''Standard_DC2as_v5'' ''standardDCASv5Family'' 2 8192 0 ''amd64'',
     entry ''Standard_DC2as_v6'' ''standardDCasv6Family'' 2 8192 0 ''amd64'',
     entry ''Standard_DC2ds_v3'' ''standardDDCSv3Family'' 2 16384 0 ''amd64'',
     entry ''Standard_DC2eds_v5'' ''standardDCEDV5Family'' 2 8192 0 ''amd64'',
     entry ''Standard_DC2eds_v6'' ''standardDCEDV6Family'' 2 8192 0 ''amd64'',
     entry ''Standard_DC2es_v5'' ''standardDCEV5Family'' 2 8192 0 ''amd64'',
     entry ''Standard_DC2es_v6'' ''standardDCEV6Family'' 2 8192 0 ''amd64'',
     entry ''Standard_DC2s_v2'' ''standardDCSv2Family'' 2 8192 0 ''amd64'',
     entry ''Standard_DC2s_v3'' ''standardDCSv3Family'' 2 16384 0 ''amd64'']"

definition instanceTypes23 :: "(string, instanceType) gomap" where
  "instanceTypes23 =
    [entry ''Standard_DC32ads_cc_v5'' ''standardDCADCCV5Family'' 32 131072 0 ''amd64'',
     entry ''Standard_DC32ads_v5'' ''standardDCADSv5Family'' 32 131072 0 ''amd64'',
     entry ''Standard_DC32ads_v6'' ''standardDCadsv6Family'' 32 131072 0 ''amd64'',
     entry ''Standard_DC32as_cc_v5'' ''standardDCACCV5Family'' 32 131072 0 ''amd64'',
     entry ''Standard_DC32as_v5'' ''standardDCASv5Family'' 32 131072 0 ''amd64'',
     entry ''Standard_DC32as_v6'' ''standardDCasv6Family'' 32 131072 0 ''amd64'',
     entry ''Standard_DC32ds_v3'' ''standardDDCSv3Family'' 32 262144 0 ''amd64'',
     entry ''Standard_DC32eds_v5'' ''standardDCEDV5Family'' 32 131072 0 ''amd64'',
     entry ''Standard_DC32eds_v6'' ''standardDCEDV6Family'' 32 131072 0 ''amd64'',
     entry ''Standard_DC32es_v5'' ''standardDCEV5Family'' 32 131072 0 ''amd64'',
     entry ''Standard_DC32es_v6'' ''standardDCEV6Family'' 32 131072 0 ''amd64'',
     entry ''Standard_DC32s_v3'' ''standardDCSv3Family'' 32 262144 0 ''amd64'',
     entry ''Standard_DC48ads_cc_v5'' ''standardDCADCCV5Family'' 48 196608 0 ''amd64'',
     entry ''Standard_DC48ads_v5'' ''standardDCADSv5Family'' 48 196608 0 ''amd64'',
     entry ''Standard_DC48ads_v6'' ''standardDCadsv6Family'' 48 196608 0 ''amd64'',
     entry ''Standard_DC48as_cc_v5'' ''standardDCACCV5Family'' 48 196608 0 ''amd64'',
     entry ''Standard_DC48as_v5'' ''standardDCASv5Family'' 48 196608 0 ''amd64'',
     entry ''Standard_DC48as_v6'' ''standardDCasv6Family'' 48 196608 0 ''amd64'']"

definition instanceTypes24 :: "(string, instanceType) gomap" where
  "instanceTypes24 =
    [entry ''Standard_DC48ds_v3'' ''standardDDCSv3Family'' 48 393216 0 ''amd64'',
     entry ''Standard_DC48eds_v5'' ''standardDCEDV5Family'' 48 196608 0 ''amd64'',
     entry ''Standard_DC48eds_v6'' ''standardDCEDV6Family'' 48 196608 0 ''amd64'',
     entry ''Standard_DC48es_v5'' ''standardDCEV5Family'' 48 196608 0 ''amd64'',
     entry ''Standard_DC48es_v6'' ''standardDCEV6Family'' 48 196608 0 ''amd64'',
     entry ''Standard_DC48s_v3'' ''standardDCSv3Family'' 48 393216 0 ''amd64'',
     entry ''Standard_DC4ads_cc_v5'' ''standardDCADCCV5Family'' 4 16384 0 ''amd64'',
     entry ''Standard_DC4ads_v5'' ''standardDCADSv5Family'' 4 16384 0 ''amd64'',
     entry ''Standard_DC4ads_v6'' ''standardDCadsv6Family'' 4 16384 0 ''amd64'',
     entry ''Standard_DC4as_cc_v5'' ''standardDCACCV5Family'' 4 16384 0 ''amd64'',
     entry ''Standard_DC4as_v5'' ''standardDCASv5Family'' 4 16384 0 ''amd64'',
     entry ''Standard_DC4as_v6'' ''standardDCasv6Family'' 4 16384 0 ''amd64'',
     entry ''Standard_DC4ds_v3'' ''standardDDCSv3Family'' 4 32768 0 ''amd64'',
     entry ''Standard_DC4eds_v5'' ''standardDCEDV5Family'' 4 16384 0 ''amd64'',
     entry ''Standard_DC4eds_v6'' ''standardDCEDV6Family'' 4 16384 0 ''amd64'',
     entry ''Standard_DC4es_v5'' ''standardDCEV5Family'' 4 16384 0 ''amd64'',
     entry ''Standard_DC4es_v6'' ''standardDCEV6Family'' 4 16384 0 ''amd64'',
     entry ''Standard_DC4s_v2'' ''standardDCSv2Family'' 4 16384 0 ''amd64'']"

definition instanceTypes25 :: "(string, instanceType) gomap" where
  "instanceTypes25 =
    [entry ''Standard_DC4s_v3'' ''standardDCSv3Family'' 4 32768 0 ''amd64'',
     entry ''Standard_DC64ads_cc_v5'' ''standardDCADCCV5Family'' 64 262144 0 ''amd64'',
     entry ''Standard_DC64ads_v5'' ''standardDCADSv5Family'' 64 262144 0 ''amd64'',
     entry ''Standard_DC64ads_v6'' ''standardDCadsv6Family'' 64 262144 0 ''amd64'',
     entry ''Standard_DC64as_cc_v5'' ''standardDCACCV5Family'' 64 262144 0 ''amd64'',
     entry ''Standard_DC64as_v5'' ''standardDCASv5Family'' 64 262144 0 ''amd64'',
     entry ''Standard_DC64as_v6'' ''standardDCasv6Family'' 64 262144 0 ''amd64'',
     entry ''Standard_DC64eds_v5'' ''standardDCEDV5Family'' 64 262144 0 ''amd64'',
     entry ''Standard_DC64eds_v6'' ''standardDCEDV6Family'' 64 262144 0 ''amd64'',
     entry ''Standard_DC64es_v5'' ''standardDCEV5Family'' 64 262144 0 ''amd64'',
     entry ''Standard_DC64es_v6'' ''standardDCEV6Family'' 64 262144 0 ''amd64'',
     entry ''Standard_DC8_v2'' ''standardDCSv2Family'' 8 32768 0 ''amd64'',
     entry ''Standard_DC8ads_cc_v5'' ''standardDCADCCV5Family'' 8 32768 0 ''amd64'',
     entry ''Standard_DC8ads_v5'' ''standardDCADSv5Family'' 8 32768 0 ''amd64'',
     entry ''Standard_DC8ads_v6'' ''standardDCadsv6Family'' 8 32768 0 ''amd64'',
     entry ''Standard_DC8as_cc_v5'' ''standardDCACCV5Family'' 8 32768 0 ''amd64'',
     entry ''Standard_DC8as_v5'' ''standardDCASv5Family'' 8 32768 0 ''amd64'',
     entry ''Standard_DC8as_v6'' ''standardDCasv6Family'' 8 32768 0 ''amd64'']"

definition instanceTypes26 :: "(string, instanceType) gomap" where
  "instanceTypes26 =
    [entry ''Standard_DC8ds_v3'' ''standardDDCSv3Family'' 8 65536 0 ''amd64'',
     entry ''Standard_DC8eds_v5'' ''standardDCEDV5Family'' 8 32768 0 ''amd64'',
     entry ''Standard_DC8eds_v6'' ''standardDCEDV6Family'' 8 32768 0 ''amd64'',
     entry ''Standard_DC8es_v5'' ''standardDCEV5Family'' 8 32768 0 ''amd64'',
     entry ''Standard_DC8es_v6'' ''standardDCEV6Family'' 8 32768 0 ''amd64'',
     entry ''Standard_DC8s_v3'' ''standardDCSv3Family'' 8 65536 0 ''amd64'',
     entry ''Standard_DC96ads_cc_v5'' ''standardDCADCCV5Family'' 96 393216 0 ''amd64'',
     entry ''Standard_DC96ads_v5'' ''standardDCADSv5Family'' 96 393216 0 ''amd64'',
     entry ''Standard_DC96ads_v6'' ''standardDCadsv6Family'' 96 393216 0 ''amd64'',
     entry ''Standard_DC96as_cc_v5'' ''standardDCACCV5Family'' 96 393216 0 ''amd64'',
     entry ''Standard_DC96as_v5'' ''standardDCASv5Family'' 96 393216 0 ''amd64'',
     entry ''Standard_DC96as_v6'' ''standardDCasv6Family'' 96 393216 0 ''amd64'',
     entry ''Standard_DC96eds_v5'' ''standardDCEDV5Family'' 96 393216 0 ''amd64'',
     entry ''Standard_DC96eds_v6'' ''standardDCEDV6Family'' 96 393216 0 ''amd64'',
     entry ''Standard_DC96es_v5'' ''standardDCEV5Family'' 96 393216 0 ''amd64'',
     entry ''Standard_DC96es_v6'' ''standardDCEV6Family'' 96 393216 0 ''amd64'',
     entry ''Standard_DS1'' ''standardDSFamily'' 1 3072 0 ''amd64'',
     entry ''Standard_DS11'' ''standardDSFamily'' 2 14336 0 ''amd64'']"

definition instanceTypes27 :: "(string, instanceType) gomap" where
  "instanceTypes27 =
    [entry ''Standard_DS11-1_v2'' ''standardDSv2Family'' 2 14336 0 ''amd64'',
     entry ''Standard_DS11_v2'' ''standardDSv2Family'' 2 14336 0 ''amd64'',
     entry ''Standard_DS11_v2_Promo'' ''standardDSv2PromoFamily'' 2 14336 0 ''amd64'',
     entry ''Standard_DS12'' ''standardDSFamily'' 4 28672 0 ''amd64'',
     entry ''Standard_DS12-1_v2'' ''standardDSv2Family'' 4 28672 0 ''amd64'',
     entry ''Standard_DS12-2_v2'' ''standardDSv2Family'' 4 28672 0 ''amd64'',
     entry ''Standard_DS12_v2'' ''standardDSv2Family'' 4 28672 0 ''amd64'',
     entry ''Standard_DS12_v2_Promo'' ''standardDSv2PromoFamily'' 4 28672 0 ''amd64'',
     entry ''Standard_DS13'' ''standardDSFamily'' 8 57344 0 ''amd64'',
     entry ''Standard_DS13-2_v2'' ''standardDSv2Family'' 8 57344 0 ''amd64'',
     entry ''Standard_DS13-4_v2'' ''standardDSv2Family'' 8 57344 0 ''amd64'',
     entry ''Standard_DS13_v2'' ''standardDSv2Family'' 8 57344 0 ''amd64'',
     entry ''Standard_DS13_v2_Promo'' ''standardDSv2PromoFamily'' 8 57344 0 ''amd64'',
     entry ''Standard_DS14'' ''standardDSFamily'' 16 114688 0 ''amd64'',
     entry ''Standard_DS14-4_v2'' ''standardDSv2Family'' 16 114688 0 ''amd64'',
     entry ''Standard_DS14-8_v2'' ''standardDSv2Family'' 16 114688 0 ''amd64'',
     entry ''Standard_DS14_v2'' ''standardDSv2Family'' 16 114688 0 ''amd64'',
     entry ''Standard_DS14_v2_Promo'' ''standardDSv2PromoFamily'' 16 114688 0 ''amd64'']"

definition instanceTypes28 :: "(string, instanceType) gomap" where
  "instanceTypes28 =
    [entry ''Standard_DS15_v2'' ''standardDSv2Family'' 20 143360 0 ''amd64'',
     entry ''Standard_DS1_v2'' ''standardDSv2Family'' 1 3072 0 ''amd64'',
     entry ''Standard_DS2'' ''standardDSFamily'' 2 7168 0 ''amd64'',
     entry ''Standard_DS2_v2'' ''standardDSv2Family'' 2 7168 0 ''amd64'',
     entry ''Standard_DS2_v2_Promo'' ''standardDSv2PromoFamily'' 2 7168 0 ''amd64'',
     entry ''Standard_DS3'' ''standardDSFamily'' 4 14336 0 ''amd64'',
     entry ''Standard_DS3_v2'' ''standardDSv2Family'' 4 14336 0 ''amd64'',
     entry ''Standard_DS3_v2_Promo'' ''standardDSv2PromoFamily'' 4 14336 0 ''amd64'',
     entry ''Standard_DS4'' ''standardDSFamily'' 8 28672 0 ''amd64'',
     entry ''Standard_DS4_v2'' ''standardDSv2Family'' 8 28672 0 ''amd64'',
     entry ''Standard_DS4_v2_Promo'' ''standardDSv2PromoFamily'' 8 28672 0 ''amd64'',
     entry ''Standard_DS5_v2'' ''standardDSv2Family'' 16 57344 0 ''amd64'',
     entry ''Standard_DS5_v2_Promo'' ''standardDSv2PromoFamily'' 16 57344 0 ''amd64'',
     entry ''Standard_E104i_v5'' ''standardEIv5Family'' 104 688128 0 ''amd64'',
     entry ''Standard_E104id_v5'' ''standardEIDv5Family'' 104 688128 0 ''amd64'',
     entry ''Standard_E104ids_v5'' ''standardEIDSv5Family'' 104 688128 0 ''amd64'',
     entry ''Standard_E104is_v5'' ''standardEISv5Family'' 104 688128 0 ''amd64'',
     entry ''Standard_E112iads_v5'' ''standardEIADSv5Family'' 112 688128 0 ''amd64'']"

definition instanceTypes29 :: "(string, instanceType) gomap" where
  "instanceTypes29 =
    [entry ''Standard_E112ias_v5'' ''standardEIASv5Family'' 112 688128 0 ''amd64'',
     entry ''Standard_E112ibds_v5'' ''standardEIBDSv5Family'' 112 688128 0 ''amd64'',
     entry ''Standard_E112ibs_v5'' ''standardEIBSv5Family'' 112 688128 0 ''amd64'',
     entry ''Standard_E128-32ads_v7'' ''StandardEadsv7Family'' 128 1048576 0 ''amd64'',
     entry ''Standard_E128-32as_v7'' ''StandardEasv7Family'' 128 1048576 0 ''amd64'',
     entry ''Standard_E128-32ds_v6'' ''StandardEdsv6Family'' 128 1048576 0 ''amd64'',
     entry ''Standard_E128-32s_v6'' ''StandardEsv6Family'' 128 1048576 0 ''amd64'',
     entry ''Standard_E128-64ads_v7'' ''StandardEadsv7Family'' 128 1048576 0 ''amd64'',
     entry ''Standard_E128-64as_v7'' ''StandardEasv7Family'' 128 1048576 0 ''amd64'',
     entry ''Standard_E128-64ds_v6'' ''StandardEdsv6Family'' 128 1048576 0 ''amd64'',
     entry ''Standard_E128-64s_v6'' ''StandardEsv6Family'' 128 1048576 0 ''amd64'',
     entry ''Standard_E128ads_v7'' ''StandardEadsv7Family'' 128 1048576 0 ''amd64'',
     entry ''Standard_E128as_v7'' ''StandardEasv7Family'' 128 1048576 0 ''amd64'',
     entry ''Standard_E128ds_v6'' ''StandardEdsv6Family'' 128 1048576 0 ''amd64'',
     entry ''Standard_E128s_v6'' ''StandardEsv6Family'' 128 1048576 0 ''amd64'',
     entry ''Standard_E16-4ads_v5'' ''standardEADSv5Family'' 16 131072 0 ''amd64'',
     entry ''Standard_E16-4ads_v7'' ''StandardEadsv7Family'' 16 131072 0 ''amd64'',
     entry ''Standard_E16-4as_v4'' ''standardEASv4Family'' 16 131072 0 ''amd64'']"

definition instanceTypes30 :: "(string, instanceType) gomap" where
  "instanceTypes30 =
    [entry ''Standard_E16-4as_v5'' ''standardEASv5Family'' 16 131072 0 ''amd64'',
     entry ''Standard_E16-4as_v7'' ''StandardEasv7Family'' 16 131072 0 ''amd64'',
     entry ''Standard_E16-4ds_v4'' ''standardEDSv4Family'' 16 131072 0 ''amd64'',
     entry ''Standard_E16-4ds_v5'' ''standardEDSv5Family'' 16 131072 0 ''amd64'',
     entry ''Standard_E16-4ds_v6'' ''StandardEdsv6Family'' 16 131072 0 ''amd64'',
     entry ''Standard_E16-4s_v3'' ''standardESv3Family'' 16 131072 0 ''amd64'',
     entry ''Standard_E16-4s_v4'' ''standardESv4Family'' 16 131072 0 ''amd64'',
     entry ''Standard_E16-4s_v5'' ''standardESv5Family'' 16 131072 0 ''amd64'',
     entry ''Standard_E16-4s_v6'' ''StandardEsv6Family'' 16 131072 0 ''amd64'',
     entry ''Standard_E16-8ads_v5'' ''standardEADSv5Family'' 16 131072 0 ''amd64'',
     entry ''Standard_E16-8ads_v7'' ''StandardEadsv7Family'' 16 131072 0 ''amd64'',
     entry ''Standard_E16-8as_v4'' ''standardEASv4Family'' 16 131072 0 ''amd64'',
     entry ''Standard_E16-8as_v5'' ''standardEASv5Family'' 16 131072 0 ''amd64'',
     entry ''Standard_E16-8as_v7'' ''StandardEasv7Family'' 16 131072 0 ''amd64'',
     entry ''Standard_E16-8ds_v4'' ''standardEDSv4Family'' 16 131072 0 ''amd64'',
     entry ''Standard_E16-8ds_v5'' ''standardEDSv5Family'' 16 131072 0 ''amd64'',
     entry ''Standard_E16-8ds_v6'' ''StandardEdsv6Family'' 16 131072 0 ''amd64'',
     entry ''Standard_E16-8s_v3'' ''standardESv3Family'' 16 131072 0 ''amd64'']"

definition instanceTypes31 :: "(string, instanceType) gomap" where
  "instanceTypes31 =
    [entry ''Standard_E16-8s_v4'' ''standardESv4Family'' 16 131072 0 ''amd64'',
     entry ''Standard_E16-8s_v5'' ''standardESv5Family'' 16 131072 0 ''amd64'',
     entry ''Standard_E16-8s_v6'' ''StandardEsv6Family'' 16 131072 0 ''amd64'',
     entry ''Standard_E160ads_v7'' ''StandardEadsv7Family'' 160 1310720 0 ''amd64'',
     entry ''Standard_E160as_v7'' ''StandardEasv7Family'' 160 1310720 0 ''amd64'',
     entry ''Standard_E16_v3'' ''standardEv3Family'' 16 131072 0 ''amd64'',
     entry ''Standard_E16_v4'' ''standardEv4Family'' 16 131072 0 ''amd64'',
     entry ''Standard_E16_v5'' ''standardEv5Family'' 16 131072 0 ''amd64'',
     entry ''Standard_E16a_v4'' ''standardEAv4Family'' 16 131072 0 ''amd64'',
     entry ''Standard_E16ads_v5'' ''standardEADSv5Family'' 16 131072 0 ''amd64'',
     entry ''Standard_E16ads_v6'' ''standardEadv6Family'' 16 131072 0 ''amd64'',
     entry ''Standard_E16ads_v7'' ''StandardEadsv7Family'' 16 131072 0 ''amd64'',
     entry ''Standard_E16as_v4'' ''standardEASv4Family'' 16 131072 0 ''amd64'',
     entry ''Standard_E16as_v5'' ''standardEASv5Family'' 16 131072 0 ''amd64'',
     entry ''Standard_E16as_v6'' ''standardEav6Family'' 16 131072 0 ''amd64'',
     entry ''Standard_E16as_v7'' ''StandardEasv7Family'' 16 131072 0 ''amd64'',
     entry ''Standard_E16bds_v5'' ''standardEBDSv5Family'' 16 131072 0 ''amd64'',
     entry ''Standard_E16bs_v5'' ''standardEBSv5Family'' 16 131072 0 ''amd64'']"

definition instanceTypes32 :: "(string, instanceType) gomap" where
  "instanceTypes32 =
    [entry ''Standard_E16d_v4'' ''standardEDv4Family'' 16 131072 0 ''amd64'',
     entry ''Standard_E16d_v5'' ''standardEDv5Family'' 16 131072 0 ''amd64'',
     entry ''Standard_E16ds_v4'' ''standardEDSv4Family'' 16 131072 0 ''amd64'',
     entry ''Standard_E16ds_v5'' ''standardEDSv5Family'' 16 131072 0 ''amd64'',
     entry ''Standard_E16ds_v6'' ''StandardEdsv6Family'' 16 131072 0 ''amd64'',
     entry ''Standard_E16pds_v5'' ''standardEPDSv5Family'' 16 131072 0 ''arm64'',
     entry ''Standard_E16pds_v6'' ''StandardEpdsv6Family'' 16 131072 0 ''arm64'',
     entry ''Standard_E16ps_v5'' ''standardEPSv5Family'' 16 131072 0 ''arm64'',
     entry ''Standard_E16ps_v6'' ''StandardEpsv6Family'' 16 131072 0 ''arm64'',
     entry ''Standard_E16s_v3'' ''standardESv3Family'' 16 131072 0 ''amd64'',
     entry ''Standard_E16s_v4'' ''standardESv4Family'' 16 131072 0 ''amd64'',
     entry ''Standard_E16s_v5'' ''standardESv5Family'' 16 131072 0 ''amd64'',
     entry ''Standard_E16s_v6'' ''StandardEsv6Family'' 16 131072 0 ''amd64'',
     entry ''Standard_E192ids_v6'' ''StandardEdsv6Family'' 192 1875968 0 ''amd64'',
     entry ''Standard_E192is_v6'' ''StandardEsv6Family'' 192 1875968 0 ''amd64'',
     entry ''Standard_E20_v3'' ''standardEv3Family'' 20 163840 0 ''amd64'',
     entry ''Standard_E20_v4'' ''standardEv4Family'' 20 163840 0 ''amd64'',
     entry ''Standard_E20_v5'' ''standardEv5Family'' 20 163840 0 ''amd64'']"

definition instanceTypes33 :: "(string, instanceType) gomap" where
  "instanceTypes33 =
    [entry ''Standard_E20a_v4'' ''standardEAv4Family'' 20 163840 0 ''amd64'',
     entry ''Standard_E20ads_v5'' ''standardEADSv5Family'' 20 163840 0 ''amd64'',
     entry ''Standard_E20ads_v6'' ''standardEadv6Family'' 20 163840 0 ''amd64'',
     entry ''Standard_E20as_v4'' ''standardEASv4Family'' 20 163840 0 ''amd64'',
     entry ''Standard_E20as_v5'' ''standardEASv5Family'' 20 163840 0 ''amd64'',
     entry ''Standard_E20as_v6'' ''standardEav6Family'' 20 163840 0 ''amd64'',
     entry ''Standard_E20d_v4'' ''standardEDv4Family'' 20 163840 0 ''amd64'',
     entry ''Standard_E20d_v5'' ''standardEDv5Family'' 20 163840 0 ''amd64'',
     entry ''Standard_E20ds_v4'' ''standardEDSv4Family'' 20 163840 0 ''amd64'',
     entry ''Standard_E20ds_v5'' ''standardEDSv5Family'' 20 163840 0 ''amd64'',
     entry ''Standard_E20ds_v6'' ''StandardEdsv6Family'' 20 163840 0 ''amd64'',
     entry ''Standard_E20pds_v5'' ''standardEPDSv5Family'' 20 163840 0 ''arm64'',
     entry ''Standard_E20ps_v5'' ''standardEPSv5Family'' 20 163840 0 ''arm64'',
     entry ''Standard_E20s_v3'' ''standardESv3Family'' 20 163840 0 ''amd64'',
     entry ''Standard_E20s_v4'' ''standardESv4Family'' 20 163840 0 ''amd64'',
     entry ''Standard_E20s_v5'' ''standardESv5Family'' 20 163840 0 ''amd64'',
     entry ''Standard_E20s_v6'' ''StandardEsv6Family'' 20 163840 0 ''amd64'',
     entry ''Standard_E2_v3'' ''standardEv3Family'' 2 16384 0 ''amd64'']"

definition instanceTypes34 :: "(string, instanceType) gomap" where
  "instanceTypes34 =
    [entry ''Standard_E2_v4'' ''standardEv4Family'' 2 16384 0 ''amd64'',
     entry ''Standard_E2_v5'' ''standardEv5Family'' 2 16384 0 ''amd64'',
     entry ''Standard_E2a_v4'' ''standardEAv4Family'' 2 16384 0 ''amd64'',
     entry ''Standard_E2ads_v5'' ''standardEADSv5Family'' 2 16384 0 ''amd64'',
     entry ''Standard_E2ads_v6'' ''standardEadv6Family'' 2 16384 0 ''amd64'',
     entry ''Standard_E2ads_v7'' ''StandardEadsv7Family'' 2 16384 0 ''amd64'',
     entry ''Standard_E2as_v4'' ''standardEASv4Family'' 2 16384 0 ''amd64'',
     entry ''Standard_E2as_v5'' ''standardEASv5Family'' 2 16384 0 ''amd64'',
     entry ''Standard_E2as_v6'' ''standardEav6Family'' 2 16384 0 ''amd64'',
     entry ''Standard_E2as_v7'' ''StandardEasv7Family'' 2 16384 0 ''amd64'',
     entry ''Standard_E2bds_v5'' ''standardEBDSv5Family'' 2 16384 0 ''amd64'',
     entry ''Standard_E2bs_v5'' ''standardEBSv5Family'' 2 16384 0 ''amd64'',
     entry ''Standard_E2d_v4'' ''standardEDv4Family'' 2 16384 0 ''amd64'',
     entry ''Standard_E2d_v5'' ''standardEDv5Family'' 2 16384 0 ''amd64'',
     entry ''Standard_E2ds_v4'' ''standardEDSv4Family'' 2 16384 0 ''amd64'',
     entry ''Standard_E2ds_v5'' ''standardEDSv5Family'' 2 16384 0 ''amd64'',
     entry ''Standard_E2ds_v6'' ''StandardEdsv6Family'' 2 16384 0 ''amd64'',
     entry ''Standard_E2pds_v5'' ''standardEPDSv5Family'' 2 16384 0 ''arm64'']"

definition instanceTypes35 :: "(string, instanceType) gomap" where
  "instanceTypes35 =
    [entry ''Standard_E2pds_v6'' ''StandardEpdsv6Family'' 2 16384 0 ''arm64'',
     entry ''Standard_E2ps_v5'' ''standardEPSv5Family'' 2 16384 0 ''arm64'',
     entry ''Standard_E2ps_v6'' ''StandardEpsv6Family'' 2 16384 0 ''arm64'',
     entry ''Standard_E2s_v3'' ''standardESv3Family'' 2 16384 0 ''amd64'',
     entry ''Standard_E2s_v4'' ''standardESv4Family'' 2 16384 0 ''amd64'',
     entry ''Standard_E2s_v5'' ''standardESv5Family'' 2 16384 0 ''amd64'',
     entry ''Standard_E2s_v6'' ''StandardEsv6Family'' 2 16384 0 ''amd64'',
     entry ''Standard_E32-16ads_v5'' ''standardEADSv5Family'' 32 262144 0 ''amd64'',
     entry ''Standard_E32-16ads_v7'' ''StandardEadsv7Family'' 32 262144 0 ''amd64'',
     entry ''Standard_E32-16as_v4'' ''standardEASv4Family'' 32 262144 0 ''amd64'',
     entry ''Standard_E32-16as_v5'' ''standardEASv5Family'' 32 262144 0 ''amd64'',
     entry ''Standard_E32-16as_v7'' ''StandardEasv7Family'' 32 262144 0 ''amd64'',
     entry ''Standard_E32-16ds_v4'' ''standardEDSv4Family'' 32 262144 0 ''amd64'',
     entry ''Standard_E32-16ds_v5'' ''standardEDSv5Family'' 32 262144 0 ''amd64'',
     entry ''Standard_E32-16ds_v6'' ''StandardEdsv6Family'' 32 262144 0 ''amd64'',
     entry ''Standard_E32-16s_v3'' ''standardESv3Family'' 32 262144 0 ''amd64'',
     entry ''Standard_E32-16s_v4'' ''standardESv4Family'' 32 262144 0 ''amd64'',
     entry ''Standard_E32-16s_v5'' ''standardESv5Family'' 32 262144 0 ''amd64'']"

definition instanceTypes36 :: "(string, instanceType) gomap" where
  "instanceTypes36 =
    [entry ''Standard_E32-16s_v6'' ''StandardEsv6Family'' 32 262144 0 ''amd64'',
     entry ''Standard_E32-8ads_v5'' ''standardEADSv5Family'' 32 262144 0 ''amd64'',
     entry ''Standard_E32-8ads_v7'' ''StandardEadsv7Family'' 32 262144 0 ''amd64'',
     entry ''Standard_E32-8as_v4'' ''standardEASv4Family'' 32 262144 0 ''amd64'',
     entry ''Standard_E32-8as_v5'' ''standardEASv5Family'' 32 262144 0 ''amd64'',
     entry ''Standard_E32-8as_v7'' ''StandardEasv7Family'' 32 262144 0 ''amd64'',
     entry ''Standard_E32-8ds_v4'' ''standardEDSv4Family'' 32 262144 0 ''amd64'',
     entry ''Standard_E32-8ds_v5'' ''standardEDSv5Family'' 32 262144 0 ''amd64'',
     entry ''Standard_E32-8ds_v6'' ''StandardEdsv6Family'' 32 262144 0 ''amd64'',
     entry ''Standard_E32-8s_v3'' ''standardESv3Family'' 32 262144 0 ''amd64'',
     entry ''Standard_E32-8s_v4'' ''standardESv4Family'' 32 262144 0 ''amd64'',
     entry ''Standard_E32-8s_v5'' ''standardESv5Family'' 32 262144 0 ''amd64'',
     entry ''Standard_E32-8s_v6'' ''StandardEsv6Family'' 32 262144 0 ''amd64'',
     entry ''Standard_E32_v3'' ''standardEv3Family'' 32 262144 0 ''amd64'',
     entry ''Standard_E32_v4'' ''standardEv4Family'' 32 262144 0 ''amd64'',
     entry ''Standard_E32_v5'' ''standardEv5Family'' 32 262144 0 ''amd64'',
     entry ''Standard_E32a_v4'' ''standardEAv4Family'' 32 262144 0 ''amd64'',
     entry ''Standard_E32ads_v5'' ''standardEADSv5Family'' 32 262144 0 ''amd64'']"

definition instanceTypes37 :: "(string, instanceType) gomap" where
  "instanceTypes37 =
    [entry ''Standard_E32ads_v6'' ''standardEadv6Family'' 32 262144 0 ''amd64'',
     entry ''Standard_E32ads_v7'' ''StandardEadsv7Family'' 32 262144 0 ''amd64'',
     entry ''Standard_E32as_v4'' ''standardEASv4Family'' 32 262144 0 ''amd64'',
     entry ''Standard_E32as_v5'' ''standardEASv5Family'' 32 262144 0 ''amd64'',
     entry ''Standard_E32as_v6'' ''standardEav6Family'' 32 262144 0 ''amd64'',
     entry ''Standard_E32as_v7'' ''StandardEasv7Family'' 32 262144 0 ''amd64'',
     entry ''Standard_E32bds_v5'' ''standardEBDSv5Family'' 32 262144 0 ''amd64'',
     entry ''Standard_E32bs_v5'' ''standardEBSv5Family'' 32 262144 0 ''amd64'',
     entry ''Standard_E32d_v4'' ''standardEDv4Family'' 32 262144 0 ''amd64'',
     entry ''Standard_E32d_v5'' ''standardEDv5Family'' 32 262144 0 ''amd64'',
     entry ''Standard_E32ds_v4'' ''standardEDSv4Family'' 32 262144 0 ''amd64'',
     entry ''Standard_E32ds_v5'' ''standardEDSv5Family'' 32 262144 0 ''amd64'',
     entry ''Standard_E32ds_v6'' ''StandardEdsv6Family'' 32 262144 0 ''amd64'',
     entry ''Standard_E32pds_v5'' ''standardEPDSv5Family'' 32 212992 0 ''arm64'',
     entry ''Standard_E32pds_v6'' ''StandardEpdsv6Family'' 32 262144 0 ''arm64'',
     entry ''Standard_E32ps_v5'' ''standardEPSv5Family'' 32 212992 0 ''arm64'',
     entry ''Standard_E32ps_v6'' ''StandardEpsv6Family'' 32 262144 0 ''arm64'',
     entry ''Standard_E32s_v3'' ''standardESv3Family'' 32 262144 0 ''amd64'']"

definition instanceTypes38 :: "(string, instanceType) gomap" where
  "instanceTypes38 =
    [entry ''Standard_E32s_v4'' ''standardESv4Family'' 32 262144 0 ''amd64'',
     entry ''Standard_E32s_v5'' ''standardESv5Family'' 32 262144 0 ''amd64'',
     entry ''Standard_E32s_v6'' ''StandardEsv6Family'' 32 262144 0 ''amd64'',
     entry ''Standard_E4-2ads_v5'' ''standardEADSv5Family'' 4 32768 0 ''amd64'',
     entry ''Standard_E4-2ads_v7'' ''StandardEadsv7Family'' 4 32768 0 ''amd64'',
     entry ''Standard_E4-2as_v4'' ''standardEASv4Family'' 4 32768 0 ''amd64'',
     entry ''Standard_E4-2as_v5'' ''standardEASv5Family'' 4 32768 0 ''amd64'',
     entry ''Standard_E4-2as_v7'' ''StandardEasv7Family'' 4 32768 0 ''amd64'',
     entry ''Standard_E4-2ds_v4'' ''standardEDSv4Family'' 4 32768 0 ''amd64'',
     entry ''Standard_E4-2ds_v5'' ''standardEDSv5Family'' 4 32768 0 ''amd64'',
     entry ''Standard_E4-2ds_v6'' ''StandardEdsv6Family'' 4 32768 0 ''amd64'',
     entry ''Standard_E4-2s_v3'' ''standardESv3Family'' 4 32768 0 ''amd64'',
     entry ''Standard_E4-2s_v4'' ''standardESv4Family'' 4 32768 0 ''amd64'',
     entry ''Standard_E4-2s_v5'' ''standardESv5Family'' 4 32768 0 ''amd64'',
     entry ''Standard_E4-2s_v6'' ''StandardEsv6Family'' 4 32768 0 ''amd64'',
     entry ''Standard_E48_v3'' ''standardEv3Family'' 48 393216 0 ''amd64'',
     entry ''Standard_E48_v4'' ''standardEv4Family'' 48 393216 0 ''amd64'',
     entry ''Standard_E48_v5'' ''standardEv5Family'' 48 393216 0 ''amd64'']"

definition instanceTypes39 :: "(string, instanceType) gomap" where
  "instanceTypes39 =
    [entry ''Standard_E48a_v4'' ''standardEAv4Family'' 48 393216 0 ''amd64'',
     entry ''Standard_E48ads_v5'' ''standardEADSv5Family'' 48 393216 0 ''amd64'',
     entry ''Standard_E48ads_v6'' ''standardEadv6Family'' 48 393216 0 ''amd64'',
     entry ''Standard_E48ads_v7'' ''StandardEadsv7Family'' 48 393216 0 ''amd64'',
     entry ''Standard_E48as_v4'' ''standardEASv4Family'' 48 393216 0 ''amd64'',
     entry ''Standard_E48as_v5'' ''standardEASv5Family'' 48 393216 0 ''amd64'',
     entry ''Standard_E48as_v6'' ''standardEav6Family'' 48 393216 0 ''amd64'',
     entry ''Standard_E48as_v7'' ''StandardEasv7Family'' 48 393216 0 ''amd64'',
     entry ''Standard_E48bds_v5'' ''standardEBDSv5Family'' 48 393216 0 ''amd64'',
     entry ''Standard_E48bs_v5'' ''standardEBSv5Family'' 48 393216 0 ''amd64'',
     entry ''Standard_E48d_v4'' ''standardEDv4Family'' 48 393216 0 ''amd64'',
     entry ''Standard_E48d_v5'' ''standardEDv5Family'' 48 393216 0 ''amd64'',
     entry ''Standard_E48ds_v4'' ''standardEDSv4Family'' 48 393216 0 ''amd64'',
     entry ''Standard_E48ds_v5'' ''standardEDSv5Family'' 48 393216 0 ''amd64'',
     entry ''Standard_E48ds_v6'' ''StandardEdsv6Family'' 48 393216 0 ''amd64'',
     entry ''Standard_E48pds_v6'' ''StandardEpdsv6Family'' 48 393216 0 ''arm64'',
     entry ''Standard_E48ps_v6'' ''StandardEpsv6Family'' 48 393216 0 ''arm64'',
     entry ''Standard_E48s_v3'' ''standardESv3Family'' 48 393216 0 ''amd64'']"

definition instanceTypes40 :: "(string, instanceType) gomap" where
  "instanceTypes40 =
    [entry ''Standard_E48s_v4'' ''standardESv4Family'' 48 393216 0 ''amd64'',
     entry ''Standard_E48s_v5'' ''standardESv5Family'' 48 393216 0 ''amd64'',
     entry ''Standard_E48s_v6'' ''StandardEsv6Family'' 48 393216 0 ''amd64'',
     entry ''Standard_E4_v3'' ''standardEv3Family'' 4 32768 0 ''amd64'',
     entry ''Standard_E4_v4'' ''standardEv4Family'' 4 32768 0 ''amd64'',
     entry ''Standard_E4_v5'' ''standardEv5Family'' 4 32768 0 ''amd64'',
     entry ''Standard_E4a_v4'' ''standardEAv4Family'' 4 32768 0 ''amd64'',
     entry ''Standard_E4ads_v5'' ''standardEADSv5Family'' 4 32768 0 ''amd64'',
     entry ''Standard_E4ads_v6'' ''standardEadv6Family'' 4 32768 0 ''amd64'',
     entry ''Standard_E4ads_v7'' ''StandardEadsv7Family'' 4 32768 0 ''amd64'',
     entry ''Standard_E4as_v4'' ''standardEASv4Family'' 4 32768 0 ''amd64'',
     entry ''Standard_E4as_v5'' ''standardEASv5Family'' 4 32768 0 ''amd64'',
     entry ''Standard_E4as_v6'' ''standardEav6Family'' 4 32768 0 ''amd64'',
     entry ''Standard_E4as_v7'' ''StandardEasv7Family'' 4 32768 0 ''amd64'',
     entry ''Standard_E4bds_v5'' ''standardEBDSv5Family'' 4 32768 0 ''amd64'',
     entry ''Standard_E4bs_v5'' ''standardEBSv5Family'' 4 32768 0 ''amd64'',
     entry ''Standard_E4d_v4'' ''standardEDv4Family'' 4 32768 0 ''amd64'',
     entry ''Standard_E4d_v5'' ''standardEDv5Family'' 4 32768 0 ''amd64'']"

definition instanceTypes41 :: "(string, instanceType) gomap" where
  "instanceTypes41 =
    [entry ''Standard_E4ds_v4'' ''standardEDSv4Family'' 4 32768 0 ''amd64'',
     entry ''Standard_E4ds_v5'' ''standardEDSv5Family'' 4 32768 0 ''amd64'',
     entry ''Standard_E4ds_v6'' ''StandardEdsv6Family'' 4 32768 0 ''amd64'',
     entry ''Standard_E4pds_v5'' ''standardEPDSv5Family'' 4 32768 0 ''arm64'',
     entry ''Standard_E4pds_v6'' ''StandardEpdsv6Family'' 4 32768 0 ''arm64'',
     entry ''Standard_E4ps_v5'' ''standardEPSv5Family'' 4 32768 0 ''arm64'',
     entry ''Standard_E4ps_v6'' ''StandardEpsv6Family'' 4 32768 0 ''arm64'',
     entry ''Standard_E4s_v3'' ''standardESv3Family'' 4 32768 0 ''amd64'',
     entry ''Standard_E4s_v4'' ''standardESv4Family'' 4 32768 0 ''amd64'',
     entry ''Standard_E4s_v5'' ''standardESv5Family'' 4 32768 0 ''amd64'',
     entry ''Standard_E4s_v6'' ''StandardEsv6Family'' 4 32768 0 ''amd64'',
     entry ''Standard_E64-16ads_v5'' ''standardEADSv5Family'' 64 524288 0 ''amd64'',
     entry ''Standard_E64-16ads_v7'' ''StandardEadsv7Family'' 64 524288 0 ''amd64'',
     entry ''Standard_E64-16as_v4'' ''standardEASv4Family'' 64 524288 0 ''amd64'',
     entry ''Standard_E64-16as_v5'' ''standardEASv5Family'' 64 524288 0 ''amd64'',
     entry ''Standard_E64-16as_v7'' ''StandardEasv7Family'' 64 524288 0 ''amd64'',
     entry ''Standard_E64-16ds_v4'' ''standardEDSv4Family'' 64 516096 0 ''amd64'',
     entry ''Standard_E64-16ds_v5'' ''standardEDSv5Family'' 64 524288 0 ''amd64'']"

definition instanceTypes42 :: "(string, instanceType) gomap" where
  "instanceTypes42 =
    [entry ''Standard_E64-16ds_v6'' ''StandardEdsv6Family'' 64 524288 0 ''amd64'',
     entry ''Standard_E64-16s_v3'' ''standardESv3Family'' 64 442368 0 ''amd64'',
     entry ''Standard_E64-16s_v4'' ''standardESv4Family'' 64 516096 0 ''amd64'',
     entry ''Standard_E64-16s_v5'' ''standardESv5Family'' 64 524288 0 ''amd64'',
     entry ''Standard_E64-16s_v6'' ''StandardEsv6Family'' 64 524288 0 ''amd64'',
     entry ''Standard_E64-32ads_v5'' ''standardEADSv5Family'' 64 524288 0 ''amd64'',
     entry ''Standard_E64-32ads_v7'' ''StandardEadsv7Family'' 64 524288 0 ''amd64'',
     entry ''Standard_E64-32as_v4'' ''standardEASv4Family'' 64 524288 0 ''amd64'',
     entry ''Standard_E64-32as_v5'' ''standardEASv5Family'' 64 524288 0 ''amd64'',
     entry ''Standard_E64-32as_v7'' ''StandardEasv7Family'' 64 524288 0 ''amd64'',
     entry ''Standard_E64-32ds_v4'' ''standardEDSv4Family'' 64 516096 0 ''amd64'',
     entry ''Standard_E64-32ds_v5'' ''standardEDSv5Family'' 64 524288 0 ''amd64'',
     entry ''Standard_E64-32ds_v6'' ''StandardEdsv6Family'' 64 524288 0 ''amd64'',
     entry ''Standard_E64-32s_v3'' ''standardESv3Family'' 64 442368 0 ''amd64'',
     entry ''Standard_E64-32s_v4'' ''standardESv4Family'' 64 516096 0 ''amd64'',
     entry ''Standard_E64-32s_v5'' ''standardESv5Family'' 64 524288 0 ''amd64'',
     entry ''Standard_E64-32s_v6'' ''StandardEsv6Family'' 64 524288 0 ''amd64'',
     entry ''Standard_E64_v3'' ''standardEv3Family'' 64 442368 0 ''amd64'']"

definition instanceTypes43 :: "(string, instanceType) gomap" where
  "instanceTypes43 =
    [entry ''Standard_E64_v4'' ''standardEv4Family'' 64 516096 0 ''amd64'',
     entry ''Standard_E64_v5'' ''standardEv5Family'' 64 524288 0 ''amd64'',
     entry ''Standard_E64a_v4'' ''standardEAv4Family'' 64 524288 0 ''amd64'',
     entry ''Standard_E64ads_v5'' ''standardEADSv5Family'' 64 524288 0 ''amd64'',
     entry ''Standard_E64ads_v6'' ''standardEadv6Family'' 64 524288 0 ''amd64'',
     entry ''Standard_E64ads_v7'' ''StandardEadsv7Family'' 64 524288 0 ''amd64'',
     entry ''Standard_E64as_v4'' ''standardEASv4Family'' 64 524288 0 ''amd64'',
     entry ''Standard_E64as_v5'' ''standardEASv5Family'' 64 524288 0 ''amd64'',
     entry ''Standard_E64as_v6'' ''standardEav6Family'' 64 524288 0 ''amd64'',
     entry ''Standard_E64as_v7'' ''StandardEasv7Family'' 64 524288 0 ''amd64'',
     entry ''Standard_E64bds_v5'' ''standardEBDSv5Family'' 64 524288 0 ''amd64'',
     entry ''Standard_E64bs_v5'' ''standardEBSv5Family'' 64 524288 0 ''amd64'',
     entry ''Standard_E64d_v4'' ''standardEDv4Family'' 64 516096 0 ''amd64'',
     entry ''Standard_E64d_v5'' ''standardEDv5Family'' 64 524288 0 ''amd64'',
     entry ''Standard_E64ds_v4'' ''standardEDSv4Family'' 64 516096 0 ''amd64'',
     entry ''Standard_E64ds_v5'' ''standardEDSv5Family'' 64 524288 0 ''amd64'',
     entry ''Standard_E64ds_v6'' ''StandardEdsv6Family'' 64 524288 0 ''amd64'',
     entry ''Standard_E64i_v3'' ''standardEIv3Family'' 64 442368 0 ''amd64'']"

definition instanceTypes44 :: "(string, instanceType) gomap" where
  "instanceTypes44 =
    [entry ''Standard_E64is_v3'' ''standardEISv3Family'' 64 442368 0 ''amd64'',
     entry ''Standard_E64pds_v6'' ''StandardEpdsv6Family'' 64 524288 0 ''arm64'',
     entry ''Standard_E64ps_v6'' ''StandardEpsv6Family'' 64 524288 0 ''arm64'',
     entry ''Standard_E64s_v3'' ''standardESv3Family'' 64 442368 0 ''amd64'',
     entry ''Standard_E64s_v4'' ''standardESv4Family'' 64 516096 0 ''amd64'',
     entry ''Standard_E64s_v5'' ''standardESv5Family'' 64 524288 0 ''amd64'',
     entry ''Standard_E64s_v6'' ''StandardEsv6Family'' 64 524288 0 ''amd64'',
     entry ''Standard_E8-2ads_v5'' ''standardEADSv5Family'' 8 65536 0 ''amd64'',
     entry ''Standard_E8-2ads_v7'' ''StandardEadsv7Family'' 8 65536 0 ''amd64'',
     entry ''Standard_E8-2as_v4'' ''standardEASv4Family'' 8 65536 0 ''amd64'',
     entry ''Standard_E8-2as_v5'' ''standardEASv5Family'' 8 65536 0 ''amd64'',
     entry ''Standard_E8-2as_v7'' ''StandardEasv7Family'' 8 65536 0 ''amd64'',
     entry ''Standard_E8-2ds_v4'' ''standardEDSv4Family'' 8 65536 0 ''amd64'',
     entry ''Standard_E8-2ds_v5'' ''standardEDSv5Family'' 8 65536 0 ''amd64'',
     entry ''Standard_E8-2ds_v6'' ''StandardEdsv6Family'' 8 65536 0 ''amd64'',
     entry ''Standard_E8-2s_v3'' ''standardESv3Family'' 8 65536 0 ''amd64'',
     entry ''Standard_E8-2s_v4'' ''standardESv4Family'' 8 65536 0 ''amd64'',
     entry ''Standard_E8-2s_v5'' ''standardESv5Family'' 8 65536 0 ''amd64'']"

definition instanceTypes45 :: "(string, instanceType) gomap" where
  "instanceTypes45 =
    [entry ''Standard_E8-2s_v6'' ''StandardEsv6Family'' 8 65536 0 ''amd64'',
     entry ''Standard_E8-4ads_v5'' ''standardEADSv5Family'' 8 65536 0 ''amd64'',
     entry ''Standard_E8-4ads_v7'' ''StandardEadsv7Family'' 8 65536 0 ''amd64'',
     entry ''Standard_E8-4as_v4'' ''standardEASv4Family'' 8 65536 0 ''amd64'',
     entry ''Standard_E8-4as_v5'' ''standardEASv5Family'' 8 65536 0 ''amd64'',
     entry ''Standard_E8-4as_v7'' ''StandardEasv7Family'' 8 65536 0 ''amd64'',
     entry ''Standard_E8-4ds_v4'' ''standardEDSv4Family'' 8 65536 0 ''amd64'',
     entry ''Standard_E8-4ds_v5'' ''standardEDSv5Family'' 8 65536 0 ''amd64'',
     entry ''Standard_E8-4ds_v6'' ''StandardEdsv6Family'' 8 65536 0 ''amd64'',
     entry ''Standard_E8-4s_v3'' ''standardESv3Family'' 8 65536 0 ''amd64'',
     entry ''Standard_E8-4s_v4'' ''standardESv4Family'' 8 65536 0 ''amd64'',
     entry ''Standard_E8-4s_v5'' ''standardESv5Family'' 8 65536 0 ''amd64'',
     entry ''Standard_E8-4s_v6'' ''StandardEsv6Family'' 8 65536 0 ''amd64'',
     entry ''Standard_E80ids_v4'' ''standardXEIDSv4Family'' 80 516096 0 ''amd64'',
     entry ''Standard_E80is_v4'' ''standardXEISv4Family'' 80 516096 0 ''amd64'',
     entry ''Standard_E8_v3'' ''standardEv3Family'' 8 65536 0 ''amd64'',
     entry ''Standard_E8_v4'' ''standardEv4Family'' 8 65536 0 ''amd64'',
     entry ''Standard_E8_v5'' ''standardEv5Family'' 8 65536 0 ''amd64'']"

definition instanceTypes46 :: "(string, instanceType) gomap" where
  "instanceTypes46 =
    [entry ''Standard_E8a_v4'' ''standardEAv4Family'' 8 65536 0 ''amd64'',
     entry ''Standard_E8ads_v5'' ''standardEADSv5Family'' 8 65536 0 ''amd64'',
     entry ''Standard_E8ads_v6'' ''standardEadv6Family'' 8 65536 0 ''amd64'',
     entry ''Standard_E8ads_v7'' ''StandardEadsv7Family'' 8 65536 0 ''amd64'',
     entry ''Standard_E8as_v4'' ''standardEASv4Family'' 8 65536 0 ''amd64'',
     entry ''Standard_E8as_v5'' ''standardEASv5Family'' 8 65536 0 ''amd64'',
     entry ''Standard_E8as_v6'' ''standardEav6Family'' 8 65536 0 ''amd64'',
     entry ''Standard_E8as_v7'' ''StandardEasv7Family'' 8 65536 0 ''amd64'',
     entry ''Standard_E8bds_v5'' ''standardEBDSv5Family'' 8 65536 0 ''amd64'',
     entry ''Standard_E8bs_v5'' ''standardEBSv5Family'' 8 65536 0 ''amd64'',
     entry ''Standard_E8d_v4'' ''standardEDv4Family'' 8 65536 0 ''amd64'',
     entry ''Standard_E8d_v5'' ''standardEDv5Family'' 8 65536 0 ''amd64'',
     entry ''Standard_E8ds_v4'' ''standardEDSv4Family'' 8 65536 0 ''amd64'',
     entry ''Standard_E8ds_v5'' ''standardEDSv5Family'' 8 65536 0 ''amd64'',
     entry ''Standard_E8ds_v6'' ''StandardEdsv6Family'' 8 65536 0 ''amd64'',
     entry ''Standard_E8pds_v5'' ''standardEPDSv5Family'' 8 65536 0 ''arm64'',
     entry ''Standard_E8pds_v6'' ''StandardEpdsv6Family'' 8 65536 0 ''arm64'',
     entry ''Standard_E8ps_v5'' ''standardEPSv5Family'' 8 65536 0 ''arm64'']"

definition instanceTypes47 :: "(string, instanceType) gomap" where
  "instanceTypes47 =
    [entry ''Standard_E8ps_v6'' ''StandardEpsv6Family'' 8 65536 0 ''arm64'',
     entry ''Standard_E8s_v3'' ''standardESv3Family'' 8 65536 0 ''amd64'',
     entry ''Standard_E8s_v4'' ''standardESv4Family'' 8 65536 0 ''amd64'',
     entry ''Standard_E8s_v5'' ''standardESv5Family'' 8 65536 0 ''amd64'',
     entry ''Standard_E8s_v6'' ''StandardEsv6Family'' 8 65536 0 ''amd64'',
     entry ''Standard_E96-24ads_v5'' ''standardEADSv5Family'' 96 688128 0 ''amd64'',
     entry ''Standard_E96-24ads_v6'' ''standardEadv6Family'' 96 688128 0 ''amd64'',
     entry ''Standard_E96-24ads_v7'' ''StandardEadsv7Family'' 96 786432 0 ''amd64'',
     entry ''Standard_E96-24as_v4'' ''standardEASv4Family'' 96 688128 0 ''amd64'',
     entry ''Standard_E96-24as_v5'' ''standardEASv5Family'' 96 688128 0 ''amd64'',
     entry ''Standard_E96-24as_v7'' ''StandardEasv7Family'' 96 786432 0 ''amd64'',
     entry ''Standard_E96-24ds_v5'' ''standardEDSv5Family'' 96 688128 0 ''amd64'',
     entry ''Standard_E96-24ds_v6'' ''StandardEdsv6Family'' 96 786432 0 ''amd64'',
     entry ''Standard_E96-24s_v5'' ''standardESv5Family'' 96 688128 0 ''amd64'',
     entry ''Standard_E96-24s_v6'' ''StandardEsv6Family'' 96 786432 0 ''amd64'',
     entry ''Standard_E96-48ads_v5'' ''standardEADSv5Family'' 96 688128 0 ''amd64'',
     entry ''Standard_E96-48ads_v6'' ''standardEadv6Family'' 96 688128 0 ''amd64'',
     entry ''Standard_E96-48ads_v7'' ''StandardEadsv7Family'' 96 786432 0 ''amd64'']"

definition instanceTypes48 :: "(string, instanceType) gomap" where
  "instanceTypes48 =
    [entry ''Standard_E96-48as_v4'' ''standardEASv4Family'' 96 688128 0 ''amd64'',
     entry ''Standard_E96-48as_v5'' ''standardEASv5Family'' 96 688128 0 ''amd64'',
     entry ''Standard_E96-48as_v7'' ''StandardEasv7Family'' 96 786432 0 ''amd64'',
     entry ''Standard_E96-48ds_v5'' ''standardEDSv5Family'' 96 688128 0 ''amd64'',
     entry ''Standard_E96-48ds_v6'' ''StandardEdsv6Family'' 96 786432 0 ''amd64'',
     entry ''Standard_E96-48s_v5'' ''standardESv5Family'' 96 688128 0 ''amd64'',
     entry ''Standard_E96-48s_v6'' ''StandardEsv6Family'' 96 786432 0 ''amd64'',
     entry ''Standard_E96_v5'' ''standardEv5Family'' 96 688128 0 ''amd64'',
     entry ''Standard_E96a_v4'' ''standardEAv4Family'' 96 688128 0 ''amd64'',
     entry ''Standard_E96ads_v5'' ''standardEADSv5Family'' 96 688128 0 ''amd64'',
     entry ''Standard_E96ads_v6'' ''standardEadv6Family'' 96 688128 0 ''amd64'',
     entry ''Standard_E96ads_v7'' ''StandardEadsv7Family'' 96 786432 0 ''amd64'',
     entry ''Standard_E96as_v4'' ''standardEASv4Family'' 96 688128 0 ''amd64'',
     entry ''Standard_E96as_v5'' ''standardEASv5Family'' 96 688128 0 ''amd64'',
     entry ''Standard_E96as_v6'' ''standardEav6Family'' 96 688128 0 ''amd64'',
     entry ''Standard_E96as_v7'' ''StandardEasv7Family'' 96 786432 0 ''amd64'',
     entry ''Standard_E96bds_v5'' ''standardEBDSv5Family'' 96 688128 0 ''amd64'',
     entry ''Standard_E96bs_v5'' ''standardEBSv5Family'' 96 688128 0 ''amd64'']"

definition instanceTypes49 :: "(string, instanceType) gomap" where
  "instanceTypes49 =
    [entry ''Standard_E96d_v5'' ''standardEDv5Family'' 96 688128 0 ''amd64'',
     entry ''Standard_E96ds_v5'' ''standardEDSv5Family'' 96 688128 0 ''amd64'',
     entry ''Standard_E96ds_v6'' ''StandardEdsv6Family'' 96 786432 0 ''amd64'',
     entry ''Standard_E96ias_v4'' ''standardEIASv4Family'' 96 688128 0 ''amd64'',
     entry ''Standard_E96pds_v6'' ''StandardEpdsv6Family'' 96 688128 0 ''arm64'',
     entry ''Standard_E96ps_v6'' ''StandardEpsv6Family'' 96 688128 0 ''arm64'',
     entry ''Standard_E96s_v5'' ''standardESv5Family'' 96 688128 0 ''amd64'',
     entry ''Standard_E96s_v6'' ''StandardEsv6Family'' 96 786432 0 ''amd64'',
     entry ''Standard_EC128eds_v5'' ''standardECEDV5Family'' 128 786432 0 ''amd64'',
     entry ''Standard_EC128es_v5'' ''standardECEV5Family'' 128 786432 0 ''amd64'',
     entry ''Standard_EC128ieds_v5'' ''standardECIEDV5Family'' 128 786432 0 ''amd64'',
     entry ''Standard_EC128ies_v5'' ''standardECIEV5Family'' 128 786432 0 ''amd64'',
     entry ''Standard_EC16ads_cc_v5'' ''standardECADCCV5Family'' 16 131072 0 ''amd64'',
     entry ''Standard_EC16ads_v5'' ''standardECADSv5Family'' 16 131072 0 ''amd64'',
     entry ''Standard_EC16ads_v6'' ''standardECadsv6Family'' 16 131072 0 ''amd64'',
     entry ''Standard_EC16as_cc_v5'' ''standardECACCV5Family'' 16 131072 0 ''amd64'',
     entry ''Standard_EC16as_v5'' ''standardECASv5Family'' 16 131072 0 ''amd64'',
     entry ''Standard_EC16as_v6'' ''standardECasv6Family'' 16 131072 0 ''amd64'']"

definition instanceTypes50 :: "(string, instanceType) gomap" where
  "instanceTypes50 =
    [entry ''Standard_EC16eds_v5'' ''standardECEDV5Family'' 16 131072 0 ''amd64'',
     entry ''Standard_EC16eds_v6'' ''StandardECEDV6Family'' 16 131072 0 ''amd64'',
     entry ''Standard_EC16es_v5'' ''standardECEV5Family'' 16 131072 0 ''amd64'',
     entry ''Standard_EC16es_v6'' ''StandardECEV6Family'' 16 131072 0 ''amd64'',
     entry ''Standard_EC20ads_cc_v5'' ''standardECADCCV5Family'' 20 163840 0 ''amd64'',
     entry ''Standard_EC20ads_v5'' ''standardECADSv5Family'' 20 163840 0 ''amd64'',
     entry ''Standard_EC20as_cc_v5'' ''standardECACCV5Family'' 20 163840 0 ''amd64'',
     entry ''Standard_EC20as_v5'' ''standardECASv5Family'' 20 163840 0 ''amd64'',
     entry ''Standard_EC2ads_v5'' ''standardECADSv5Family'' 2 16384 0 ''amd64'',
     entry ''Standard_EC2ads_v6'' ''standardECadsv6Family'' 2 16384 0 ''amd64'',
     entry ''Standard_EC2as_v5'' ''standardECASv5Family'' 2 16384 0 ''amd64'',
     entry ''Standard_EC2as_v6'' ''standardECasv6Family'' 2 16384 0 ''amd64'',
     entry ''Standard_EC2eds_v5'' ''standardECEDV5Family'' 2 16384 0 ''amd64'',
     entry ''Standard_EC2eds_v6'' ''StandardECEDV6Family'' 2 16384 0 ''amd64'',
     entry ''Standard_EC2es_v5'' ''standardECEV5Family'' 2 16384 0 ''amd64'',
     entry ''Standard_EC2es_v6'' ''StandardECEV6Family'' 2 16384 0 ''amd64'',
     entry ''Standard_EC32ads_cc_v5'' ''standardECADCCV5Family'' 32 196608 0 ''amd64'',
     entry ''Standard_EC32ads_v5'' ''standardECADSv5Family'' 32 196608 0 ''amd64'']"

definition instanceTypes51 :: "(string, instanceType) gomap" where
  "instanceTypes51 =
    [entry ''Standard_EC32ads_v6'' ''standardECadsv6Family'' 32 262144 0 ''amd64'',
     entry ''Standard_EC32as_cc_v5'' ''standardECACCV5Family'' 32 196608 0 ''amd64'',
     entry ''Standard_EC32as_v5'' ''standardECASv5Family'' 32 196608 0 ''amd64'',
     entry ''Standard_EC32as_v6'' ''standardECasv6Family'' 32 262144 0 ''amd64'',
     entry ''Standard_EC32eds_v5'' ''standardECEDV5Family'' 32 262144 0 ''amd64'',
     entry ''Standard_EC32eds_v6'' ''StandardECEDV6Family'' 32 262144 0 ''amd64'',
     entry ''Standard_EC32es_v5'' ''standardECEV5Family'' 32 262144 0 ''amd64'',
     entry ''Standard_EC32es_v6'' ''StandardECEV6Family'' 32 262144 0 ''amd64'',
     entry ''Standard_EC48ads_cc_v5'' ''standardECADCCV5Family'' 48 393216 0 ''amd64'',
     entry ''Standard_EC48ads_v5'' ''standardECADSv5Family'' 48 393216 0 ''amd64'',
     entry ''Standard_EC48ads_v6'' ''standardECadsv6Family'' 48 393216 0 ''amd64'',
     entry ''Standard_EC48as_cc_v5'' ''standardECACCV5Family'' 48 393216 0 ''amd64'',
     entry ''Standard_EC48as_v5'' ''standardECASv5Family'' 48 393216 0 ''amd64'',
     entry ''Standard_EC48as_v6'' ''standardECasv6Family'' 48 393216 0 ''amd64'',
     entry ''Standard_EC48eds_v5'' ''standardECEDV5Family'' 48 393216 0 ''amd64'',
     entry ''Standard_EC48eds_v6'' ''StandardECEDV6Family'' 48 393216 0 ''amd64'',
     entry ''Standard_EC48es_v5'' ''standardECEV5Family'' 48 393216 0 ''amd64'',
     entry ''Standard_EC48es_v6'' ''StandardECEV6Family'' 48 393216 0 ''amd64'']"

definition instanceTypes52 :: "(string, instanceType) gomap" where
  "instanceTypes52 =
    [entry ''Standard_EC4ads_cc_v5'' ''standardECADCCV5Family'' 4 32768 0 ''amd64'',
     entry ''Standard_EC4ads_v5'' ''standardECADSv5Family'' 4 32768 0 ''amd64'',
     entry ''Standard_EC4ads_v6'' ''standardECadsv6Family'' 4 32768 0 ''amd64'',
     entry ''Standard_EC4as_cc_v5'' ''standardECACCV5Family'' 4 32768 0 ''amd64'',
     entry ''Standard_EC4as_v5'' ''standardECASv5Family'' 4 32768 0 ''amd64'',
     entry ''Standard_EC4as_v6'' ''standardECasv6Family'' 4 32768 0 ''amd64'',
     entry ''Standard_EC4eds_v5'' ''standardECEDV5Family'' 4 32768 0 ''amd64'',
     entry ''Standard_EC4eds_v6'' ''StandardECEDV6Family'' 4 32768 0 ''amd64'',
     entry ''Standard_EC4es_v5'' ''standardECEV5Family'' 4 32768 0 ''amd64'',
     entry ''Standard_EC4es_v6'' ''StandardECEV6Family'' 4 32768 0 ''amd64'',
     entry ''Standard_EC64ads_cc_v5'' ''standardECADCCV5Family'' 64 524288 0 ''amd64'',
     entry ''Standard_EC64ads_v5'' ''standardECADSv5Family'' 64 524288 0 ''amd64'',
     entry ''Standard_EC64ads_v6'' ''standardECadsv6Family'' 64 524288 0 ''amd64'',
     entry ''Standard_EC64as_cc_v5'' ''standardECACCV5Family'' 64 524288 0 ''amd64'',
     entry ''Standard_EC64as_v5'' ''standardECASv5Family'' 64 524288 0 ''amd64'',
     entry ''Standard_EC64as_v6'' ''standardECasv6Family'' 64 524288 0 ''amd64'',
     entry ''Standard_EC64eds_v5'' ''standardECEDV5Family'' 64 524288 0 ''amd64'',
     entry ''Standard_EC64eds_v6'' ''StandardECEDV6Family'' 64 524288 0 ''amd64'']"

definition instanceTypes53 :: "(string, instanceType) gomap" where
  "instanceTypes53 =
    [entry ''Standard_EC64es_v5'' ''standardECEV5Family'' 64 524288 0 ''amd64'',
     entry ''Standard_EC64es_v6'' ''StandardECEV6Family'' 64 524288 0 ''amd64'',
     entry ''Standard_EC8ads_cc_v5'' ''standardECADCCV5Family'' 8 65536 0 ''amd64'',
     entry ''Standard_EC8ads_v5'' ''standardECADSv5Family'' 8 65536 0 ''amd64'',
     entry ''Standard_EC8ads_v6'' ''standardECadsv6Family'' 8 65536 0 ''amd64'',
     entry ''Standard_EC8as_cc_v5'' ''standardECACCV5Family'' 8 65536 0 ''amd64'',
     entry ''Standard_EC8as_v5'' ''standardECASv5Family'' 8 65536 0 ''amd64'',
     entry ''Standard_EC8as_v6'' ''standardECasv6Family'' 8 65536 0 ''amd64'',
     entry ''Standard_EC8eds_v5'' ''standardECEDV5Family'' 8 65536 0 ''amd64'',
     entry ''Standard_EC8eds_v6'' ''StandardECEDV6Family'' 8 65536 0 ''amd64'',
     entry ''Standard_EC8es_v5'' ''standardECEV5Family'' 8 65536 0 ''amd64'',
     entry ''Standard_EC8es_v6'' ''StandardECEV6Family'' 8 65536 0 ''amd64'',
     entry ''Standard_EC96ads_cc_v5'' ''standardECADCCV5Family'' 96 688128 0 ''amd64'',
     entry ''Standard_EC96ads_v5'' ''standardECADSv5Family'' 96 688128 0 ''amd64'',
     entry ''Standard_EC96ads_v6'' ''standardECadsv6Family'' 96 688128 0 ''amd64'',
     entry ''Standard_EC96as_cc_v5'' ''standardECACCV5Family'' 96 688128 0 ''amd64'',
     entry ''Standard_EC96as_v5'' ''standardECASv5Family'' 96 688128 0 ''amd64'',
     entry ''Standard_EC96as_v6'' ''standardECasv6Family'' 96 688128 0 ''amd64'']"

definition instanceTypes54 :: "(string, instanceType) gomap" where
  "instanceTypes54 =
    [entry ''Standard_EC96iads_v5'' ''standardECIADSv5Family'' 96 688128 0 ''amd64'',
     entry ''Standard_EC96ias_v5'' ''standardECIASv5Family'' 96 688128 0 ''amd64'',
     entry ''Standard_F1'' ''standardFFamily'' 1 2048 0 ''amd64'',
     entry ''Standard_F16'' ''standardFFamily'' 16 32768 0 ''amd64'',
     entry ''Standard_F16-4amds_v7'' ''StandardFamdsv7Family'' 16 131072 0 ''amd64'',
     entry ''Standard_F16-4ams_v7'' ''StandardFamsv7Family'' 16 131072 0 ''amd64'',
     entry ''Standard_F16-8amds_v7'' ''StandardFamdsv7Family'' 16 131072 0 ''amd64'',
     entry ''Standard_F16-8ams_v7'' ''StandardFamsv7Family'' 16 131072 0 ''amd64'',
     entry ''Standard_F16ads_v7'' ''StandardFadsv7Family'' 16 65536 0 ''amd64'',
     entry ''Standard_F16alds_v7'' ''StandardFaldsv7Family'' 16 32768 0 ''amd64'',
     entry ''Standard_F16als_v6'' ''StandardFalsv6Family'' 16 32768 0 ''amd64'',
     entry ''Standard_F16als_v7'' ''StandardFalsv7Family'' 16 32768 0 ''amd64'',
     entry ''Standard_F16amds_v7'' ''StandardFamdsv7Family'' 16 131072 0 ''amd64'',
     entry ''Standard_F16ams_v6'' ''StandardFamsv6Family'' 16 131072 0 ''amd64'',
     entry ''Standard_F16ams_v7'' ''StandardFamsv7Family'' 16 131072 0 ''amd64'',
     entry ''Standard_F16as_v6'' ''StandardFasv6Family'' 16 65536 0 ''amd64'',
     entry ''Standard_F16as_v7'' ''StandardFasv7Family'' 16 65536 0 ''amd64'',
     entry ''Standard_F16s'' ''standardFSFamily'' 16 32768 0 ''amd64'']"

definition instanceTypes55 :: "(string, instanceType) gomap" where
  "instanceTypes55 =
    [entry ''Standard_F16s_v2'' ''standardFSv2Family'' 16 32768 0 ''amd64'',
     entry ''Standard_F1ads_v7'' ''StandardFadsv7Family'' 1 4096 0 ''amd64'',
     entry ''Standard_F1alds_v7'' ''StandardFaldsv7Family'' 1 2048 0 ''amd64'',
     entry ''Standard_F1als_v7'' ''StandardFalsv7Family'' 1 2048 0 ''amd64'',
     entry ''Standard_F1amds_v7'' ''StandardFamdsv7Family'' 1 8192 0 ''amd64'',
     entry ''Standard_F1ams_v7'' ''StandardFamsv7Family'' 1 8192 0 ''amd64'',
     entry ''Standard_F1as_v7'' ''StandardFasv7Family'' 1 4096 0 ''amd64'',
     entry ''Standard_F1s'' ''standardFSFamily'' 1 2048 0 ''amd64'',
     entry ''Standard_F2'' ''standardFFamily'' 2 4096 0 ''amd64'',
     entry ''Standard_F2-1amds_v7'' ''StandardFamdsv7Family'' 2 16384 0 ''amd64'',
     entry ''Standard_F2-1ams_v7'' ''StandardFamsv7Family'' 2 16384 0 ''amd64'',
     entry ''Standard_F2ads_v7'' ''StandardFadsv7Family'' 2 8192 0 ''amd64'',
     entry ''Standard_F2alds_v7'' ''StandardFaldsv7Family'' 2 4096 0 ''amd64'',
     entry ''Standard_F2als_v6'' ''StandardFalsv6Family'' 2 4096 0 ''amd64'',
     entry ''Standard_F2als_v7'' ''StandardFalsv7Family'' 2 4096 0 ''amd64'',
     entry ''Standard_F2amds_v7'' ''StandardFamdsv7Family'' 2 16384 0 ''amd64'',
     entry ''Standard_F2ams_v6'' ''StandardFamsv6Family'' 2 16384 0 ''amd64'',
     entry ''Standard_F2ams_v7'' ''StandardFamsv7Family'' 2 16384 0 ''amd64'']"

definition instanceTypes56 :: "(string, instanceType) gomap" where
  "instanceTypes56 =
    [entry ''Standard_F2as_v6'' ''StandardFasv6Family'' 2 8192 0 ''amd64'',
     entry ''Standard_F2as_v7'' ''StandardFasv7Family'' 2 8192 0 ''amd64'',
     entry ''Standard_F2s'' ''standardFSFamily'' 2 4096 0 ''amd64'',
     entry ''Standard_F2s_v2'' ''standardFSv2Family'' 2 4096 0 ''amd64'',
     entry ''Standard_F32-16amds_v7'' ''StandardFamdsv7Family'' 32 262144 0 ''amd64'',
     entry ''Standard_F32-16ams_v7'' ''StandardFamsv7Family'' 32 262144 0 ''amd64'',
     entry ''Standard_F32-8amds_v7'' ''StandardFamdsv7Family'' 32 262144 0 ''amd64'',
     entry ''Standard_F32-8ams_v7'' ''StandardFamsv7Family'' 32 262144 0 ''amd64'',
     entry ''Standard_F32ads_v7'' ''StandardFadsv7Family'' 32 131072 0 ''amd64'',
     entry ''Standard_F32alds_v7'' ''StandardFaldsv7Family'' 32 65536 0 ''amd64'',
     entry ''Standard_F32als_v6'' ''StandardFalsv6Family'' 32 65536 0 ''amd64'',
     entry ''Standard_F32als_v7'' ''StandardFalsv7Family'' 32 65536 0 ''amd64'',
     entry ''Standard_F32amds_v7'' ''StandardFamdsv7Family'' 32 262144 0 ''amd64'',
     entry ''Standard_F32ams_v6'' ''StandardFamsv6Family'' 32 262144 0 ''amd64'',
     entry ''Standard_F32ams_v7'' ''StandardFamsv7Family'' 32 262144 0 ''amd64'',
     entry ''Standard_F32as_v6'' ''StandardFasv6Family'' 32 131072 0 ''amd64'',
     entry ''Standard_F32as_v7'' ''StandardFasv7Family'' 32 131072 0 ''amd64'',
     entry ''Standard_F32s_v2'' ''standardFSv2Family'' 32 65536 0 ''amd64'']"

definition instanceTypes57 :: "(string, instanceType) gomap" where
  "instanceTypes57 =
    [entry ''Standard_F4'' ''standardFFamily'' 4 8192 0 ''amd64'',
     entry ''Standard_F4-1amds_v7'' ''StandardFamdsv7Family'' 4 32768 0 ''amd64'',
     entry ''Standard_F4-1ams_v7'' ''StandardFamsv7Family'' 4 32768 0 ''amd64'',
     entry ''Standard_F4-2amds_v7'' ''StandardFamdsv7Family'' 4 32768 0 ''amd64'',
     entry ''Standard_F4-2ams_v7'' ''StandardFamsv7Family'' 4 32768 0 ''amd64'',
     entry ''Standard_F48ads_v7'' ''StandardFadsv7Family'' 48 196608 0 ''amd64'',
     entry ''Standard_F48alds_v7'' ''StandardFaldsv7Family'' 48 98304 0 ''amd64'',
     entry ''Standard_F48als_v6'' ''StandardFalsv6Family'' 48 98304 0 ''amd64'',
     entry ''Standard_F48als_v7'' ''StandardFalsv7Family'' 48 98304 0 ''amd64'',
     entry ''Standard_F48amds_v7'' ''StandardFamdsv7Family'' 48 393216 0 ''amd64'',
     entry ''Standard_F48ams_v6'' ''StandardFamsv6Family'' 48 393216 0 ''amd64'',
     entry ''Standard_F48ams_v7'' ''StandardFamsv7Family'' 48 393216 0 ''amd64'',
     entry ''Standard_F48as_v6'' ''StandardFasv6Family'' 48 196608 0 ''amd64'',
     entry ''Standard_F48as_v7'' ''StandardFasv7Family'' 48 196608 0 ''amd64'',
     entry ''Standard_F48s_v2'' ''standardFSv2Family'' 48 98304 0 ''amd64'',
     entry ''Standard_F4ads_v7'' ''StandardFadsv7Family'' 4 16384 0 ''amd64'',
     entry ''Standard_F4alds_v7'' ''StandardFaldsv7Family'' 4 8192 0 ''amd64'',
     entry ''Standard_F4als_v6'' ''StandardFalsv6Family'' 4 8192 0 ''amd64'']"

definition instanceTypes58 :: "(string, instanceType) gomap" where
  "instanceTypes58 =
    [entry ''Standard_F4als_v7'' ''StandardFalsv7Family'' 4 8192 0 ''amd64'',
     entry ''Standard_F4amds_v7'' ''StandardFamdsv7Family'' 4 32768 0 ''amd64'',
     entry ''Standard_F4ams_v6'' ''StandardFamsv6Family'' 4 32768 0 ''amd64'',
     entry ''Standard_F4ams_v7'' ''StandardFamsv7Family'' 4 32768 0 ''amd64'',
     entry ''Standard_F4as_v6'' ''StandardFasv6Family'' 4 16384 0 ''amd64'',
     entry ''Standard_F4as_v7'' ''StandardFasv7Family'' 4 16384 0 ''amd64'',
     entry ''Standard_F4s'' ''standardFSFamily'' 4 8192 0 ''amd64'',
     entry ''Standard_F4s_v2'' ''standardFSv2Family'' 4 8192 0 ''amd64'',
     entry ''Standard_F64-16amds_v7'' ''StandardFamdsv7Family'' 64 524288 0 ''amd64'',
     entry ''Standard_F64-16ams_v7'' ''StandardFamsv7Family'' 80 524288 0 ''amd64'',
     entry ''Standard_F64-32amds_v7'' ''StandardFamdsv7Family'' 64 524288 0 ''amd64'',
     entry ''Standard_F64-32ams_v7'' ''StandardFamsv7Family'' 64 524288 0 ''amd64'',
     entry ''Standard_F64ads_v7'' ''StandardFadsv7Family'' 64 262144 0 ''amd64'',
     entry ''Standard_F64alds_v7'' ''StandardFaldsv7Family'' 64 131072 0 ''amd64'',
     entry ''Standard_F64als_v6'' ''StandardFalsv6Family'' 64 131072 0 ''amd64'',
     entry ''Standard_F64als_v7'' ''StandardFalsv7Family'' 64 131072 0 ''amd64'',
     entry ''Standard_F64amds_v7'' ''StandardFamdsv7Family'' 64 524288 0 ''amd64'',
     entry ''Standard_F64ams_v6'' ''StandardFamsv6Family'' 64 524288 0 ''amd64'']"

definition instanceTypes59 :: "(string, instanceType) gomap" where
  "instanceTypes59 =
    [entry ''Standard_F64ams_v7'' ''StandardFamsv7Family'' 64 524288 0 ''amd64'',
     entry ''Standard_F64as_v6'' ''StandardFasv6Family'' 64 262144 0 ''amd64'',
     entry ''Standard_F64as_v7'' ''StandardFasv7Family'' 64 262144 0 ''amd64'',
     entry ''Standard_F64s_v2'' ''standardFSv2Family'' 64 131072 0 ''amd64'',
     entry ''Standard_F72s_v2'' ''standardFSv2Family'' 72 147456 0 ''amd64'',
     entry ''Standard_F8'' ''standardFFamily'' 8 16384 0 ''amd64'',
     entry ''Standard_F8-2amds_v7'' ''StandardFamdsv7Family'' 8 65536 0 ''amd64'',
     entry ''Standard_F8-2ams_v7'' ''StandardFamsv7Family'' 8 65536 0 ''amd64'',
     entry ''Standard_F8-4amds_v7'' ''StandardFamdsv7Family'' 8 65536 0 ''amd64'',
     entry ''Standard_F8-4ams_v7'' ''StandardFamsv7Family'' 8 65536 0 ''amd64'',
     entry ''Standard_F80ads_v7'' ''StandardFadsv7Family'' 80 327680 0 ''amd64'',
     entry ''Standard_F80alds_v7'' ''StandardFaldsv7Family'' 80 163840 0 ''amd64'',
     entry ''Standard_F80als_v7'' ''StandardFalsv7Family'' 80 163840 0 ''amd64'',
     entry ''Standard_F80amds_v7'' ''StandardFamdsv7Family'' 80 655360 0 ''amd64'',
     entry ''Standard_F80ams_v7'' ''StandardFamsv7Family'' 80 655360 0 ''amd64'',
     entry ''Standard_F80as_v7'' ''StandardFasv7Family'' 80 327680 0 ''amd64'',
     entry ''Standard_F8ads_v7'' ''StandardFadsv7Family'' 8 32768 0 ''amd64'',
     entry ''Standard_F8alds_v7'' ''StandardFaldsv7Family'' 8 16384 0 ''amd64'']"

definition instanceTypes60 :: "(string, instanceType) gomap" where
  "instanceTypes60 =
    [entry ''Standard_F8als_v6'' ''StandardFalsv6Family'' 8 16384 0 ''amd64'',
     entry ''Standard_F8als_v7'' ''StandardFalsv7Family'' 8 16384 0 ''amd64'',
     entry ''Standard_F8amds_v7'' ''StandardFamdsv7Family'' 8 65536 0 ''amd64'',
     entry ''Standard_F8ams_v6'' ''StandardFamsv6Family'' 8 65536 0 ''amd64'',
     entry ''Standard_F8ams_v7'' ''StandardFamsv7Family'' 8 65536 0 ''amd64'',
     entry ''Standard_F8as_v6'' ''StandardFasv6Family'' 8 32768 0 ''amd64'',
     entry ''Standard_F8as_v7'' ''StandardFasv7Family'' 8 32768 0 ''amd64'',
     entry ''Standard_F8s'' ''standardFSFamily'' 8 16384 0 ''amd64'',
     entry ''Standard_F8s_v2'' ''standardFSv2Family'' 8 16384 0 ''amd64'',
     entry ''Standard_FX12-6mds_v2'' ''StandardFXmdsv2Family'' 12 258048 0 ''amd64'',
     entry ''Standard_FX12-6ms_v2'' ''StandardFXmsv2Family'' 12 258048 0 ''amd64'',
     entry ''Standard_FX12mds'' ''standardFXMDVSFamily'' 12 258048 0 ''amd64'',
     entry ''Standard_FX12mds_v2'' ''StandardFXmdsv2Family'' 12 258048 0 ''amd64'',
     entry ''Standard_FX12ms_v2'' ''StandardFXmsv2Family'' 12 258048 0 ''amd64'',
     entry ''Standard_FX16-4mds_v2'' ''StandardFXmdsv2Family'' 16 344064 0 ''amd64'',
     entry ''Standard_FX16-4ms_v2'' ''StandardFXmsv2Family'' 16 344064 0 ''amd64'',
     entry ''Standard_FX16-8mds_v2'' ''StandardFXmdsv2Family'' 16 344064 0 ''amd64'',
     entry ''Standard_FX16-8ms_v2'' ''StandardFXmsv2Family'' 16 344064 0 ''amd64'']"

definition instanceTypes61 :: "(string, instanceType) gomap" where
  "instanceTypes61 =
    [entry ''Standard_FX16mds_v2'' ''StandardFXmdsv2Family'' 16 344064 0 ''amd64'',
     entry ''Standard_FX16ms_v2'' ''StandardFXmsv2Family'' 16 344064 0 ''amd64'',
     entry ''Standard_FX24-12mds_v2'' ''StandardFXmdsv2Family'' 24 516096 0 ''amd64'',
     entry ''Standard_FX24-12ms_v2'' ''StandardFXmsv2Family'' 24 516096 0 ''amd64'',
     entry ''Standard_FX24-6mds_v2'' ''StandardFXmdsv2Family'' 24 516096 0 ''amd64'',
     entry ''Standard_FX24-6ms_v2'' ''StandardFXmsv2Family'' 24 516096 0 ''amd64'',
     entry ''Standard_FX24mds'' ''standardFXMDVSFamily'' 24 516096 0 ''amd64'',
     entry ''Standard_FX24mds_v2'' ''StandardFXmdsv2Family'' 24 516096 0 ''amd64'',
     entry ''Standard_FX24ms_v2'' ''StandardFXmsv2Family'' 24 516096 0 ''amd64'',
     entry ''Standard_FX2mds_v2'' ''StandardFXmdsv2Family'' 2 43008 0 ''amd64'',
     entry ''Standard_FX2ms_v2'' ''StandardFXmsv2Family'' 2 43008 0 ''amd64'',
     entry ''Standard_FX32-16mds_v2'' ''StandardFXmdsv2Family'' 32 688128 0 ''amd64'',
     entry ''Standard_FX32-16ms_v2'' ''StandardFXmsv2Family'' 32 688128 0 ''amd64'',
     entry ''Standard_FX32-8mds_v2'' ''StandardFXmdsv2Family'' 32 688128 0 ''amd64'',
     entry ''Standard_FX32-8ms_v2'' ''StandardFXmsv2Family'' 32 688128 0 ''amd64'',
     entry ''Standard_FX32mds_v2'' ''StandardFXmdsv2Family'' 32 688128 0 ''amd64'',
     entry ''Standard_FX32ms_v2'' ''StandardFXmsv2Family'' 32 688128 0 ''amd64'',
     entry ''Standard_FX36mds'' ''standardFXMDVSFamily'' 36 774144 0 ''amd64'']"

definition instanceTypes62 :: "(string, instanceType) gomap" where
  "instanceTypes62 =
    [entry ''Standard_FX4-2mds_v2'' ''StandardFXmdsv2Family'' 4 86016 0 ''amd64'',
     entry ''Standard_FX4-2ms_v2'' ''StandardFXmsv2Family'' 4 86016 0 ''amd64'',
     entry ''Standard_FX48-12mds_v2'' ''StandardFXmdsv2Family'' 48 1032192 0 ''amd64'',
     entry ''Standard_FX48-12ms_v2'' ''StandardFXmsv2Family'' 48 1032192 0 ''amd64'',
     entry ''Standard_FX48-24mds_v2'' ''StandardFXmdsv2Family'' 48 1032192 0 ''amd64'',
     entry ''Standard_FX48-24ms_v2'' ''StandardFXmsv2Family'' 48 1032192 0 ''amd64'',
     entry ''Standard_FX48mds'' ''standardFXMDVSFamily'' 48 1032192 0 ''amd64'',
     entry ''Standard_FX48mds_v2'' ''StandardFXmdsv2Family'' 48 1032192 0 ''amd64'',
     entry ''Standard_FX48ms_v2'' ''StandardFXmsv2Family'' 48 1032192 0 ''amd64'',
     entry ''Standard_FX4mds'' ''standardFXMDVSFamily'' 4 86016 0 ''amd64'',
     entry ''Standard_FX4mds_v2'' ''StandardFXmdsv2Family'' 4 86016 0 ''amd64'',
     entry ''Standard_FX4ms_v2'' ''StandardFXmsv2Family'' 4 86016 0 ''amd64'',
     entry ''Standard_FX64-16mds_v2'' ''StandardFXmdsv2Family'' 64 1376256 0 ''amd64'',
     entry ''Standard_FX64-16ms_v2'' ''StandardFXmsv2Family'' 64 1376256 0 ''amd64'',
     entry ''Standard_FX64-32mds_v2'' ''StandardFXmdsv2Family'' 64 1376256 0 ''amd64'',
     entry ''Standard_FX64-32ms_v2'' ''StandardFXmsv2Family'' 64 1376256 0 ''amd64'',
     entry ''Standard_FX64mds_v2'' ''StandardFXmdsv2Family'' 64 1376256 0 ''amd64'',
     entry ''Standard_FX64ms_v2'' ''StandardFXmsv2Family'' 64 1376256 0 ''amd64'']"

definition instanceTypes63 :: "(string, instanceType) gomap" where
  "instanceTypes63 =
    [entry ''Standard_FX8-2mds_v2'' ''StandardFXmdsv2Family'' 8 172032 0 ''amd64'',
     entry ''Standard_FX8-2ms_v2'' ''StandardFXmsv2Family'' 8 172032 0 ''amd64'',
     entry ''Standard_FX8-4mds_v2'' ''StandardFXmdsv2Family'' 8 172032 0 ''amd64'',
     entry ''Standard_FX8-4ms_v2'' ''StandardFXmsv2Family'' 8 172032 0 ''amd64'',
     entry ''Standard_FX8mds_v2'' ''StandardFXmdsv2Family'' 8 172032 0 ''amd64'',
     entry ''Standard_FX8ms_v2'' ''StandardFXmsv2Family'' 8 172032 0 ''amd64'',
     entry ''Standard_FX96-24mds_v2'' ''StandardFXmdsv2Family'' 96 1875968 0 ''amd64'',
     entry ''Standard_FX96-24ms_v2'' ''StandardFXmsv2Family'' 96 1875968 0 ''amd64'',
     entry ''Standard_FX96-48mds_v2'' ''StandardFXmdsv2Family'' 96 1875968 0 ''amd64'',
     entry ''Standard_FX96-48ms_v2'' ''StandardFXmsv2Family'' 96 1875968 0 ''amd64'',
     entry ''Standard_FX96mds_v2'' ''StandardFXmdsv2Family'' 96 1875968 0 ''amd64'',
     entry ''Standard_FX96ms_v2'' ''StandardFXmsv2Family'' 96 1875968 0 ''amd64'',
     entry ''Standard_G1'' ''standardGFamily'' 2 28672 0 ''amd64'',
     entry ''Standard_G2'' ''standardGFamily'' 4 57344 0 ''amd64'',
     entry ''Standard_G3'' ''standardGFamily'' 8 114688 0 ''amd64'',
     entry ''Standard_G4'' ''standardGFamily'' 16 229376 0 ''amd64'',
     entry ''Standard_G5'' ''standardGFamily'' 32 458752 0 ''amd64'',
     entry ''Standard_GS1'' ''standardGSFamily'' 2 28672 0 ''amd64'']"

definition instanceTypes64 :: "(string, instanceType) gomap" where
  "instanceTypes64 =
    [entry ''Standard_GS2'' ''standardGSFamily'' 4 57344 0 ''amd64'',
     entry ''Standard_GS3'' ''standardGSFamily'' 8 114688 0 ''amd64'',
     entry ''Standard_GS4'' ''standardGSFamily'' 16 229376 0 ''amd64'',
     entry ''Standard_GS4-4'' ''standardGSFamily'' 16 229376 0 ''amd64'',
     entry ''Standard_GS4-8'' ''standardGSFamily'' 16 229376 0 ''amd64'',
     entry ''Standard_GS5'' ''standardGSFamily'' 32 458752 0 ''amd64'',
     entry ''Standard_GS5-16'' ''standardGSFamily'' 32 458752 0 ''amd64'',
     entry ''Standard_GS5-8'' ''standardGSFamily'' 32 458752 0 ''amd64'',
     entry ''Standard_HB120-16rs_v2'' ''standardHBrsv2Family'' 120 466944 0 ''amd64'',
     entry ''Standard_HB120-16rs_v3'' ''standardHBv3Family'' 120 466944 0 ''amd64'',
     entry ''Standard_HB120-32rs_v2'' ''standardHBrsv2Family'' 120 466944 0 ''amd64'',
     entry ''Standard_HB120-32rs_v3'' ''standardHBv3Family'' 120 466944 0 ''amd64'',
     entry ''Standard_HB120-64rs_v2'' ''standardHBrsv2Family'' 120 466944 0 ''amd64'',
     entry ''Standard_HB120-64rs_v3'' ''standardHBv3Family'' 120 466944 0 ''amd64'',
     entry ''Standard_HB120-96rs_v2'' ''standardHBrsv2Family'' 120 466944 0 ''amd64'',
     entry ''Standard_HB120-96rs_v3'' ''standardHBv3Family'' 120 466944 0 ''amd64'',
     entry ''Standard_HB120rs_v2'' ''standardHBrsv2Family'' 120 466944 0 ''amd64'',
     entry ''Standard_HB120rs_v3'' ''standardHBv3Family'' 120 466944 0 ''amd64'']"

definition instanceTypes65 :: "(string, instanceType) gomap" where
  "instanceTypes65 =
    [entry ''Standard_HB176-144rs_v4'' ''standardHBv4Family'' 176 786432 0 ''amd64'',
     entry ''Standard_HB176-24rs_v4'' ''standardHBv4Family'' 176 786432 0 ''amd64'',
     entry ''Standard_HB176-48rs_v4'' ''standardHBv4Family'' 176 786432 0 ''amd64'',
     entry ''Standard_HB176-96rs_v4'' ''standardHBv4Family'' 176 786432 0 ''amd64'',
     entry ''Standard_HB176rs_v4'' ''standardHBv4Family'' 176 786432 0 ''amd64'',
     entry ''Standard_HB368-144rs_v5'' ''standardHBv5Family'' 368 458752 0 ''amd64'',
     entry ''Standard_HB368-192rs_v5'' ''standardHBv5Family'' 368 458752 0 ''amd64'',
     entry ''Standard_HB368-240rs_v5'' ''standardHBv5Family'' 368 458752 0 ''amd64'',
     entry ''Standard_HB368-288rs_v5'' ''standardHBv5Family'' 368 458752 0 ''amd64'',
     entry ''Standard_HB368-336rs_v5'' ''standardHBv5Family'' 368 458752 0 ''amd64'',
     entry ''Standard_HB368-48rs_v5'' ''standardHBv5Family'' 368 458752 0 ''amd64'',
     entry ''Standard_HB368-96rs_v5'' ''standardHBv5Family'' 368 458752 0 ''amd64'',
     entry ''Standard_HB368rs_v5'' ''standardHBv5Family'' 368 458752 0 ''amd64'',
     entry ''Standard_HC44-16rs'' ''standardHCSFamily'' 44 360448 0 ''amd64'',
     entry ''Standard_HC44-32rs'' ''standardHCSFamily'' 44 360448 0 ''amd64'',
     entry ''Standard_HC44rs'' ''standardHCSFamily'' 44 360448 0 ''amd64'',
     entry ''Standard_HX176-144rs'' ''standardHXFamily'' 176 1441792 0 ''amd64'',
     entry ''Standard_HX176-24rs'' ''standardHXFamily'' 176 1441792 0 ''amd64'']"

definition instanceTypes66 :: "(string, instanceType) gomap" where
  "instanceTypes66 =
    [entry ''Standard_HX176-48rs'' ''standardHXFamily'' 176 1441792 0 ''amd64'',
     entry ''Standard_HX176-96rs'' ''standardHXFamily'' 176 1441792 0 ''amd64'',
     entry ''Standard_HX176rs'' ''standardHXFamily'' 176 1441792 0 ''amd64'',
     entry ''Standard_L12aos_v4'' ''standardLaosv4Family'' 12 98304 0 ''amd64'',
     entry ''Standard_L16aos_v4'' ''standardLaosv4Family'' 16 131072 0 ''amd64'',
     entry ''Standard_L16as_v3'' ''standardLASv3Family'' 16 131072 0 ''amd64'',
     entry ''Standard_L16as_v4'' ''standardLasv4Family'' 16 131072 0 ''amd64'',
     entry ''Standard_L16s'' ''standardLSFamily'' 16 131072 0 ''amd64'',
     entry ''Standard_L16s_v2'' ''standardLSv2Family'' 16 131072 0 ''amd64'',
     entry ''Standard_L16s_v3'' ''standardLSv3Family'' 16 131072 0 ''amd64'',
     entry ''Standard_L16s_v4'' ''standardLsv4Family'' 16 131072 0 ''amd64'',
     entry ''Standard_L24aos_v4'' ''standardLaosv4Family'' 24 196608 0 ''amd64'',
     entry ''Standard_L2aos_v4'' ''standardLaosv4Family'' 2 16384 0 ''amd64'',
     entry ''Standard_L2as_v4'' ''standardLasv4Family'' 2 16384 0 ''amd64'',
     entry ''Standard_L2s_v4'' ''standardLsv4Family'' 2 16384 0 ''amd64'',
     entry ''Standard_L32aos_v4'' ''standardLaosv4Family'' 32 262144 0 ''amd64'',
     entry ''Standard_L32as_v3'' ''standardLASv3Family'' 32 262144 0 ''amd64'',
     entry ''Standard_L32as_v4'' ''standardLasv4Family'' 32 262144 0 ''amd64'']"

definition instanceTypes67 :: "(string, instanceType) gomap" where
  "instanceTypes67 =
    [entry ''Standard_L32s'' ''standardLSFamily'' 32 262144 0 ''amd64'',
     entry ''Standard_L32s_v2'' ''standardLSv2Family'' 32 262144 0 ''amd64'',
     entry ''Standard_L32s_v3'' ''standardLSv3Family'' 32 262144 0 ''amd64'',
     entry ''Standard_L32s_v4'' ''standardLsv4Family'' 32 262144 0 ''amd64'',
     entry ''Standard_L48as_v3'' ''standardLASv3Family'' 48 393216 0 ''amd64'',
     entry ''Standard_L48as_v4'' ''standardLasv4Family'' 48 393216 0 ''amd64'',
     entry ''Standard_L48s_v2'' ''standardLSv2Family'' 48 393216 0 ''amd64'',
     entry ''Standard_L48s_v3'' ''standardLSv3Family'' 48 393216 0 ''amd64'',
     entry ''Standard_L48s_v4'' ''standardLsv4Family'' 48 393216 0 ''amd64'',
     entry ''Standard_L4aos_v4'' ''standardLaosv4Family'' 4 32768 0 ''amd64'',
     entry ''Standard_L4as_v4'' ''standardLasv4Family'' 4 32768 0 ''amd64'',
     entry ''Standard_L4s'' ''standardLSFamily'' 4 32768 0 ''amd64'',
     entry ''Standard_L4s_v4'' ''standardLsv4Family'' 4 32768 0 ''amd64'',
     entry ''Standard_L64as_v3'' ''standardLASv3Family'' 64 524288 0 ''amd64'',
     entry ''Standard_L64as_v4'' ''standardLasv4Family'' 64 524288 0 ''amd64'',
     entry ''Standard_L64s_v2'' ''standardLSv2Family'' 64 524288 0 ''amd64'',
     entry ''Standard_L64s_v3'' ''standardLSv3Family'' 64 524288 0 ''amd64'',
     entry ''Standard_L64s_v4'' ''standardLsv4Family'' 64 524288 0 ''amd64'']"

definition instanceTypes68 :: "(string, instanceType) gomap" where
  "instanceTypes68 =
    [entry ''Standard_L80as_v3'' ''standardLASv3Family'' 80 655360 0 ''amd64'',
     entry ''Standard_L80as_v4'' ''standardLasv4Family'' 80 655360 0 ''amd64'',
     entry ''Standard_L80s_v2'' ''standardLSv2Family'' 80 655360 0 ''amd64'',
     entry ''Standard_L80s_v3'' ''standardLSv3Family'' 80 655360 0 ''amd64'',
     entry ''Standard_L80s_v4'' ''standardLsv4Family'' 80 655360 0 ''amd64'',
     entry ''Standard_L8aos_v4'' ''standardLaosv4Family'' 8 65536 0 ''amd64'',
     entry ''Standard_L8as_v3'' ''standardLASv3Family'' 8 65536 0 ''amd64'',
     entry ''Standard_L8as_v4'' ''standardLasv4Family'' 8 65536 0 ''amd64'',
     entry ''Standard_L8s'' ''standardLSFamily'' 8 65536 0 ''amd64'',
     entry ''Standard_L8s_v2'' ''standardLSv2Family'' 8 65536 0 ''amd64'',
     entry ''Standard_L8s_v3'' ''standardLSv3Family'' 8 65536 0 ''amd64'',
     entry ''Standard_L8s_v4'' ''standardLsv4Family'' 8 65536 0 ''amd64'',
     entry ''Standard_L96as_v4'' ''standardLasv4Family'' 96 786432 0 ''amd64'',
     entry ''Standard_L96s_v4'' ''standardLsv4Family'' 96 786432 0 ''amd64'',
     entry ''Standard_M128'' ''standardMSFamily'' 128 2097152 0 ''amd64'',
     entry ''Standard_M128-32ms'' ''standardMSFamily'' 128 3985408 0 ''amd64'',
     entry ''Standard_M128-64bds_3_v3'' ''StandardMBDSMediumMemoryv3Family'' 128 2861056 0 ''amd64'',
     entry ''Standard_M128-64bds_v3'' ''StandardMBDSMediumMemoryv3Family'' 128 1048576 0 ''amd64'']"

definition instanceTypes69 :: "(string, instanceType) gomap" where
  "instanceTypes69 =
    [entry ''Standard_M128-64bs_v3'' ''StandardMBSMediumMemoryv3Family'' 128 1048576 0 ''amd64'',
     entry ''Standard_M128-64ms'' ''standardMSFamily'' 128 3985408 0 ''amd64'',
     entry ''Standard_M128bds_3_v3'' ''StandardMBDSMediumMemoryv3Family'' 128 2861056 0 ''amd64'',
     entry ''Standard_M128bds_v3'' ''StandardMBDSMediumMemoryv3Family'' 128 1048576 0 ''amd64'',
     entry ''Standard_M128bs_v3'' ''StandardMBSMediumMemoryv3Family'' 128 1048576 0 ''amd64'',
     entry ''Standard_M128dms_v2'' ''standardMDSMediumMemoryv2Family'' 128 3985408 0 ''amd64'',
     entry ''Standard_M128ds_v2'' ''standardMDSMediumMemoryv2Family'' 128 2097152 0 ''amd64'',
     entry ''Standard_M128m'' ''standardMSFamily'' 128 3985408 0 ''amd64'',
     entry ''Standard_M128ms'' ''standardMSFamily'' 128 3985408 0 ''amd64'',
     entry ''Standard_M128ms_v2'' ''standardMSMediumMemoryv2Family'' 128 3985408 0 ''amd64'',
     entry ''Standard_M128s'' ''standardMSFamily'' 128 2097152 0 ''amd64'',
     entry ''Standard_M128s_v2'' ''standardMSMediumMemoryv2Family'' 128 2097152 0 ''amd64'',
     entry ''Standard_M12ds_v3'' ''standardMDSMediumMemoryv3Family'' 12 245760 0 ''amd64'',
     entry ''Standard_M12s_v3'' ''standardMSMediumMemoryv3Family'' 12 245760 0 ''amd64'',
     entry ''Standard_M16-4ms'' ''standardMSFamily'' 16 447488 0 ''amd64'',
     entry ''Standard_M16-8ms'' ''standardMSFamily'' 16 447488 0 ''amd64'',
     entry ''Standard_M16bds_v3'' ''StandardMBDSMediumMemoryv3Family'' 16 131072 0 ''amd64'',
     entry ''Standard_M16bs_v3'' ''StandardMBSMediumMemoryv3Family'' 16 131072 0 ''amd64'']"

definition instanceTypes70 :: "(string, instanceType) gomap" where
  "instanceTypes70 =
    [entry ''Standard_M16ms'' ''standardMSFamily'' 16 447488 0 ''amd64'',
     entry ''Standard_M176-88bds_4_v3'' ''StandardMBDSMediumMemoryv3Family'' 176 3985408 0 ''amd64'',
     entry ''Standard_M176-88bds_v3'' ''StandardMBDSMediumMemoryv3Family'' 176 1572864 0 ''amd64'',
     entry ''Standard_M176-88bs_v3'' ''StandardMBSMediumMemoryv3Family'' 176 1572864 0 ''amd64'',
     entry ''Standard_M176bds_4_v3'' ''StandardMBDSMediumMemoryv3Family'' 176 3985408 0 ''amd64'',
     entry ''Standard_M176bds_v3'' ''StandardMBDSMediumMemoryv3Family'' 176 1572864 0 ''amd64'',
     entry ''Standard_M176bs_v3'' ''StandardMBSMediumMemoryv3Family'' 176 1572864 0 ''amd64'',
     entry ''Standard_M176ds_3_v3'' ''standardMDSMediumMemoryv3Family'' 176 2861056 0 ''amd64'',
     entry ''Standard_M176ds_4_v3'' ''standardMDSMediumMemoryv3Family'' 176 3985408 0 ''amd64'',
     entry ''Standard_M176s_3_v3'' ''standardMSMediumMemoryv3Family'' 176 2861056 0 ''amd64'',
     entry ''Standard_M176s_4_v3'' ''standardMSMediumMemoryv3Family'' 176 3985408 0 ''amd64'',
     entry ''Standard_M192idms_v2'' ''standardMIDSMediumMemoryv2Family'' 192 4194304 0 ''amd64'',
     entry ''Standard_M192ids_v2'' ''standardMIDSMediumMemoryv2Family'' 192 2097152 0 ''amd64'',
     entry ''Standard_M192ims_v2'' ''standardMISMediumMemoryv2Family'' 192 4194304 0 ''amd64'',
     entry ''Standard_M192is_v2'' ''standardMISMediumMemoryv2Family'' 192 2097152 0 ''amd64'',
     entry ''Standard_M208ms_v2'' ''standardMSv2Family'' 208 5836800 0 ''amd64'',
     entry ''Standard_M208s_v2'' ''standardMSv2Family'' 208 2918400 0 ''amd64'',
     entry ''Standard_M24ds_v3'' ''standardMDSMediumMemoryv3Family'' 24 491520 0 ''amd64'']"

definition instanceTypes71 :: "(string, instanceType) gomap" where
  "instanceTypes71 =
    [entry ''Standard_M24s_v3'' ''standardMSMediumMemoryv3Family'' 24 491520 0 ''amd64'',
     entry ''Standard_M32-16ms'' ''standardMSFamily'' 32 896000 0 ''amd64'',
     entry ''Standard_M32-8ms'' ''standardMSFamily'' 32 896000 0 ''amd64'',
     entry ''Standard_M32bds_v3'' ''StandardMBDSMediumMemoryv3Family'' 32 262144 0 ''amd64'',
     entry ''Standard_M32bs_v3'' ''StandardMBSMediumMemoryv3Family'' 32 262144 0 ''amd64'',
     entry ''Standard_M32dms_v2'' ''standardMDSMediumMemoryv2Family'' 32 896000 0 ''amd64'',
     entry ''Standard_M32ls'' ''standardMSFamily'' 32 262144 0 ''amd64'',
     entry ''Standard_M32ms'' ''standardMSFamily'' 32 896000 0 ''amd64'',
     entry ''Standard_M32ms_v2'' ''standardMSMediumMemoryv2Family'' 32 896000 0 ''amd64'',
     entry ''Standard_M32ts'' ''standardMSFamily'' 32 196608 0 ''amd64'',
     entry ''Standard_M416-208ms_v2'' ''standardMSv2Family'' 416 11673600 0 ''amd64'',
     entry ''Standard_M416-208s_v2'' ''standardMSv2Family'' 416 5836800 0 ''amd64'',
     entry ''Standard_M416bs_v3'' ''StandardMBSMediumMemoryv3Family'' 416 3891200 0 ''amd64'',
     entry ''Standard_M416ds_6_v3'' ''standardMDSHighMemoryv3Family'' 416 5832704 0 ''amd64'',
     entry ''Standard_M416ds_8_v3'' ''standardMDSHighMemoryv3Family'' 416 7782400 0 ''amd64'',
     entry ''Standard_M416ms_v2'' ''standardMSv2Family'' 416 11673600 0 ''amd64'',
     entry ''Standard_M416s_10_v2'' ''standardMSv2Family'' 416 9723904 0 ''amd64'',
     entry ''Standard_M416s_6_v3'' ''standardMSHighMemoryv3Family'' 416 5832704 0 ''amd64'']"

definition instanceTypes72 :: "(string, instanceType) gomap" where
  "instanceTypes72 =
    [entry ''Standard_M416s_8_v2'' ''standardMSv2Family'' 416 7782400 0 ''amd64'',
     entry ''Standard_M416s_8_v3'' ''standardMSHighMemoryv3Family'' 416 7782400 0 ''amd64'',
     entry ''Standard_M416s_9_v2'' ''standardMSv2Family'' 416 8773632 0 ''amd64'',
     entry ''Standard_M416s_v2'' ''standardMSv2Family'' 416 5836800 0 ''amd64'',
     entry ''Standard_M48bds_v3'' ''StandardMBDSMediumMemoryv3Family'' 48 393216 0 ''amd64'',
     entry ''Standard_M48bs_v3'' ''StandardMBSMediumMemoryv3Family'' 48 393216 0 ''amd64'',
     entry ''Standard_M48ds_1_v3'' ''standardMDSMediumMemoryv3Family'' 48 997376 0 ''amd64'',
     entry ''Standard_M48s_1_v3'' ''standardMSMediumMemoryv3Family'' 48 997376 0 ''amd64'',
     entry ''Standard_M624ds_12_v3'' ''standardMDSHighMemoryv3Family'' 624 11673600 0 ''amd64'',
     entry ''Standard_M624s_12_v3'' ''standardMSHighMemoryv3Family'' 624 11673600 0 ''amd64'',
     entry ''Standard_M64'' ''standardMSFamily'' 64 1048576 0 ''amd64'',
     entry ''Standard_M64-16ms'' ''standardMSFamily'' 64 1835008 0 ''amd64'',
     entry ''Standard_M64-32bds_1_v3'' ''StandardMBDSMediumMemoryv3Family'' 64 1430528 0 ''amd64'',
     entry ''Standard_M64-32ms'' ''standardMSFamily'' 64 1835008 0 ''amd64'',
     entry ''Standard_M64bds_1_v3'' ''StandardMBDSMediumMemoryv3Family'' 64 1430528 0 ''amd64'',
     entry ''Standard_M64bds_v3'' ''StandardMBDSMediumMemoryv3Family'' 64 524288 0 ''amd64'',
     entry ''Standard_M64bs_v3'' ''StandardMBSMediumMemoryv3Family'' 64 524288 0 ''amd64'',
     entry ''Standard_M64dms_v2'' ''standardMDSMediumMemoryv2Family'' 64 1835008 0 ''amd64'']"

definition instanceTypes73 :: "(string, instanceType) gomap" where
  "instanceTypes73 =
    [entry ''Standard_M64ds_v2'' ''standardMDSMediumMemoryv2Family'' 64 1048576 0 ''amd64'',
     entry ''Standard_M64ls'' ''standardMSFamily'' 64 524288 0 ''amd64'',
     entry ''Standard_M64m'' ''standardMSFamily'' 64 1835008 0 ''amd64'',
     entry ''Standard_M64ms'' ''standardMSFamily'' 64 1835008 0 ''amd64'',
     entry ''Standard_M64ms_v2'' ''standardMSMediumMemoryv2Family'' 64 1835008 0 ''amd64'',
     entry ''Standard_M64s'' ''standardMSFamily'' 64 1048576 0 ''amd64'',
     entry ''Standard_M64s_v2'' ''standardMSMediumMemoryv2Family'' 64 1048576 0 ''amd64'',
     entry ''Standard_M8-2ms'' ''standardMSFamily'' 8 223232 0 ''amd64'',
     entry ''Standard_M8-4ms'' ''standardMSFamily'' 8 223232 0 ''amd64'',
     entry ''Standard_M832ds_12_v3'' ''standardMDSHighMemoryv3Family'' 832 11673600 0 ''amd64'',
     entry ''Standard_M832ids_16_v3'' ''standardMIDSHighMemoryv3Family'' 832 15564800 0 ''amd64'',
     entry ''Standard_M832is_16_v3'' ''standardMISHighMemoryv3Family'' 832 15564800 0 ''amd64'',
     entry ''Standard_M832s_12_v3'' ''standardMSHighMemoryv3Family'' 832 11673600 0 ''amd64'',
     entry ''Standard_M8ms'' ''standardMSFamily'' 8 223232 0 ''amd64'',
     entry ''Standard_M96-48bds_2_v3'' ''StandardMBDSMediumMemoryv3Family'' 96 1992704 0 ''amd64'',
     entry ''Standard_M96bds_2_v3'' ''StandardMBDSMediumMemoryv3Family'' 96 1992704 0 ''amd64'',
     entry ''Standard_M96bds_v3'' ''StandardMBDSMediumMemoryv3Family'' 96 786432 0 ''amd64'',
     entry ''Standard_M96bs_v3'' ''StandardMBSMediumMemoryv3Family'' 96 786432 0 ''amd64'']"

definition instanceTypes74 :: "(string, instanceType) gomap" where
  "instanceTypes74 =
    [entry ''Standard_M96ds_1_v3'' ''standardMDSMediumMemoryv3Family'' 96 997376 0 ''amd64'',
     entry ''Standard_M96ds_2_v3'' ''standardMDSMediumMemoryv3Family'' 96 1992704 0 ''amd64'',
     entry ''Standard_M96s_1_v3'' ''standardMSMediumMemoryv3Family'' 96 997376 0 ''amd64'',
     entry ''Standard_M96s_2_v3'' ''standardMSMediumMemoryv3Family'' 96 1992704 0 ''amd64'',
     entry ''Standard_NC12s_v3'' ''standardNCSv3Family'' 12 229376 2 ''amd64'',
     entry ''Standard_NC16ads_A10_v4'' ''StandardNCADSA10v4Family'' 16 204800 1 ''amd64'',
     entry ''Standard_NC16as_T4_v3'' ''Standard NCASv3_T4 Family'' 16 112640 1 ''amd64'',
     entry ''Standard_NC24ads_A100_v4'' ''StandardNCADSA100v4Family'' 24 225280 1 ''amd64'',
     entry ''Standard_NC24rs_v3'' ''standardNCSv3Family'' 24 458752 4 ''amd64'',
     entry ''Standard_NC24s_v3'' ''standardNCSv3Family'' 24 458752 4 ''amd64'',
     entry ''Standard_NC32ads_A10_v4'' ''StandardNCADSA10v4Family'' 32 409600 2 ''amd64'',
     entry ''Standard_NC40ads_H100_v5'' ''StandardNCadsH100v5Family'' 40 327680 1 ''amd64'',
     entry ''Standard_NC48ads_A100_v4'' ''StandardNCADSA100v4Family'' 48 450560 2 ''amd64'',
     entry ''Standard_NC4as_T4_v3'' ''Standard NCASv3_T4 Family'' 4 28672 1 ''amd64'',
     entry ''Standard_NC64as_T4_v3'' ''Standard NCASv3_T4 Family'' 64 450560 4 ''amd64'',
     entry ''Standard_NC6s_v3'' ''standardNCSv3Family'' 6 114688 1 ''amd64'',
     entry ''Standard_NC80adis_H100_v5'' ''StandardNCadsH100v5Family'' 80 655360 2 ''amd64'',
     entry ''Standard_NC8ads_A10_v4'' ''StandardNCADSA10v4Family'' 8 102400 1 ''amd64'']"

definition instanceTypes75 :: "(string, instanceType) gomap" where
  "instanceTypes75 =
    [entry ''Standard_NC8as_T4_v3'' ''Standard NCASv3_T4 Family'' 8 57344 1 ''amd64'',
     entry ''Standard_NC96ads_A100_v4'' ''StandardNCADSA100v4Family'' 96 901120 4 ''amd64'',
     entry ''Standard_NCC40ads_H100_v5'' ''StandardNCCads2023Family'' 40 327680 1 ''amd64'',
     entry ''Standard_ND40rs_v2'' ''standardNDSv2Family'' 40 688128 8 ''amd64'',
     entry ''Standard_ND96amsr_A100_v4'' ''standard NDAMSv4_A100Family'' 96 1843200 8 ''amd64'',
     entry ''Standard_ND96asr_v4'' ''Standard NDASv4_A100 Family'' 96 921600 8 ''amd64'',
     entry ''Standard_ND96is_MI300X_v5'' ''standardNDISv5MI300XFamily'' 96 1894400 0 ''amd64'',
     entry ''Standard_ND96isr_H100_v5'' ''standardNDSH100v5Family'' 96 1945600 8 ''amd64'',
     entry ''Standard_ND96isr_H200_v5'' ''standardNDISRH200V5Family'' 96 1894400 8 ''amd64'',
     entry ''Standard_ND96isr_MI300X_v5'' ''standardNDISv5MI300XFamily'' 96 1894400 8 ''amd64'',
     entry ''Standard_NG16ads_V620_v1'' ''StandardNGADSV620v1Family'' 16 32768 0 ''amd64'',
     entry ''Standard_NG32adms_V620_v1'' ''StandardNGADSV620v1Family'' 32 180224 0 ''amd64'',
     entry ''Standard_NG32ads_V620_v1'' ''StandardNGADSV620v1Family'' 32 65536 0 ''amd64'',
     entry ''Standard_NG8ads_V620_v1'' ''StandardNGADSV620v1Family'' 8 16384 0 ''amd64'',
     entry ''Standard_NP10s'' ''standardNPSFamily'' 10 172032 1 ''amd64'',
     entry ''Standard_NP20s'' ''standardNPSFamily'' 20 344064 2 ''amd64'',
     entry ''Standard_NP40s'' ''standardNPSFamily'' 40 688128 4 ''amd64'',
     entry ''Standard_NV12ads_A10_v5'' ''StandardNVADSA10v5Family'' 12 112640 1 ''amd64'']"

definition instanceTypes76 :: "(string, instanceType) gomap" where
  "instanceTypes76 =
    [entry ''Standard_NV12ads_V710_v5'' ''StandardNVadsV710v5Family'' 12 65536 0 ''amd64'',
     entry ''Standard_NV12s_v2'' ''standardNVSv2Family'' 12 229376 2 ''amd64'',
     entry ''Standard_NV12s_v3'' ''standardNVSv3Family'' 12 114688 1 ''amd64'',
     entry ''Standard_NV16as_v4'' ''standardNVSv4Family'' 16 57344 1 ''amd64'',
     entry ''Standard_NV18ads_A10_v5'' ''StandardNVADSA10v5Family'' 18 225280 1 ''amd64'',
     entry ''Standard_NV24ads_V710_v5'' ''StandardNVadsV710v5Family'' 24 131072 0 ''amd64'',
     entry ''Standard_NV24s_v2'' ''standardNVSv2Family'' 24 458752 4 ''amd64'',
     entry ''Standard_NV24s_v3'' ''standardNVSv3Family'' 24 229376 2 ''amd64'',
     entry ''Standard_NV28adms_V710_v5'' ''StandardNVadsV710v5Family'' 28 163840 0 ''amd64'',
     entry ''Standard_NV32as_v4'' ''standardNVSv4Family'' 32 114688 1 ''amd64'',
     entry ''Standard_NV36adms_A10_v5'' ''StandardNVADSA10v5Family'' 36 901120 1 ''amd64'',
     entry ''Standard_NV36ads_A10_v5'' ''StandardNVADSA10v5Family'' 36 450560 1 ''amd64'',
     entry ''Standard_NV48s_v3'' ''standardNVSv3Family'' 48 458752 4 ''amd64'',
     entry ''Standard_NV4ads_V710_v5'' ''StandardNVadsV710v5Family'' 4 16384 0 ''amd64'',
     entry ''Standard_NV4as_v4'' ''standardNVSv4Family'' 4 14336 1 ''amd64'',
     entry ''Standard_NV6ads_A10_v5'' ''StandardNVADSA10v5Family'' 6 56320 1 ''amd64'',
     entry ''Standard_NV6s_v2'' ''standardNVSv2Family'' 6 114688 1 ''amd64'',
     entry ''Standard_NV72ads_A10_v5'' ''StandardNVADSA10v5Family'' 72 901120 2 ''amd64'']"

definition instanceTypes77 :: "(string, instanceType) gomap" where
  "instanceTypes77 =
    [entry ''Standard_NV8ads_V710_v5'' ''StandardNVadsV710v5Family'' 8 32768 0 ''amd64'',
     entry ''Standard_NV8as_v4'' ''standardNVSv4Family'' 8 28672 1 ''amd64'']"

section \<open>The table\<close>

definition InstanceTypes :: "(string, instanceType) gomap" where
  "InstanceTypes = concat
     [instanceTypes01, instanceTypes02, instanceTypes03, instanceTypes04, instanceTypes05,
      instanceTypes06, instanceTypes07, instanceTypes08, instanceTypes09, instanceTypes10,
      instanceTypes11, instanceTypes12, instanceTypes13, instanceTypes14, instanceTypes15,
      instanceTypes16, instanceTypes17, instanceTypes18, instanceTypes19, instanceTypes20,
      instanceTypes21, instanceTypes22, instanceTypes23, instanceTypes24, instanceTypes25,
      instanceTypes26, instanceTypes27, instanceTypes28, instanceTypes29, instanceTypes30,
      instanceTypes31, instanceTypes32, instanceTypes33, instanceTypes34, instanceTypes35,
      instanceTypes36, instanceTypes37, instanceTypes38, instanceTypes39, instanceTypes40,
      instanceTypes41, instanceTypes42, instanceTypes43, instanceTypes44, instanceTypes45,
      instanceTypes46, instanceTypes47, instanceTypes48, instanceTypes49, instanceTypes50,
      instanceTypes51, instanceTypes52, instanceTypes53, instanceTypes54, instanceTypes55,
      instanceTypes56, instanceTypes57, instanceTypes58, instanceTypes59, instanceTypes60,
      instanceTypes61, instanceTypes62, instanceTypes63, instanceTypes64, instanceTypes65,
      instanceTypes66, instanceTypes67, instanceTypes68, instanceTypes69, instanceTypes70,
      instanceTypes71, instanceTypes72, instanceTypes73, instanceTypes74, instanceTypes75,
      instanceTypes76, instanceTypes77]"

text \<open>The equations that unfold the table.\<close>

lemmas instanceTypes_defs =
  instanceTypes01_def instanceTypes02_def instanceTypes03_def instanceTypes04_def
  instanceTypes05_def instanceTypes06_def instanceTypes07_def instanceTypes08_def
  instanceTypes09_def instanceTypes10_def instanceTypes11_def instanceTypes12_def
  instanceTypes13_def instanceTypes14_def instanceTypes15_def instanceTypes16_def
  instanceTypes17_def instanceTypes18_def instanceTypes19_def instanceTypes20_def
  instanceTypes21_def instanceTypes22_def instanceTypes23_def instanceTypes24_def
  instanceTypes25_def instanceTypes26_def instanceTypes27_def instanceTypes28_def
  instanceTypes29_def instanceTypes30_def instanceTypes31_def instanceTypes32_def
  instanceTypes33_def instanceTypes34_def instanceTypes35_def instanceTypes36_def
  instanceTypes37_def instanceTypes38_def instanceTypes39_def instanceTypes40_def
  instanceTypes41_def instanceTypes42_def instanceTypes43_def instanceTypes44_def
  instanceTypes45_def instanceTypes46_def instanceTypes47_def instanceTypes48_def
  instanceTypes49_def instanceTypes50_def instanceTypes51_def instanceTypes52_def
  instanceTypes53_def instanceTypes54_def instanceTypes55_def instanceTypes56_def
  instanceTypes57_def instanceTypes58_def instanceTypes59_def instanceTypes60_def
  instanceTypes61_def instanceTypes62_def instanceTypes63_def instanceTypes64_def
  instanceTypes65_def instanceTypes66_def instanceTypes67_def instanceTypes68_def
  instanceTypes69_def instanceTypes70_def instanceTypes71_def instanceTypes72_def
  instanceTypes73_def instanceTypes74_def instanceTypes75_def instanceTypes76_def
  instanceTypes77_def

section \<open>The order of the keys\<close>

text \<open>
  One key comes before another when, at the first letter where they differ, its letter has the
  smaller code and the smaller rank. The rank does not depend on the case of the letter. The keys
  of the table ascend in this order, so they ascend in the order of Go strings and are distinct
  without regard to case. Letters are compared bit by bit, from the highest bit.
\<close>

fun bitsLess :: "bool list \<Rightarrow> bool list \<Rightarrow> bool" where
  "bitsLess (a # as) (b # bs) \<longleftrightarrow> (if a = b then bitsLess as bs else b)"
| "bitsLess _ _ \<longleftrightarrow> False"

definition bits :: "char \<Rightarrow> bool list" where
  "bits c = [digit7 c, digit6 c, digit5 c, digit4 c, digit3 c, digit2 c, digit1 c, digit0 c]"

definition rank :: "char \<Rightarrow> bool list" where
  "rank c = [digit6 c, c \<noteq> CHR ''_'', digit4 c, digit3 c, digit2 c, digit1 c, digit0 c]"

fun before :: "string \<Rightarrow> string \<Rightarrow> bool" where
  "before [] ys \<longleftrightarrow> ys \<noteq> []"
| "before (x # xs) [] \<longleftrightarrow> False"
| "before (x # xs) (y # ys) \<longleftrightarrow>
     (if x = y then before xs ys else bitsLess (bits x) (bits y) \<and> bitsLess (rank x) (rank y))"

text \<open>What every entry of the table looks like.\<close>

fun wfEntry :: "string \<times> instanceType \<Rightarrow> bool" where
  "wfEntry (k, it) \<longleftrightarrow>
     it_InstanceType it = k \<and> 1 \<le> it_VCPU it \<and> it_VCPU it \<le> 1000 \<and> 0 \<le> it_MemoryMb it \<and>
     it_MemoryMb it \<le> 20480000 \<and> it_MemoryMb it mod 1024 = 0 \<and> 0 \<le> it_GPU it \<and> it_GPU it \<le> 100 \<and>
     (if it_MemoryMb it = 0 then k = ''Standard_B1ls'' else k \<noteq> ''Standard_B1ls'') \<and> (it_Architecture it = ''amd64'' \<or> it_Architecture it = ''arm64'')"

text \<open>The keys of a part of the table ascend from the key \<open>lo\<close> before it to its last key \<open>hi\<close>.\<close>

fun runs :: "string \<Rightarrow> (string, instanceType) gomap \<Rightarrow> string \<Rightarrow> bool" where
  "runs lo [] hi \<longleftrightarrow> lo = hi"
| "runs lo ((k, it) # m) hi \<longleftrightarrow> before lo k \<and> wfEntry (k, it) \<and> runs k m hi"

lemma runs_append: "runs lo m mid \<Longrightarrow> runs mid m' hi \<Longrightarrow> runs lo (m @ m') hi"
  by (induction lo m mid rule: runs.induct) auto

lemma runs_wfEntry: "runs lo m hi \<Longrightarrow> e \<in> set m \<Longrightarrow> wfEntry e"
  by (induction lo m hi rule: runs.induct) auto

lemma bitsLess_irrefl: "\<not> bitsLess xs xs"
  by (induction xs) auto

lemma bitsLess_trans: "bitsLess xs ys \<Longrightarrow> bitsLess ys zs \<Longrightarrow> bitsLess xs zs"
proof (induction xs ys arbitrary: zs rule: bitsLess.induct)
  case (1 a as b bs)
  then show ?case by (cases zs) (auto split: if_splits)
qed simp_all

lemma rank_toLowerChar: "rank (toLowerChar c) = rank c"
  unfolding rank_def toLowerChar_def by (cases c; simp add: Let_def char_of_def bit_0)

lemma before_trans: "before x y \<Longrightarrow> before y z \<Longrightarrow> before x z"
proof (induction x y arbitrary: z rule: before.induct)
  case (3 a x b y)
  then show ?case by (cases z) (auto split: if_splits dest: bitsLess_trans simp: bitsLess_irrefl)
qed (auto elim: before.elims)

lemma runs_before: "runs lo m hi \<Longrightarrow> k \<in> set (keys m) \<Longrightarrow> before lo k"
  by (induction lo m hi rule: runs.induct) (auto simp: keys_def intro: before_trans)

lemma before_lower: "before x y \<Longrightarrow> strings_ToLower x \<noteq> strings_ToLower y"
proof (induction x y rule: before.induct)
  case (3 a x b y)
  have "toLowerChar a = toLowerChar b \<Longrightarrow> rank a = rank b" by (metis rank_toLowerChar)
  with 3 show ?case by (auto simp: strings_ToLower_def bitsLess_irrefl split: if_splits)
qed (auto simp: strings_ToLower_def)

lemma runs_foldDistinct: "runs lo m hi \<Longrightarrow> foldDistinct m"
proof (induction lo m hi rule: runs.induct)
  case (2 lo k it m hi)
  have "strings_ToLower k \<noteq> strings_ToLower k'" if "k' \<in> set (keys m)" for k'
    using runs_before [of k m hi k'] before_lower that 2 by auto
  then show ?case using 2 by (auto simp: foldDistinct_def keys_def)
qed (simp add: foldDistinct_def keys_def)

section \<open>The parts of the table fit together\<close>

lemma runs_01_11:
  "runs [] instanceTypes01 ''Standard_B1s''"
  "runs ''Standard_B1s'' instanceTypes02 ''Standard_B4as_v2''"
  "runs ''Standard_B4as_v2'' instanceTypes03 ''Standard_D128ads_v7''"
  "runs ''Standard_D128ads_v7'' instanceTypes04 ''Standard_D160alds_v7''"
  "runs ''Standard_D160alds_v7'' instanceTypes05 ''Standard_D16d_v4''"
  "runs ''Standard_D16d_v4'' instanceTypes06 ''Standard_D16s_v4''"
  "runs ''Standard_D16s_v4'' instanceTypes07 ''Standard_D2als_v6''"
  "runs ''Standard_D2als_v6'' instanceTypes08 ''Standard_D2plds_v6''"
  "runs ''Standard_D2plds_v6'' instanceTypes09 ''Standard_D32alds_v7''"
  "runs ''Standard_D32alds_v7'' instanceTypes10 ''Standard_D32plds_v5''"
  "runs ''Standard_D32plds_v5'' instanceTypes11 ''Standard_D48ads_v6''"
  by code_simp+

lemma runs_12_22:
  "runs ''Standard_D48ads_v6'' instanceTypes12 ''Standard_D48ls_v6''"
  "runs ''Standard_D48ls_v6'' instanceTypes13 ''Standard_D4a_v4''"
  "runs ''Standard_D4a_v4'' instanceTypes14 ''Standard_D4lds_v6''"
  "runs ''Standard_D4lds_v6'' instanceTypes15 ''Standard_D64_v4''"
  "runs ''Standard_D64_v4'' instanceTypes16 ''Standard_D64ds_v6''"
  "runs ''Standard_D64ds_v6'' instanceTypes17 ''Standard_D8_v4''"
  "runs ''Standard_D8_v4'' instanceTypes18 ''Standard_D8ds_v6''"
  "runs ''Standard_D8ds_v6'' instanceTypes19 ''Standard_D96a_v4''"
  "runs ''Standard_D96a_v4'' instanceTypes20 ''Standard_D96ls_v6''"
  "runs ''Standard_D96ls_v6'' instanceTypes21 ''Standard_DC16es_v5''"
  "runs ''Standard_DC16es_v5'' instanceTypes22 ''Standard_DC2s_v3''"
  by code_simp+

lemma runs_23_33:
  "runs ''Standard_DC2s_v3'' instanceTypes23 ''Standard_DC48as_v6''"
  "runs ''Standard_DC48as_v6'' instanceTypes24 ''Standard_DC4s_v2''"
  "runs ''Standard_DC4s_v2'' instanceTypes25 ''Standard_DC8as_v6''"
  "runs ''Standard_DC8as_v6'' instanceTypes26 ''Standard_DS11''"
  "runs ''Standard_DS11'' instanceTypes27 ''Standard_DS14_v2_Promo''"
  "runs ''Standard_DS14_v2_Promo'' instanceTypes28 ''Standard_E112iads_v5''"
  "runs ''Standard_E112iads_v5'' instanceTypes29 ''Standard_E16-4as_v4''"
  "runs ''Standard_E16-4as_v4'' instanceTypes30 ''Standard_E16-8s_v3''"
  "runs ''Standard_E16-8s_v3'' instanceTypes31 ''Standard_E16bs_v5''"
  "runs ''Standard_E16bs_v5'' instanceTypes32 ''Standard_E20_v5''"
  "runs ''Standard_E20_v5'' instanceTypes33 ''Standard_E2_v3''"
  by code_simp+

lemma runs_34_44:
  "runs ''Standard_E2_v3'' instanceTypes34 ''Standard_E2pds_v5''"
  "runs ''Standard_E2pds_v5'' instanceTypes35 ''Standard_E32-16s_v5''"
  "runs ''Standard_E32-16s_v5'' instanceTypes36 ''Standard_E32ads_v5''"
  "runs ''Standard_E32ads_v5'' instanceTypes37 ''Standard_E32s_v3''"
  "runs ''Standard_E32s_v3'' instanceTypes38 ''Standard_E48_v5''"
  "runs ''Standard_E48_v5'' instanceTypes39 ''Standard_E48s_v3''"
  "runs ''Standard_E48s_v3'' instanceTypes40 ''Standard_E4d_v5''"
  "runs ''Standard_E4d_v5'' instanceTypes41 ''Standard_E64-16ds_v5''"
  "runs ''Standard_E64-16ds_v5'' instanceTypes42 ''Standard_E64_v3''"
  "runs ''Standard_E64_v3'' instanceTypes43 ''Standard_E64i_v3''"
  "runs ''Standard_E64i_v3'' instanceTypes44 ''Standard_E8-2s_v5''"
  by code_simp+

lemma runs_45_55:
  "runs ''Standard_E8-2s_v5'' instanceTypes45 ''Standard_E8_v5''"
  "runs ''Standard_E8_v5'' instanceTypes46 ''Standard_E8ps_v5''"
  "runs ''Standard_E8ps_v5'' instanceTypes47 ''Standard_E96-48ads_v7''"
  "runs ''Standard_E96-48ads_v7'' instanceTypes48 ''Standard_E96bs_v5''"
  "runs ''Standard_E96bs_v5'' instanceTypes49 ''Standard_EC16as_v6''"
  "runs ''Standard_EC16as_v6'' instanceTypes50 ''Standard_EC32ads_v5''"
  "runs ''Standard_EC32ads_v5'' instanceTypes51 ''Standard_EC48es_v6''"
  "runs ''Standard_EC48es_v6'' instanceTypes52 ''Standard_EC64eds_v6''"
  "runs ''Standard_EC64eds_v6'' instanceTypes53 ''Standard_EC96as_v6''"
  "runs ''Standard_EC96as_v6'' instanceTypes54 ''Standard_F16s''"
  "runs ''Standard_F16s'' instanceTypes55 ''Standard_F2ams_v7''"
  by code_simp+

lemma runs_56_66:
  "runs ''Standard_F2ams_v7'' instanceTypes56 ''Standard_F32s_v2''"
  "runs ''Standard_F32s_v2'' instanceTypes57 ''Standard_F4als_v6''"
  "runs ''Standard_F4als_v6'' instanceTypes58 ''Standard_F64ams_v6''"
  "runs ''Standard_F64ams_v6'' instanceTypes59 ''Standard_F8alds_v7''"
  "runs ''Standard_F8alds_v7'' instanceTypes60 ''Standard_FX16-8ms_v2''"
  "runs ''Standard_FX16-8ms_v2'' instanceTypes61 ''Standard_FX36mds''"
  "runs ''Standard_FX36mds'' instanceTypes62 ''Standard_FX64ms_v2''"
  "runs ''Standard_FX64ms_v2'' instanceTypes63 ''Standard_GS1''"
  "runs ''Standard_GS1'' instanceTypes64 ''Standard_HB120rs_v3''"
  "runs ''Standard_HB120rs_v3'' instanceTypes65 ''Standard_HX176-24rs''"
  "runs ''Standard_HX176-24rs'' instanceTypes66 ''Standard_L32as_v4''"
  by code_simp+

lemma runs_67_77:
  "runs ''Standard_L32as_v4'' instanceTypes67 ''Standard_L64s_v4''"
  "runs ''Standard_L64s_v4'' instanceTypes68 ''Standard_M128-64bds_v3''"
  "runs ''Standard_M128-64bds_v3'' instanceTypes69 ''Standard_M16bs_v3''"
  "runs ''Standard_M16bs_v3'' instanceTypes70 ''Standard_M24ds_v3''"
  "runs ''Standard_M24ds_v3'' instanceTypes71 ''Standard_M416s_6_v3''"
  "runs ''Standard_M416s_6_v3'' instanceTypes72 ''Standard_M64dms_v2''"
  "runs ''Standard_M64dms_v2'' instanceTypes73 ''Standard_M96bs_v3''"
  "runs ''Standard_M96bs_v3'' instanceTypes74 ''Standard_NC8ads_A10_v4''"
  "runs ''Standard_NC8ads_A10_v4'' instanceTypes75 ''Standard_NV12ads_A10_v5''"
  "runs ''Standard_NV12ads_A10_v5'' instanceTypes76 ''Standard_NV72ads_A10_v5''"
  "runs ''Standard_NV72ads_A10_v5'' instanceTypes77 ''Standard_NV8as_v4''"
  by code_simp+

lemma runs_InstanceTypes: "runs [] InstanceTypes ''Standard_NV8as_v4''"
  unfolding InstanceTypes_def concat.simps append_Nil2
  by (rule runs_append | rule runs_01_11 runs_12_22 runs_23_33 runs_34_44 runs_45_55 runs_56_66 runs_67_77)+

lemmas foldDistinct_InstanceTypes = runs_foldDistinct [OF runs_InstanceTypes]

lemmas wfEntry_InstanceTypes = runs_wfEntry [OF runs_InstanceTypes]

end
