(* ===== verification/Instance_Sizes.thy ===== *)
theory Instance_Sizes
  imports Instance_Types Node_Template "HOL-Library.Char_ord" "HOL-Library.List_Lexorder"
begin

text \<open>
  \<open>azure_instance_types/gen.go\<close>, the generator of the table of the instance types, and what the
  table gives to \<open>GetInstanceTypeStatically\<close>. The list of the SKUs is the output of the command
  \<open>az vm list-skus\<close>, decoded: it is a parameter, like the outcome of creating the file and of
  executing the template.

  The theorems state that the generator reproduces the table from SKUs that describe it, in
  whatever order they are listed, and that the static lookup finds every size of the table, in
  any casing and whatever order the map is visited in.
\<close>

section \<open>The generator\<close>

record instanceCapability =
  ic_Name :: string
  ic_Value :: string

record rawInstanceType =
  raw_Name :: string
  raw_ResourceType :: string
  raw_Family :: string
  raw_Capabilities :: "instanceCapability list"

text \<open>
  What the generator calls. \<open>otherFloat\<close> reads the numbers in another notation than a plain
  decimal of up to fifteen characters, and drops their fraction.
\<close>

record genLib =
  listSkus :: "goerror + rawInstanceType list"
  osCreate :: "goerror option"
  templateExecute :: "goerror option"
  otherFloat :: "string \<Rightarrow> int option"

definition numError :: "string \<Rightarrow> string \<Rightarrow> goerror" where
  "numError fn v = Errorf ''strconv.%s: parsing %q'' [AStr fn, AStr v]"

text \<open>
  \<open>strconv.ParseFloat\<close> followed by \<open>int64\<close>, which drops the fraction. A float holds a decimal of up
  to fifteen digits closely enough that it is an integer only if the decimal is.
\<close>

definition truncatedFloat :: "(string \<Rightarrow> int option) \<Rightarrow> string \<Rightarrow> int option" where
  "truncatedFloat other s =
     (let whole = takeWhile isDigit s; rest = dropWhile isDigit s
      in if whole \<noteq> [] \<and> length s \<le> 15 \<and> (rest = [] \<or> hd rest = CHR ''.'' \<and> list_all isDigit (tl rest))
         then Some (digitsVal 0 whole) else other s)"

definition addCapability :: "(string \<Rightarrow> int option) \<Rightarrow> instanceCapability \<Rightarrow> instanceType \<Rightarrow> goerror + instanceType" where
  "addCapability other c vm =
     (let v = ic_Value c
      in if ic_Name c = ''vCPUs''
         then (case strconv_ParseInt10 v 64 of
                 None \<Rightarrow> Inl (numError ''ParseInt'' v) | Some n \<Rightarrow> Inr (vm\<lparr>it_VCPU := n\<rparr>))
         else if ic_Name c = ''MemoryGB''
         then (case truncatedFloat other v of
                 None \<Rightarrow> Inl (numError ''ParseFloat'' v) | Some gb \<Rightarrow> Inr (vm\<lparr>it_MemoryMb := i64 (gb * 1024)\<rparr>))
         else if ic_Name c = ''GPUs''
         then (case strconv_ParseInt10 v 64 of
                 None \<Rightarrow> Inl (numError ''ParseInt'' v) | Some n \<Rightarrow> Inr (vm\<lparr>it_GPU := n\<rparr>))
         else if ic_Name c = ''CpuArchitectureType'' \<and> strings_ToLower v = ''arm64''
         then Inr (vm\<lparr>it_Architecture := ''arm64''\<rparr>)
         else Inr vm)"

primrec addCapabilities ::
  "(string \<Rightarrow> int option) \<Rightarrow> instanceCapability list \<Rightarrow> instanceType \<Rightarrow> goerror + instanceType" where
  "addCapabilities other [] vm = Inr vm"
| "addCapabilities other (c # cs) vm =
     (case addCapability other c vm of Inl e \<Rightarrow> Inl e | Inr vm' \<Rightarrow> addCapabilities other cs vm')"

definition virtualMachineOf :: "(string \<Rightarrow> int option) \<Rightarrow> rawInstanceType \<Rightarrow> goerror + instanceType" where
  "virtualMachineOf other r =
     addCapabilities other (raw_Capabilities r)
       \<lparr>it_InstanceType = raw_Name r, it_SkuFamily = raw_Family r, it_VCPU = 0, it_MemoryMb = 0, it_GPU = 0,
        it_Architecture = defaultArch\<rparr>"

primrec addVirtualMachines ::
  "(string \<Rightarrow> int option) \<Rightarrow> rawInstanceType list \<Rightarrow> (string, instanceType) gomap \<Rightarrow>
     goerror + (string, instanceType) gomap" where
  "addVirtualMachines other [] m = Inr m"
| "addVirtualMachines other (r # rs) m =
     (if strings_EqualFold (raw_ResourceType r) ''virtualMachines''
      then (case virtualMachineOf other r of
              Inl e \<Rightarrow> Inl e
            | Inr vm \<Rightarrow> addVirtualMachines other rs (mapSet (it_InstanceType vm) vm m))
      else addVirtualMachines other rs m)"

definition getAllAzureVirtualMachineTypes :: "genLib \<Rightarrow> goerror + (string, instanceType) gomap" where
  "getAllAzureVirtualMachineTypes lib =
     (case listSkus lib of Inl e \<Rightarrow> Inl e | Inr raws \<Rightarrow> addVirtualMachines (otherFloat lib) raws [])"

text \<open>
  \<open>packageTemplate\<close> ranges over the map in the order of its keys, which is how a template visits a
  map, and writes one entry per value. Its fields are printed as they are: the escapes of
  \<open>html/template\<close> do not touch the letters, digits and signs of the names of Azure.
\<close>

definition packageTemplate :: "(string, instanceType) gomap \<Rightarrow> (string, instanceType) gomap" where
  "packageTemplate m = map (\<lambda>(_, it). (it_InstanceType it, it)) (sort_key fst m)"

text \<open>\<open>main\<close>: the entries of the written file, or the error that \<open>klog.Fatal\<close> reports.\<close>

definition gen_main :: "genLib \<Rightarrow> goerror + (string, instanceType) gomap" where
  "gen_main lib =
     (case getAllAzureVirtualMachineTypes lib of
        Inl e \<Rightarrow> Inl e
      | Inr m \<Rightarrow>
          (case osCreate lib of
             Some e \<Rightarrow> Inl e
           | None \<Rightarrow> (case templateExecute lib of Some e \<Rightarrow> Inl e | None \<Rightarrow> Inr (packageTemplate m))))"

section \<open>Numbers printed and read back\<close>

lemma isDigit_char: "d < 10 \<Longrightarrow> isDigit (char_of (48 + d)) \<and> digitVal (char_of (48 + d)) = int d" for d :: nat
  by (simp add: isDigit_def digitVal_def)

lemma digitsVal_append: "digitsVal acc (xs @ ys) = digitsVal (digitsVal acc xs) ys"
  by (induction acc xs rule: digitsVal.induct) auto

lemma natDigits_digits: "natDigits n \<noteq> [] \<and> list_all isDigit (natDigits n) \<and> digitsVal 0 (natDigits n) = int n"
proof (induction n rule: natDigits.induct)
  case (1 n)
  show ?case
  proof (cases "n < 10")
    case True
    then show ?thesis by (simp add: natDigits.simps [of n] isDigit_char)
  next
    case False
    have "10 * int (n div 10) + int (n mod 10) = int n" by presburger
    then show ?thesis using False 1 isDigit_char [of "n mod 10"]
      by (simp add: natDigits.simps [of n] digitsVal_append)
  qed
qed

lemma length_natDigits: "n < 10 ^ Suc k \<Longrightarrow> length (natDigits n) \<le> Suc k"
proof (induction k arbitrary: n)
  case 0
  then show ?case by (simp add: natDigits.simps)
next
  case (Suc k)
  show ?case
  proof (cases "n < 10")
    case True
    then show ?thesis by (simp add: natDigits.simps [of n])
  next
    case False
    have "n div 10 < 10 ^ Suc k" using Suc.prems by (simp add: less_mult_imp_div_less mult.commute)
    then show ?thesis using Suc.IH False by (simp add: natDigits.simps [of n])
  qed
qed

lemma ParseInt10_fmtInt: "0 \<le> n \<Longrightarrow> n < 2 ^ 63 \<Longrightarrow> strconv_ParseInt10 (fmtInt n) 64 = Some n"
proof -
  assume n: "0 \<le> n" "n < 2 ^ 63"
  note d = natDigits_digits [of "nat n"]
  then obtain c cs where cs: "natDigits (nat n) = c # cs" by (cases "natDigits (nat n)") auto
  have "c \<noteq> CHR ''-''" "c \<noteq> CHR ''+''" using d cs by (auto simp: isDigit_def)
  moreover have "parseUnsigned (c # cs) = Some n" using d cs n by (simp add: parseUnsigned_def)
  ultimately show ?thesis using n cs by (simp add: strconv_ParseInt10_def fmtInt_def Let_def)
qed

lemma truncatedFloat_fmtInt: "0 \<le> n \<Longrightarrow> n < 10 ^ 15 \<Longrightarrow> truncatedFloat other (fmtInt n) = Some n"
proof -
  assume n: "0 \<le> n" "n < 10 ^ 15"
  note d = natDigits_digits [of "nat n"]
  have "takeWhile isDigit (natDigits (nat n)) = natDigits (nat n)"
    "dropWhile isDigit (natDigits (nat n)) = []"
    using d by (auto simp: list_all_iff takeWhile_eq_all_conv dropWhile_eq_Nil_conv)
  moreover have "length (natDigits (nat n)) \<le> 15" using length_natDigits [of "nat n" 14] n by simp
  ultimately show ?thesis using n d
    by (simp add: truncatedFloat_def fmtInt_def Let_def del: takeWhile_eq_all_conv dropWhile_eq_Nil_conv)
qed

section \<open>The table is what its generator writes\<close>

text \<open>The SKU that the service lists for an entry of the table; half a gigabyte stands for the memory of 0.\<close>

definition skuOf :: "instanceType \<Rightarrow> rawInstanceType" where
  "skuOf it =
     \<lparr>raw_Name = it_InstanceType it, raw_ResourceType = ''virtualMachines'', raw_Family = it_SkuFamily it,
      raw_Capabilities =
        [\<lparr>ic_Name = ''vCPUs'', ic_Value = fmtInt (it_VCPU it)\<rparr>,
         \<lparr>ic_Name = ''MemoryGB'',
          ic_Value = (if it_MemoryMb it = 0 then ''0.5'' else fmtInt (it_MemoryMb it div 1024))\<rparr>,
         \<lparr>ic_Name = ''CpuArchitectureType'',
          ic_Value = (if it_Architecture it = ''arm64'' then ''Arm64'' else ''x64'')\<rparr>] @
        (if it_GPU it = 0 then [] else [\<lparr>ic_Name = ''GPUs'', ic_Value = fmtInt (it_GPU it)\<rparr>])\<rparr>"

lemma truncatedFloat_half: "truncatedFloat other ''0.5'' = Some 0"
  by (simp add: truncatedFloat_def isDigit_def digitVal_def)

lemma lower_arm64: "strings_ToLower ''Arm64'' = ''arm64''" "strings_ToLower ''x64'' \<noteq> ''arm64''"
  by code_simp+

lemma virtualMachineOf_skuOf:
  assumes "wfEntry (k, it)"
  shows "virtualMachineOf other (skuOf it) = Inr it"
proof -
  have "truncatedFloat other (if it_MemoryMb it = 0 then ''0.5'' else fmtInt (it_MemoryMb it div 1024))
      = Some (it_MemoryMb it div 1024)"
    using assms by (auto simp: truncatedFloat_half intro: truncatedFloat_fmtInt)
  moreover have "i64 (it_MemoryMb it div 1024 * 1024) = it_MemoryMb it"
    using assms by (auto simp: i64_nonneg_small maxInt64_def)
  moreover have "strconv_ParseInt10 (fmtInt (it_VCPU it)) 64 = Some (it_VCPU it)"
    "strconv_ParseInt10 (fmtInt (it_GPU it)) 64 = Some (it_GPU it)"
    using assms by (auto intro: ParseInt10_fmtInt)
  ultimately show ?thesis using assms
    by (cases it) (auto simp: virtualMachineOf_def skuOf_def addCapability_def Let_def lower_arm64 defaultArch_def)
qed

lemma mapSet_new: "k \<notin> set (keys m) \<Longrightarrow> mapSet k v m = m @ [(k, v)]"
  by (induction k v m rule: mapSet.induct) (auto simp: keys_def)

lemma addVirtualMachines_skuOf:
  assumes "\<forall>e \<in> set m. wfEntry e" and "distinct (keys (acc @ m))"
  shows "addVirtualMachines other (map (skuOf \<circ> snd) m) acc = Inr (acc @ m)"
  using assms
proof (induction m arbitrary: acc)
  case (Cons e m)
  obtain k it where e: "e = (k, it)" by (cases e)
  have w: "wfEntry (k, it)" and k: "it_InstanceType it = k" using Cons.prems e by auto
  have "mapSet k it acc = acc @ [(k, it)]"
    using Cons.prems(2) e by (intro mapSet_new) (auto simp: keys_def)
  moreover have "strings_EqualFold (raw_ResourceType (skuOf it)) ''virtualMachines''"
    by (simp add: skuOf_def)
  ultimately show ?case
    using Cons e k virtualMachineOf_skuOf [OF w, of other] by (simp add: keys_def)
qed simp

lemma bits_less: "bitsLess (bits x) (bits y) \<Longrightarrow> x < y"
  by (cases x; cases y) (auto simp: bits_def split: if_splits)

lemma before_less: "before x y \<Longrightarrow> x < y"
  by (induction x y rule: before.induct) (auto simp: bits_less neq_Nil_conv split: if_splits)

lemma runs_sorted: "runs lo m hi \<Longrightarrow> sorted (map fst m) \<and> distinct (map fst m)"
proof (induction lo m hi rule: runs.induct)
  case (2 lo k it m hi)
  have "k < k'" if "k' \<in> set (map fst m)" for k'
    using runs_before [of k m hi k'] before_less that 2 by (auto simp: keys_def)
  then show ?case using 2 by (auto simp: less_imp_le)
qed simp

lemmas InstanceTypes_sorted = runs_sorted [OF runs_InstanceTypes]

lemma packageTemplate_InstanceTypes:
  assumes "set m = set InstanceTypes" and "wfMap m"
  shows "packageTemplate m = InstanceTypes"
proof -
  have "sort_key fst m = InstanceTypes"
    using assms InstanceTypes_sorted
    by (intro map_sorted_distinct_set_unique [where f = fst])
      (auto simp: wfMap_def keys_def distinct_map intro: inj_on_subset)
  moreover have "map (\<lambda>(_, it). (it_InstanceType it, it)) InstanceTypes = InstanceTypes"
    using wfEntry_InstanceTypes by (intro map_idI) fastforce
  ultimately show ?thesis by (simp add: packageTemplate_def)
qed

text \<open>
  C30. The generator reproduces the table: given the SKUs of the entries of the table, listed in
  whatever order, it writes exactly the table, in the order of the file.
\<close>

theorem generator_reproduces_table:
  assumes "set m = set InstanceTypes" and "wfMap m"
    and "listSkus lib = Inr (map (skuOf \<circ> snd) m)" and "osCreate lib = None" and "templateExecute lib = None"
  shows "gen_main lib = Inr InstanceTypes"
proof -
  have "addVirtualMachines (otherFloat lib) (map (skuOf \<circ> snd) m) [] = Inr m"
    using addVirtualMachines_skuOf [of m "[]"] wfEntry_InstanceTypes assms by (simp add: wfMap_def)
  then show ?thesis
    using packageTemplate_InstanceTypes [OF assms(1,2)] assms
    by (simp add: gen_main_def getAllAzureVirtualMachineTypes_def)
qed

lemma wfMap_InstanceTypes: "wfMap InstanceTypes"
  using InstanceTypes_sorted by (simp add: wfMap_def keys_def)

theorem generator_reproduces_table_witness:
  "gen_main \<lparr>listSkus = Inr (map (skuOf \<circ> snd) (rev InstanceTypes)), osCreate = None, templateExecute = None,
     otherFloat = (\<lambda>_. None)\<rparr> = Inr InstanceTypes"
  by (rule generator_reproduces_table [of "rev InstanceTypes"])
    (use wfMap_InstanceTypes in \<open>simp_all add: wfMap_def keys_def rev_map [symmetric]\<close>)


section \<open>The lookup in the table\<close>

lemma foldDistinct_set: "set m = set m' \<Longrightarrow> wfMap m \<Longrightarrow> wfMap m' \<Longrightarrow> foldDistinct m' \<Longrightarrow> foldDistinct m"
proof -
  assume a: "set m = set m'" "wfMap m" "wfMap m'" "foldDistinct m'"
  have "set (keys m) = set (keys m')" using a(1) by (simp add: keys_def)
  then show ?thesis using a by (simp add: foldDistinct_def wfMap_def distinct_map)
qed

text \<open>An order in which the \<open>range\<close> loops may visit the table.\<close>

definition visits :: "(string, instanceType) gomap \<Rightarrow> bool" where
  "visits m \<longleftrightarrow> set m = set InstanceTypes \<and> wfMap m"

lemma visits_foldDistinct: "visits m \<Longrightarrow> foldDistinct m"
  unfolding visits_def using foldDistinct_set wfMap_InstanceTypes foldDistinct_InstanceTypes by blast

lemma visits_findFold:
  "visits m \<Longrightarrow> findFold i m = Some (k, it) \<longleftrightarrow> (k, it) \<in> set InstanceTypes \<and> strings_EqualFold k i"
  using findFold_iff [OF visits_foldDistinct] by (auto simp: visits_def)

lemma visits_findFold_None:
  "visits m \<Longrightarrow> findFold i m = None \<longleftrightarrow> (\<forall>(k, it) \<in> set InstanceTypes. \<not> strings_EqualFold k i)"
  by (auto simp: findFold_None visits_def keys_def)

lemma static_entry:
  assumes "visits m" and "GetInstanceTypeStatically m t = Inr it"
  shows "(it_InstanceType it, it) \<in> set InstanceTypes"
proof -
  obtain i k where "findFold i m = Some (k, it)"
    using assms(2) by (auto simp: GetInstanceTypeStatically_def split: option.splits if_splits)
  then have k: "(k, it) \<in> set InstanceTypes" using visits_findFold assms(1) by blast
  with wfEntry_InstanceTypes [OF k] show ?thesis by simp
qed

lemma static_hit:
  assumes "visits m" and "(k, it) \<in> set InstanceTypes" and "strings_EqualFold k (nt_SkuName t)"
  shows "GetInstanceTypeStatically m t = Inr it"
  using visits_findFold [OF assms(1), of "nt_SkuName t" k it] assms(2,3)
  by (simp add: GetInstanceTypeStatically_def)

lemma visits_rev: "visits (rev InstanceTypes)"
  using wfMap_InstanceTypes by (simp add: visits_def wfMap_def keys_def rev_map [symmetric])

text \<open>
  C29. The lookup does not depend on the order in which the map is visited, and it finds exactly the
  entry whose name is the name of the SKU up to case or, when there is none and the SKU is a
  promotion, the entry whose name is the name without \<open>_promo\<close>.
\<close>

theorem static_lookup:
  assumes "visits m"
  shows "GetInstanceTypeStatically m t = Inr it \<longleftrightarrow>
      (it_InstanceType it, it) \<in> set InstanceTypes \<and>
      (strings_EqualFold (it_InstanceType it) (nt_SkuName t) \<or>
       matchesPromo (nt_SkuName t) \<and> strings_EqualFold (it_InstanceType it) (removePromo (nt_SkuName t)) \<and>
       (\<forall>(k, _) \<in> set InstanceTypes. \<not> strings_EqualFold k (nt_SkuName t)))"
    (is "_ \<longleftrightarrow> ?entry")
proof (cases "findFold (nt_SkuName t) m")
  case None
  have none: "\<forall>(k, _) \<in> set InstanceTypes. \<not> strings_EqualFold k (nt_SkuName t)"
    using visits_findFold_None [OF assms] None by auto
  have "findFold (removePromo (nt_SkuName t)) m = Some (k, it) \<longleftrightarrow> k = it_InstanceType it \<and>
      (k, it) \<in> set InstanceTypes \<and> strings_EqualFold k (removePromo (nt_SkuName t))" for k
    using visits_findFold [OF assms] wfEntry_InstanceTypes [of "(k, it)"] by auto
  moreover have "GetInstanceTypeStatically m t = Inr it \<longleftrightarrow>
      matchesPromo (nt_SkuName t) \<and> (\<exists>k. findFold (removePromo (nt_SkuName t)) m = Some (k, it))"
    using None by (auto simp: GetInstanceTypeStatically_def split: option.splits)
  ultimately show ?thesis using none by auto
next
  case (Some kv)
  obtain k it' where kv: "kv = (k, it')" by (cases kv)
  have k: "(k, it') \<in> set InstanceTypes" "strings_EqualFold k (nt_SkuName t)"
    using visits_findFold [OF assms] Some kv by auto
  have "GetInstanceTypeStatically m t = Inr it \<longleftrightarrow> it = it'"
    using Some kv by (auto simp: GetInstanceTypeStatically_def)
  also have "\<dots> \<longleftrightarrow> findFold (nt_SkuName t) m = Some (it_InstanceType it, it)"
    using wfEntry_InstanceTypes [OF k(1)] Some kv by auto
  also have "\<dots> \<longleftrightarrow> ?entry"
    unfolding visits_findFold [OF assms] using k by auto
  finally show ?thesis .
qed

definition anyCaseTemplate :: nodeTemplate where
  "anyCaseTemplate = \<lparr>nt_SkuName = ''standard_D1'', nt_Architecture = [], nt_InstanceOS = [], nt_Location = [],
     nt_Zones = [], nt_VMPool = None, nt_VMSS = None\<rparr>"

theorem static_lookup_witness:
  "GetInstanceTypeStatically (rev InstanceTypes) anyCaseTemplate =
     Inr (snd (entry ''Standard_D1'' ''standardDFamily'' 1 3072 0 ''amd64''))"
proof -
  have "entry ''Standard_D1'' ''standardDFamily'' 1 3072 0 ''amd64'' \<in> set InstanceTypes"
    by (simp add: InstanceTypes_def instanceTypes03_def)
  moreover have "strings_EqualFold ''Standard_D1'' (nt_SkuName anyCaseTemplate)" by code_simp
  ultimately show ?thesis using static_lookup [OF visits_rev, of anyCaseTemplate] by (simp add: entry_def)
qed

text \<open>
  C31. A size of the table gives a node some CPU and, without overflow, its memory in bytes; the
  memory is at least a gigabyte, except for \<open>Standard_B1ls\<close>, whose node has no memory at all, since
  the generator cut its half gigabyte to 0.
\<close>

theorem static_sizes:
  assumes "visits m" and "GetInstanceTypeStatically m t = Inr it"
  shows "map_of (sizeCapacity lib sku it) ''cpu'' = Some (newQuantity lib (it_VCPU it)) \<and> 1 \<le> it_VCPU it \<and>
    map_of (sizeCapacity lib sku it) ''memory'' = Some (newQuantity lib (it_MemoryMb it * 2 ^ 20)) \<and>
    (if it_InstanceType it = ''Standard_B1ls'' then it_MemoryMb it = 0 else 1024 \<le> it_MemoryMb it)"
proof -
  have wf: "wfEntry (it_InstanceType it, it)" using static_entry [OF assms] by (rule wfEntry_InstanceTypes)
  then have "i64 (it_MemoryMb it * 1024 * 1024) = it_MemoryMb it * 2 ^ 20"
    by (auto simp: i64_nonneg_small maxInt64_def)
  moreover have "''cpu'' \<noteq> xilinxFpgaResourceName" "''cpu'' \<noteq> resourceNvidiaGPU"
    by (simp_all add: xilinxFpgaResourceName_def resourceNvidiaGPU_def)
  moreover have "it_MemoryMb it = 0 \<or> 1024 \<le> it_MemoryMb it" using wf by auto
  ultimately show ?thesis using wf by (auto simp: sizeCapacity_def map_of_mapSet)
qed

definition smallTemplate :: nodeTemplate where
  "smallTemplate = anyCaseTemplate\<lparr>nt_SkuName := ''STANDARD_b1LS''\<rparr>"

theorem static_sizes_witness:
  "it_MemoryMb (snd (entry ''Standard_B1ls'' ''standardBSFamily'' 1 0 0 ''amd64'')) = 0 \<and>
   map_of (sizeCapacity sampleLib ''STANDARD_b1LS''
     (snd (entry ''Standard_B1ls'' ''standardBSFamily'' 1 0 0 ''amd64''))) ''memory'' = Some 0"
proof -
  let ?e = "entry ''Standard_B1ls'' ''standardBSFamily'' 1 0 0 ''amd64''"
  have "?e \<in> set InstanceTypes" by (simp add: InstanceTypes_def instanceTypes01_def)
  moreover have "?e = (''Standard_B1ls'', snd ?e)" by (simp add: entry_def)
  ultimately have "(''Standard_B1ls'', snd ?e) \<in> set InstanceTypes" by metis
  moreover have "strings_EqualFold ''Standard_B1ls'' (nt_SkuName smallTemplate)" by code_simp
  ultimately have "GetInstanceTypeStatically (rev InstanceTypes) smallTemplate = Inr (snd ?e)"
    by (rule static_hit [OF visits_rev])
  from static_sizes [OF visits_rev this, of sampleLib "''STANDARD_b1LS''"] show ?thesis
    by (simp add: entry_def sampleLib_def)
qed

end
