(* ===== verification/Deployment_Store.thy ===== *)
theory Deployment_Store
  imports Agent_Pool
begin

text \<open>
  \<open>azure_fakes.go\<close>: the store of deployments that stands in for Azure, and the cleanup of
  deployments run against it. What the cleanup relies on is the locale \<open>deployment_service\<close>: a
  list gives every stored deployment once, and a deletion removes one. The fake is an instance
  of it, so the effect of the cleanup on the stored deployments follows for the fake.
\<close>

section \<open>The fake\<close>

text \<open>
  \<open>DeploymentClientMock\<close>. Of the properties of a deployment only those that the provider reads are
  kept, so the parameters that \<open>CreateOrUpdate\<close> copies do not appear. A template that is a nil map
  is \<open>None\<close>.
\<close>

record deploymentClientMock =
  FakeStore :: "(string, deployment) gomap"
  TemplateStore :: "(string, json option) gomap"

definition mock_Get ::
  "string \<Rightarrow> string \<Rightarrow> deploymentClientMock \<Rightarrow> (goerror + deployment) \<times> deploymentClientMock" where
  "mock_Get resourceGroupName deploymentName m =
     (case map_of (FakeStore m) deploymentName of
        None \<Rightarrow> (Inl (Errorf ''deployment not found'' []), m)
      | Some deploy \<Rightarrow> (Inr deploy, m))"

definition mock_ExportTemplate ::
  "string \<Rightarrow> string \<Rightarrow> deploymentClientMock \<Rightarrow> (goerror + json) \<times> deploymentClientMock" where
  "mock_ExportTemplate resourceGroupName deploymentName m =
     (case map_of (FakeStore m) deploymentName of
        None \<Rightarrow> (Inl (Errorf ''deployment not found'' []), m)
      | Some _ \<Rightarrow>
          (case map_of (TemplateStore m) deploymentName of
             Some (Some template) \<Rightarrow> (Inr template, m)
           | _ \<Rightarrow> (Inr (JObj [(''resources'', JArr [])]), m)))"

text \<open>
  The parameters have properties when the provider calls it; a stored deployment without
  properties is then dereferenced.
\<close>

definition mock_CreateOrUpdate ::
  "string \<Rightarrow> string \<Rightarrow> bool \<Rightarrow> deploymentClientMock \<Rightarrow> deployment go \<times> deploymentClientMock" where
  "mock_CreateOrUpdate resourceGroupName deploymentName hasProperties m =
     (let deploy = (case map_of (FakeStore m) deploymentName of
                      Some d \<Rightarrow> d
                    | None \<Rightarrow> \<lparr>dep_Name = None, dep_ProvisioningState = Some None, dep_Timestamp = None\<rparr>)
      in if hasProperties \<and> dep_ProvisioningState deploy = None then (Panic, m)
         else let deploy' = deploy\<lparr>dep_Name := Some deploymentName\<rparr>
              in (Ok deploy', m\<lparr>FakeStore := mapSet deploymentName deploy' (FakeStore m)\<rparr>))"

definition mock_List ::
  "string \<Rightarrow> deploymentClientMock \<Rightarrow> (goerror + deployment list) \<times> deploymentClientMock" where
  "mock_List resourceGroupName m = (Inr (map snd (FakeStore m)), m)"

definition mock_Delete ::
  "string \<Rightarrow> string \<Rightarrow> deploymentClientMock \<Rightarrow> (goerror + unit) \<times> deploymentClientMock" where
  "mock_Delete resourceGroupName deploymentName m =
     (case map_of (FakeStore m) deploymentName of
        None \<Rightarrow> (Inl (Errorf ''there is no such a deployment with name %s'' [AStr deploymentName]), m)
      | Some _ \<Rightarrow> (Inr (), m\<lparr>FakeStore := mapDelete deploymentName (FakeStore m)\<rparr>))"

text \<open>The provider's client with the fake behind its deployments.\<close>

definition withMock :: "deploymentClientMock azClient \<Rightarrow> deploymentClientMock azClient" where
  "withMock az = az\<lparr>deploymentList := mock_List, deploymentDelete := mock_Delete, exportTemplate := mock_ExportTemplate\<rparr>"

text \<open>The other fake of the file, a scale set with three instances.\<close>

definition fakeVMSSWithTags :: "string \<Rightarrow> tags \<Rightarrow> vmss" where
  "fakeVMSSWithTags vmssName ts =
     \<lparr>vmss_Name = Some vmssName, vmss_ID = None, vmss_Location = None,
      vmss_SKU = Some \<lparr>sku_Name = Some ''Standard_D4_v2'', sku_Tier = None, sku_Capacity = Some 3\<rparr>,
      vmss_Etag = None, vmss_ExtendedLocation = None, vmss_Properties = None, vmss_Tags = ts, vmss_Zones = []\<rparr>"

section \<open>The interface the cleanup relies on\<close>

text \<open>The deployments that the cleanup may delete.\<close>

definition outdatable :: "deployment \<Rightarrow> bool" where
  "outdatable d \<longleftrightarrow> dep_ProvisioningState d \<in> {Some (Some ''Succeeded''), Some (Some ''Failed'')} \<and> ownDeployment d"

locale deployment_service =
  fixes az :: "'e azClient"
    and valid :: "'e \<Rightarrow> bool"
    and stored :: "'e \<Rightarrow> string \<Rightarrow> deployment option"
  assumes list_law: "valid e \<Longrightarrow> \<exists>ds e'. deploymentList az rg e = (Inr ds, e') \<and> valid e' \<and> stored e' = stored e \<and>
      distinct ds \<and> (\<forall>d. d \<in> set ds \<longleftrightarrow> (\<exists>n. stored e n = Some d))"
    and name_law: "valid e \<Longrightarrow> stored e n = Some d \<Longrightarrow> dep_Name d = Some n"
    and delete_law: "valid e \<Longrightarrow> stored e n \<noteq> None \<Longrightarrow>
      \<exists>e'. deploymentDelete az rg n e = (Inr (), e') \<and> valid e' \<and> stored e' = (stored e)(n := None)"
begin

text \<open>Deleting a list of stored deployments removes exactly them.\<close>

lemma deleteDeployments_stored:
  assumes "valid (env w)" and "distinct ds" and "\<forall>d \<in> set ds. \<exists>n. stored (env w) n = Some d"
  shows "\<exists>w'. deleteDeployments az ds errs w = (Ok errs, w') \<and> valid (env w') \<and>
    stored (env w') = (\<lambda>n. case stored (env w) n of None \<Rightarrow> None | Some d \<Rightarrow> if d \<in> set ds then None else Some d)"
  using assms
proof (induction ds arbitrary: w)
  case Nil
  then show ?case by (auto simp: fun_eq_iff split: option.split)
next
  case (Cons d ds)
  let ?rg = "ResourceGroup (provider (config w))"
  obtain n where n: "stored (env w) n = Some d" using Cons.prems(3) by auto
  then have name: "dep_Name d = Some n" using name_law Cons.prems(1) by blast
  obtain e where e: "deploymentDelete az ?rg n (env w) = (Inr (), e)" "valid e" "stored e = (stored (env w))(n := None)"
    using delete_law [of "env w" n ?rg] n Cons.prems(1) by auto
  define w1 where "w1 = (sendReq (DeleteDeployment n) w)\<lparr>env := e\<rparr>"
  have w1: "env w1 = e" by (simp add: w1_def)
  have other: "\<forall>d' \<in> set ds. \<exists>m. stored e m = Some d'"
  proof
    fix d' assume d': "d' \<in> set ds"
    then obtain m where m: "stored (env w) m = Some d'" using Cons.prems(3) by auto
    have "m \<noteq> n" using m n d' Cons.prems(2) by auto
    with m show "\<exists>m. stored e m = Some d'" using e(3) by auto
  qed
  have "valid (env w1)" and "distinct ds" and "\<forall>d' \<in> set ds. \<exists>m. stored (env w1) m = Some d'"
    using e(2) Cons.prems(2) other w1 by simp_all
  from Cons.IH [OF this] obtain w' where w': "deleteDeployments az ds errs w1 = (Ok errs, w') \<and> valid (env w') \<and>
      stored (env w') = (\<lambda>n. case stored (env w1) n of None \<Rightarrow> None | Some d \<Rightarrow> if d \<in> set ds then None else Some d)"
    by (rule exE)
  note after = w' [unfolded w1 e(3)]
  have "stored (env w') = (\<lambda>n. case stored (env w) n of None \<Rightarrow> None | Some d' \<Rightarrow> if d' \<in> set (d # ds) then None else Some d')"
  proof
    fix m
    have m: "m \<noteq> n \<Longrightarrow> stored (env w) m \<noteq> Some d" using name_law Cons.prems(1) name by fastforce
    have "stored (env w') = (\<lambda>m. case ((stored (env w))(n := None)) m of None \<Rightarrow> None
        | Some d \<Rightarrow> if d \<in> set ds then None else Some d)" using after by blast
    with m n show "stored (env w') m = (case stored (env w) m of None \<Rightarrow> None | Some d' \<Rightarrow> if d' \<in> set (d # ds) then None else Some d')"
      by (cases "m = n") (simp_all split: option.split)
  qed
  moreover have "deleteDeployments az (d # ds) errs w = deleteDeployments az ds errs w1"
    using e(1) name by (simp add: call_env w1_def)
  ultimately show ?case using w' by metis
qed


text \<open>The stored deployments that may be deleted, and what is left of the store without some of them.\<close>

definition candidates :: "'e \<Rightarrow> string set" where
  "candidates e = {n. \<exists>d. stored e n = Some d \<and> outdatable d}"

lemma card_candidates:
  assumes "valid e" and "distinct ds" and "\<And>d. d \<in> set ds \<longleftrightarrow> outdatable d \<and> (\<exists>n. stored e n = Some d)"
  shows "card (candidates e) = length ds"
proof -
  have "inj_on (\<lambda>d. the (dep_Name d)) (set ds)"
    using assms(3) name_law [OF assms(1)] by (intro inj_onI) (metis option.inject option.sel)
  moreover have "candidates e = (\<lambda>d. the (dep_Name d)) ` set ds"
    using assms(3) name_law [OF assms(1)] by (force simp: candidates_def image_iff)
  ultimately show ?thesis using assms(2) by (simp add: card_image distinct_card)
qed

lemma cleanup_stored:
  assumes "valid (env w)" and "sortsByTime az" and "0 \<le> MaxDeploymentsCount (config w)"
    and timed: "\<And>n d. stored (env w) n = Some d \<Longrightarrow> outdatable d \<Longrightarrow> dep_Timestamp d \<noteq> None"
  shows "\<exists>w' gone. deleteOutdatedDeployments az w = (Ok (), w') \<and> valid (env w') \<and>
    stored (env w') = (\<lambda>n. case stored (env w) n of None \<Rightarrow> None | Some d \<Rightarrow> if d \<in> gone then None else Some d) \<and>
    (\<forall>d \<in> gone. outdatable d) \<and>
    int (card (candidates (env w'))) = min (int (card (candidates (env w)))) (MaxDeploymentsCount (config w)) \<and>
    (\<forall>n a b. stored (env w') n = Some a \<longrightarrow> outdatable a \<longrightarrow> b \<in> gone \<longrightarrow>
       the (dep_Timestamp a) \<ge> the (dep_Timestamp b))"
proof -
  let ?rg = "ResourceGroup (provider (config w))" and ?k = "nat (MaxDeploymentsCount (config w))"
  obtain ds e where l: "deploymentList az ?rg (env w) = (Inr ds, e)" "valid e" "stored e = stored (env w)"
    "distinct ds" and ds: "\<And>d. d \<in> set ds \<longleftrightarrow> (\<exists>n. stored (env w) n = Some d)"
    using list_law [OF assms(1), of ?rg] by blast
  let ?fin = "filter (\<lambda>d. dep_ProvisioningState d \<in> {Some (Some ''Succeeded''), Some (Some ''Failed'')}) ds"
  let ?own = "filter ownDeployment ?fin" and ?w1 = "w\<lparr>env := e\<rparr>"
  have own: "d \<in> set ?own \<longleftrightarrow> outdatable d \<and> (\<exists>n. stored (env w) n = Some d)" for d
    using ds by (auto simp: outdatable_def)
  have g: "getAllSucceededAndFailedDeployments az w = (Ok ?fin, ?w1)"
    using l(1) by (simp add: getAllSucceededAndFailedDeployments_def callGo_env liftSum_def)
  have names: "\<not> list_ex (\<lambda>d. dep_Name d = None) ?fin"
    using ds name_law [OF assms(1)] by (fastforce simp: list_ex_iff)
  have before: "card (candidates (env w)) = length ?own"
    using card_candidates [OF assms(1) _ own] l(4) by simp
  show ?thesis
  proof (cases "int (length ?own) \<le> MaxDeploymentsCount (config w)")
    case True
    then have "deleteOutdatedDeployments az w = (Ok (), ?w1)"
      using g names by (simp add: deleteOutdatedDeployments_def Let_def)
    then show ?thesis using True before l(2,3)
      by (intro exI [of _ ?w1] exI [of _ "{}"]) (auto simp: candidates_def fun_eq_iff split: option.split)
  next
    case False
    let ?s = "sortByTimestamp az ?own"
    have "list_all (\<lambda>d. dep_Timestamp d \<noteq> None) ?own" unfolding list_all_iff using own timed by blast
    then have m: "mset ?s = mset ?own"
      and s: "sorted_wrt (\<lambda>a b. the (dep_Timestamp a) \<ge> the (dep_Timestamp b)) ?s"
      using assms(2) unfolding sortsByTime_def by blast+
    have set: "set ?s = set ?own" and dist: "distinct ?s"
      using mset_eq_setD [OF m] mset_eq_imp_distinct_iff [OF m] l(4) by auto
    have parts: "set (take ?k ?s) \<union> set (drop ?k ?s) = set ?own" "set (take ?k ?s) \<inter> set (drop ?k ?s) = {}"
      using set dist by (metis append_take_drop_id set_append, metis append_take_drop_id distinct_append)
    have "\<forall>d \<in> set (drop ?k ?s). \<exists>n. stored (env ?w1) n = Some d"
      using parts(1) own l(3) by auto
    then have "\<exists>w'. deleteDeployments az (drop ?k ?s) [] ?w1 = (Ok [], w') \<and> valid (env w') \<and>
        stored (env w') = (\<lambda>n. case stored (env ?w1) n of None \<Rightarrow> None
          | Some d \<Rightarrow> if d \<in> set (drop ?k ?s) then None else Some d)"
      using l(2) dist by (intro deleteDeployments_stored) simp_all
    then obtain w' where d: "deleteDeployments az (drop ?k ?s) [] ?w1 = (Ok [], w')" "valid (env w')"
      and st': "stored (env w') = (\<lambda>n. case stored (env ?w1) n of None \<Rightarrow> None
        | Some d \<Rightarrow> if d \<in> set (drop ?k ?s) then None else Some d)"
      by (elim exE conjE)
    have st: "stored (env w') n = (case stored (env w) n of None \<Rightarrow> None
        | Some d \<Rightarrow> if d \<in> set (drop ?k ?s) then None else Some d)" for n
      unfolding st' using l(3) by simp
    have st2: "stored (env w') n = Some d \<longleftrightarrow> stored (env w) n = Some d \<and> d \<notin> set (drop ?k ?s)" for n d
      unfolding st by (cases "stored (env w) n") auto
    have left: "d \<in> set (take ?k ?s) \<longleftrightarrow> outdatable d \<and> (\<exists>n. stored (env w') n = Some d)" for d
      using parts own [of d] st2 by blast
    have "card (candidates (env w')) = length (take ?k ?s)"
      using card_candidates [OF d(2) _ left] dist by simp
    then have "int (card (candidates (env w'))) = min (int (card (candidates (env w)))) (MaxDeploymentsCount (config w))"
      using before False assms(3) mset_eq_length [OF m] by simp
    moreover have "deleteOutdatedDeployments az w = (Ok (), w')"
      using g names False d assms(3) by (simp add: deleteOutdatedDeployments_def Let_def)
    moreover have "sorted_wrt (\<lambda>a b. the (dep_Timestamp a) \<ge> the (dep_Timestamp b)) (take ?k ?s @ drop ?k ?s)"
      using s by simp
    then have "\<forall>n a b. stored (env w') n = Some a \<longrightarrow> outdatable a \<longrightarrow> b \<in> set (drop ?k ?s) \<longrightarrow>
        the (dep_Timestamp a) \<ge> the (dep_Timestamp b)"
      unfolding sorted_wrt_append using left by blast
    moreover have "\<forall>d \<in> set (drop ?k ?s). outdatable d" using parts(1) own by blast
    moreover have "stored (env w') = (\<lambda>n. case stored (env w) n of None \<Rightarrow> None
        | Some d \<Rightarrow> if d \<in> set (drop ?k ?s) then None else Some d)" using st by (intro ext)
    ultimately show ?thesis using d(2) by (intro exI [of _ w'] exI [of _ "set (drop ?k ?s)"] conjI)
  qed
qed

end


section \<open>The fake implements the interface\<close>

text \<open>Every stored deployment has its key as its name, as \<open>CreateOrUpdate\<close> leaves it.\<close>

definition namedStore :: "deploymentClientMock \<Rightarrow> bool" where
  "namedStore m \<longleftrightarrow> wfMap (FakeStore m) \<and> list_all (\<lambda>(n, d). dep_Name d = Some n) (FakeStore m)"

lemma namedStore_CreateOrUpdate:
  "namedStore m \<Longrightarrow> namedStore (snd (mock_CreateOrUpdate rg n hasProperties m))"
proof -
  have "list_all (\<lambda>(k, d). dep_Name d = Some k) (mapSet n d' kv)"
    if "list_all (\<lambda>(k, d). dep_Name d = Some k) kv" "dep_Name d' = Some n" for d' and kv :: "(string, deployment) gomap"
    using that by (induction n d' kv rule: mapSet.induct) auto
  then show "namedStore m \<Longrightarrow> ?thesis"
    by (simp add: namedStore_def mock_CreateOrUpdate_def Let_def wfMap_mapSet)
qed

lemma withMock_calls [simp]:
  "deploymentList (withMock az) = mock_List" "deploymentDelete (withMock az) = mock_Delete"
  "exportTemplate (withMock az) = mock_ExportTemplate" "sortByTimestamp (withMock az) = sortByTimestamp az"
  by (simp_all add: withMock_def)

lemma namedStore_name: "namedStore m \<Longrightarrow> map_of (FakeStore m) n = Some d \<Longrightarrow> dep_Name d = Some n"
  by (auto simp: namedStore_def list_all_iff dest: map_of_SomeD)

lemma namedStore_distinct:
  assumes "namedStore m"
  shows "distinct (map snd (FakeStore m))"
proof -
  have "map dep_Name (map snd (FakeStore m)) = map Some (keys (FakeStore m))"
    using assms by (auto simp: namedStore_def list_all_iff keys_def)
  moreover have "distinct (map Some (keys (FakeStore m)))"
    using assms by (simp add: namedStore_def wfMap_def distinct_map)
  ultimately show ?thesis by (metis distinct_map)
qed

interpretation fake: deployment_service "withMock az" namedStore "\<lambda>m. map_of (FakeStore m)" for az
proof
  fix m :: deploymentClientMock and rg :: string
  assume m: "namedStore m"
  then have "d \<in> set (map snd (FakeStore m)) \<longleftrightarrow> (\<exists>n. map_of (FakeStore m) n = Some d)" for d
    by (force simp: namedStore_def map_of_iff_mem)
  then show "\<exists>ds m'. deploymentList (withMock az) rg m = (Inr ds, m') \<and> namedStore m' \<and>
      map_of (FakeStore m') = map_of (FakeStore m) \<and> distinct ds \<and>
      (\<forall>d. d \<in> set ds \<longleftrightarrow> (\<exists>n. map_of (FakeStore m) n = Some d))"
    using m namedStore_distinct by (simp add: mock_List_def)
next
  fix m :: deploymentClientMock and rg n :: string
  assume m: "namedStore m" and "map_of (FakeStore m) n \<noteq> None"
  moreover have "list_all (\<lambda>(n, d). dep_Name d = Some n) (mapDelete n (FakeStore m))"
    using m by (auto simp: namedStore_def list_all_iff mapDelete_def)
  then have "namedStore (m\<lparr>FakeStore := mapDelete n (FakeStore m)\<rparr>)"
    using m by (simp add: namedStore_def wfMap_mapDelete)
  ultimately show "\<exists>m'. deploymentDelete (withMock az) rg n m = (Inr (), m') \<and> namedStore m' \<and>
      map_of (FakeStore m') = (map_of (FakeStore m))(n := None)"
    by (auto simp: mock_Delete_def map_of_mapDelete)
qed (rule namedStore_name)

section \<open>Properties\<close>

text \<open>The stored deployments of the autoscaler that are finished.\<close>

definition finishedNames :: "deploymentClientMock \<Rightarrow> string set" where
  "finishedNames m = {n. \<exists>d. map_of (FakeStore m) n = Some d \<and> outdatable d}"

text \<open>
  C25. Against a store of deployments the cleanup leaves exactly the configured number of finished
  deployments of the autoscaler when there are more, and all of them otherwise. Every other
  deployment stays, and no deployment that stays is older than a deleted one.
\<close>

theorem cleanup_bounds_store:
  assumes "namedStore (env w)" and "sortsByTime az" and "0 \<le> MaxDeploymentsCount (config w)"
    and "list_all (\<lambda>(n, d). dep_Timestamp d \<noteq> None) (FakeStore (env w))"
  shows "\<exists>w' gone. deleteOutdatedDeployments (withMock az) w = (Ok (), w') \<and> namedStore (env w') \<and>
    map_of (FakeStore (env w')) = (\<lambda>n. case map_of (FakeStore (env w)) n of None \<Rightarrow> None
      | Some d \<Rightarrow> if d \<in> gone then None else Some d) \<and>
    (\<forall>d \<in> gone. outdatable d) \<and>
    int (card (finishedNames (env w'))) = min (int (card (finishedNames (env w)))) (MaxDeploymentsCount (config w)) \<and>
    (\<forall>n a b. map_of (FakeStore (env w')) n = Some a \<longrightarrow> outdatable a \<longrightarrow> b \<in> gone \<longrightarrow>
       the (dep_Timestamp a) \<ge> the (dep_Timestamp b))"
proof -
  have "sortsByTime (withMock az)" using assms(2) by (simp add: sortsByTime_def)
  moreover have "map_of (FakeStore (env w)) n = Some d \<Longrightarrow> outdatable d \<Longrightarrow> dep_Timestamp d \<noteq> None" for n d
    using assms(4) by (auto simp: list_all_iff dest: map_of_SomeD)
  ultimately show ?thesis
    using fake.cleanup_stored [OF assms(1), of az] assms(3)
    unfolding fake.candidates_def finishedNames_def by blast
qed

text \<open>A client whose calls all fail.\<close>

definition offline :: "'e \<Rightarrow> (goerror + 'r) \<times> 'e" where
  "offline e = (Inl (OtherErr ''offline''), e)"

definition offlineClient :: "'e azClient" where
  "offlineClient =
     \<lparr>timeNow = (\<lambda>_. 0), randIntn = (\<lambda>_ e. (0, e)), randInt31 = (\<lambda>e. (0, e)), randInt63 = (\<lambda>e. (0, e)),
      sortByTimestamp = sortByTimestamp sampleClient, isResponseError = asResponseError,
      isNotFoundErr = (\<lambda>_. False), errorText = (\<lambda>_. ''offline''), httpParseTime = (\<lambda>_. None),
      urlParse = (\<lambda>_. Inl (OtherErr ''offline'')), vmssList = (\<lambda>_. offline), vmssGet = (\<lambda>_ _. offline),
      beginCreateOrUpdate = (\<lambda>_ _ _ _. offline), pollCreateOrUpdate = (\<lambda>_. offline),
      beginDeleteInstances = (\<lambda>_ _ _ _. offline), pollDeleteInstances = (\<lambda>_. offline),
      listVMInstanceView = (\<lambda>_ _. offline), listVmssFlexVMs = (\<lambda>_ _. offline), vmList = (\<lambda>_. offline),
      vmGet = (\<lambda>_ _. offline), vmDelete = (\<lambda>_ _. offline), nicDelete = (\<lambda>_ _. offline),
      diskDelete = (\<lambda>_ _. offline), storageEndpointSuffix = [], storageKeys = (\<lambda>_ _. offline),
      sharedKeyCredential = (\<lambda>_ _. Inl (OtherErr ''offline'')), blobClient = (\<lambda>_. Inl (OtherErr ''offline'')),
      blobDelete = (\<lambda>_ _ _. offline), deploymentList = (\<lambda>_. offline), deploymentDelete = (\<lambda>_ _. offline),
      deploymentCreateOrUpdate = (\<lambda>_ _ _ _. offline), exportTemplate = (\<lambda>_ _. offline),
      hasAgentPoolClient = False, agentPoolGet = (\<lambda>_ _ _. offline), agentPoolPut = (\<lambda>_ _ _ _ _. offline),
      pollAgentPool = (\<lambda>_. offline), deleteMachines = (\<lambda>_ _ _ _. offline), skuList = (\<lambda>_. offline),
      skuGet = (\<lambda>_ _ _. Inl (OtherErr ''offline'')), agentPoolPages = (\<lambda>_ _ e. ([], e))\<rparr>"

definition threeDeployments :: deploymentClientMock where
  "threeDeployments = \<lparr>FakeStore = map (\<lambda>d. (the (dep_Name d), d)) sampleDeployments, TemplateStore = []\<rparr>"

definition storeWorld :: "deploymentClientMock world" where
  "storeWorld =
     \<lparr>config = sampleConfig, azCache = sampleCache, lastRefresh = 0, autoDiscoverySpecs = [],
      explicitlyConfigured = [], vmssAt = (\<lambda>_. sampleVMSS), vmssNext = 1, ssAt = (\<lambda>_. sampleSet),
      ssNext = 1, apAt = (\<lambda>_. samplePool), apNext = 1, vpAt = (\<lambda>_. sampleVMPool), vpNext = 1,
      goroutines = [], requests = [], env = threeDeployments\<rparr>"

theorem cleanup_bounds_store_witness:
  "\<exists>w'. deleteOutdatedDeployments (withMock offlineClient) storeWorld = (Ok (), w') \<and>
     card (finishedNames (env w')) = 1"
proof -
  have "namedStore (env storeWorld)" unfolding storeWorld_def threeDeployments_def by code_simp
  moreover have "sortsByTime (offlineClient :: deploymentClientMock azClient)"
    using sample_sorts by (simp add: sortsByTime_def offlineClient_def)
  moreover have "MaxDeploymentsCount (config storeWorld) = 1" by (simp add: storeWorld_def sampleConfig_def)
  moreover have "list_all (\<lambda>(n, d). dep_Timestamp d \<noteq> None) (FakeStore (env storeWorld))"
    unfolding storeWorld_def threeDeployments_def by code_simp
  moreover have "finishedNames (env storeWorld) = {''cluster-autoscaler-1'', ''cluster-autoscaler-2''}"
    by (auto simp: finishedNames_def storeWorld_def threeDeployments_def sampleDeployments_def sampleDeployment_def
        outdatable_def ownDeployment_def clusterAutoscalerDeploymentPrefix_def strings_HasPrefix_def split: if_splits)
  ultimately show ?thesis using cleanup_bounds_store [of storeWorld offlineClient] by fastforce
qed

end
