(* ===== verification/Command.thy ===== *)
theory Command
  imports Go_Prelude
begin

text \<open>
  \<open>main.go\<close>: the command that starts the autoscaler. The autoscaler itself, its flags, the
  manager of the controllers and the leader election are outside the repository: the outcome of
  every call on them is a field of \<open>commandLib\<close>. What is modelled is the order of the steps, which
  failures end the process, and the two forms of the loop that runs the autoscaler.

  Not modelled are the logging and what ends the process at any time: a failure of the server of
  the metrics, the loss of the lease, and a signal, after \<open>ExitCleanUp\<close>.
\<close>

section \<open>The configuration of the leader election\<close>

record leaderElectionConfig =
  LeaderElect :: bool
  LeaseDuration :: duration
  RenewDeadline :: duration
  RetryPeriod :: duration
  ResourceLock :: string
  ResourceName :: string

definition defaultLeaseDuration :: duration where "defaultLeaseDuration = 15 * second"
definition defaultRenewDeadline :: duration where "defaultRenewDeadline = 10 * second"
definition defaultRetryPeriod :: duration where "defaultRetryPeriod = 2 * second"

definition leaderElectionConfiguration :: leaderElectionConfig where
  "leaderElectionConfiguration =
     \<lparr>LeaderElect = True, LeaseDuration = defaultLeaseDuration, RenewDeadline = defaultRenewDeadline,
      RetryPeriod = defaultRetryPeriod, ResourceLock = ''leases'', ResourceName = ''cluster-autoscaler''\<rparr>"

section \<open>The loop\<close>

text \<open>
  What an iteration does: it waits, and runs the autoscaler with the time of its start and its
  number. The readings of the clock are given; \<open>None\<close> is the moment the context is done.
\<close>

datatype loopAction =
    TriggerWait time         \<comment> \<open>\<open>trigger.Wait(previousRun)\<close>\<close>
  | ScanInterval duration    \<comment> \<open>\<open>time.After(autoscalingOpts.ScanInterval)\<close>\<close>
  | RunAutoscalerOnce time nat

fun frequentLoop :: "time \<Rightarrow> time \<Rightarrow> nat \<Rightarrow> time option list \<Rightarrow> loopAction list" where
  "frequentLoop previousRun lastRun iteration (Some now # clock) =
     TriggerWait previousRun # RunAutoscalerOnce now iteration # frequentLoop lastRun now (Suc iteration) clock"
| "frequentLoop previousRun lastRun iteration _ = []"

fun intervalLoop :: "duration \<Rightarrow> nat \<Rightarrow> time option list \<Rightarrow> loopAction list" where
  "intervalLoop scanInterval iteration (Some now # clock) =
     ScanInterval scanInterval # RunAutoscalerOnce now iteration # intervalLoop scanInterval (Suc iteration) clock"
| "intervalLoop scanInterval iteration _ = []"

section \<open>Starting\<close>

record autoscalingOptions =
  FrequentLoopsEnabled :: bool
  ScanIntervalOption :: duration
  DynamicResourceAllocationEnabled :: bool

text \<open>\<open>'g\<close> are the feature gates. A field that is an error option is a call that may fail.\<close>

record 'g commandLib =
  addFeatureGates :: "goerror option"
  parsedOptions :: "goerror + autoscalingOptions"
  draEnabled :: "'g \<Rightarrow> bool"
  setDRA :: "bool \<Rightarrow> 'g \<Rightarrow> goerror + 'g"
  computeLoggingOptions :: "goerror option"
  validateLogging :: "goerror option"
  leaderElectionFlag :: "leaderElectionConfig \<Rightarrow> leaderElectionConfig"  \<comment> \<open>the bound flags\<close>
  hostname :: "goerror option"
  listNodes :: "goerror option"
  newLock :: "goerror option"
  becomesLeader :: bool
  newControllerManager :: "goerror option"
  buildAutoscaler :: "goerror option"
  startAutoscaler :: "goerror option"
  addRunnable :: "goerror option"
  startManager :: "goerror option"

datatype 'g outcome =
    Fatal string goerror                     \<comment> \<open>\<open>klog.Fatalf\<close>\<close>
  | Waiting                                  \<comment> \<open>another process is the leader\<close>
  | Finished autoscalingOptions 'g "loopAction list"  \<comment> \<open>\<open>run\<close> returned\<close>

text \<open>\<open>if err != nil { klog.Fatalf(...) }\<close> followed by the rest.\<close>

definition orFatal :: "string \<Rightarrow> goerror option \<Rightarrow> 'g outcome \<Rightarrow> 'g outcome" where
  "orFatal msg err rest = (case err of Some e \<Rightarrow> Fatal msg e | None \<Rightarrow> rest)"

text \<open>
  The runnable starts once the manager of the controllers runs; \<open>starts\<close> are the
  two readings of the clock before the loop, for \<open>lastRun\<close> and \<open>previousRun\<close>.
\<close>

definition runnable :: "autoscalingOptions \<Rightarrow> time \<times> time \<Rightarrow> time option list \<Rightarrow> loopAction list" where
  "runnable opts starts clock =
     (if FrequentLoopsEnabled opts then frequentLoop (snd starts) (fst starts) 0 clock
      else intervalLoop (ScanIntervalOption opts) 0 clock)"

definition run :: "'g commandLib \<Rightarrow> autoscalingOptions \<Rightarrow> 'g \<Rightarrow> time \<times> time \<Rightarrow> time option list \<Rightarrow> 'g outcome" where
  "run lib opts gate starts clock =
     orFatal ''Failed to create manager: %v'' (newControllerManager lib)
      (orFatal ''Failed to create autoscaler: %v'' (buildAutoscaler lib)
      (orFatal ''Failed to autoscaler background components: %v'' (startAutoscaler lib)
      (orFatal ''Failed to add runnable to manager: %v'' (addRunnable lib)
      (orFatal ''Manager exited with error: %v'' (startManager lib)
      (Finished opts gate (runnable opts starts clock))))))"

text \<open>The gate of the scheduler follows the flag of the autoscaler.\<close>

definition syncDRA :: "'g commandLib \<Rightarrow> autoscalingOptions \<Rightarrow> 'g \<Rightarrow> goerror + 'g" where
  "syncDRA lib opts gate =
     (if DynamicResourceAllocationEnabled opts \<noteq> draEnabled lib gate
      then setDRA lib (DynamicResourceAllocationEnabled opts) gate else Inr gate)"

definition electAndRun :: "'g commandLib \<Rightarrow> autoscalingOptions \<Rightarrow> 'g \<Rightarrow> time \<times> time \<Rightarrow> time option list \<Rightarrow> 'g outcome" where
  "electAndRun lib opts gate starts clock =
     orFatal ''Unable to get hostname: %v'' (hostname lib)
      (orFatal ''Failed to get nodes from apiserver: %v'' (listNodes lib)
      (orFatal ''Unable to create leader election lock: %v'' (newLock lib)
      (if \<not> becomesLeader lib then Waiting else run lib opts gate starts clock)))"

definition main :: "'g commandLib \<Rightarrow> 'g \<Rightarrow> time \<times> time \<Rightarrow> time option list \<Rightarrow> 'g outcome" where
  "main lib gate0 starts clock =
     orFatal ''Failed to add logging feature flags: %v'' (addFeatureGates lib)
      (let leaderElection = leaderElectionFlag lib leaderElectionConfiguration
       in case parsedOptions lib of
            Inl e \<Rightarrow> Fatal ''Failed to parse flags: %v'' e
          | Inr opts \<Rightarrow>
              (case syncDRA lib opts gate0 of
                 Inl e \<Rightarrow> Fatal ''couldn't set the DRA feature gate to %v: %v'' e
               | Inr gate \<Rightarrow>
                   orFatal ''Failed to configure logging: %v'' (computeLoggingOptions lib)
                    (orFatal ''Failed to validate and apply logging configuration: %v'' (validateLogging lib)
                    (if \<not> LeaderElect leaderElection then run lib opts gate starts clock
                     else electAndRun lib opts gate starts clock))))"

section \<open>Properties\<close>

text \<open>
  In the frequent form the \<open>k\<close>-th iteration waits for a trigger since the start of the one before
  its predecessor, so that it runs at once when only one of the two was productive, and runs the
  autoscaler with its own start; the iterations are numbered from 0.
\<close>

theorem frequentLoop_waits:
  "frequentLoop previousRun lastRun i (map Some readings) =
     concat (map (\<lambda>k. [TriggerWait ((previousRun # lastRun # readings) ! k), RunAutoscalerOnce (readings ! k) (i + k)])
       [0..<length readings])"
proof (induction readings arbitrary: previousRun lastRun i)
  case (Cons now readings)
  show ?case unfolding length_Cons upt_conv_Cons [OF zero_less_Suc] map_Suc_upt [symmetric]
    by (simp add: Cons.IH comp_def)
qed simp

lemma orFatal_Finished: "orFatal msg err rest = Finished opts gate as \<longleftrightarrow> err = None \<and> rest = Finished opts gate as"
  by (simp add: orFatal_def split: option.split)

text \<open>
  When the loop runs, the scheduler's gate for the allocation of dynamic resources has the value of
  the flag of the autoscaler.
\<close>

theorem main_gates_in_sync:
  assumes "main lib gate0 starts clock = Finished opts gate actions"
    and "\<And>b g g'. setDRA lib b g = Inr g' \<Longrightarrow> draEnabled lib g' = b"
  shows "draEnabled lib gate = DynamicResourceAllocationEnabled opts \<and> actions = runnable opts starts clock"
  using assms by (auto simp: main_def electAndRun_def run_def syncDRA_def Let_def orFatal_Finished split: sum.splits if_splits)

end
