(* ===== verification/Spec2Isabelle.thy ===== *)
theory Spec2Isabelle
  imports Scale_Up_Threads Discovered_Groups Provider_Locks Size_Convergence Instance_Sizes Deployment_Store Command
begin

text \<open>
  A model of the Azure cloud provider of the Kubernetes cluster autoscaler, the Go package
  \<open>pkg/cloudprovider/azure\<close>. The autoscaler asks the provider for its node groups, for their
  sizes and nodes, and orders it to add or delete nodes; the provider answers from caches and
  carries the orders out through the Azure API.

  The parts and how they interact. \<open>BuildAzure\<close> reads the configuration and creates the
  \<open>AzureManager\<close>, which owns an \<open>azureCache\<close>. The cache holds what Azure listed (scale sets,
  agent pools, virtual machines), the registered node groups, and the maps from instances to node
  groups and states. A node group is a \<open>ScaleSet\<close>, a \<open>VMPool\<close> or an \<open>AgentPool\<close>. The manager
  registers the groups named on the command line and those that autodiscovery finds, and
  \<open>regenerate\<close> asks every registered group for its nodes to rebuild the maps. A change of size
  sends a request, publishes the expected size at once, and starts a goroutine that waits for the
  end of the operation and then corrects or invalidates the caches.

  State. One record, \<open>world\<close>, is the state of the process: the manager with its configuration and
  its cache, the stores of the objects the code shares through pointers and changes in place (VMSS
  objects and node groups, by address), the goroutines that have been started and not yet run, the
  log of the requests sent, and the state of the outside (\<open>env\<close>), which only the clients change.
  Every operation takes a world and returns its result and the new world; a result is \<open>Ok\<close>, \<open>Err\<close>
  with a Go error, or \<open>Panic\<close>. A Go map is an association list with distinct keys, in the order of
  a traversal; Go leaves this order open, so properties of traversals hold for every order of the
  list. Sizes are integers with the wrap-around of \<open>int\<close> (\<open>i64\<close>) and of the conversions to
  \<open>int32\<close> (\<open>i32\<close>) written out.
\<close>

section \<open>The theories\<close>

text \<open>
  All paths but \<open>main.go\<close> are under \<open>pkg/cloudprovider/azure\<close>.

  \<^item> \<open>Go_Prelude\<close>, \<open>Go_Regexp\<close>: results, wrap-around, time, the functions of \<open>strings\<close>, \<open>strconv\<close>
    and \<open>regexp\<close> that the sources call, Go maps. The locale \<open>dictionary\<close> states the laws of a map.
  \<^item> \<open>Azure_Types\<close>: the records of all components, the client, the world. \<open>Sample_World\<close>: the
    concrete client and states on which the theorems are instantiated.
  \<^item> \<open>Azure_Util\<close> (\<open>azure_util.go\<close>): identifiers, names of virtual machines, power states,
    throttling errors. \<open>Deployment_Template\<close> (\<open>azure_util.go\<close>): the normalisation of exported
    templates, on JSON trees.
  \<^item> \<open>Azure_Config\<close> (\<open>azure_config.go\<close>): defaults, file, legacy fields, environment, validation.
  \<^item> \<open>Azure_Client\<close> (\<open>azure_client.go\<close>, \<open>azure_deployment_client.go\<close>,
    \<open>azure_vmss_delete_client.go\<close>): the credentials and options of the clients, their wrappers and
    the assembly of \<open>azClient\<close>.
  \<^item> \<open>Azure_Cache\<close> (\<open>azure_cache.go\<close>): fetching, registering, looking up instances. The locale
    \<open>registry\<close> states what registering promises up to an equivalence of names.
  \<^item> \<open>Instance_Status\<close>: the states of instances (\<open>azure_scale_set.go\<close>,
    \<open>azure_scale_set_instance_cache.go\<close>).
  \<^item> \<open>Scale_Set\<close>, \<open>Scale_Set_Delete\<close>: the operations of a \<open>ScaleSet\<close> (\<open>azure_scale_set.go\<close>,
    \<open>azure_scale_set_instance_cache.go\<close>, \<open>azure_force_delete_scale_set.go\<close>); their properties are
    in \<open>Scale_Set_Size\<close> (with the locale \<open>ttl_cache\<close> for the three refresh periods),
    \<open>Scale_Set_Instances\<close> and \<open>Scale_Set_Deletion\<close>.
  \<^item> \<open>VMs_Pool\<close> (\<open>azure_vms_pool.go\<close>) and \<open>Agent_Pool\<close> (\<open>azure_agent_pool.go\<close>, and the deletion of
    virtual machines in \<open>azure_util.go\<close>).
  \<^item> \<open>Node_Template\<close> (\<open>azure_template.go\<close>, \<open>azure_instance.go\<close>, \<open>azure_instance_gpu_sku.go\<close>): the
    node predicted for an empty group, from tags and instance types. \<open>Instance_Types\<close>
    (\<open>azure_instance_types.go\<close>) is the table of all instance types, \<open>Instance_Sizes\<close> its generator
    (\<open>azure_instance_types/gen.go\<close>) and what the lookup finds in the table.
  \<^item> \<open>Deployment_Store\<close> (\<open>azure_fakes.go\<close>): the fake store of deployments. The locale
    \<open>deployment_service\<close> states what the cleanup of deployments relies on; the fake implements it.
  \<^item> \<open>Autodiscovery\<close> (\<open>azure_autodiscovery.go\<close>), \<open>Azure_Manager\<close> (\<open>azure_manager.go\<close> and
    \<open>regenerate\<close> of \<open>azure_cache.go\<close>); properties of the refresh in \<open>Azure_Refresh\<close>, of
    the registry after a discovery in \<open>Discovered_Groups\<close>, of the sizes after a refresh in
    \<open>Size_Convergence\<close>.
  \<^item> \<open>Cloud_Provider\<close> (\<open>azure_cloud_provider.go\<close>, the creation of the manager).
  \<^item> \<open>Groups_Kept\<close>, \<open>Provider_System\<close>: the provider as a transition system \<open>providerStep\<close>, whose
    steps are the calls of the autoscaler, the goroutines, and changes of the outside. The locale
    \<open>node_group\<close> states what every operation of a node group keeps; it is interpreted on the three
    kinds of node group.
  \<^item> \<open>Scale_Up_Threads\<close>: the transition system with scale-ups cut where they hold no mutex of the
    scale set (\<open>scaleUpStep\<close>), so that several of one scale set overlap.
  \<^item> \<open>Lock_Program\<close>, \<open>Provider_Locks\<close> (all files with a mutex or a field that goroutines share):
    programs that lock mutexes and touch fields, run by threads one step at a time (\<open>lstep\<close>), and
    every method of the provider as such a program. The locale \<open>lock_discipline\<close> states what the
    methods respect: mutexes are taken in the order of a rank, guarded fields touched under their
    mutex only; it is interpreted on all operations of the provider.
  \<^item> \<open>Command\<close> (\<open>main.go\<close>): the order in which the command starts the autoscaler, and its loop.
\<close>

section \<open>What the theorems show\<close>

text \<open>
  \<^item> The whole provider: in every state reachable from a created manager the registry is well formed
    (\<open>reachable_registry\<close>), a group that was returned keeps its identity
    (\<open>group_identity_stable\<close>), no request for a scale set exceeds its maximum, even when scale-ups
    overlap (\<open>scale_ups_within_max\<close>), and the goroutines come to an end (\<open>completions_terminate\<close>). A
    manager with VMs pools has a client for them (\<open>vms_pools_have_client\<close>).
  \<^item> Concurrency: no interleaving of operations deadlocks (\<open>operations_never_deadlock\<close>), the sizes,
    the lists of instances (not their statuses) and the maps of the cache are free of races
    (\<open>guarded_fields_race_free\<close>); the discipline does not cover six other fields, whose races in
    the programs of the methods \<open>unguarded_fields_race\<close> exhibits. The pieces of a scale-up make up
    the operation (\<open>scale_up_uninterrupted\<close>), and scale-ups that overlap count once
    (\<open>overlapping_increases_count_once\<close>).
  \<^item> Scaling up: the maximum is respected, at most two requests are sent, a failure is rolled back,
    a success publishes the size of the cached object, a conflict of ETags never shrinks the set
    (\<open>Scale_Set_Size\<close>, \<open>VMs_Pool\<close>).
  \<^item> Scaling down: the minimum guard, what is requested, the accounting of the cached size, that
    deleted instances are reported as gone, when a deletion is forced and repeated
    (\<open>Scale_Set_Deletion\<close>); the cleanup of deployments and the equivalence of the two copies of the
    deletion of a virtual machine (\<open>Agent_Pool\<close>).
  \<^item> The refresh: \<open>regenerate\<close> computes its specification \<open>ownerIn\<close>, \<open>stateIn\<close> over the lists of
    instances; a failed refresh is repeated (\<open>Azure_Refresh\<close>). The discovery keeps the registry
    valid, and it is exact when an explicitly configured group survives it, and what replaces
    it otherwise (\<open>Discovered_Groups\<close>).
  \<^item> After a refresh the published size of a scale set is the one Azure listed, once its refresh
    period is over (\<open>Size_Convergence\<close>).
  \<^item> The table of instance types is what its generator writes, the lookup in it does not depend on
    the order of the map, and which sizes it gives (\<open>Instance_Sizes\<close>). The cleanup of deployments
    bounds the store it works on (\<open>Deployment_Store\<close>).
  \<^item> Data: validated configurations and the precedence of their sources, discovered sizes, round
    trips of label names and taints, normalised templates, statuses of instances.
  \<^item> Errors: panics and divergences from the comments of the code that the model exhibits, each on
    a concrete input or for a class of inputs.
\<close>

section \<open>Parameters, hypotheses and bounds\<close>

text \<open>
  Code outside the repository is a parameter. \<open>azClient\<close> holds the calls of the Azure SDK, the
  clock, the random source, \<open>sort.Slice\<close> and the classification of errors; every call of the SDK
  may return anything and change \<open>env\<close> in any way, so the theorems hold for every behaviour of
  Azure. \<open>configLib\<close> holds the environment variables, the decoders and the instance metadata
  service; \<open>sdkLib\<close> the table of Azure clouds and the constructors of the SDK; \<open>managerLib\<close> these two,
  the parser of explicit specifications and \<open>kretry.OnError\<close>; \<open>genLib\<close> and \<open>commandLib\<close> what the
  generator and the command call. The named hypotheses on them: \<open>retries\<close>, the
  documented contract of \<open>kretry.OnError\<close> (it returns the last of a sequence of attempts of which
  all but the last failed with a retriable error), and, in the properties of the cleanup of
  deployments, that \<open>sort.Slice\<close> returns the same deployments ordered by time. Hypotheses such as
  \<open>cacheAllocated\<close>, \<open>distinctGroups\<close> and \<open>registryAllocated\<close> are invariants of the state, the last
  two proved in every reachable state.

  All functions terminate and no fuel is used: every loop of the modelled code runs over a list or
  is bounded by one, and \<open>advances\<close> counts the pieces of a scale-up, of which there are six. Bounds on sizes come from the checks of the code; where the code narrows or
  adds without a check, the wrap-around is in the definition and the theorem says under which
  hypothesis nothing is lost.
\<close>

section \<open>Not modelled\<close>

text \<open>
  The mocks generated by \<open>mockgen\<close> and the router, which is an import, hold no logic of the provider,
  nor does the registration in \<open>init\<close>. Of \<open>main.go\<close> the logging, the server of the metrics, the loss
  of the lease and the handler of the signals are left out, of the generator running \<open>az\<close>, decoding
  its output and the text around the entries.

  Contexts, timeouts and logging (up to the pointers that a log call dereferences, which can panic)
  are left out. In \<open>providerStep\<close> every operation is atomic: a goroutine runs as a whole after the
  operation that started it, at any later time and in any order. \<open>Scale_Up_Threads\<close> interleaves
  scale-ups at the points between their critical sections; the other operations stay atomic there,
  and \<open>initCreateOrUpdate\<close>, which holds the size mutex throughout, is one piece. \<open>Provider_Locks\<close>
  interleaves all operations access by access, but keeps only their mutexes and shared fields and
  not their data: a condition is a choice there, so what it says of all runs holds for the code,
  while a run it exhibits need not be one of the code: its decisions have to be read against the
  conditions there. The mutexes of the fakes
  and memory visibility are not modelled. A step that panics ends the process and has no successor.
\<close>

end
